(* ===== verification/Prelude.thy ===== *)
theory Prelude
  imports
    Main
    "HOL-Library.Finite_Map"
    "HOL-Library.Char_ord"
    "HOL-Library.List_Lexorder"
begin

text \<open>
  The prelude of the development: what the components share and what is not specific to
  one of them.

  \<^item> Go errors as values (\<open>go_error\<close>), a run-time panic being one of them;
  \<^item> the effectful code as \<open>action\<close>s, functions from the state of the outside world to a
    result and a new state, with the combinators the code's \<open>if err != nil\<close> idioms become
    and a weakest-precondition calculus for them (the collection \<open>wp\<close>);
  \<^item> Go slices, where the nil slice and the empty slice are different values;
  \<^item> the functions of the Go standard library on strings that the code calls.
\<close>

named_theorems wp \<open>weakest preconditions of the combinators and of the operations\<close>
named_theorems action_defs \<open>definitions of the action combinators\<close>
named_theorems meta_simps \<open>equations on object metadata\<close>

section \<open>Errors\<close>

text \<open>
  The errors of the Kubernetes API, by the classes the code tells apart
  (\<open>k8serrors.IsNotFound\<close>, \<open>k8serrors.IsConflict\<close>), each with its message.
\<close>

datatype api_error =
    NotFound string
  | Conflict string
  | OtherAPIError string

text \<open>
  The errors of the operator: an API error passed on, one wrapped with a prefix
  (\<open>fmt.Errorf("...: %w", err)\<close>), the sentinel \<open>ErrDataPlaneNotSet\<close> wrapped with its
  suffix, a fresh \<open>fmt.Errorf\<close>, a \<open>multierror\<close>, and a run-time panic.
\<close>

datatype go_error =
    APIErr api_error
  | WrappedErr string api_error
  | ErrDataPlaneNotSet string
  | Errorf string
  | MultiError "go_error list"
  | Panic string

fun isPanic :: "go_error \<Rightarrow> bool" where
  "isPanic (Panic _) = True"
| "isPanic _ = False"

fun IsNotFound :: "go_error \<Rightarrow> bool" where
  "IsNotFound (APIErr (NotFound _)) = True"
| "IsNotFound (WrappedErr _ (NotFound _)) = True"
| "IsNotFound _ = False"

fun IsConflict :: "go_error \<Rightarrow> bool" where
  "IsConflict (APIErr (Conflict _)) = True"
| "IsConflict (WrappedErr _ (Conflict _)) = True"
| "IsConflict _ = False"

fun isErrDataPlaneNotSet :: "go_error \<Rightarrow> bool" where
  "isErrDataPlaneNotSet (ErrDataPlaneNotSet _) = True"
| "isErrDataPlaneNotSet _ = False"

fun api_error_text :: "api_error \<Rightarrow> string" where
  "api_error_text (NotFound s) = s"
| "api_error_text (Conflict s) = s"
| "api_error_text (OtherAPIError s) = s"

fun ErrorText :: "go_error \<Rightarrow> string" where
  "ErrorText (APIErr e) = api_error_text e"
| "ErrorText (WrappedErr s e) = s @ api_error_text e"
| "ErrorText (ErrDataPlaneNotSet s) = ''no dataplane name set'' @ s"
| "ErrorText (Errorf s) = s"
| "ErrorText (MultiError es) = concat (map ErrorText es)"
| "ErrorText (Panic s) = s"

section \<open>Actions on the outside world\<close>

text \<open>
  A call that may fail and may change the outside world. The type \<open>'w\<close> of that world is a
  parameter of the whole development: the cluster behind the API server is not code of the
  repository.
\<close>

type_synonym ('a, 'w) action = "'w \<Rightarrow> (go_error + 'a) \<times> 'w"

definition retA :: "'a \<Rightarrow> ('a, 'w) action" where
  [action_defs]: "retA x = (\<lambda>w. (Inr x, w))"

definition failA :: "go_error \<Rightarrow> ('a, 'w) action" where
  [action_defs]: "failA e = (\<lambda>w. (Inl e, w))"

definition liftE :: "go_error + 'a \<Rightarrow> ('a, 'w) action" where
  [action_defs]: "liftE r = (\<lambda>w. (r, w))"

text \<open>\<open>x, err := m; if err != nil { return err }; k(x)\<close>\<close>

definition bindA :: "('a, 'w) action \<Rightarrow> ('a \<Rightarrow> ('b, 'w) action) \<Rightarrow> ('b, 'w) action" where
  [action_defs]: "bindA m k =
     (\<lambda>w. case m w of (r, w1) \<Rightarrow> (case r of Inl e \<Rightarrow> (Inl e, w1) | Inr x \<Rightarrow> k x w1))"

text \<open>
  \<open>x, err := m\<close> with both at hand afterwards: the error becomes a value, but a panic
  still unwinds.
\<close>

definition attemptA :: "('a, 'w) action \<Rightarrow> (go_error + 'a, 'w) action" where
  [action_defs]: "attemptA m =
     (\<lambda>w. case m w of (r, w1) \<Rightarrow>
        (case r of
           Inl e \<Rightarrow> (if isPanic e then Inl e else Inr (Inl e), w1)
         | Inr x \<Rightarrow> (Inr (Inr x), w1)))"

lemma bindA_retA [simp]: "bindA (retA x) k = k x"
  by (simp add: action_defs)

lemma bindA_failA [simp]: "bindA (failA e) k = failA e"
  by (simp add: action_defs)

lemma bindA_retA_right [simp]: "bindA m retA = m"
  by (rule ext) (simp add: action_defs split: prod.splits sum.splits)

lemma bindA_assoc: "bindA (bindA m k) h = bindA m (\<lambda>x. bindA (k x) h)"
  by (rule ext) (simp add: action_defs split: prod.splits sum.splits)

subsection \<open>Weakest preconditions\<close>

text \<open>
  \<open>wpA m Q w\<close>: running \<open>m\<close> from \<open>w\<close> ends in a result and a world that satisfy \<open>Q\<close>.
  Every action returns, so this is total correctness. The rules are equations and are used
  by the simplifier.
\<close>

definition wpA :: "('a, 'w) action \<Rightarrow> (go_error + 'a \<Rightarrow> 'w \<Rightarrow> bool) \<Rightarrow> 'w \<Rightarrow> bool" where
  "wpA m Q w = (case m w of (r, w1) \<Rightarrow> Q r w1)"

lemma wpA_retA [wp]: "wpA (retA x) Q w = Q (Inr x) w"
  by (simp add: wpA_def retA_def)

lemma wpA_failA [wp]: "wpA (failA e) Q w = Q (Inl e) w"
  by (simp add: wpA_def failA_def)

lemma wpA_liftE [wp]: "wpA (liftE r) Q w = Q r w"
  by (simp add: wpA_def liftE_def)

lemma wpA_bindA [wp]:
  "wpA (bindA m k) Q w =
   wpA m (\<lambda>r w1. case r of Inl e \<Rightarrow> Q (Inl e) w1 | Inr x \<Rightarrow> wpA (k x) Q w1) w"
  by (simp add: wpA_def bindA_def split: prod.splits sum.splits)

lemma wpA_attemptA [wp]:
  "wpA (attemptA m) Q w =
   wpA m (\<lambda>r w1. case r of
            Inl e \<Rightarrow> Q (if isPanic e then Inl e else Inr (Inl e)) w1
          | Inr x \<Rightarrow> Q (Inr (Inr x)) w1) w"
  by (simp add: wpA_def attemptA_def split: prod.splits sum.splits)

lemma wpA_mono:
  assumes "wpA m Q w" and "\<And>r w1. m w = (r, w1) \<Longrightarrow> Q r w1 \<Longrightarrow> R r w1"
  shows "wpA m R w"
  using assms by (auto simp: wpA_def)

lemma wpA_run: "m w = (r, w1) \<Longrightarrow> wpA m Q w = Q r w1"
  by (simp add: wpA_def)

lemma wpA_E: "wpA m Q w \<Longrightarrow> m w = (r, w1) \<Longrightarrow> Q r w1"
  by (simp add: wpA_def)

subsection \<open>What an action does not change\<close>

text \<open>
  \<open>keeps R m\<close>: the run of \<open>m\<close> from any world takes it to one that is related by \<open>R\<close>, a
  reflexive and transitive relation. It is used with an equality of views (\<open>m\<close> does not
  touch a part of the cluster) and with an invariant.
\<close>

definition keeps :: "('w \<Rightarrow> 'w \<Rightarrow> bool) \<Rightarrow> ('a, 'w) action \<Rightarrow> bool" where
  "keeps R m \<longleftrightarrow> (\<forall>w. R w (snd (m w)))"

lemma keeps_retA: "reflp R \<Longrightarrow> keeps R (retA x)"
  by (simp add: keeps_def retA_def reflp_def)

lemma keeps_failA: "reflp R \<Longrightarrow> keeps R (failA e)"
  by (simp add: keeps_def failA_def reflp_def)

lemma keeps_liftE: "reflp R \<Longrightarrow> keeps R (liftE r)"
  by (simp add: keeps_def liftE_def reflp_def)

lemma keeps_bindA:
  assumes "transp R" and "keeps R m" and "\<And>x. keeps R (k x)"
  shows "keeps R (bindA m k)"
proof -
  have "R w (snd (bindA m k w))" for w
  proof (cases "m w")
    case (Pair r w1)
    then have "R w w1" using assms(2) by (auto simp: keeps_def dest: spec [where x = w])
    moreover have "R w1 (snd (k x w1))" for x using assms(3) by (simp add: keeps_def)
    ultimately show ?thesis
      using assms(1) Pair by (cases r) (auto simp: bindA_def dest: transpD)
  qed
  then show ?thesis by (simp add: keeps_def)
qed

lemma keeps_attemptA: "keeps R m \<Longrightarrow> keeps R (attemptA m)"
  by (auto simp: keeps_def attemptA_def split: prod.splits sum.splits) (metis snd_conv)+

lemma keepsD: "keeps R m \<Longrightarrow> m w = (r, w1) \<Longrightarrow> R w w1"
  by (auto simp: keeps_def dest: spec [where x = w])

section \<open>Go slices\<close>

text \<open>
  A slice is nil (\<open>None\<close>) or has elements (\<open>Some\<close> of a possibly empty list).
  \<open>reflect.DeepEqual\<close> tells the nil slice from the empty one; \<open>len\<close>, \<open>range\<close> and
  \<open>append\<close> do not. Slices that are only ranged over and appended to are plain lists.
\<close>

type_synonym 'a slice = "'a list option"

definition items :: "'a slice \<Rightarrow> 'a list" where
  "items s = (case s of None \<Rightarrow> [] | Some xs \<Rightarrow> xs)"

lemma items_simps [simp]: "items None = []" "items (Some xs) = xs"
  by (simp_all add: items_def)

definition appendS :: "'a slice \<Rightarrow> 'a \<Rightarrow> 'a slice" where
  "appendS s x = Some (items s @ [x])"

lemma items_appendS [simp]: "items (appendS s x) = items s @ [x]"
  by (simp add: appendS_def)

section \<open>Standard library functions on strings\<close>

fun HasPrefix :: "string \<Rightarrow> string \<Rightarrow> bool" where
  "HasPrefix s [] = True"
| "HasPrefix [] (p # ps) = False"
| "HasPrefix (c # s) (p # ps) = (c = p \<and> HasPrefix s ps)"

definition TrimPrefix :: "string \<Rightarrow> string \<Rightarrow> string" where
  "TrimPrefix s p = (if HasPrefix s p then drop (length p) s else s)"

text \<open>\<open>strings.Split(s, sep)\<close> for a separator of one character.\<close>

fun Split :: "string \<Rightarrow> char \<Rightarrow> string list" where
  "Split [] sep = [[]]"
| "Split (c # s) sep =
     (if c = sep then [] # Split s sep
      else (case Split s sep of [] \<Rightarrow> [[c]] | t # ts \<Rightarrow> (c # t) # ts))"

lemma HasPrefix_iff: "HasPrefix s p \<longleftrightarrow> (\<exists>t. s = p @ t)"
  by (induction s p rule: HasPrefix.induct) auto

lemma TrimPrefix_append [simp]: "TrimPrefix (p @ t) p = t"
  by (simp add: TrimPrefix_def HasPrefix_iff)

lemma HasPrefix_TrimPrefix: "HasPrefix s p \<Longrightarrow> p @ TrimPrefix s p = s"
  by (auto simp: HasPrefix_iff)

lemma Split_not_Nil [simp]: "Split s sep \<noteq> []"
  by (induction s) (auto split: list.splits)

lemma Split_no_sep: "sep \<notin> set s \<Longrightarrow> Split s sep = [s]"
  by (induction s) auto

lemma Split_append_sep:
  "sep \<notin> set s \<Longrightarrow> Split (s @ sep # t) sep = s # Split t sep"
  by (induction s) auto

text \<open>\<open>%d\<close> of \<open>fmt.Sprintf\<close> for a non-negative number.\<close>

fun digits :: "nat \<Rightarrow> string" where
  "digits n = (if n < 10 then [''0123456789'' ! n]
               else digits (n div 10) @ [''0123456789'' ! (n mod 10)])"

declare digits.simps [simp del]

lemma digits_9444: "digits 9444 = ''9444''"
  by (simp add: digits.simps)

end
