(* ===== verification/KubeTypes.thy ===== *)
theory KubeTypes
  imports Prelude
begin

text \<open>
  The data the operator works on: the Kubernetes API types it reads and writes (those
  fields of them that its code touches), its own custom resources of
  \<open>apis/v1alpha1\<close>, the constants of \<open>internal/consts\<close>, and the interface
  \<open>client.Object\<close>, through which the helpers read and write any object's metadata.

  Embedded structs are record extensions: \<open>ControlPlaneSpec\<close> extends
  \<open>ControlPlaneDeploymentOptions\<close>, which extends \<open>DeploymentOptions\<close>, so that the promoted
  fields are selected directly, as in Go. Pointers to values are options.
\<close>

section \<open>Metadata\<close>

type_synonym time = int \<comment> \<open>an instant, in nanoseconds\<close>

type_synonym labels = "(string, string) fmap option" \<comment> \<open>a Go map: nil or a finite map\<close>

record GVK =
  gvk_Group :: string
  gvk_Version :: string
  gvk_Kind :: string

record OwnerReference =
  or_APIVersion :: string
  or_Kind :: string
  or_Name :: string
  or_UID :: string
  or_Controller :: "bool option"

record ObjectMeta =
  om_Namespace :: string
  om_GenerateName :: string
  om_Name :: string
  om_UID :: string
  om_ResourceVersion :: nat
  om_Generation :: int
  om_DeletionTimestamp :: "time option"
  om_Labels :: labels
  om_Finalizers :: "string list"
  om_OwnerReferences :: "OwnerReference slice"

definition emptyMeta :: ObjectMeta where
  "emptyMeta = \<lparr>om_Namespace = '''', om_GenerateName = '''', om_Name = '''', om_UID = '''',
     om_ResourceVersion = 0, om_Generation = 0, om_DeletionTimestamp = None, om_Labels = None,
     om_Finalizers = [], om_OwnerReferences = None\<rparr>"

section \<open>Core types\<close>

record ObjectFieldSelector =
  fs_APIVersion :: string
  fs_FieldPath :: string

record KeySelector = \<comment> \<open>\<open>ConfigMapKeySelector\<close> and \<open>SecretKeySelector\<close>\<close>
  ks_Name :: string
  ks_Key :: string

record EnvVarSource =
  es_FieldRef :: "ObjectFieldSelector option"
  es_ConfigMapKeyRef :: "KeySelector option"
  es_SecretKeyRef :: "KeySelector option"

record EnvVar =
  ev_Name :: string
  ev_Value :: string
  ev_ValueFrom :: "EnvVarSource option"

record EnvFromSource =
  ef_Prefix :: string
  ef_ConfigMapRef :: "string option" \<comment> \<open>the name of the referenced object\<close>
  ef_SecretRef :: "string option"

record Condition =
  c_Type :: string
  c_Status :: string
  c_ObservedGeneration :: int
  c_LastTransitionTime :: time
  c_Reason :: string
  c_Message :: string

definition emptyCondition :: Condition where
  "emptyCondition = \<lparr>c_Type = '''', c_Status = '''', c_ObservedGeneration = 0,
     c_LastTransitionTime = 0, c_Reason = '''', c_Message = ''''\<rparr>"

definition ConditionTrue :: string where "ConditionTrue = ''True''"
definition ConditionFalse :: string where "ConditionFalse = ''False''"
definition ConditionUnknown :: string where "ConditionUnknown = ''Unknown''"

lemma condition_status_distinct [simp]:
  "ConditionTrue \<noteq> ConditionFalse" "ConditionFalse \<noteq> ConditionTrue"
  "ConditionTrue \<noteq> ConditionUnknown" "ConditionUnknown \<noteq> ConditionTrue"
  "ConditionFalse \<noteq> ConditionUnknown" "ConditionUnknown \<noteq> ConditionFalse"
  by (simp_all add: ConditionTrue_def ConditionFalse_def ConditionUnknown_def)

section \<open>Workload types\<close>

record KeyToPath =
  kp_Key :: string
  kp_Path :: string

record Volume = \<comment> \<open>a volume whose source is a Secret\<close>
  vol_Name :: string
  vol_SecretName :: string
  vol_Items :: "KeyToPath list"

record VolumeMount =
  vm_Name :: string
  vm_ReadOnly :: bool
  vm_MountPath :: string

record ContainerPort =
  cp_PortName :: string
  cp_ContainerPort :: int
  cp_Protocol :: string

record Probe = \<comment> \<open>a probe whose handler is an HTTP GET\<close>
  pr_FailureThreshold :: int
  pr_InitialDelaySeconds :: int
  pr_PeriodSeconds :: int
  pr_SuccessThreshold :: int
  pr_TimeoutSeconds :: int
  pr_Path :: string
  pr_Port :: int
  pr_Scheme :: string

record Container =
  ct_Name :: string
  ct_Env :: "EnvVar slice"
  ct_EnvFrom :: "EnvFromSource slice"
  ct_Image :: string
  ct_ImagePullPolicy :: string
  ct_VolumeMounts :: "VolumeMount list"
  ct_PreStopCommand :: "string list" \<comment> \<open>\<open>Lifecycle.PreStop.Exec.Command\<close>\<close>
  ct_Ports :: "ContainerPort list"
  ct_LivenessProbe :: "Probe option"
  ct_ReadinessProbe :: "Probe option"

record PodSpec =
  ps_ServiceAccountName :: string
  ps_Volumes :: "Volume list"
  ps_Containers :: "Container list"

record DeploymentSpec =
  ds_Replicas :: "int option"
  ds_SelectorMatchLabels :: "(string, string) fmap"
  ds_TemplateLabels :: "(string, string) fmap"
  ds_PodSpec :: PodSpec

record Deployment =
  dep_Meta :: ObjectMeta
  dep_Spec :: DeploymentSpec
  dep_StatusReplicas :: int
  dep_StatusAvailableReplicas :: int

record ServicePort =
  sp_Name :: string
  sp_Protocol :: string
  sp_Port :: int
  sp_TargetPort :: int \<comment> \<open>0 when not set\<close>

record Service =
  svc_Meta :: ObjectMeta
  svc_Type :: string
  svc_Selector :: "(string, string) fmap"
  svc_Ports :: "ServicePort list"

record ServiceAccount =
  sa_Meta :: ObjectMeta

record PolicyRule =
  rule_APIGroups :: "string list"
  rule_Resources :: "string list"
  rule_Verbs :: "string list"

record ClusterRole =
  cr_Meta :: ObjectMeta
  cr_Rules :: "PolicyRule list"

record RoleRef =
  rr_APIGroup :: string
  rr_Kind :: string
  rr_Name :: string

record Subject =
  sub_Kind :: string
  sub_Name :: string
  sub_Namespace :: string

record ClusterRoleBinding =
  crb_Meta :: ObjectMeta
  crb_RoleRef :: RoleRef
  crb_Subjects :: "Subject list"

record Secret =
  sec_Meta :: ObjectMeta
  sec_Type :: string
  sec_Data :: "(string, string) fmap option"
  sec_StringData :: "(string, string) fmap option"

record ConfigMap =
  cm_Meta :: ObjectMeta
  cm_Data :: "(string, string) fmap option"

record NetworkPolicy =
  np_Meta :: ObjectMeta

record Gateway =
  gw_Meta :: ObjectMeta
  gw_Conditions :: "Condition list"

section \<open>The custom resources (\<open>apis/v1alpha1\<close>)\<close>

record DeploymentOptions =
  opt_ContainerImage :: "string option"
  opt_Version :: "string option"
  opt_Env :: "EnvVar slice"
  opt_EnvFrom :: "EnvFromSource slice"

record ControlPlaneDeploymentOptions = DeploymentOptions +
  opt_DataPlane :: "string option"

record ControlPlaneSpec = ControlPlaneDeploymentOptions +
  spec_GatewayClass :: "string option"
  spec_IngressClass :: "string option"

record ControlPlaneStatus =
  cps_Conditions :: "Condition list"

record ControlPlane =
  cp_TypeMeta :: GVK
  cp_Meta :: ObjectMeta
  cp_Spec :: ControlPlaneSpec
  cp_Status :: ControlPlaneStatus

type_synonym DataPlaneDeploymentOptions = DeploymentOptions

type_synonym DataPlaneSpec = DataPlaneDeploymentOptions

record DataPlaneStatus =
  dps_Conditions :: "Condition list"
  dps_Service :: string

record DataPlane =
  dp_TypeMeta :: GVK
  dp_Meta :: ObjectMeta
  dp_Spec :: DataPlaneSpec
  dp_Status :: DataPlaneStatus

record APISIXConfigurationSpec =
  acs_DataPlaneDeploymentOptions :: "DataPlaneDeploymentOptions option"
  acs_ControlPlaneDeploymentOptions :: "ControlPlaneDeploymentOptions option"

record APISIXConfigurationStatus =
  acst_Conditions :: "Condition list"

record APISIXConfiguration =
  ac_TypeMeta :: GVK
  ac_Meta :: ObjectMeta
  ac_Spec :: APISIXConfigurationSpec
  ac_Status :: APISIXConfigurationStatus

definition SchemeGroup :: string where
  "SchemeGroup = ''apisix-operator.apisix-operator.apisix.apache.org''"

definition SchemeVersion :: string where
  "SchemeVersion = ''v1alpha1''"

section \<open>Constants (\<open>internal/consts\<close>)\<close>

definition GatewayOperatorControlledLabel :: string where
  "GatewayOperatorControlledLabel = ''apisix.apache.org/apisix-operator''"
definition DataPlaneManagedLabelValue :: string where
  "DataPlaneManagedLabelValue = ''dataplane''"
definition ControlPlaneManagedLabelValue :: string where
  "ControlPlaneManagedLabelValue = ''controlplane''"
definition GatewayManagedLabelValue :: string where
  "GatewayManagedLabelValue = ''gateway''"
definition DataPlanePrefix :: string where "DataPlanePrefix = ''dataplane''"
definition ControlPlanePrefix :: string where "ControlPlanePrefix = ''controlplane''"
definition DefaultDataPlaneBaseImage :: string where "DefaultDataPlaneBaseImage = ''apisix''"
definition DefaultDataPlaneTag :: string where "DefaultDataPlaneTag = ''latest''"
definition DefaultDataPlaneImage :: string where
  "DefaultDataPlaneImage = DefaultDataPlaneBaseImage @ '':'' @ DefaultDataPlaneTag"
definition DefaultControlPlaneBaseImage :: string where
  "DefaultControlPlaneBaseImage = ''apache/apisix-ingress-controller''"
definition DefaultControlPlaneTag :: string where "DefaultControlPlaneTag = ''latest''"
definition DefaultControlPlaneImage :: string where
  "DefaultControlPlaneImage = DefaultControlPlaneBaseImage @ '':'' @ DefaultControlPlaneTag"
definition ControlPlaneControllerContainerName :: string where
  "ControlPlaneControllerContainerName = ''controller''"
definition DataPlaneProxyContainerName :: string where
  "DataPlaneProxyContainerName = ''proxy''"
definition DataPlaneAdminAPIPort :: int where "DataPlaneAdminAPIPort = 9180"
definition DataPlaneProxyPort :: int where "DataPlaneProxyPort = 9080"
definition DataPlaneProxySSLPort :: int where "DataPlaneProxySSLPort = 9443"
definition DataPlaneMetricsPort :: int where "DataPlaneMetricsPort = 9100"
definition EnvVarApisixDatabase :: string where "EnvVarApisixDatabase = ''APISIX_DATABASE''"

section \<open>The interface \<open>client.Object\<close>\<close>

text \<open>
  What the helpers need of an object, whatever its kind: to read and replace its metadata,
  and its group, version and kind.
\<close>

record 'o client_object =
  co_Meta :: "'o \<Rightarrow> ObjectMeta"
  co_SetMeta :: "ObjectMeta \<Rightarrow> 'o \<Rightarrow> 'o"
  co_GVK :: "'o \<Rightarrow> GVK"

locale object_kind =
  fixes k :: "'o client_object"
  assumes meta_set [simp]: "co_Meta k (co_SetMeta k m x) = m"
    and set_set [simp]: "co_SetMeta k m (co_SetMeta k m' x) = co_SetMeta k m x"
    and set_meta [simp]: "co_SetMeta k (co_Meta k x) x = x"
begin

lemma set_inj: "co_SetMeta k m x = co_SetMeta k m' x \<longleftrightarrow> m = m'"
  by (metis meta_set)

lemma eq_iff_meta: "y = co_SetMeta k m x \<Longrightarrow> y = x \<longleftrightarrow> m = co_Meta k x"
  by (metis meta_set set_meta)

end

definition typed :: "string \<Rightarrow> string \<Rightarrow> string \<Rightarrow> GVK" where
  "typed g v k = \<lparr>gvk_Group = g, gvk_Version = v, gvk_Kind = k\<rparr>"

definition DeploymentObj :: "Deployment client_object" where
  "DeploymentObj = \<lparr>co_Meta = dep_Meta, co_SetMeta = (\<lambda>m x. x\<lparr>dep_Meta := m\<rparr>),
     co_GVK = (\<lambda>_. typed ''apps'' ''v1'' ''Deployment'')\<rparr>"
definition ServiceObj :: "Service client_object" where
  "ServiceObj = \<lparr>co_Meta = svc_Meta, co_SetMeta = (\<lambda>m x. x\<lparr>svc_Meta := m\<rparr>),
     co_GVK = (\<lambda>_. typed '''' ''v1'' ''Service'')\<rparr>"
definition ServiceAccountObj :: "ServiceAccount client_object" where
  "ServiceAccountObj = \<lparr>co_Meta = sa_Meta, co_SetMeta = (\<lambda>m x. x\<lparr>sa_Meta := m\<rparr>),
     co_GVK = (\<lambda>_. typed '''' ''v1'' ''ServiceAccount'')\<rparr>"
definition ClusterRoleObj :: "ClusterRole client_object" where
  "ClusterRoleObj = \<lparr>co_Meta = cr_Meta, co_SetMeta = (\<lambda>m x. x\<lparr>cr_Meta := m\<rparr>),
     co_GVK = (\<lambda>_. typed ''rbac.authorization.k8s.io'' ''v1'' ''ClusterRole'')\<rparr>"
definition ClusterRoleBindingObj :: "ClusterRoleBinding client_object" where
  "ClusterRoleBindingObj = \<lparr>co_Meta = crb_Meta, co_SetMeta = (\<lambda>m x. x\<lparr>crb_Meta := m\<rparr>),
     co_GVK = (\<lambda>_. typed ''rbac.authorization.k8s.io'' ''v1'' ''ClusterRoleBinding'')\<rparr>"
definition SecretObj :: "Secret client_object" where
  "SecretObj = \<lparr>co_Meta = sec_Meta, co_SetMeta = (\<lambda>m x. x\<lparr>sec_Meta := m\<rparr>),
     co_GVK = (\<lambda>_. typed '''' ''v1'' ''Secret'')\<rparr>"
definition ConfigMapObj :: "ConfigMap client_object" where
  "ConfigMapObj = \<lparr>co_Meta = cm_Meta, co_SetMeta = (\<lambda>m x. x\<lparr>cm_Meta := m\<rparr>),
     co_GVK = (\<lambda>_. typed '''' ''v1'' ''ConfigMap'')\<rparr>"
definition NetworkPolicyObj :: "NetworkPolicy client_object" where
  "NetworkPolicyObj = \<lparr>co_Meta = np_Meta, co_SetMeta = (\<lambda>m x. x\<lparr>np_Meta := m\<rparr>),
     co_GVK = (\<lambda>_. typed ''networking.k8s.io'' ''v1'' ''NetworkPolicy'')\<rparr>"
definition ControlPlaneObj :: "ControlPlane client_object" where
  "ControlPlaneObj = \<lparr>co_Meta = cp_Meta, co_SetMeta = (\<lambda>m x. x\<lparr>cp_Meta := m\<rparr>),
     co_GVK = cp_TypeMeta\<rparr>"
definition DataPlaneObj :: "DataPlane client_object" where
  "DataPlaneObj = \<lparr>co_Meta = dp_Meta, co_SetMeta = (\<lambda>m x. x\<lparr>dp_Meta := m\<rparr>),
     co_GVK = dp_TypeMeta\<rparr>"

lemmas object_defs = DeploymentObj_def ServiceObj_def ServiceAccountObj_def ClusterRoleObj_def
  ClusterRoleBindingObj_def SecretObj_def ConfigMapObj_def NetworkPolicyObj_def
  ControlPlaneObj_def DataPlaneObj_def

interpretation deployment: object_kind DeploymentObj
  by unfold_locales (simp_all add: object_defs)
interpretation service: object_kind ServiceObj
  by unfold_locales (simp_all add: object_defs)
interpretation serviceaccount: object_kind ServiceAccountObj
  by unfold_locales (simp_all add: object_defs)
interpretation clusterrole: object_kind ClusterRoleObj
  by unfold_locales (simp_all add: object_defs)
interpretation clusterrolebinding: object_kind ClusterRoleBindingObj
  by unfold_locales (simp_all add: object_defs)
interpretation secret: object_kind SecretObj
  by unfold_locales (simp_all add: object_defs)
interpretation configmap: object_kind ConfigMapObj
  by unfold_locales (simp_all add: object_defs)
interpretation networkpolicy: object_kind NetworkPolicyObj
  by unfold_locales (simp_all add: object_defs)
interpretation controlplane: object_kind ControlPlaneObj
  by unfold_locales (simp_all add: object_defs)
interpretation dataplane: object_kind DataPlaneObj
  by unfold_locales (simp_all add: object_defs)

lemma obj_sel [simp]:
  "co_Meta DeploymentObj = dep_Meta" "co_Meta ServiceObj = svc_Meta"
  "co_Meta ServiceAccountObj = sa_Meta" "co_Meta ClusterRoleObj = cr_Meta"
  "co_Meta ClusterRoleBindingObj = crb_Meta" "co_Meta SecretObj = sec_Meta"
  "co_Meta ConfigMapObj = cm_Meta" "co_Meta NetworkPolicyObj = np_Meta"
  "co_Meta ControlPlaneObj = cp_Meta" "co_Meta DataPlaneObj = dp_Meta"
  "co_SetMeta DeploymentObj m d = d\<lparr>dep_Meta := m\<rparr>"
  "co_SetMeta ServiceObj m s = s\<lparr>svc_Meta := m\<rparr>"
  "co_SetMeta ServiceAccountObj m a = a\<lparr>sa_Meta := m\<rparr>"
  "co_SetMeta ClusterRoleObj m r = r\<lparr>cr_Meta := m\<rparr>"
  "co_SetMeta ClusterRoleBindingObj m b = b\<lparr>crb_Meta := m\<rparr>"
  "co_SetMeta SecretObj m t = t\<lparr>sec_Meta := m\<rparr>"
  "co_SetMeta ControlPlaneObj m c = c\<lparr>cp_Meta := m\<rparr>"
  "co_SetMeta DataPlaneObj m p = p\<lparr>dp_Meta := m\<rparr>"
  "co_GVK ControlPlaneObj = cp_TypeMeta" "co_GVK DataPlaneObj = dp_TypeMeta"
  by (simp_all add: object_defs)

end
