(* ===== verification/Metadata.thy ===== *)
theory Metadata
  imports KubeTypes
begin

text \<open>
  Object metadata: finalizers, labels and owner references
  (\<open>internal/utils/kubernetes/metadata.go\<close>, \<open>ownerrefs.go\<close>,
  \<open>internal/utils/gateway/labels.go\<close> and the label setters of the two controllers).
  The helpers on any object are proved in the locale \<open>object_kind\<close>.
\<close>

section \<open>Finalizers\<close>

fun finalizerExistsIn :: "string \<Rightarrow> string list \<Rightarrow> bool" where
  "finalizerExistsIn finalizer [] = False"
| "finalizerExistsIn finalizer (f # fs) =
     (if f = finalizer then True else finalizerExistsIn finalizer fs)"

fun ensureFinalizersLoop :: "bool \<Rightarrow> ObjectMeta \<Rightarrow> string list \<Rightarrow> bool \<times> ObjectMeta" where
  "ensureFinalizersLoop added metadata [] = (added, metadata)"
| "ensureFinalizersLoop added metadata (finalizer # rest) =
     (if \<not> finalizerExistsIn finalizer (om_Finalizers metadata)
      then ensureFinalizersLoop True
             (metadata\<lparr>om_Finalizers := om_Finalizers metadata @ [finalizer]\<rparr>) rest
      else ensureFinalizersLoop added metadata rest)"

definition EnsureFinalizersInMetadata :: "ObjectMeta \<Rightarrow> string list \<Rightarrow> bool \<times> ObjectMeta" where
  "EnsureFinalizersInMetadata metadata finalizers = ensureFinalizersLoop False metadata finalizers"

fun removeFinalizerLoop :: "string \<Rightarrow> string list \<Rightarrow> string list \<Rightarrow> bool \<Rightarrow> string list \<times> bool" where
  "removeFinalizerLoop finalizer [] newFinalizers changed = (newFinalizers, changed)"
| "removeFinalizerLoop finalizer (f # fs) newFinalizers changed =
     (if f = finalizer then removeFinalizerLoop finalizer fs newFinalizers True
      else removeFinalizerLoop finalizer fs (newFinalizers @ [f]) changed)"

definition RemoveFinalizerInMetadata :: "ObjectMeta \<Rightarrow> string \<Rightarrow> bool \<times> ObjectMeta" where
  "RemoveFinalizerInMetadata metadata finalizer =
     (let (newFinalizers, changed) =
            removeFinalizerLoop finalizer (om_Finalizers metadata) [] False
      in if changed then (changed, metadata\<lparr>om_Finalizers := newFinalizers\<rparr>)
         else (changed, metadata))"

lemma finalizerExistsIn_iff [simp]: "finalizerExistsIn f fs \<longleftrightarrow> f \<in> set fs"
  by (induction fs) auto

text \<open>The finalizers the loop adds, in order: those not there yet, each once.\<close>

fun missingFinalizers :: "string list \<Rightarrow> string list \<Rightarrow> string list" where
  "missingFinalizers old [] = []"
| "missingFinalizers old (f # fs) =
     (if f \<in> set old then missingFinalizers old fs else f # missingFinalizers (old @ [f]) fs)"

lemma missingFinalizers_set: "set (missingFinalizers old fs) = set fs - set old"
  by (induction old fs rule: missingFinalizers.induct) auto

lemma missingFinalizers_distinct: "distinct (missingFinalizers old fs)"
  by (induction old fs rule: missingFinalizers.induct) (auto simp: missingFinalizers_set)

lemma missingFinalizers_Nil: "missingFinalizers old fs = [] \<longleftrightarrow> set fs \<subseteq> set old"
  by (metis Diff_eq_empty_iff missingFinalizers_set set_empty)

lemma ensureFinalizersLoop_eq:
  "ensureFinalizersLoop added m fs =
   (added \<or> \<not> set fs \<subseteq> set (om_Finalizers m),
    m\<lparr>om_Finalizers := om_Finalizers m @ missingFinalizers (om_Finalizers m) fs\<rparr>)"
  by (induction added m fs rule: ensureFinalizersLoop.induct) auto

lemma EnsureFinalizers_eq:
  "EnsureFinalizersInMetadata m fs =
   (\<not> set fs \<subseteq> set (om_Finalizers m),
    m\<lparr>om_Finalizers := om_Finalizers m @ missingFinalizers (om_Finalizers m) fs\<rparr>)"
  by (simp add: EnsureFinalizersInMetadata_def ensureFinalizersLoop_eq)

lemma removeFinalizerLoop_eq:
  "removeFinalizerLoop f fs acc b = (acc @ filter (\<lambda>x. x \<noteq> f) fs, b \<or> f \<in> set fs)"
  by (induction f fs acc b rule: removeFinalizerLoop.induct) auto

lemma RemoveFinalizer_eq:
  "RemoveFinalizerInMetadata m f =
   (f \<in> set (om_Finalizers m), m\<lparr>om_Finalizers := filter (\<lambda>x. x \<noteq> f) (om_Finalizers m)\<rparr>)"
proof -
  have "m\<lparr>om_Finalizers := om_Finalizers m\<rparr> = m" by simp
  moreover have "f \<notin> set (om_Finalizers m) \<Longrightarrow>
      filter (\<lambda>x. x \<noteq> f) (om_Finalizers m) = om_Finalizers m"
    by (auto simp: filter_id_conv)
  ultimately show ?thesis
    by (cases "f \<in> set (om_Finalizers m)")
      (simp_all add: RemoveFinalizerInMetadata_def removeFinalizerLoop_eq)
qed

section \<open>Owner references\<close>

definition GetAPIVersionForObject :: "'o client_object \<Rightarrow> 'o \<Rightarrow> string" where
  "GetAPIVersionForObject k obj = gvk_Group (co_GVK k obj) @ ''/'' @ gvk_Version (co_GVK k obj)"

definition GenerateOwnerReferenceForObject :: "'o client_object \<Rightarrow> 'o \<Rightarrow> OwnerReference" where
  "GenerateOwnerReferenceForObject k obj =
     \<lparr>or_APIVersion = GetAPIVersionForObject k obj,
      or_Kind = gvk_Kind (co_GVK k obj),
      or_Name = om_Name (co_Meta k obj),
      or_UID = om_UID (co_Meta k obj),
      or_Controller = Some True\<rparr>"

fun refWithUID :: "string \<Rightarrow> OwnerReference list \<Rightarrow> bool" where
  "refWithUID uid [] = False"
| "refWithUID uid (ref # refs) = (if or_UID ref = uid then True else refWithUID uid refs)"

definition IsOwnedByRefUID :: "ObjectMeta \<Rightarrow> string \<Rightarrow> bool" where
  "IsOwnedByRefUID obj uid = refWithUID uid (items (om_OwnerReferences obj))"

fun foundOwnerRefLoop :: "string \<Rightarrow> OwnerReference list \<Rightarrow> bool \<Rightarrow> bool" where
  "foundOwnerRefLoop uid [] found = found"
| "foundOwnerRefLoop uid (ref # refs) found =
     foundOwnerRefLoop uid refs (if or_UID ref = uid then True else found)"

definition SetOwnerForObject ::
  "'o client_object \<Rightarrow> 'p client_object \<Rightarrow> 'o \<Rightarrow> 'p \<Rightarrow> 'o" where
  "SetOwnerForObject k kOwner obj owner =
     (let refs = om_OwnerReferences (co_Meta k obj);
          foundOwnerRef = foundOwnerRefLoop (om_UID (co_Meta kOwner owner)) (items refs) False
      in if \<not> foundOwnerRef
         then co_SetMeta k ((co_Meta k obj)\<lparr>om_OwnerReferences :=
                appendS refs (GenerateOwnerReferenceForObject kOwner owner)\<rparr>) obj
         else obj)"

lemma refWithUID_iff: "refWithUID uid refs \<longleftrightarrow> uid \<in> or_UID ` set refs"
  by (induction refs) auto

lemma foundOwnerRefLoop_iff: "foundOwnerRefLoop uid refs b \<longleftrightarrow> b \<or> refWithUID uid refs"
  by (induction uid refs b rule: foundOwnerRefLoop.induct) auto

lemma ownerRef_UID [simp]: "or_UID (GenerateOwnerReferenceForObject k obj) = om_UID (co_Meta k obj)"
  by (simp add: GenerateOwnerReferenceForObject_def)

section \<open>Labels\<close>

definition labelMap :: "labels \<Rightarrow> (string, string) fmap" where
  "labelMap l = (case l of None \<Rightarrow> fmempty | Some m \<Rightarrow> m)"

lemma labelMap_simps [simp]: "labelMap None = fmempty" "labelMap (Some m) = m"
  by (simp_all add: labelMap_def)

text \<open>
  \<open>labels := obj.GetLabels(); if labels == nil { labels = make(...) }; labels[k] = v;
  obj.SetLabels(labels)\<close>, the body of the three label setters.
\<close>

definition setLabel :: "string \<Rightarrow> string \<Rightarrow> ObjectMeta \<Rightarrow> ObjectMeta" where
  "setLabel key val m =
     (let labels = (case om_Labels m of None \<Rightarrow> fmempty | Some l \<Rightarrow> l)
      in m\<lparr>om_Labels := Some (fmupd key val labels)\<rparr>)"

definition LabelObjectAsGatewayManaged :: "'o client_object \<Rightarrow> 'o \<Rightarrow> 'o" where
  "LabelObjectAsGatewayManaged k obj =
     co_SetMeta k (setLabel GatewayOperatorControlledLabel GatewayManagedLabelValue (co_Meta k obj)) obj"

definition addLabelForControlPlane :: "'o client_object \<Rightarrow> 'o \<Rightarrow> 'o" where
  "addLabelForControlPlane k obj =
     co_SetMeta k (setLabel GatewayOperatorControlledLabel ControlPlaneManagedLabelValue (co_Meta k obj)) obj"

definition addLabelForDataplane :: "'o client_object \<Rightarrow> 'o \<Rightarrow> 'o" where
  "addLabelForDataplane k obj =
     co_SetMeta k (setLabel GatewayOperatorControlledLabel DataPlaneManagedLabelValue (co_Meta k obj)) obj"

lemma setLabel_simps [simp]:
  "labelMap (om_Labels (setLabel key val m)) = fmupd key val (labelMap (om_Labels m))"
  "om_Labels (setLabel key val m) \<noteq> None"
  "om_OwnerReferences (setLabel key val m) = om_OwnerReferences m"
  "om_Namespace (setLabel key val m) = om_Namespace m"
  "om_GenerateName (setLabel key val m) = om_GenerateName m"
  "om_Name (setLabel key val m) = om_Name m"
  "om_Finalizers (setLabel key val m) = om_Finalizers m"
  by (simp_all add: setLabel_def labelMap_def split: option.splits)

section \<open>Bringing existing metadata up to date\<close>

text \<open>
  \<open>for k, v := range generated.GetLabels() { new.Labels[k] = v }\<close>: the keys of a map are
  distinct, so the order of the iteration does not matter and the loop is the right-biased
  union; writing to a nil map panics, which the loop does if it runs at all.
\<close>

definition writeLabels :: "labels \<Rightarrow> labels \<Rightarrow> go_error + labels" where
  "writeLabels newLabels generated =
     (if labelMap generated = fmempty then Inr newLabels
      else (case newLabels of
              None \<Rightarrow> Inl (Panic ''assignment to entry in nil map'')
            | Some m \<Rightarrow> Inr (Some (fmadd m (labelMap generated)))))"

definition EnsureObjectMetaIsUpdated ::
  "ObjectMeta \<Rightarrow> ObjectMeta \<Rightarrow> go_error + (bool \<times> ObjectMeta)" where
  "EnsureObjectMetaIsUpdated existingObjMeta generatedObjMeta =
     (let newObjectMeta = existingObjMeta\<lparr>om_OwnerReferences := om_OwnerReferences generatedObjMeta\<rparr>
      in case writeLabels (om_Labels newObjectMeta) (om_Labels generatedObjMeta) of
           Inl e \<Rightarrow> Inl e
         | Inr labels \<Rightarrow>
             (let newObjectMeta = newObjectMeta\<lparr>om_Labels := labels\<rparr>
              in if om_OwnerReferences existingObjMeta \<noteq> om_OwnerReferences newObjectMeta \<or>
                    om_Labels existingObjMeta \<noteq> om_Labels newObjectMeta
                 then Inr (True, newObjectMeta) else Inr (False, newObjectMeta)))"

lemma fmadd_absorb: "fmadd (fmadd m g) g = fmadd m g"
  by (rule fmap_ext) simp

lemma writeLabels_twice: "writeLabels l g = Inr l' \<Longrightarrow> writeLabels l' g = Inr l'"
  by (auto simp: writeLabels_def fmadd_absorb split: if_splits option.splits)

lemma writeLabels_lookup:
  "writeLabels l g = Inr l' \<Longrightarrow>
   fmlookup (labelMap l') key =
   (case fmlookup (labelMap g) key of Some v \<Rightarrow> Some v | None \<Rightarrow> fmlookup (labelMap l) key)"
  by (auto simp: writeLabels_def fmlookup_dom_iff split: if_splits option.splits)

lemma writeLabels_panics:
  "(\<exists>e. writeLabels l g = Inl e) \<longleftrightarrow> l = None \<and> labelMap g \<noteq> fmempty"
  by (auto simp: writeLabels_def split: option.splits)

lemma EnsureObjectMeta_Inr:
  "EnsureObjectMetaIsUpdated old gen = Inr (upd, m) \<longleftrightarrow>
   (\<exists>l. writeLabels (om_Labels old) (om_Labels gen) = Inr l \<and>
        m = old\<lparr>om_OwnerReferences := om_OwnerReferences gen, om_Labels := l\<rparr> \<and>
        (upd \<longleftrightarrow> m \<noteq> old))"
proof -
  have neq: "(old\<lparr>om_OwnerReferences := r, om_Labels := l\<rparr> = old) \<longleftrightarrow>
      (om_OwnerReferences old = r \<and> om_Labels old = l)" for r l
    by (cases old) auto
  show ?thesis
    by (auto simp: EnsureObjectMetaIsUpdated_def Let_def neq split: sum.splits if_split_asm)
qed

lemma EnsureObjectMeta_fixpoint:
  "EnsureObjectMetaIsUpdated old gen = Inr (upd, m) \<Longrightarrow> EnsureObjectMetaIsUpdated m gen = Inr (False, m)"
proof -
  assume "EnsureObjectMetaIsUpdated old gen = Inr (upd, m)"
  then obtain l where l: "writeLabels (om_Labels old) (om_Labels gen) = Inr l"
    "m = old\<lparr>om_OwnerReferences := om_OwnerReferences gen, om_Labels := l\<rparr>"
    by (auto simp: EnsureObjectMeta_Inr)
  have "m = m\<lparr>om_OwnerReferences := om_OwnerReferences gen, om_Labels := l\<rparr>"
    by (simp add: l(2))
  moreover have "writeLabels (om_Labels m) (om_Labels gen) = Inr l"
    using writeLabels_twice [OF l(1)] by (simp add: l(2))
  ultimately show ?thesis by (auto simp: EnsureObjectMeta_Inr)
qed

lemma EnsureObjectMeta_total:
  "om_Labels old \<noteq> None \<Longrightarrow> \<exists>upd m. EnsureObjectMetaIsUpdated old gen = Inr (upd, m)"
  by (auto simp: EnsureObjectMetaIsUpdated_def writeLabels_def Let_def split: if_splits)

lemma EnsureObjectMeta_frame:
  assumes "EnsureObjectMetaIsUpdated old gen = Inr (upd, m)"
  shows "om_Name m = om_Name old" "om_Namespace m = om_Namespace old" "om_UID m = om_UID old"
    "om_Finalizers m = om_Finalizers old" "om_ResourceVersion m = om_ResourceVersion old"
    "om_DeletionTimestamp m = om_DeletionTimestamp old"
    "om_OwnerReferences m = om_OwnerReferences gen"
proof -
  obtain l where "m = old\<lparr>om_OwnerReferences := om_OwnerReferences gen, om_Labels := l\<rparr>"
    using assms unfolding EnsureObjectMeta_Inr by blast
  then show "om_Name m = om_Name old" "om_Namespace m = om_Namespace old" "om_UID m = om_UID old"
    "om_Finalizers m = om_Finalizers old" "om_ResourceVersion m = om_ResourceVersion old"
    "om_DeletionTimestamp m = om_DeletionTimestamp old"
    "om_OwnerReferences m = om_OwnerReferences gen"
    by simp_all
qed

section \<open>The helpers on any kind of object\<close>

context object_kind
begin

lemma meta_SetOwner:
  "co_Meta k (SetOwnerForObject k ko obj owner) =
   (if IsOwnedByRefUID (co_Meta k obj) (om_UID (co_Meta ko owner)) then co_Meta k obj
    else (co_Meta k obj)\<lparr>om_OwnerReferences :=
           appendS (om_OwnerReferences (co_Meta k obj)) (GenerateOwnerReferenceForObject ko owner)\<rparr>)"
  by (simp add: SetOwnerForObject_def Let_def foundOwnerRefLoop_iff IsOwnedByRefUID_def)

lemma owned_SetOwner:
  "IsOwnedByRefUID (co_Meta k (SetOwnerForObject k ko obj owner)) (om_UID (co_Meta ko owner))"
  by (auto simp: meta_SetOwner IsOwnedByRefUID_def refWithUID_iff)

lemma SetOwner_idem:
  "SetOwnerForObject k ko (SetOwnerForObject k ko obj owner) owner = SetOwnerForObject k ko obj owner"
  using owned_SetOwner [of ko obj owner]
  by (subst (1) SetOwnerForObject_def)
    (simp add: Let_def foundOwnerRefLoop_iff IsOwnedByRefUID_def)

lemma owned_SetOwner_mono:
  "IsOwnedByRefUID (co_Meta k obj) uid \<Longrightarrow>
   IsOwnedByRefUID (co_Meta k (SetOwnerForObject k ko obj owner)) uid"
  by (auto simp: meta_SetOwner IsOwnedByRefUID_def refWithUID_iff)

lemma labels_SetOwner [simp]:
  "om_Labels (co_Meta k (SetOwnerForObject k ko obj owner)) = om_Labels (co_Meta k obj)"
  by (simp add: meta_SetOwner)

end

section \<open>Properties\<close>

text \<open>\<open>EnsureFinalizersInMetadata\<close> appends exactly the finalizers that are missing, keeps the
  existing ones and their order, reports a change exactly when one was missing, and changes
  nothing when run again.\<close>

lemma EnsureFinalizers_correct:
  "let (changed, m') = EnsureFinalizersInMetadata m fs
   in (\<exists>new. om_Finalizers m' = om_Finalizers m @ new \<and> distinct new \<and>
             set new = set fs - set (om_Finalizers m)) \<and>
      (changed \<longleftrightarrow> m' \<noteq> m) \<and>
      EnsureFinalizersInMetadata m' fs = (False, m')"
proof -
  have "(m\<lparr>om_Finalizers := om_Finalizers m @ xs\<rparr> = m) = (xs = [])" for xs
    by (cases m) auto
  then show ?thesis
    by (auto simp: EnsureFinalizers_eq missingFinalizers_set missingFinalizers_distinct
        missingFinalizers_Nil)
qed

text \<open>C37. \<open>RemoveFinalizerInMetadata\<close> removes every occurrence of the finalizer and nothing else,
  reports a change exactly when it was there, and undoes \<open>EnsureFinalizersInMetadata\<close> of a
  finalizer that was not there.\<close>

theorem RemoveFinalizer_correct:
  "(let (changed, m') = RemoveFinalizerInMetadata m f
    in f \<notin> set (om_Finalizers m') \<and>
       filter (\<lambda>x. x \<noteq> f) (om_Finalizers m') = filter (\<lambda>x. x \<noteq> f) (om_Finalizers m) \<and>
       (changed \<longleftrightarrow> f \<in> set (om_Finalizers m)) \<and> (changed \<longleftrightarrow> m' \<noteq> m)) \<and>
   snd (RemoveFinalizerInMetadata (snd (EnsureFinalizersInMetadata m [f])) f) =
   snd (RemoveFinalizerInMetadata m f)"
proof -
  have "(m\<lparr>om_Finalizers := xs\<rparr> = m) = (xs = om_Finalizers m)" for xs
    by (cases m) auto
  then show ?thesis
    by (auto simp: RemoveFinalizer_eq EnsureFinalizers_eq filter_id_conv)
qed

text \<open>C36. \<open>EnsureObjectMetaIsUpdated\<close> panics exactly when the existing object has nil labels and
  the generated one has some; otherwise the result has the generated owner references, the
  generated value of every generated label, every other label and field of the existing
  object, and the flag says whether anything changed. A second run on the result finds nothing
  to do, so comparing with the generated metadata converges in one update.\<close>

theorem EnsureObjectMetaIsUpdated_correct:
  "case EnsureObjectMetaIsUpdated old gen of
     Inl e \<Rightarrow> isPanic e \<and> om_Labels old = None \<and> labelMap (om_Labels gen) \<noteq> fmempty
   | Inr (upd, m) \<Rightarrow>
       \<not> (om_Labels old = None \<and> labelMap (om_Labels gen) \<noteq> fmempty) \<and>
       (\<exists>l. m = old\<lparr>om_OwnerReferences := om_OwnerReferences gen, om_Labels := l\<rparr> \<and>
            (\<forall>key. fmlookup (labelMap l) key =
               (case fmlookup (labelMap (om_Labels gen)) key of
                  Some v \<Rightarrow> Some v | None \<Rightarrow> fmlookup (labelMap (om_Labels old)) key))) \<and>
       (upd \<longleftrightarrow> m \<noteq> old) \<and>
       EnsureObjectMetaIsUpdated m gen = Inr (False, m)"
proof (cases "EnsureObjectMetaIsUpdated old gen")
  case (Inl e)
  then show ?thesis
    by (auto simp: EnsureObjectMetaIsUpdated_def writeLabels_def Let_def
        split: sum.splits if_splits option.splits)
next
  case (Inr p)
  then obtain upd m where m: "EnsureObjectMetaIsUpdated old gen = Inr (upd, m)" by (cases p) auto
  then obtain l where l: "writeLabels (om_Labels old) (om_Labels gen) = Inr l"
    "m = old\<lparr>om_OwnerReferences := om_OwnerReferences gen, om_Labels := l\<rparr>" "upd \<longleftrightarrow> m \<noteq> old"
    by (auto simp: EnsureObjectMeta_Inr)
  have "\<not> (om_Labels old = None \<and> labelMap (om_Labels gen) \<noteq> fmempty)"
    using l(1) by (metis writeLabels_panics sum.distinct(1))
  then show ?thesis
    using m l writeLabels_lookup [OF l(1)] EnsureObjectMeta_fixpoint [OF m] by auto
qed

text \<open>\<open>SetOwnerForObject\<close> makes the object owned by its owner, keeps every reference it had,
  never adds a second reference to the same owner, and leaves its labels alone (stated for
  the deployments of a control plane).\<close>

lemma SetOwnerForObject_correct:
  "let d' = SetOwnerForObject DeploymentObj ControlPlaneObj d cp
   in IsOwnedByRefUID (dep_Meta d') (om_UID (cp_Meta cp)) \<and>
      (\<exists>new. items (om_OwnerReferences (dep_Meta d')) = items (om_OwnerReferences (dep_Meta d)) @ new \<and>
             length new = (if IsOwnedByRefUID (dep_Meta d) (om_UID (cp_Meta cp)) then 0 else 1)) \<and>
      SetOwnerForObject DeploymentObj ControlPlaneObj d' cp = d' \<and>
      om_Labels (dep_Meta d') = om_Labels (dep_Meta d)"
  using deployment.owned_SetOwner [of ControlPlaneObj d cp]
    deployment.meta_SetOwner [of ControlPlaneObj d cp]
    deployment.labels_SetOwner [of ControlPlaneObj d cp]
  by (simp add: deployment.SetOwner_idem)

end
