(* ===== verification/Client.thy ===== *)
theory Client
  imports Metadata
begin

text \<open>
  The Kubernetes API as the operator sees it. \<open>Client\<close> is the interface
  \<open>client.Client\<close> of controller-runtime: for each kind of object the calls the code makes.
  What answers these calls is not code of the repository, so every definition that makes
  one takes the client as an argument, over an arbitrary world \<open>'w\<close>.

  The locale \<open>api_kind\<close> states, for one kind, the documented behaviour the operator's
  correctness rests on, in terms of a view of the world as a \<open>Cluster\<close>, the lists of stored
  objects. The reads it describes are up to date, and a call that fails has not changed
  anything; the theorems that need this say so by naming the locale.

  \<open>memClient\<close> is an API server in memory that satisfies the locale for every kind: it
  generates names and UIDs, keeps resource versions and answers conflicts, has a status
  subresource, keeps deleted objects until their finalizers are gone, and fails calls on a
  schedule. Concrete runs of the operator are computed on it.
\<close>

section \<open>The interface\<close>

record ('o, 'w) resource =
  cl_Get :: "string \<Rightarrow> string \<Rightarrow> ('o, 'w) action" \<comment> \<open>namespace, name\<close>
  cl_List :: "string option \<Rightarrow> (string \<times> string) list \<Rightarrow> ('o list, 'w) action"
    \<comment> \<open>\<open>client.InNamespace\<close>, \<open>client.MatchingLabels\<close>\<close>
  cl_Create :: "'o \<Rightarrow> ('o, 'w) action"
  cl_Update :: "'o \<Rightarrow> ('o, 'w) action"
  cl_StatusUpdate :: "'o \<Rightarrow> ('o, 'w) action"
  cl_Delete :: "'o \<Rightarrow> (unit, 'w) action"

record 'w Client =
  cl_ControlPlanes :: "(ControlPlane, 'w) resource"
  cl_DataPlanes :: "(DataPlane, 'w) resource"
  cl_Deployments :: "(Deployment, 'w) resource"
  cl_Services :: "(Service, 'w) resource"
  cl_ServiceAccounts :: "(ServiceAccount, 'w) resource"
  cl_ClusterRoles :: "(ClusterRole, 'w) resource"
  cl_ClusterRoleBindings :: "(ClusterRoleBinding, 'w) resource"
  cl_Secrets :: "(Secret, 'w) resource"
  cl_ConfigMaps :: "(ConfigMap, 'w) resource"
  cl_NetworkPolicies :: "(NetworkPolicy, 'w) resource"

section \<open>What is stored\<close>

record Cluster =
  st_ControlPlanes :: "ControlPlane list"
  st_DataPlanes :: "DataPlane list"
  st_Deployments :: "Deployment list"
  st_Services :: "Service list"
  st_ServiceAccounts :: "ServiceAccount list"
  st_ClusterRoles :: "ClusterRole list"
  st_ClusterRoleBindings :: "ClusterRoleBinding list"
  st_Secrets :: "Secret list"
  st_ConfigMaps :: "ConfigMap list"
  st_NetworkPolicies :: "NetworkPolicy list"

definition keyOf :: "ObjectMeta \<Rightarrow> string \<times> string" where
  "keyOf m = (om_Namespace m, om_Name m)"

text \<open>The empty namespace means all namespaces.\<close>

definition selects :: "string option \<Rightarrow> (string \<times> string) list \<Rightarrow> ObjectMeta \<Rightarrow> bool" where
  "selects ns ls m \<longleftrightarrow>
     (case ns of None \<Rightarrow> True | Some n \<Rightarrow> n = '''' \<or> om_Namespace m = n) \<and>
     list_all (\<lambda>(key, val). fmlookup (labelMap (om_Labels m)) key = Some val) ls"


fun isAPIErr :: "go_error \<Rightarrow> bool" where
  "isAPIErr (APIErr _) = True"
| "isAPIErr _ = False"

definition lookupKey :: "'o client_object \<Rightarrow> string \<times> string \<Rightarrow> 'o list \<Rightarrow> 'o option" where
  "lookupKey k key xs = find (\<lambda>x. keyOf (co_Meta k x) = key) xs"

definition replaceKey :: "'o client_object \<Rightarrow> 'o \<Rightarrow> 'o list \<Rightarrow> 'o list" where
  "replaceKey k y xs = map (\<lambda>x. if keyOf (co_Meta k x) = keyOf (co_Meta k y) then y else x) xs"

definition removeKey :: "'o client_object \<Rightarrow> string \<times> string \<Rightarrow> 'o list \<Rightarrow> 'o list" where
  "removeKey k key xs = filter (\<lambda>x. keyOf (co_Meta k x) \<noteq> key) xs"

text \<open>An object whose deletion was requested is gone once it has no finalizer left.\<close>

definition gone :: "ObjectMeta \<Rightarrow> bool" where
  "gone m \<longleftrightarrow> om_DeletionTimestamp m \<noteq> None \<and> om_Finalizers m = []"

definition settle :: "'o client_object \<Rightarrow> 'o \<Rightarrow> 'o list \<Rightarrow> 'o list" where
  "settle k y xs = (if gone (co_Meta k y) then removeKey k (keyOf (co_Meta k y)) xs
                    else replaceKey k y xs)"

text \<open>Create and update keep what the caller wrote of these fields.\<close>

definition sameWritten :: "ObjectMeta \<Rightarrow> ObjectMeta \<Rightarrow> bool" where
  "sameWritten x y \<longleftrightarrow> om_Namespace y = om_Namespace x \<and> om_Labels y = om_Labels x \<and>
     om_Finalizers y = om_Finalizers x \<and> om_OwnerReferences y = om_OwnerReferences x"

text \<open>Deleting removes an object without finalizers and marks one that has some.\<close>

definition deleteNow :: "'o client_object \<Rightarrow> 'o \<Rightarrow> time \<Rightarrow> 'o list \<Rightarrow> 'o list" where
  "deleteNow k old t xs =
     (if om_Finalizers (co_Meta k old) = [] then removeKey k (keyOf (co_Meta k old)) xs
      else replaceKey k (co_SetMeta k ((co_Meta k old)\<lparr>om_DeletionTimestamp := Some t\<rparr>) old) xs)"

section \<open>The documented behaviour of the API, for one kind of object\<close>

locale api_kind =
  fixes res :: "('o, 'w) resource"
    and k :: "'o client_object"
    and view :: "'w \<Rightarrow> Cluster"
    and sel :: "Cluster \<Rightarrow> 'o list"
    and put :: "'o list \<Rightarrow> Cluster \<Rightarrow> Cluster"
    and body :: "'o \<Rightarrow> 'b" \<comment> \<open>what \<open>Update\<close> writes besides the metadata\<close>
    and status :: "'o \<Rightarrow> 's" \<comment> \<open>what \<open>Status().Update\<close> writes\<close>
  assumes sel_put: "sel (put xs v) = xs"
    and list_view: "cl_List res ns ls w = (rl, w1) \<Longrightarrow> view w1 = view w"
    and list_ok: "cl_List res ns ls w = (Inr xs, w1) \<Longrightarrow>
           xs = filter (\<lambda>x. selects ns ls (co_Meta k x)) (sel (view w))"
    and list_err: "cl_List res ns ls w = (Inl e, w1) \<Longrightarrow> isAPIErr e"
    and get_view: "cl_Get res n nm w = (rg, w1) \<Longrightarrow> view w1 = view w"
    and get_ok: "cl_Get res n nm w = (Inr x, w1) \<Longrightarrow> lookupKey k (n, nm) (sel (view w)) = Some x"
    and get_err: "cl_Get res n nm w = (Inl e, w1) \<Longrightarrow>
           isAPIErr e \<and> (IsNotFound e \<longrightarrow> lookupKey k (n, nm) (sel (view w)) = None)"
    and create_ok: "cl_Create res x w = (Inr y, w1) \<Longrightarrow>
           view w1 = put (sel (view w) @ [y]) (view w) \<and> sameWritten (co_Meta k x) (co_Meta k y) \<and>
           lookupKey k (keyOf (co_Meta k y)) (sel (view w)) = None \<and>
           om_DeletionTimestamp (co_Meta k y) = None \<and> body y = body x"
    and create_err: "cl_Create res x w = (Inl e, w1) \<Longrightarrow> isAPIErr e \<and> view w1 = view w"
    and update_ok: "cl_Update res x w = (Inr y, w1) \<Longrightarrow>
           (\<exists>old. lookupKey k (keyOf (co_Meta k x)) (sel (view w)) = Some old \<and>
              view w1 = put (settle k y (sel (view w))) (view w) \<and>
              sameWritten (co_Meta k x) (co_Meta k y) \<and>
              om_Name (co_Meta k y) = om_Name (co_Meta k x) \<and>
              om_UID (co_Meta k y) = om_UID (co_Meta k old) \<and>
              om_DeletionTimestamp (co_Meta k y) = om_DeletionTimestamp (co_Meta k old) \<and>
              body y = body x \<and> status y = status old)"
    and update_err: "cl_Update res x w = (Inl e, w1) \<Longrightarrow> isAPIErr e \<and> view w1 = view w"
    and status_ok: "cl_StatusUpdate res x w = (Inr y, w1) \<Longrightarrow>
           (\<exists>old. lookupKey k (keyOf (co_Meta k x)) (sel (view w)) = Some old \<and>
              view w1 = put (replaceKey k y (sel (view w))) (view w) \<and>
              sameWritten (co_Meta k old) (co_Meta k y) \<and>
              om_Name (co_Meta k y) = om_Name (co_Meta k old) \<and>
              om_UID (co_Meta k y) = om_UID (co_Meta k old) \<and>
              om_DeletionTimestamp (co_Meta k y) = om_DeletionTimestamp (co_Meta k old) \<and>
              body y = body old \<and> status y = status x)"
    and status_err: "cl_StatusUpdate res x w = (Inl e, w1) \<Longrightarrow> isAPIErr e \<and> view w1 = view w"
    and delete_ok: "cl_Delete res x w = (Inr u, w1) \<Longrightarrow>
           (\<exists>old t. lookupKey k (keyOf (co_Meta k x)) (sel (view w)) = Some old \<and>
              view w1 = put (deleteNow k old t (sel (view w))) (view w))"
    and delete_err: "cl_Delete res x w = (Inl e, w1) \<Longrightarrow> isAPIErr e \<and> view w1 = view w \<and>
           (IsNotFound e \<longrightarrow> lookupKey k (keyOf (co_Meta k x)) (sel (view w)) = None)"
begin

lemma wp_List:
  assumes "\<And>w1. view w1 = view w \<Longrightarrow>
      Q (Inr (filter (\<lambda>x. selects ns ls (co_Meta k x)) (sel (view w)))) w1"
    and "\<And>e w1. isAPIErr e \<Longrightarrow> view w1 = view w \<Longrightarrow> Q (Inl e) w1"
  shows "wpA (cl_List res ns ls) Q w"
proof (cases "cl_List res ns ls w")
  case (Pair r w1)
  then show ?thesis
    using assms list_view [OF Pair] list_ok [of ns ls w _ w1] list_err [of ns ls w _ w1]
    by (cases r) (auto simp: wpA_def)
qed

lemma wp_Get:
  assumes "\<And>x w1. lookupKey k (n, nm) (sel (view w)) = Some x \<Longrightarrow> view w1 = view w \<Longrightarrow> Q (Inr x) w1"
    and "\<And>e w1. isAPIErr e \<Longrightarrow> (IsNotFound e \<Longrightarrow> lookupKey k (n, nm) (sel (view w)) = None) \<Longrightarrow>
      view w1 = view w \<Longrightarrow> Q (Inl e) w1"
  shows "wpA (cl_Get res n nm) Q w"
proof (cases "cl_Get res n nm w")
  case (Pair r w1)
  then show ?thesis
    using assms get_view [OF Pair] get_ok [of n nm w _ w1] get_err [of n nm w _ w1]
    by (cases r) (auto simp: wpA_def)
qed

end

lemma lookupKey_Some: "lookupKey k key xs = Some x \<Longrightarrow> x \<in> set xs \<and> keyOf (co_Meta k x) = key"
  by (auto simp: lookupKey_def find_Some_iff)

lemma lookupKey_None: "lookupKey k key xs = None \<longleftrightarrow> (\<forall>x \<in> set xs. keyOf (co_Meta k x) \<noteq> key)"
  by (auto simp: lookupKey_def find_None_iff)

lemma isAPIErr_not_panic [simp]: "isAPIErr e \<Longrightarrow> \<not> isPanic e"
  by (cases e) auto

lemma set_removeKey: "set (removeKey k key xs) = {x \<in> set xs. keyOf (co_Meta k x) \<noteq> key}"
  by (auto simp: removeKey_def)

section \<open>An API server in memory\<close>

datatype Fault = FailConflict string | FailOther string

record Sim =
  sim_Cluster :: Cluster
  sim_Clock :: nat \<comment> \<open>source of resource versions, UIDs and generated names\<close>
  sim_Faults :: "Fault option list" \<comment> \<open>what the next calls answer; afterwards none fails\<close>

fun faultError :: "Fault \<Rightarrow> api_error" where
  "faultError (FailConflict s) = Conflict s"
| "faultError (FailOther s) = OtherAPIError s"

definition apiCall :: "('a, Sim) action \<Rightarrow> ('a, Sim) action" where
  "apiCall f w =
     (case sim_Faults w of
        [] \<Rightarrow> f w
      | flt # rest \<Rightarrow>
          (case flt of
             None \<Rightarrow> f (w\<lparr>sim_Faults := rest\<rparr>)
           | Some x \<Rightarrow> (Inl (APIErr (faultError x)), w\<lparr>sim_Faults := rest\<rparr>)))"

definition commit :: "Cluster \<Rightarrow> Sim \<Rightarrow> Sim" where
  "commit v w = w\<lparr>sim_Cluster := v, sim_Clock := Suc (sim_Clock w)\<rparr>"

definition notFound :: "string \<Rightarrow> go_error" where
  "notFound nm = APIErr (NotFound (nm @ '' not found''))"

definition memList ::
  "'o client_object \<Rightarrow> (Cluster \<Rightarrow> 'o list) \<Rightarrow> string option \<Rightarrow> (string \<times> string) list
    \<Rightarrow> ('o list, Sim) action" where
  "memList k sel ns ls = apiCall (\<lambda>w.
     (Inr (filter (\<lambda>x. selects ns ls (co_Meta k x)) (sel (sim_Cluster w))), w))"

definition memGet ::
  "'o client_object \<Rightarrow> (Cluster \<Rightarrow> 'o list) \<Rightarrow> string \<Rightarrow> string \<Rightarrow> ('o, Sim) action" where
  "memGet k sel ns nm = apiCall (\<lambda>w.
     (case lookupKey k (ns, nm) (sel (sim_Cluster w)) of
        None \<Rightarrow> (Inl (notFound nm), w)
      | Some x \<Rightarrow> (Inr x, w)))"

definition memCreate ::
  "'o client_object \<Rightarrow> (Cluster \<Rightarrow> 'o list) \<Rightarrow> ('o list \<Rightarrow> Cluster \<Rightarrow> Cluster) \<Rightarrow> ('o \<Rightarrow> 'o)
    \<Rightarrow> 'o \<Rightarrow> ('o, Sim) action" where
  "memCreate k sel put admit x = apiCall (\<lambda>w.
     (let m = co_Meta k x;
          serial = digits (sim_Clock w);
          m = m\<lparr>om_Name := (if om_Name m = '''' then om_GenerateName m @ serial else om_Name m),
                om_UID := ''uid-'' @ serial, om_ResourceVersion := Suc (sim_Clock w),
                om_Generation := 1, om_DeletionTimestamp := None\<rparr>;
          y = co_SetMeta k m (admit x)
      in case lookupKey k (keyOf m) (sel (sim_Cluster w)) of
           Some _ \<Rightarrow> (Inl (APIErr (OtherAPIError (om_Name m @ '' already exists''))), w)
         | None \<Rightarrow> (Inr y, commit (put (sel (sim_Cluster w) @ [y]) (sim_Cluster w)) w)))"

text \<open>The optimistic lock: a resource version that is sent must be the stored one.\<close>

definition stale :: "ObjectMeta \<Rightarrow> ObjectMeta \<Rightarrow> bool" where
  "stale m old \<longleftrightarrow> om_ResourceVersion m \<noteq> 0 \<and> om_ResourceVersion m \<noteq> om_ResourceVersion old"

definition staleError :: go_error where
  "staleError = APIErr (Conflict ''the object has been modified'')"

definition memUpdate ::
  "'o client_object \<Rightarrow> (Cluster \<Rightarrow> 'o list) \<Rightarrow> ('o list \<Rightarrow> Cluster \<Rightarrow> Cluster)
    \<Rightarrow> ('o \<Rightarrow> 'o \<Rightarrow> 'o) \<Rightarrow> 'o \<Rightarrow> ('o, Sim) action" where
  "memUpdate k sel put merge x = apiCall (\<lambda>w.
     (let m = co_Meta k x
      in case lookupKey k (keyOf m) (sel (sim_Cluster w)) of
           None \<Rightarrow> (Inl (notFound (om_Name m)), w)
         | Some old \<Rightarrow>
             if stale m (co_Meta k old) then (Inl staleError, w)
             else (let y = co_SetMeta k (m\<lparr>om_UID := om_UID (co_Meta k old),
                             om_ResourceVersion := Suc (sim_Clock w),
                             om_DeletionTimestamp := om_DeletionTimestamp (co_Meta k old)\<rparr>)
                           (merge x old)
                   in (Inr y, commit (put (settle k y (sel (sim_Cluster w))) (sim_Cluster w)) w))))"

definition memStatusUpdate ::
  "'o client_object \<Rightarrow> (Cluster \<Rightarrow> 'o list) \<Rightarrow> ('o list \<Rightarrow> Cluster \<Rightarrow> Cluster)
    \<Rightarrow> ('o \<Rightarrow> 'o \<Rightarrow> 'o) \<Rightarrow> 'o \<Rightarrow> ('o, Sim) action" where
  "memStatusUpdate k sel put mergeStatus x = apiCall (\<lambda>w.
     (let m = co_Meta k x
      in case lookupKey k (keyOf m) (sel (sim_Cluster w)) of
           None \<Rightarrow> (Inl (notFound (om_Name m)), w)
         | Some old \<Rightarrow>
             if stale m (co_Meta k old) then (Inl staleError, w)
             else (let y = co_SetMeta k ((co_Meta k old)\<lparr>om_ResourceVersion := Suc (sim_Clock w)\<rparr>)
                           (mergeStatus x old)
                   in (Inr y, commit (put (replaceKey k y (sel (sim_Cluster w))) (sim_Cluster w)) w))))"

definition memDelete ::
  "'o client_object \<Rightarrow> (Cluster \<Rightarrow> 'o list) \<Rightarrow> ('o list \<Rightarrow> Cluster \<Rightarrow> Cluster) \<Rightarrow> 'o
    \<Rightarrow> (unit, Sim) action" where
  "memDelete k sel put x = apiCall (\<lambda>w.
     (let key = keyOf (co_Meta k x)
      in case lookupKey k key (sel (sim_Cluster w)) of
           None \<Rightarrow> (Inl (notFound (snd key)), w)
         | Some old \<Rightarrow>
             (Inr (), commit (put (deleteNow k old (int (sim_Clock w)) (sel (sim_Cluster w)))
                        (sim_Cluster w)) w)))"

text \<open>
  A kind is given by its accessor in the cluster, what admission does to a created object,
  and how an update and a status update combine the written with the stored object.
\<close>

definition memResource ::
  "'o client_object \<Rightarrow> (Cluster \<Rightarrow> 'o list) \<Rightarrow> ('o list \<Rightarrow> Cluster \<Rightarrow> Cluster) \<Rightarrow> ('o \<Rightarrow> 'o)
    \<Rightarrow> ('o \<Rightarrow> 'o \<Rightarrow> 'o) \<Rightarrow> ('o \<Rightarrow> 'o \<Rightarrow> 'o) \<Rightarrow> ('o, Sim) resource" where
  "memResource k sel put admit merge mergeStatus =
     \<lparr>cl_Get = memGet k sel, cl_List = memList k sel, cl_Create = memCreate k sel put admit,
      cl_Update = memUpdate k sel put merge,
      cl_StatusUpdate = memStatusUpdate k sel put mergeStatus,
      cl_Delete = memDelete k sel put\<rparr>"

lemmas mem_defs = memGet_def memList_def memCreate_def memUpdate_def memStatusUpdate_def
  memDelete_def

lemma apiCall_cases:
  "apiCall f w = (r, w1) \<Longrightarrow>
   (\<exists>x. r = Inl (APIErr (faultError x)) \<and> sim_Cluster w1 = sim_Cluster w) \<or>
   (\<exists>w0. sim_Cluster w0 = sim_Cluster w \<and> f w0 = (r, w1))"
  by (fastforce simp: apiCall_def split: list.splits option.splits)

lemma faultError_not_NotFound [simp]: "\<not> IsNotFound (APIErr (faultError x))"
  by (cases x) auto

lemma commit_simps [simp]: "sim_Cluster (commit v w) = v"
  by (simp add: commit_def)

lemma notFound_simps [simp]: "isAPIErr (notFound nm)" "IsNotFound (notFound nm)"
  by (simp_all add: notFound_def)

lemma staleError_simps [simp]: "isAPIErr staleError" "\<not> IsNotFound staleError" "IsConflict staleError"
  by (simp_all add: staleError_def)

text \<open>Reads need nothing of the kind; each write is followed through \<open>apiCall\<close> on its own.\<close>

lemma memResource_reads:
  fixes k sel put admit merge mergeStatus
  defines "res \<equiv> memResource k sel put admit merge mergeStatus"
  shows "cl_List res ns ls w = (rl, w1) \<Longrightarrow> sim_Cluster w1 = sim_Cluster w \<and> (case rl of Inl e \<Rightarrow> isAPIErr e
      | Inr xs \<Rightarrow> xs = filter (\<lambda>x. selects ns ls (co_Meta k x)) (sel (sim_Cluster w)))"
    and "cl_Get res n nm w = (rg, w1) \<Longrightarrow> sim_Cluster w1 = sim_Cluster w \<and> (case rg of
        Inl e \<Rightarrow> isAPIErr e \<and> (IsNotFound e \<longrightarrow> lookupKey k (n, nm) (sel (sim_Cluster w)) = None)
      | Inr x \<Rightarrow> lookupKey k (n, nm) (sel (sim_Cluster w)) = Some x)"
  by (auto simp: res_def memResource_def memList_def memGet_def dest!: apiCall_cases split: option.splits)

lemma memCreate_writes:
  assumes "object_kind k" and "\<And>m x. body (co_SetMeta k m (admit x)) = body x"
    and "cl_Create (memResource k sel put admit merge mergeStatus) x w = (r, w1)"
  shows "case r of Inr y \<Rightarrow>
      sim_Cluster w1 = put (sel (sim_Cluster w) @ [y]) (sim_Cluster w) \<and>
      sameWritten (co_Meta k x) (co_Meta k y) \<and>
      lookupKey k (keyOf (co_Meta k y)) (sel (sim_Cluster w)) = None \<and>
      om_DeletionTimestamp (co_Meta k y) = None \<and> body y = body x
    | Inl e \<Rightarrow> isAPIErr e \<and> sim_Cluster w1 = sim_Cluster w"
  using assms(3) object_kind.meta_set [OF assms(1)]
  by (auto simp: memResource_def memCreate_def Let_def assms(2) sameWritten_def keyOf_def
      dest!: apiCall_cases split: option.splits)

lemma memUpdate_writes:
  assumes "object_kind k" and merge: "\<And>m x y. body (co_SetMeta k m (merge x y)) = body x \<and>
      status (co_SetMeta k m (merge x y)) = status y"
    and "cl_Update (memResource k sel put admit merge mergeStatus) x w = (r, w1)"
  shows "case r of Inr y \<Rightarrow> \<exists>old. lookupKey k (keyOf (co_Meta k x)) (sel (sim_Cluster w)) = Some old \<and>
      sim_Cluster w1 = put (settle k y (sel (sim_Cluster w))) (sim_Cluster w) \<and>
      sameWritten (co_Meta k x) (co_Meta k y) \<and> om_Name (co_Meta k y) = om_Name (co_Meta k x) \<and>
      om_UID (co_Meta k y) = om_UID (co_Meta k old) \<and>
      om_DeletionTimestamp (co_Meta k y) = om_DeletionTimestamp (co_Meta k old) \<and>
      body y = body x \<and> status y = status old
    | Inl e \<Rightarrow> isAPIErr e \<and> sim_Cluster w1 = sim_Cluster w"
  using assms(3) object_kind.meta_set [OF assms(1)]
  by (auto simp: memResource_def memUpdate_def Let_def merge sameWritten_def
      dest!: apiCall_cases split: option.splits if_splits)

lemma memStatusUpdate_writes:
  assumes "object_kind k" and merge: "\<And>m x y. body (co_SetMeta k m (mergeStatus x y)) = body y \<and>
      status (co_SetMeta k m (mergeStatus x y)) = status x"
    and "cl_StatusUpdate (memResource k sel put admit merge mergeStatus) x w = (r, w1)"
  shows "case r of Inr y \<Rightarrow> \<exists>old. lookupKey k (keyOf (co_Meta k x)) (sel (sim_Cluster w)) = Some old \<and>
      sim_Cluster w1 = put (replaceKey k y (sel (sim_Cluster w))) (sim_Cluster w) \<and>
      sameWritten (co_Meta k old) (co_Meta k y) \<and> om_Name (co_Meta k y) = om_Name (co_Meta k old) \<and>
      om_UID (co_Meta k y) = om_UID (co_Meta k old) \<and>
      om_DeletionTimestamp (co_Meta k y) = om_DeletionTimestamp (co_Meta k old) \<and>
      body y = body old \<and> status y = status x
    | Inl e \<Rightarrow> isAPIErr e \<and> sim_Cluster w1 = sim_Cluster w"
  using assms(3) object_kind.meta_set [OF assms(1)]
  by (auto simp: memResource_def memStatusUpdate_def Let_def merge sameWritten_def
      dest!: apiCall_cases split: option.splits if_splits)

lemma memDelete_writes:
  assumes "cl_Delete (memResource k sel put admit merge mergeStatus) x w = (r, w1)"
  shows "case r of Inr u \<Rightarrow> \<exists>old t. lookupKey k (keyOf (co_Meta k x)) (sel (sim_Cluster w)) = Some old \<and>
      sim_Cluster w1 = put (deleteNow k old t (sel (sim_Cluster w))) (sim_Cluster w)
    | Inl e \<Rightarrow> isAPIErr e \<and> sim_Cluster w1 = sim_Cluster w \<and>
        (IsNotFound e \<longrightarrow> lookupKey k (keyOf (co_Meta k x)) (sel (sim_Cluster w)) = None)"
  using assms
  by (auto simp: memResource_def memDelete_def Let_def dest!: apiCall_cases split: option.splits) blast

lemma memResource_api_kind:
  assumes "object_kind k" and sel: "\<And>xs v. sel (put xs v) = xs"
    and admit: "\<And>m x. body (co_SetMeta k m (admit x)) = body x"
    and merge: "\<And>m x y. body (co_SetMeta k m (merge x y)) = body x \<and>
      status (co_SetMeta k m (merge x y)) = status y"
    and mergeStatus: "\<And>m x y. body (co_SetMeta k m (mergeStatus x y)) = body y \<and>
      status (co_SetMeta k m (mergeStatus x y)) = status x"
  shows "api_kind (memResource k sel put admit merge mergeStatus) k sim_Cluster sel put body status"
  by unfold_locales
    (use sel in \<open>auto dest: memResource_reads memCreate_writes [OF assms(1) admit]
       memUpdate_writes [OF assms(1) merge] memStatusUpdate_writes [OF assms(1) mergeStatus] memDelete_writes\<close>)

section \<open>The kinds of the in-memory API server\<close>

definition memControlPlanes :: "(ControlPlane, Sim) resource" where
  "memControlPlanes = memResource ControlPlaneObj st_ControlPlanes
     (\<lambda>xs v. v\<lparr>st_ControlPlanes := xs\<rparr>) (\<lambda>x. x)
     (\<lambda>new old. new\<lparr>cp_Status := cp_Status old\<rparr>) (\<lambda>new old. old\<lparr>cp_Status := cp_Status new\<rparr>)"

definition memDataPlanes :: "(DataPlane, Sim) resource" where
  "memDataPlanes = memResource DataPlaneObj st_DataPlanes
     (\<lambda>xs v. v\<lparr>st_DataPlanes := xs\<rparr>) (\<lambda>x. x)
     (\<lambda>new old. new\<lparr>dp_Status := dp_Status old\<rparr>) (\<lambda>new old. old\<lparr>dp_Status := dp_Status new\<rparr>)"

definition depStatus :: "Deployment \<Rightarrow> int \<times> int" where
  "depStatus d = (dep_StatusReplicas d, dep_StatusAvailableReplicas d)"

definition withDepStatus :: "Deployment \<Rightarrow> Deployment \<Rightarrow> Deployment" where
  "withDepStatus d s = d\<lparr>dep_StatusReplicas := dep_StatusReplicas s,
     dep_StatusAvailableReplicas := dep_StatusAvailableReplicas s\<rparr>"

text \<open>
  What is kept of a written deployment and a written service: the server sets what it has a
  default for, one replica, and for the target port of a service the port.
\<close>

definition depBody :: "Deployment \<Rightarrow> DeploymentSpec" where
  "depBody d = (dep_Spec d)\<lparr>ds_Replicas := Some (case ds_Replicas (dep_Spec d) of None \<Rightarrow> 1 | Some n \<Rightarrow> n)\<rparr>"

definition defaultedPort :: "ServicePort \<Rightarrow> ServicePort" where
  "defaultedPort p = p\<lparr>sp_TargetPort := if sp_TargetPort p = 0 then sp_Port p else sp_TargetPort p\<rparr>"

definition defaultedPorts :: "Service \<Rightarrow> Service" where
  "defaultedPorts s = s\<lparr>svc_Ports := map defaultedPort (svc_Ports s)\<rparr>"

definition svcBody :: "Service \<Rightarrow> Service" where
  "svcBody s = (defaultedPorts s)\<lparr>svc_Meta := emptyMeta\<rparr>"

definition defaultedReplicas :: "Deployment \<Rightarrow> Deployment" where
  "defaultedReplicas d = d\<lparr>dep_Spec := depBody d\<rparr>"

lemma defaultedPort_idem [simp]: "defaultedPort (defaultedPort p) = defaultedPort p"
  by (simp add: defaultedPort_def)

definition memDeployments :: "(Deployment, Sim) resource" where
  "memDeployments = memResource DeploymentObj st_Deployments
     (\<lambda>xs v. v\<lparr>st_Deployments := xs\<rparr>) defaultedReplicas
     (\<lambda>new old. withDepStatus (defaultedReplicas new) old) (\<lambda>new old. withDepStatus old new)"

definition memServices :: "(Service, Sim) resource" where
  "memServices = memResource ServiceObj st_Services
     (\<lambda>xs v. v\<lparr>st_Services := xs\<rparr>) defaultedPorts (\<lambda>new old. defaultedPorts new) (\<lambda>new old. old)"

definition memServiceAccounts :: "(ServiceAccount, Sim) resource" where
  "memServiceAccounts = memResource ServiceAccountObj st_ServiceAccounts
     (\<lambda>xs v. v\<lparr>st_ServiceAccounts := xs\<rparr>) (\<lambda>x. x) (\<lambda>new old. new) (\<lambda>new old. old)"

definition memClusterRoles :: "(ClusterRole, Sim) resource" where
  "memClusterRoles = memResource ClusterRoleObj st_ClusterRoles
     (\<lambda>xs v. v\<lparr>st_ClusterRoles := xs\<rparr>) (\<lambda>x. x) (\<lambda>new old. new) (\<lambda>new old. old)"

definition memClusterRoleBindings :: "(ClusterRoleBinding, Sim) resource" where
  "memClusterRoleBindings = memResource ClusterRoleBindingObj st_ClusterRoleBindings
     (\<lambda>xs v. v\<lparr>st_ClusterRoleBindings := xs\<rparr>) (\<lambda>x. x) (\<lambda>new old. new) (\<lambda>new old. old)"

text \<open>A Secret's write-only \<open>StringData\<close> is merged into its \<open>Data\<close> when it is stored.\<close>

definition admitSecret :: "Secret \<Rightarrow> Secret" where
  "admitSecret s = (case sec_StringData s of
       None \<Rightarrow> s
     | Some sd \<Rightarrow> s\<lparr>sec_Data := Some (fmadd (labelMap (sec_Data s)) sd), sec_StringData := None\<rparr>)"

definition memSecrets :: "(Secret, Sim) resource" where
  "memSecrets = memResource SecretObj st_Secrets
     (\<lambda>xs v. v\<lparr>st_Secrets := xs\<rparr>) admitSecret (\<lambda>new old. admitSecret new) (\<lambda>new old. old)"

definition memConfigMaps :: "(ConfigMap, Sim) resource" where
  "memConfigMaps = memResource ConfigMapObj st_ConfigMaps
     (\<lambda>xs v. v\<lparr>st_ConfigMaps := xs\<rparr>) (\<lambda>x. x) (\<lambda>new old. new) (\<lambda>new old. old)"

definition memNetworkPolicies :: "(NetworkPolicy, Sim) resource" where
  "memNetworkPolicies = memResource NetworkPolicyObj st_NetworkPolicies
     (\<lambda>xs v. v\<lparr>st_NetworkPolicies := xs\<rparr>) (\<lambda>x. x) (\<lambda>new old. new) (\<lambda>new old. old)"

definition memClient :: "Sim Client" where
  "memClient =
     \<lparr>cl_ControlPlanes = memControlPlanes, cl_DataPlanes = memDataPlanes,
      cl_Deployments = memDeployments, cl_Services = memServices,
      cl_ServiceAccounts = memServiceAccounts, cl_ClusterRoles = memClusterRoles,
      cl_ClusterRoleBindings = memClusterRoleBindings, cl_Secrets = memSecrets,
      cl_ConfigMaps = memConfigMaps, cl_NetworkPolicies = memNetworkPolicies\<rparr>"

lemma memClient_sel [simp]:
  "cl_ControlPlanes memClient = memControlPlanes" "cl_DataPlanes memClient = memDataPlanes"
  "cl_Deployments memClient = memDeployments" "cl_Services memClient = memServices"
  "cl_ServiceAccounts memClient = memServiceAccounts" "cl_ClusterRoles memClient = memClusterRoles"
  "cl_ClusterRoleBindings memClient = memClusterRoleBindings" "cl_Secrets memClient = memSecrets"
  "cl_ConfigMaps memClient = memConfigMaps" "cl_NetworkPolicies memClient = memNetworkPolicies"
  by (simp_all add: memClient_def)

definition cpBody :: "ControlPlane \<Rightarrow> GVK \<times> ControlPlaneSpec" where
  "cpBody c = (cp_TypeMeta c, cp_Spec c)"

definition dpBody :: "DataPlane \<Rightarrow> GVK \<times> DataPlaneSpec" where
  "dpBody d = (dp_TypeMeta d, dp_Spec d)"

interpretation mem_cp: api_kind memControlPlanes ControlPlaneObj sim_Cluster st_ControlPlanes
    "\<lambda>xs v. v\<lparr>st_ControlPlanes := xs\<rparr>" cpBody cp_Status
  unfolding memControlPlanes_def
  by (rule memResource_api_kind [OF controlplane.object_kind_axioms]) (simp_all add: cpBody_def)

interpretation mem_dp: api_kind memDataPlanes DataPlaneObj sim_Cluster st_DataPlanes
    "\<lambda>xs v. v\<lparr>st_DataPlanes := xs\<rparr>" dpBody dp_Status
  unfolding memDataPlanes_def
  by (rule memResource_api_kind [OF dataplane.object_kind_axioms]) (simp_all add: dpBody_def)

interpretation mem_dep: api_kind memDeployments DeploymentObj sim_Cluster st_Deployments
    "\<lambda>xs v. v\<lparr>st_Deployments := xs\<rparr>" depBody depStatus
  unfolding memDeployments_def
  by (rule memResource_api_kind [OF deployment.object_kind_axioms])
    (simp_all add: depStatus_def withDepStatus_def depBody_def defaultedReplicas_def split: option.split)

interpretation mem_svc: api_kind memServices ServiceObj sim_Cluster st_Services
    "\<lambda>xs v. v\<lparr>st_Services := xs\<rparr>" svcBody "\<lambda>_. ()"
  unfolding memServices_def
  by (rule memResource_api_kind [OF service.object_kind_axioms]) (simp_all add: svcBody_def defaultedPorts_def comp_def)

interpretation mem_sa: api_kind memServiceAccounts ServiceAccountObj sim_Cluster st_ServiceAccounts
    "\<lambda>xs v. v\<lparr>st_ServiceAccounts := xs\<rparr>" "\<lambda>s. s\<lparr>sa_Meta := emptyMeta\<rparr>" "\<lambda>_. ()"
  unfolding memServiceAccounts_def
  by (rule memResource_api_kind [OF serviceaccount.object_kind_axioms]) simp_all

interpretation mem_cr: api_kind memClusterRoles ClusterRoleObj sim_Cluster st_ClusterRoles
    "\<lambda>xs v. v\<lparr>st_ClusterRoles := xs\<rparr>" "\<lambda>s. s\<lparr>cr_Meta := emptyMeta\<rparr>" "\<lambda>_. ()"
  unfolding memClusterRoles_def
  by (rule memResource_api_kind [OF clusterrole.object_kind_axioms]) simp_all

interpretation mem_crb: api_kind memClusterRoleBindings ClusterRoleBindingObj sim_Cluster
    st_ClusterRoleBindings "\<lambda>xs v. v\<lparr>st_ClusterRoleBindings := xs\<rparr>"
    "\<lambda>s. s\<lparr>crb_Meta := emptyMeta\<rparr>" "\<lambda>_. ()"
  unfolding memClusterRoleBindings_def
  by (rule memResource_api_kind [OF clusterrolebinding.object_kind_axioms]) simp_all

interpretation mem_sec: api_kind memSecrets SecretObj sim_Cluster st_Secrets
    "\<lambda>xs v. v\<lparr>st_Secrets := xs\<rparr>" sec_Type "\<lambda>_. ()"
  unfolding memSecrets_def
  by (rule memResource_api_kind [OF secret.object_kind_axioms])
    (simp_all add: admitSecret_def split: option.splits)

interpretation mem_cm: api_kind memConfigMaps ConfigMapObj sim_Cluster st_ConfigMaps
    "\<lambda>xs v. v\<lparr>st_ConfigMaps := xs\<rparr>" "\<lambda>s. s\<lparr>cm_Meta := emptyMeta\<rparr>" "\<lambda>_. ()"
  unfolding memConfigMaps_def
  by (rule memResource_api_kind [OF configmap.object_kind_axioms])
    (simp_all add: object_defs)

interpretation mem_np: api_kind memNetworkPolicies NetworkPolicyObj sim_Cluster st_NetworkPolicies
    "\<lambda>xs v. v\<lparr>st_NetworkPolicies := xs\<rparr>" "\<lambda>s. s\<lparr>np_Meta := emptyMeta\<rparr>" "\<lambda>_. ()"
  unfolding memNetworkPolicies_def
  by (rule memResource_api_kind [OF networkpolicy.object_kind_axioms])
    (simp_all add: object_defs)

definition emptyCluster :: Cluster where
  "emptyCluster = \<lparr>st_ControlPlanes = [], st_DataPlanes = [], st_Deployments = [],
     st_Services = [], st_ServiceAccounts = [], st_ClusterRoles = [],
     st_ClusterRoleBindings = [], st_Secrets = [], st_ConfigMaps = [], st_NetworkPolicies = []\<rparr>"

definition quiet :: "Cluster \<Rightarrow> Sim" where
  "quiet v = \<lparr>sim_Cluster = v, sim_Clock = 1, sim_Faults = []\<rparr>"

end
