(* ===== verification/Lists.thy ===== *)
theory Lists
  imports Client
begin

text \<open>
  Listing the objects a resource owns (\<open>internal/utils/kubernetes/lists.go\<close>): a list by the
  managed-by label, and by namespace for the namespaced kinds, reduced to the objects with an
  owner reference to the UID.
\<close>

section \<open>Operations\<close>

text \<open>
  Deployments and services are reduced with \<open>IsOwnedByRefUID\<close>, the other kinds with the same
  loop written out (append at the first reference with the UID, then \<open>break\<close>).
\<close>

definition ListDeploymentsForOwner ::
  "'w Client \<Rightarrow> string \<Rightarrow> string \<Rightarrow> string \<Rightarrow> string \<Rightarrow> (Deployment list, 'w) action" where
  "ListDeploymentsForOwner c requiredLabel requiredValue namespace uid =
     bindA (cl_List (cl_Deployments c) (Some namespace) [(requiredLabel, requiredValue)])
       (\<lambda>deploymentList. retA (filter (\<lambda>deployment. IsOwnedByRefUID (dep_Meta deployment) uid) deploymentList))"

definition ListServicesForOwner ::
  "'w Client \<Rightarrow> string \<Rightarrow> string \<Rightarrow> string \<Rightarrow> string \<Rightarrow> (Service list, 'w) action" where
  "ListServicesForOwner c requiredLabel requiredValue namespace uid =
     bindA (cl_List (cl_Services c) (Some namespace) [(requiredLabel, requiredValue)])
       (\<lambda>serviceList. retA (filter (\<lambda>service. IsOwnedByRefUID (svc_Meta service) uid) serviceList))"

definition ListServiceAccountsForOwner ::
  "'w Client \<Rightarrow> string \<Rightarrow> string \<Rightarrow> string \<Rightarrow> string \<Rightarrow> (ServiceAccount list, 'w) action" where
  "ListServiceAccountsForOwner c requiredLabel requiredValue namespace uid =
     bindA (cl_List (cl_ServiceAccounts c) (Some namespace) [(requiredLabel, requiredValue)])
       (\<lambda>serviceAccountList. retA (filter
          (\<lambda>serviceAccount. refWithUID uid (items (om_OwnerReferences (sa_Meta serviceAccount))))
          serviceAccountList))"

definition ListClusterRolesForOwner ::
  "'w Client \<Rightarrow> string \<Rightarrow> string \<Rightarrow> string \<Rightarrow> (ClusterRole list, 'w) action" where
  "ListClusterRolesForOwner c requiredLabel requiredValue uid =
     bindA (cl_List (cl_ClusterRoles c) None [(requiredLabel, requiredValue)])
       (\<lambda>clusterRoleList. retA (filter
          (\<lambda>clusterRole. refWithUID uid (items (om_OwnerReferences (cr_Meta clusterRole))))
          clusterRoleList))"

definition ListClusterRoleBindingsForOwner ::
  "'w Client \<Rightarrow> string \<Rightarrow> string \<Rightarrow> string \<Rightarrow> (ClusterRoleBinding list, 'w) action" where
  "ListClusterRoleBindingsForOwner c requiredLabel requiredValue uid =
     bindA (cl_List (cl_ClusterRoleBindings c) None [(requiredLabel, requiredValue)])
       (\<lambda>clusterRoleBindingList. retA (filter
          (\<lambda>clusterRoleBinding. refWithUID uid (items (om_OwnerReferences (crb_Meta clusterRoleBinding))))
          clusterRoleBindingList))"

definition ListSecretsForOwner ::
  "'w Client \<Rightarrow> string \<Rightarrow> string \<Rightarrow> string \<Rightarrow> (Secret list, 'w) action" where
  "ListSecretsForOwner c requiredLabel requiredValue uid =
     bindA (cl_List (cl_Secrets c) None [(requiredLabel, requiredValue)])
       (\<lambda>secretList. retA (filter
          (\<lambda>secret. refWithUID uid (items (om_OwnerReferences (sec_Meta secret)))) secretList))"

lemmas list_defs = ListDeploymentsForOwner_def ListServicesForOwner_def
  ListServiceAccountsForOwner_def ListClusterRolesForOwner_def
  ListClusterRoleBindingsForOwner_def ListSecretsForOwner_def

section \<open>What they return\<close>

definition ownedObjects ::
  "'o client_object \<Rightarrow> string option \<Rightarrow> string \<Rightarrow> string \<Rightarrow> string \<Rightarrow> 'o list \<Rightarrow> 'o list" where
  "ownedObjects k ns label val uid xs =
     filter (\<lambda>x. selects ns [(label, val)] (co_Meta k x) \<and> IsOwnedByRefUID (co_Meta k x) uid) xs"

lemma ownedObjects_subset: "x \<in> set (ownedObjects k ns label val uid xs) \<Longrightarrow> x \<in> set xs"
  by (simp add: ownedObjects_def)

lemma ownedObjects_labelled:
  "x \<in> set (ownedObjects k ns label val uid xs) \<Longrightarrow> om_Labels (co_Meta k x) \<noteq> None"
  by (cases "om_Labels (co_Meta k x)") (auto simp: ownedObjects_def selects_def)

lemma ownedObjects_removeKey:
  "ownedObjects k ns label val uid (removeKey k key xs) =
   removeKey k key (ownedObjects k ns label val uid xs)"
  by (auto simp: ownedObjects_def removeKey_def intro: filter_cong)

lemma ownedObjects_append:
  "ownedObjects k ns label val uid (xs @ ys) =
   ownedObjects k ns label val uid xs @ ownedObjects k ns label val uid ys"
  by (simp add: ownedObjects_def)

definition listOwned ::
  "('o, 'w) resource \<Rightarrow> 'o client_object \<Rightarrow> string option \<Rightarrow> string \<Rightarrow> string \<Rightarrow> string
    \<Rightarrow> ('o list, 'w) action" where
  "listOwned res k ns label val uid =
     bindA (cl_List res ns [(label, val)])
       (\<lambda>l. retA (filter (\<lambda>x. IsOwnedByRefUID (co_Meta k x) uid) l))"

lemma list_as_listOwned:
  "ListDeploymentsForOwner c l v ns uid = listOwned (cl_Deployments c) DeploymentObj (Some ns) l v uid"
  "ListServicesForOwner c l v ns uid = listOwned (cl_Services c) ServiceObj (Some ns) l v uid"
  "ListServiceAccountsForOwner c l v ns uid =
     listOwned (cl_ServiceAccounts c) ServiceAccountObj (Some ns) l v uid"
  "ListClusterRolesForOwner c l v uid = listOwned (cl_ClusterRoles c) ClusterRoleObj None l v uid"
  "ListClusterRoleBindingsForOwner c l v uid =
     listOwned (cl_ClusterRoleBindings c) ClusterRoleBindingObj None l v uid"
  "ListSecretsForOwner c l v uid = listOwned (cl_Secrets c) SecretObj None l v uid"
  by (simp_all add: list_defs listOwned_def IsOwnedByRefUID_def)

context api_kind
begin

lemma wp_listOwned:
  assumes "\<And>w1. view w1 = view w \<Longrightarrow> Q (Inr (ownedObjects k ns label val uid (sel (view w)))) w1"
    and "\<And>e w1. isAPIErr e \<Longrightarrow> view w1 = view w \<Longrightarrow> Q (Inl e) w1"
  shows "wpA (listOwned res k ns label val uid) Q w"
  unfolding listOwned_def wp
  by (rule wp_List) (use assms in \<open>auto simp: wp ownedObjects_def conj_commute\<close>)

lemma listOwned_run:
  assumes "listOwned res k ns label val uid w = (r, w1)"
  shows "view w1 = view w"
    and "r = Inr xs \<Longrightarrow> xs = ownedObjects k ns label val uid (sel (view w))"
    and "r = Inl e \<Longrightarrow> isAPIErr e"
proof -
  have "wpA (listOwned res k ns label val uid) (\<lambda>r w1. view w1 = view w \<and>
      (case r of Inr xs \<Rightarrow> xs = ownedObjects k ns label val uid (sel (view w)) | Inl e \<Rightarrow> isAPIErr e)) w"
    by (rule wp_listOwned) auto
  from wpA_E [OF this assms] show "view w1 = view w"
    and "r = Inr xs \<Longrightarrow> xs = ownedObjects k ns label val uid (sel (view w))"
    and "r = Inl e \<Longrightarrow> isAPIErr e"
    by (auto split: sum.splits)
qed

end

section \<open>Properties\<close>

text \<open>The lists are exact. Against an API whose reads are up to date, a list of deployments
  that succeeds returns every stored deployment of the namespace that carries the label and
  refers to the owner, in the stored order and nothing else; a list that fails returns an API
  error; neither changes the cluster.\<close>

lemma ListDeploymentsForOwner_exact:
  assumes "api_kind (cl_Deployments c) DeploymentObj view st_Deployments put body status"
  shows "case ListDeploymentsForOwner c label val ns uid w of (r, w1) \<Rightarrow>
     view w1 = view w \<and>
     (case r of
        Inl e \<Rightarrow> isAPIErr e
      | Inr ds \<Rightarrow> ds = filter (\<lambda>d. (ns = '''' \<or> om_Namespace (dep_Meta d) = ns) \<and>
            fmlookup (labelMap (om_Labels (dep_Meta d))) label = Some val \<and>
            uid \<in> or_UID ` set (items (om_OwnerReferences (dep_Meta d)))) (st_Deployments (view w)))"
proof (cases "ListDeploymentsForOwner c label val ns uid w")
  case (Pair r w1)
  then have run: "listOwned (cl_Deployments c) DeploymentObj (Some ns) label val uid w = (r, w1)"
    by (simp add: list_as_listOwned)
  show ?thesis
    using api_kind.listOwned_run [OF assms run]
    by (simp add: Pair ownedObjects_def selects_def IsOwnedByRefUID_def refWithUID_iff
        split: sum.split)
qed

definition exampleDeployment :: "string \<Rightarrow> string \<Rightarrow> Deployment" where
  "exampleDeployment nm uid =
     \<lparr>dep_Meta = emptyMeta\<lparr>om_Namespace := ''default'', om_Name := nm,
        om_Labels := Some (fmupd GatewayOperatorControlledLabel DataPlaneManagedLabelValue fmempty),
        om_OwnerReferences := Some [\<lparr>or_APIVersion = ''v1'', or_Kind = ''DataPlane'',
          or_Name = ''dp'', or_UID = uid, or_Controller = Some True\<rparr>]\<rparr>,
      dep_Spec = \<lparr>ds_Replicas = None, ds_SelectorMatchLabels = fmempty, ds_TemplateLabels = fmempty,
        ds_PodSpec = \<lparr>ps_ServiceAccountName = '''', ps_Volumes = [], ps_Containers = []\<rparr>\<rparr>,
      dep_StatusReplicas = 0, dep_StatusAvailableReplicas = 0\<rparr>"

lemma ListDeploymentsForOwner_exact_witness:
  "let w = quiet (emptyCluster\<lparr>st_Deployments :=
             [exampleDeployment ''a'' ''u1'', exampleDeployment ''b'' ''u2'']\<rparr>)
   in case ListDeploymentsForOwner memClient GatewayOperatorControlledLabel
             DataPlaneManagedLabelValue ''default'' ''u2'' w of (r, w1) \<Rightarrow>
        sim_Cluster w1 = sim_Cluster w \<and>
        (case r of Inl e \<Rightarrow> isAPIErr e | Inr ds \<Rightarrow> ds = [exampleDeployment ''b'' ''u2''])"
  using ListDeploymentsForOwner_exact [where c = memClient and
      label = GatewayOperatorControlledLabel and val = DataPlaneManagedLabelValue and
      ns = "''default''" and uid = "''u2''" and
      w = "quiet (emptyCluster\<lparr>st_Deployments :=
         [exampleDeployment ''a'' ''u1'', exampleDeployment ''b'' ''u2'']\<rparr>)",
      unfolded memClient_sel, OF mem_dep.api_kind_axioms]
  by (simp add: Let_def quiet_def exampleDeployment_def emptyMeta_def split: prod.splits sum.splits)

end
