(* ===== verification/Conditions.thy ===== *)
theory Conditions
  imports KubeTypes
begin

text \<open>
  Status conditions (\<open>internal/utils/kubernetes/status.go\<close>). A resource with conditions is
  seen through the interface \<open>ConditionsAware\<close>, here a pair of functions; the locale
  \<open>conditions_aware\<close> states what the helpers rely on (a set is read back, the last set wins)
  and proves their contract once, for every resource that implements the interface.
\<close>

section \<open>The interface\<close>

record 'r ConditionsAware =
  GetConditions :: "'r \<Rightarrow> Condition list"
  SetConditions :: "Condition list \<Rightarrow> 'r \<Rightarrow> 'r"

section \<open>Constants\<close>

definition ReadyType :: string where "ReadyType = ''Ready''"
definition DependenciesNotReadyReason :: string where
  "DependenciesNotReadyReason = ''DependenciesNotReady''"
definition ResourceReadyReason :: string where "ResourceReadyReason = ''ResourceReady''"
definition DependenciesNotReadyMessage :: string where
  "DependenciesNotReadyMessage = ''There are other conditions that are not yet ready''"

section \<open>Operations\<close>

definition SetCondition :: "'r ConditionsAware \<Rightarrow> Condition \<Rightarrow> 'r \<Rightarrow> 'r" where
  "SetCondition ca condition resource =
     (let newConditions = filter (\<lambda>x. c_Type x \<noteq> c_Type condition) (GetConditions ca resource)
      in SetConditions ca (newConditions @ [condition]) resource)"

fun findCondition :: "string \<Rightarrow> Condition list \<Rightarrow> Condition \<times> bool" where
  "findCondition cType [] = (emptyCondition, False)"
| "findCondition cType (condition # rest) =
     (if c_Type condition = cType then (condition, True) else findCondition cType rest)"

definition GetCondition :: "'r ConditionsAware \<Rightarrow> string \<Rightarrow> 'r \<Rightarrow> Condition \<times> bool" where
  "GetCondition ca cType resource = findCondition cType (GetConditions ca resource)"

fun validIn :: "string \<Rightarrow> Condition list \<Rightarrow> bool" where
  "validIn cType [] = False"
| "validIn cType (condition # rest) =
     (if c_Type condition = cType then c_Status condition = ConditionTrue
      else validIn cType rest)"

definition IsValidCondition :: "'r ConditionsAware \<Rightarrow> string \<Rightarrow> 'r \<Rightarrow> bool" where
  "IsValidCondition ca cType resource = validIn cType (GetConditions ca resource)"

text \<open>\<open>metav1.Now()\<close> is read where the code reads it and is an argument here.\<close>

definition NewCondition ::
  "string \<Rightarrow> string \<Rightarrow> string \<Rightarrow> string \<Rightarrow> time \<Rightarrow> Condition" where
  "NewCondition cType status reason message now =
     emptyCondition\<lparr>c_Type := cType, c_Reason := reason, c_Message := message,
       c_LastTransitionTime := now, c_Status := status\<rparr>"

definition InitReady :: "'r ConditionsAware \<Rightarrow> time \<Rightarrow> 'r \<Rightarrow> 'r" where
  "InitReady ca now resource =
     SetCondition ca
       (NewCondition ReadyType ConditionFalse DependenciesNotReadyReason
          DependenciesNotReadyMessage now) resource"

fun allReadyIn :: "Condition list \<Rightarrow> bool" where
  "allReadyIn [] = True"
| "allReadyIn (condition # rest) =
     (if c_Type condition \<noteq> ReadyType \<and> c_Status condition \<noteq> ConditionTrue then False
      else allReadyIn rest)"

definition areAllConditionsReady :: "'r ConditionsAware \<Rightarrow> 'r \<Rightarrow> bool" where
  "areAllConditionsReady ca resource = allReadyIn (GetConditions ca resource)"

definition SetReady :: "'r ConditionsAware \<Rightarrow> time \<Rightarrow> 'r \<Rightarrow> 'r" where
  "SetReady ca now resource =
     (let ready = emptyCondition\<lparr>c_Type := ReadyType, c_LastTransitionTime := now\<rparr>;
          ready = (if areAllConditionsReady ca resource
                   then ready\<lparr>c_Status := ConditionTrue, c_Reason := ResourceReadyReason\<rparr>
                   else ready\<lparr>c_Status := ConditionFalse, c_Reason := DependenciesNotReadyReason,
                          c_Message := DependenciesNotReadyMessage\<rparr>)
      in SetCondition ca ready resource)"

definition IsReady :: "'r ConditionsAware \<Rightarrow> 'r \<Rightarrow> bool" where
  "IsReady ca resource = validIn ReadyType (GetConditions ca resource)"

fun someDiffers :: "'r ConditionsAware \<Rightarrow> Condition list \<Rightarrow> 'r \<Rightarrow> bool" where
  "someDiffers ca [] updated = False"
| "someDiffers ca (c # rest) updated =
     (let (u, found) = GetCondition ca (c_Type c) updated
      in if \<not> found then True
         else if c_Reason u \<noteq> c_Reason c \<or> c_Message u \<noteq> c_Message c \<or> c_Status u \<noteq> c_Status c
         then True
         else someDiffers ca rest updated)"

definition NeedsUpdate :: "'r ConditionsAware \<Rightarrow> 'r \<Rightarrow> 'r \<Rightarrow> bool" where
  "NeedsUpdate ca current updated =
     (if length (GetConditions ca current) \<noteq> length (GetConditions ca updated) then True
      else someDiffers ca (GetConditions ca current) updated)"

section \<open>The abstract view: a map from types to what a condition says\<close>

text \<open>
  The API declares the condition list as a map keyed by the type (\<open>+listType=map\<close>).
  \<open>uniqueTypes\<close> is that representation invariant; \<open>says\<close> is the part of a condition that
  \<open>NeedsUpdate\<close> compares; \<open>condMap\<close> is the abstraction function.
\<close>

definition uniqueTypes :: "Condition list \<Rightarrow> bool" where
  "uniqueTypes cs = distinct (map c_Type cs)"

definition says :: "Condition \<Rightarrow> string \<times> string \<times> string" where
  "says c = (c_Reason c, c_Message c, c_Status c)"

definition condMap :: "Condition list \<Rightarrow> string \<Rightarrow> Condition option" where
  "condMap cs = map_of (map (\<lambda>c. (c_Type c, c)) cs)"

lemma condMap_simps [simp]:
  "condMap [] t = None"
  "condMap (c # cs) t = (if c_Type c = t then Some c else condMap cs t)"
  by (auto simp: condMap_def)

lemma condMap_append: "condMap (xs @ ys) t = (case condMap xs t of None \<Rightarrow> condMap ys t | Some c \<Rightarrow> Some c)"
  by (induction xs) auto

lemma condMap_None: "condMap cs t = None \<longleftrightarrow> t \<notin> c_Type ` set cs"
  by (induction cs) auto

lemma condMap_SomeD: "condMap cs t = Some c \<Longrightarrow> c \<in> set cs \<and> c_Type c = t"
  by (induction cs) (auto split: if_splits)

lemma condMap_unique: "uniqueTypes cs \<Longrightarrow> c \<in> set cs \<Longrightarrow> condMap cs (c_Type c) = Some c"
  by (induction cs) (auto simp: uniqueTypes_def)

lemma condMap_filter:
  "condMap (filter (\<lambda>x. c_Type x \<noteq> t) cs) t' = (if t' = t then None else condMap cs t')"
  by (induction cs) auto

lemma findCondition_condMap:
  "findCondition t cs = (case condMap cs t of None \<Rightarrow> (emptyCondition, False) | Some c \<Rightarrow> (c, True))"
  by (induction cs) auto

lemma validIn_condMap:
  "validIn t cs \<longleftrightarrow> (\<exists>c. condMap cs t = Some c \<and> c_Status c = ConditionTrue)"
  by (induction cs) auto

lemma allReadyIn_iff:
  "allReadyIn cs \<longleftrightarrow> (\<forall>c \<in> set cs. c_Type c \<noteq> ReadyType \<longrightarrow> c_Status c = ConditionTrue)"
  by (induction cs) auto

lemma allReadyIn_filter [simp]:
  "allReadyIn (filter (\<lambda>x. c_Type x \<noteq> ReadyType) cs) = allReadyIn cs"
  by (induction cs) auto

lemma someDiffers_iff:
  "someDiffers ca cs r \<longleftrightarrow>
   (\<exists>c \<in> set cs. map_option says (condMap (GetConditions ca r) (c_Type c)) \<noteq> Some (says c))"
  by (induction cs)
    (auto simp: GetCondition_def findCondition_condMap says_def split: option.splits)

lemma uniqueTypes_filter: "uniqueTypes cs \<Longrightarrow> uniqueTypes (filter P cs)"
  by (induction cs) (auto simp: uniqueTypes_def)

lemma uniqueTypes_set:
  "uniqueTypes cs \<Longrightarrow> uniqueTypes (filter (\<lambda>x. c_Type x \<noteq> c_Type c) cs @ [c])"
  by (induction cs) (auto simp: uniqueTypes_def)

text \<open>
  The comparison of lengths and the one-way search are a comparison of the maps when the
  types are unique on both sides: the types of the stored list are among those of the new
  list, and there are as many.
\<close>

lemma same_types:
  assumes "uniqueTypes xs" and "uniqueTypes ys" and "length xs = length ys"
    and "c_Type ` set xs \<subseteq> c_Type ` set ys"
  shows "c_Type ` set xs = c_Type ` set ys"
proof (rule card_subset_eq)
  have "card (set (map c_Type zs)) = length zs" if "uniqueTypes zs" for zs
    using that distinct_card [of "map c_Type zs"] by (simp add: uniqueTypes_def)
  then show "card (c_Type ` set xs) = card (c_Type ` set ys)"
    using assms(1-3) by (metis list.set_map)
qed (use assms(4) in auto)

lemma condMaps_agree:
  assumes u: "uniqueTypes xs" "uniqueTypes ys"
  shows "(length xs = length ys \<and>
      (\<forall>c \<in> set xs. map_option says (condMap ys (c_Type c)) = Some (says c))) \<longleftrightarrow>
    (\<forall>t. map_option says (condMap xs t) = map_option says (condMap ys t))"
    (is "?L \<longleftrightarrow> ?R")
proof
  assume L: ?L
  then have "c_Type ` set xs \<subseteq> c_Type ` set ys"
    by (auto simp: condMap_None [symmetric]) (metis condMap_None not_None_eq option.map_disc_iff)
  with L u have same: "c_Type ` set xs = c_Type ` set ys"
    by (intro same_types) simp_all
  show ?R
  proof
    fix t
    show "map_option says (condMap xs t) = map_option says (condMap ys t)"
    proof (cases "condMap xs t")
      case None
      then have "condMap ys t = None" using same by (simp add: condMap_None)
      with None show ?thesis by simp
    next
      case (Some c)
      then show ?thesis using L condMap_SomeD [OF Some] by auto
    qed
  qed
next
  assume R: ?R
  have sub: "map_option says (condMap ys (c_Type c)) = Some (says c)" if "c \<in> set xs" for c
    using R condMap_unique [OF u(1) that] by (metis option.map(2))
  have "t \<in> c_Type ` set xs \<longleftrightarrow> t \<in> c_Type ` set ys" for t
    using R by (metis condMap_None option.map_disc_iff)
  then have "set (map c_Type xs) = set (map c_Type ys)"
    by auto
  then have "length (map c_Type xs) = length (map c_Type ys)"
    using u by (metis uniqueTypes_def distinct_card)
  with sub show ?L by simp
qed

section \<open>The contract of the interface\<close>

locale conditions_aware =
  fixes ca :: "'r ConditionsAware"
  assumes get_set [simp]: "GetConditions ca (SetConditions ca cs r) = cs"
    and set_set [simp]: "SetConditions ca cs (SetConditions ca cs' r) = SetConditions ca cs r"
    and set_get [simp]: "SetConditions ca (GetConditions ca r) r = r"
begin

lemma conditions_SetCondition:
  "GetConditions ca (SetCondition ca c r) =
   filter (\<lambda>x. c_Type x \<noteq> c_Type c) (GetConditions ca r) @ [c]"
  by (simp add: SetCondition_def)

lemma condMap_SetCondition:
  "condMap (GetConditions ca (SetCondition ca c r)) t =
   (if t = c_Type c then Some c else condMap (GetConditions ca r) t)"
  by (auto simp: conditions_SetCondition condMap_append condMap_filter split: option.splits)

lemma get_SetCondition:
  "GetCondition ca t (SetCondition ca c r) =
   (if t = c_Type c then (c, True) else GetCondition ca t r)"
  by (simp add: GetCondition_def findCondition_condMap condMap_SetCondition)

lemma unique_SetCondition:
  "uniqueTypes (GetConditions ca r) \<Longrightarrow> uniqueTypes (GetConditions ca (SetCondition ca c r))"
  by (simp add: conditions_SetCondition uniqueTypes_set)

lemma length_SetCondition:
  "length (GetConditions ca (SetCondition ca c r)) \<le> Suc (length (GetConditions ca r))"
  by (simp add: conditions_SetCondition)

lemma SetCondition_twice:
  "c_Type c = c_Type d \<Longrightarrow> SetCondition ca c (SetCondition ca d r) = SetCondition ca c r"
  by (simp add: SetCondition_def)

lemma SetReady_type:
  "\<exists>c. SetReady ca now r = SetCondition ca c r \<and> c_Type c = ReadyType \<and>
       c_Status c = (if areAllConditionsReady ca r then ConditionTrue else ConditionFalse)"
  by (simp add: SetReady_def Let_def) (metis Condition.select_convs(1,2) Condition.surjective
      Condition.update_convs(1,2,4,5,6))

lemma ready_SetReady: "IsReady ca (SetReady ca now r) = areAllConditionsReady ca r"
  using SetReady_type [of now r]
  by (auto simp: IsReady_def validIn_condMap condMap_SetCondition split: if_splits)

lemma allReady_SetReady: "areAllConditionsReady ca (SetReady ca now r) = areAllConditionsReady ca r"
  using SetReady_type [of now r]
  by (auto simp: areAllConditionsReady_def conditions_SetCondition allReadyIn_iff)

lemma not_ready_InitReady: "\<not> IsReady ca (InitReady ca now r)"
  by (simp add: IsReady_def InitReady_def validIn_condMap condMap_SetCondition NewCondition_def)

lemma get_InitReady:
  "t \<noteq> ReadyType \<Longrightarrow> GetCondition ca t (InitReady ca now r) = GetCondition ca t r"
  by (simp add: InitReady_def get_SetCondition NewCondition_def)

lemma get_SetReady:
  "t \<noteq> ReadyType \<Longrightarrow> GetCondition ca t (SetReady ca now r) = GetCondition ca t r"
  using SetReady_type [of now r] by (auto simp: get_SetCondition)

lemma unique_InitReady:
  "uniqueTypes (GetConditions ca r) \<Longrightarrow> uniqueTypes (GetConditions ca (InitReady ca now r))"
  by (simp add: InitReady_def unique_SetCondition)

lemma unique_SetReady:
  "uniqueTypes (GetConditions ca r) \<Longrightarrow> uniqueTypes (GetConditions ca (SetReady ca now r))"
  using SetReady_type [of now r] by (auto simp: unique_SetCondition)

lemma NeedsUpdate_abs:
  assumes "uniqueTypes (GetConditions ca r)" and "uniqueTypes (GetConditions ca s)"
  shows "NeedsUpdate ca r s \<longleftrightarrow>
    (\<exists>t. map_option says (condMap (GetConditions ca r) t) \<noteq>
         map_option says (condMap (GetConditions ca s) t))"
  using condMaps_agree [OF assms] by (auto simp: NeedsUpdate_def someDiffers_iff)

lemma NeedsUpdate_refl:
  "uniqueTypes (GetConditions ca r) \<Longrightarrow> \<not> NeedsUpdate ca r r"
  by (simp add: NeedsUpdate_abs)

end

section \<open>The resources that implement it\<close>

text \<open>
  \<open>DataPlane\<close> and \<open>APISIXConfiguration\<close> declare \<open>GetConditions\<close> and \<open>SetConditions\<close>.
  \<open>ControlPlane\<close> declares the same two methods under the names \<open>GetCondition\<close> and
  \<open>SetCondition\<close>; the model uses them where the reconciler passes a \<open>ControlPlane\<close> as a
  \<open>ConditionsAware\<close>.
\<close>

definition ControlPlaneConditions :: "ControlPlane ConditionsAware" where
  "ControlPlaneConditions =
     \<lparr>GetConditions = (\<lambda>c. cps_Conditions (cp_Status c)),
      SetConditions = (\<lambda>cs c. c\<lparr>cp_Status := (cp_Status c)\<lparr>cps_Conditions := cs\<rparr>\<rparr>)\<rparr>"

definition DataPlaneConditions :: "DataPlane ConditionsAware" where
  "DataPlaneConditions =
     \<lparr>GetConditions = (\<lambda>d. dps_Conditions (dp_Status d)),
      SetConditions = (\<lambda>cs d. d\<lparr>dp_Status := (dp_Status d)\<lparr>dps_Conditions := cs\<rparr>\<rparr>)\<rparr>"

definition APISIXConfigurationConditions :: "APISIXConfiguration ConditionsAware" where
  "APISIXConfigurationConditions =
     \<lparr>GetConditions = (\<lambda>g. acst_Conditions (ac_Status g)),
      SetConditions = (\<lambda>cs g. g\<lparr>ac_Status := (ac_Status g)\<lparr>acst_Conditions := cs\<rparr>\<rparr>)\<rparr>"

interpretation cpc: conditions_aware ControlPlaneConditions
  by unfold_locales (simp_all add: ControlPlaneConditions_def)

interpretation dpc: conditions_aware DataPlaneConditions
  by unfold_locales (simp_all add: DataPlaneConditions_def)

interpretation acc: conditions_aware APISIXConfigurationConditions
  by unfold_locales (simp_all add: APISIXConfigurationConditions_def)

lemma ControlPlaneConditions_frame [simp]:
  "cp_Meta (SetConditions ControlPlaneConditions cs c) = cp_Meta c"
  "cp_Spec (SetConditions ControlPlaneConditions cs c) = cp_Spec c"
  "cp_TypeMeta (SetConditions ControlPlaneConditions cs c) = cp_TypeMeta c"
  by (simp_all add: ControlPlaneConditions_def)

lemma DataPlaneConditions_frame [simp]:
  "dp_Meta (SetConditions DataPlaneConditions cs d) = dp_Meta d"
  "dp_Spec (SetConditions DataPlaneConditions cs d) = dp_Spec d"
  "dp_TypeMeta (SetConditions DataPlaneConditions cs d) = dp_TypeMeta d"
  "dps_Service (dp_Status (SetConditions DataPlaneConditions cs d)) = dps_Service (dp_Status d)"
  by (simp_all add: DataPlaneConditions_def)

section \<open>Properties\<close>

text \<open>C34. Setting a condition is an update of the map from condition types to conditions: for a
  control plane and for a data plane alike, the type that was set reads back as the new
  condition, every other type reads as before, and the resource gains at most one entry.\<close>

theorem SetCondition_is_map_update:
  "GetCondition ControlPlaneConditions t (SetCondition ControlPlaneConditions c cp) =
     (if t = c_Type c then (c, True) else GetCondition ControlPlaneConditions t cp) \<and>
   GetCondition DataPlaneConditions t (SetCondition DataPlaneConditions c dp) =
     (if t = c_Type c then (c, True) else GetCondition DataPlaneConditions t dp) \<and>
   length (GetConditions ControlPlaneConditions (SetCondition ControlPlaneConditions c cp))
     \<le> Suc (length (GetConditions ControlPlaneConditions cp))"
  by (simp add: cpc.get_SetCondition dpc.get_SetCondition cpc.length_SetCondition)

text \<open>\<open>NeedsUpdate\<close>, which compares lengths and then searches one list for the types of the
  other, decides whether the two condition maps say different things: on resources that keep
  one condition per type it is true exactly when some type has a different reason, message or
  status, or is on one side only. The order of the lists does not matter.\<close>

lemma NeedsUpdate_compares_maps:
  assumes "uniqueTypes (GetConditions ControlPlaneConditions current)"
    and "uniqueTypes (GetConditions ControlPlaneConditions updated)"
  shows "NeedsUpdate ControlPlaneConditions current updated \<longleftrightarrow>
    (\<exists>t. map_option says (condMap (GetConditions ControlPlaneConditions current) t) \<noteq>
         map_option says (condMap (GetConditions ControlPlaneConditions updated) t))"
  using assms by (rule cpc.NeedsUpdate_abs)

definition witnessControlPlane :: "Condition list \<Rightarrow> ControlPlane" where
  "witnessControlPlane cs =
     \<lparr>cp_TypeMeta = typed SchemeGroup SchemeVersion ''ControlPlane'',
      cp_Meta = emptyMeta\<lparr>om_Namespace := ''default'', om_Name := ''cp'', om_UID := ''uid-1''\<rparr>,
      cp_Spec = \<lparr>opt_ContainerImage = None, opt_Version = None, opt_Env = None,
        opt_EnvFrom = None, opt_DataPlane = None, spec_GatewayClass = None,
        spec_IngressClass = None\<rparr>,
      cp_Status = \<lparr>cps_Conditions = cs\<rparr>\<rparr>"

lemma witnessControlPlane_conditions [simp]:
  "GetConditions ControlPlaneConditions (witnessControlPlane cs) = cs"
  by (simp add: witnessControlPlane_def ControlPlaneConditions_def)

lemma NeedsUpdate_compares_maps_witness:
  "let a = NewCondition ''A'' ConditionTrue ''r'' ''m'' 1;
       b = NewCondition ''B'' ConditionFalse ''r'' ''m'' 2;
       p = witnessControlPlane [a, b]; q = witnessControlPlane [b, a]
   in \<not> (\<exists>t. map_option says (condMap (GetConditions ControlPlaneConditions p) t) \<noteq>
            map_option says (condMap (GetConditions ControlPlaneConditions q) t))"
proof -
  let ?a = "NewCondition ''A'' ConditionTrue ''r'' ''m'' 1"
  let ?b = "NewCondition ''B'' ConditionFalse ''r'' ''m'' 2"
  let ?p = "witnessControlPlane [?a, ?b]" and ?q = "witnessControlPlane [?b, ?a]"
  have u: "uniqueTypes (GetConditions ControlPlaneConditions ?p)"
    "uniqueTypes (GetConditions ControlPlaneConditions ?q)"
    by (simp_all add: uniqueTypes_def NewCondition_def emptyCondition_def)
  have "\<not> NeedsUpdate ControlPlaneConditions ?p ?q"
    by (simp add: NeedsUpdate_def GetCondition_def NewCondition_def emptyCondition_def)
  then show ?thesis
    unfolding Let_def NeedsUpdate_compares_maps [OF u] .
qed

text \<open>C35. Readiness is the conjunction of the other conditions: after \<open>SetReady\<close> a control plane
  is ready exactly when every condition other than \<open>Ready\<close> is true, after \<open>InitReady\<close> it never
  is, and neither touches any other condition.\<close>

theorem SetReady_is_conjunction:
  "(IsReady ControlPlaneConditions (SetReady ControlPlaneConditions now cp) \<longleftrightarrow>
      list_all (\<lambda>c. c_Type c = ReadyType \<or> c_Status c = ConditionTrue)
        (GetConditions ControlPlaneConditions cp)) \<and>
   \<not> IsReady ControlPlaneConditions (InitReady ControlPlaneConditions now cp) \<and>
   filter (\<lambda>c. c_Type c \<noteq> ReadyType)
     (GetConditions ControlPlaneConditions (SetReady ControlPlaneConditions now cp)) =
   filter (\<lambda>c. c_Type c \<noteq> ReadyType) (GetConditions ControlPlaneConditions cp) \<and>
   filter (\<lambda>c. c_Type c \<noteq> ReadyType)
     (GetConditions ControlPlaneConditions (InitReady ControlPlaneConditions now cp)) =
   filter (\<lambda>c. c_Type c \<noteq> ReadyType) (GetConditions ControlPlaneConditions cp)"
proof -
  obtain c where c: "SetReady ControlPlaneConditions now cp = SetCondition ControlPlaneConditions c cp"
    "c_Type c = ReadyType"
    using cpc.SetReady_type by blast
  have "IsReady ControlPlaneConditions (SetReady ControlPlaneConditions now cp) \<longleftrightarrow>
      list_all (\<lambda>c. c_Type c = ReadyType \<or> c_Status c = ConditionTrue)
        (GetConditions ControlPlaneConditions cp)"
    by (auto simp: cpc.ready_SetReady areAllConditionsReady_def allReadyIn_iff list_all_iff)
  then show ?thesis
    by (simp add: cpc.not_ready_InitReady)
      (simp add: c cpc.conditions_SetCondition InitReady_def NewCondition_def)
qed

end
