(* ===== verification/EnvVars.thy ===== *)
theory EnvVars
  imports KubeTypes "HOL-Library.Multiset"
begin

text \<open>
  Environment variables: the helpers of \<open>internal/utils/kubernetes/envvars.go\<close>, the defaults of
  a control plane and their upkeep when its data plane changes
  (\<open>controllers/controlplane_controller_utils.go\<close>), the defaults of a data plane
  (\<open>internal/utils/dataplane/config.go\<close>) and the equality of deployment options
  (\<open>controllers/utils.go\<close>).
\<close>

section \<open>Lookup and update\<close>

text \<open>\<open>envValueByName\<close> and \<open>envVarSourceByName\<close> read the first variable of the name.\<close>

fun envValueByName :: "EnvVar list \<Rightarrow> string \<Rightarrow> string" where
  "envValueByName [] name = ''''"
| "envValueByName (envVar # env) name =
     (if ev_Name envVar = name then ev_Value envVar else envValueByName env name)"

fun envVarSourceByName :: "EnvVar list \<Rightarrow> string \<Rightarrow> EnvVarSource option" where
  "envVarSourceByName [] name = None"
| "envVarSourceByName (envVar # env) name =
     (if ev_Name envVar = name then ev_ValueFrom envVar else envVarSourceByName env name)"

definition rejectEnvByName :: "EnvVar slice \<Rightarrow> string \<Rightarrow> EnvVar slice" where
  "rejectEnvByName envVars name = Some (filter (\<lambda>envVar. ev_Name envVar \<noteq> name) (items envVars))"

definition updateEnv :: "EnvVar slice \<Rightarrow> string \<Rightarrow> string \<Rightarrow> EnvVar slice" where
  "updateEnv envVars name val =
     Some (filter (\<lambda>envVar. ev_Name envVar \<noteq> name) (items envVars) @
           [\<lparr>ev_Name = name, ev_Value = val, ev_ValueFrom = None\<rparr>])"

definition updateEnvSource :: "EnvVar slice \<Rightarrow> string \<Rightarrow> EnvVarSource \<Rightarrow> EnvVar slice" where
  "updateEnvSource envVars name envSource =
     Some (filter (\<lambda>envVar. ev_Name envVar \<noteq> name) (items envVars) @
           [\<lparr>ev_Name = name, ev_Value = '''', ev_ValueFrom = Some envSource\<rparr>])"

lemma envValueByName_filter [simp]:
  "envValueByName (filter (\<lambda>e. ev_Name e \<noteq> m) xs) n = (if n = m then '''' else envValueByName xs n)"
  by (induction xs) auto

lemma envVarSourceByName_filter [simp]:
  "envVarSourceByName (filter (\<lambda>e. ev_Name e \<noteq> m) xs) n = (if n = m then None else envVarSourceByName xs n)"
  by (induction xs) auto

lemma lookup_replaced:
  "ev_Name x = m \<Longrightarrow>
   envValueByName (filter (\<lambda>e. ev_Name e \<noteq> m) xs @ [x]) n = (if n = m then ev_Value x else envValueByName xs n)"
  "ev_Name x = m \<Longrightarrow>
   envVarSourceByName (filter (\<lambda>e. ev_Name e \<noteq> m) xs @ [x]) n =
     (if n = m then ev_ValueFrom x else envVarSourceByName xs n)"
  by (induction xs) auto

lemma env_updates [simp]:
  "envValueByName (items (updateEnv env m v)) n = (if n = m then v else envValueByName (items env) n)"
  "envVarSourceByName (items (updateEnv env m v)) n = (if n = m then None else envVarSourceByName (items env) n)"
  "envValueByName (items (updateEnvSource env m s)) n = (if n = m then '''' else envValueByName (items env) n)"
  "envVarSourceByName (items (updateEnvSource env m s)) n = (if n = m then Some s else envVarSourceByName (items env) n)"
  "envValueByName (items (rejectEnvByName env m)) n = (if n = m then '''' else envValueByName (items env) n)"
  "envVarSourceByName (items (rejectEnvByName env m)) n = (if n = m then None else envVarSourceByName (items env) n)"
  by (simp_all add: updateEnv_def updateEnvSource_def rejectEnvByName_def lookup_replaced)

section \<open>The defaults of a control plane\<close>

definition DefaultHTTPPort :: nat where "DefaultHTTPPort = 80"
definition DefaultHTTPSPort :: nat where "DefaultHTTPSPort = 443"
definition DefaultAPISIXHTTPPort :: nat where "DefaultAPISIXHTTPPort = 9000"
definition DefaultAPISIXHTTPSPort :: nat where "DefaultAPISIXHTTPSPort = 9443"
definition DefaultAPISIXAdminPort :: nat where "DefaultAPISIXAdminPort = 9444"
definition DefaultAPISIXStatusPort :: nat where "DefaultAPISIXStatusPort = 9100"

definition controllerApisixAdminURL :: "string \<Rightarrow> string \<Rightarrow> string" where
  "controllerApisixAdminURL dataplaneName dataplaneNamespace =
     ''https://'' @ dataplaneName @ ''.'' @ dataplaneNamespace @ ''.svc:'' @ digits DefaultAPISIXAdminPort"

text \<open>For evaluation: numbers in unary would make \<open>digits\<close> slow.\<close>

lemma controllerApisixAdminURL_code [code]:
  "controllerApisixAdminURL n ns = ''https://'' @ n @ ''.'' @ ns @ ''.svc:9444''"
  by (simp add: controllerApisixAdminURL_def DefaultAPISIXAdminPort_def digits_9444)

definition controllerPublishService :: "string \<Rightarrow> string \<Rightarrow> string" where
  "controllerPublishService dataplaneName dataplaneNamespace =
     dataplaneNamespace @ ''/'' @ dataplaneName"

definition fieldSource :: "string \<Rightarrow> EnvVarSource" where
  "fieldSource path = \<lparr>es_FieldRef = Some \<lparr>fs_APIVersion = ''v1'', fs_FieldPath = path\<rparr>,
     es_ConfigMapKeyRef = None, es_SecretKeyRef = None\<rparr>"

text \<open>
  The guarded updates the two functions below consist of: set the variable and raise
  \<open>changed\<close> if it does not have the source, or the value.
\<close>

definition ensureEnvSource ::
  "string \<Rightarrow> EnvVarSource \<Rightarrow> bool \<times> 'a DeploymentOptions_scheme \<Rightarrow> bool \<times> 'a DeploymentOptions_scheme" where
  "ensureEnvSource name src = (\<lambda>(changed, spec).
     if Some src \<noteq> envVarSourceByName (items (opt_Env spec)) name
     then (True, spec\<lparr>opt_Env := updateEnvSource (opt_Env spec) name src\<rparr>)
     else (changed, spec))"

definition ensureEnvValue ::
  "string \<Rightarrow> string \<Rightarrow> bool \<times> 'a DeploymentOptions_scheme \<Rightarrow> bool \<times> 'a DeploymentOptions_scheme" where
  "ensureEnvValue name val = (\<lambda>(changed, spec).
     if envValueByName (items (opt_Env spec)) name \<noteq> val
     then (True, spec\<lparr>opt_Env := updateEnv (opt_Env spec) name val\<rparr>)
     else (changed, spec))"

text \<open>The variable is written whatever it was, and \<open>changed\<close> is left as it is.\<close>

definition writeEnv ::
  "string \<Rightarrow> string \<Rightarrow> bool \<times> 'a DeploymentOptions_scheme \<Rightarrow> bool \<times> 'a DeploymentOptions_scheme" where
  "writeEnv name val = (\<lambda>(changed, spec). (changed, spec\<lparr>opt_Env := updateEnv (opt_Env spec) name val\<rparr>))"

definition clearEnv ::
  "string \<Rightarrow> bool \<times> 'a DeploymentOptions_scheme \<Rightarrow> bool \<times> 'a DeploymentOptions_scheme" where
  "clearEnv name = (\<lambda>(changed, spec).
     if envValueByName (items (opt_Env spec)) name \<noteq> ''''
     then (True, spec\<lparr>opt_Env := rejectEnvByName (opt_Env spec) name\<rparr>)
     else (changed, spec))"

definition setControlPlaneDefaults ::
  "'a ControlPlaneDeploymentOptions_scheme \<Rightarrow> string \<Rightarrow> string \<Rightarrow> string set
    \<Rightarrow> bool \<times> 'a ControlPlaneDeploymentOptions_scheme" where
  "setControlPlaneDefaults spec namespace dataplaneServiceName dontOverride =
     (let st = (False, spec);
          st = ensureEnvSource ''POD_NAMESPACE'' (fieldSource ''metadata.namespace'') st;
          st = ensureEnvSource ''POD_NAME'' (fieldSource ''metadata.name'') st;
          st = (if namespace \<noteq> '''' \<and> dataplaneServiceName \<noteq> '''' then
                  (let st = (if ''CONTROLLER_PUBLISH_SERVICE'' \<notin> dontOverride
                             then ensureEnvValue ''CONTROLLER_PUBLISH_SERVICE''
                                    (controllerPublishService dataplaneServiceName namespace) st
                             else st)
                   in if ''CONTROLLER_APISIX_ADMIN_URL'' \<notin> dontOverride
                      then ensureEnvValue ''CONTROLLER_APISIX_ADMIN_URL''
                             (controllerApisixAdminURL dataplaneServiceName namespace) st
                      else st)
                else st);
          st = (if ''CONTROLLER_APISIX_ADMIN_TLS_CLIENT_CERT_FILE'' \<notin> dontOverride
                then writeEnv ''CONTROLLER_APISIX_ADMIN_TLS_CLIENT_CERT_FILE''
                       ''/var/cluster-certificate/tls.crt'' st
                else st);
          st = (if ''CONTROLLER_APISIX_ADMIN_TLS_CLIENT_KEY_FILE'' \<notin> dontOverride
                then writeEnv ''CONTROLLER_APISIX_ADMIN_TLS_CLIENT_KEY_FILE''
                       ''/var/cluster-certificate/tls.key'' st
                else st)
      in if ''CONTROLLER_APISIX_ADMIN_CA_CERT_FILE'' \<notin> dontOverride
         then writeEnv ''CONTROLLER_APISIX_ADMIN_CA_CERT_FILE'' ''/var/cluster-certificate/ca.crt'' st
         else st)"

definition dataPlaneIsSet :: "'a ControlPlaneDeploymentOptions_scheme \<Rightarrow> bool" where
  "dataPlaneIsSet spec =
     (case opt_DataPlane spec of None \<Rightarrow> False | Some name \<Rightarrow> name \<noteq> '''')"

definition setControlPlaneEnvOnDataPlaneChange ::
  "'a ControlPlaneDeploymentOptions_scheme \<Rightarrow> string \<Rightarrow> string
    \<Rightarrow> bool \<times> 'a ControlPlaneDeploymentOptions_scheme" where
  "setControlPlaneEnvOnDataPlaneChange spec namespace dataplaneServiceName =
     (let st = (False, spec)
      in if dataPlaneIsSet spec then
           (let st = ensureEnvValue ''CONTROLLER_PUBLISH_SERVICE''
                       (controllerPublishService dataplaneServiceName namespace) st
            in ensureEnvValue ''CONTROLLER_APISIX_ADMIN_URL''
                 (controllerApisixAdminURL dataplaneServiceName namespace) st)
         else
           (let st = clearEnv ''CONTROLLER_PUBLISH_SERVICE'' st
            in clearEnv ''CONTROLLER_APISIX_ADMIN_URL'' st))"

subsection \<open>The steps on the environment alone\<close>

definition envOf :: "bool \<times> 'a DeploymentOptions_scheme \<Rightarrow> EnvVar list" where
  "envOf st = items (opt_Env (snd st))"

lemmas env_step_defs = ensureEnvSource_def ensureEnvValue_def writeEnv_def clearEnv_def

lemma step_lookup [simp]:
  "envValueByName (envOf (ensureEnvSource m s st)) n =
     (if n = m \<and> envVarSourceByName (envOf st) m \<noteq> Some s then '''' else envValueByName (envOf st) n)"
  "envVarSourceByName (envOf (ensureEnvSource m s st)) n =
     (if n = m then Some s else envVarSourceByName (envOf st) n)"
  "envValueByName (envOf (ensureEnvValue m v st)) n = (if n = m then v else envValueByName (envOf st) n)"
  "n \<noteq> m \<Longrightarrow> envVarSourceByName (envOf (ensureEnvValue m v st)) n = envVarSourceByName (envOf st) n"
  "envValueByName (envOf (writeEnv m v st)) n = (if n = m then v else envValueByName (envOf st) n)"
  "envVarSourceByName (envOf (writeEnv m v st)) n =
     (if n = m then None else envVarSourceByName (envOf st) n)"
  "envValueByName (envOf (clearEnv m st)) n = (if n = m then '''' else envValueByName (envOf st) n)"
  by (auto simp: env_step_defs envOf_def split: prod.splits)

lemma ensureEnvSource_id:
  "envVarSourceByName (envOf st) m = Some s \<Longrightarrow> ensureEnvSource m s st = st"
  by (auto simp: env_step_defs envOf_def split: prod.splits)

lemma ensureEnvValue_id: "envValueByName (envOf st) m = v \<Longrightarrow> ensureEnvValue m v st = st"
  by (auto simp: env_step_defs envOf_def split: prod.splits)

lemma clearEnv_id: "envValueByName (envOf st) m = '''' \<Longrightarrow> clearEnv m st = st"
  by (auto simp: env_step_defs envOf_def split: prod.splits)

lemma dataPlaneIsSet_steps [simp]:
  "dataPlaneIsSet (snd (ensureEnvSource m s st)) = dataPlaneIsSet (snd st)"
  "dataPlaneIsSet (snd (ensureEnvValue m v st)) = dataPlaneIsSet (snd st)"
  "dataPlaneIsSet (snd (writeEnv m v st)) = dataPlaneIsSet (snd st)"
  "dataPlaneIsSet (snd (clearEnv m st)) = dataPlaneIsSet (snd st)"
  by (auto simp: env_step_defs dataPlaneIsSet_def split: prod.splits)

lemma envOf_spec: "envOf (b, spec) = items (opt_Env spec)"
  by (simp add: envOf_def)

lemma step_frame:
  "(snd (ensureEnvSource m s st))\<lparr>opt_Env := e\<rparr> = (snd st)\<lparr>opt_Env := e\<rparr>"
  "(snd (ensureEnvValue m v st))\<lparr>opt_Env := e\<rparr> = (snd st)\<lparr>opt_Env := e\<rparr>"
  "(snd (writeEnv m v st))\<lparr>opt_Env := e\<rparr> = (snd st)\<lparr>opt_Env := e\<rparr>"
  "(snd (clearEnv m st))\<lparr>opt_Env := e\<rparr> = (snd st)\<lparr>opt_Env := e\<rparr>"
  by (auto simp: env_step_defs split: prod.splits)

text \<open>
  The last three steps put the certificate variables at the end of the list; done a second
  time they put the same three there again.
\<close>

definition tlsSteps :: "string set \<Rightarrow> bool \<times> 'a DeploymentOptions_scheme \<Rightarrow> bool \<times> 'a DeploymentOptions_scheme" where
  "tlsSteps D st =
     (let st = (if ''CONTROLLER_APISIX_ADMIN_TLS_CLIENT_CERT_FILE'' \<notin> D
                then writeEnv ''CONTROLLER_APISIX_ADMIN_TLS_CLIENT_CERT_FILE''
                       ''/var/cluster-certificate/tls.crt'' st
                else st);
          st = (if ''CONTROLLER_APISIX_ADMIN_TLS_CLIENT_KEY_FILE'' \<notin> D
                then writeEnv ''CONTROLLER_APISIX_ADMIN_TLS_CLIENT_KEY_FILE''
                       ''/var/cluster-certificate/tls.key'' st
                else st)
      in if ''CONTROLLER_APISIX_ADMIN_CA_CERT_FILE'' \<notin> D
         then writeEnv ''CONTROLLER_APISIX_ADMIN_CA_CERT_FILE'' ''/var/cluster-certificate/ca.crt'' st
         else st)"

lemma tlsSteps_tlsSteps: "tlsSteps D (b, snd (tlsSteps D st)) = (b, snd (tlsSteps D st))"
  by (cases st; cases "''CONTROLLER_APISIX_ADMIN_TLS_CLIENT_CERT_FILE'' \<in> D";
      cases "''CONTROLLER_APISIX_ADMIN_TLS_CLIENT_KEY_FILE'' \<in> D";
      cases "''CONTROLLER_APISIX_ADMIN_CA_CERT_FILE'' \<in> D")
    (simp_all add: tlsSteps_def writeEnv_def updateEnv_def conj_ac)

lemma tlsSteps_fst [simp]: "fst (tlsSteps D st) = fst st"
  by (cases st) (simp add: tlsSteps_def writeEnv_def Let_def)

definition coreSteps ::
  "string \<Rightarrow> string \<Rightarrow> string set \<Rightarrow> bool \<times> 'a DeploymentOptions_scheme \<Rightarrow> bool \<times> 'a DeploymentOptions_scheme" where
  "coreSteps ns svc D st =
     (let st = ensureEnvSource ''POD_NAMESPACE'' (fieldSource ''metadata.namespace'') st;
          st = ensureEnvSource ''POD_NAME'' (fieldSource ''metadata.name'') st
      in if ns \<noteq> '''' \<and> svc \<noteq> '''' then
           (let st = (if ''CONTROLLER_PUBLISH_SERVICE'' \<notin> D
                      then ensureEnvValue ''CONTROLLER_PUBLISH_SERVICE'' (controllerPublishService svc ns) st
                      else st)
            in if ''CONTROLLER_APISIX_ADMIN_URL'' \<notin> D
               then ensureEnvValue ''CONTROLLER_APISIX_ADMIN_URL'' (controllerApisixAdminURL svc ns) st
               else st)
         else st)"

lemma setControlPlaneDefaults_steps:
  "setControlPlaneDefaults spec ns svc D = tlsSteps D (coreSteps ns svc D (False, spec))"
  unfolding setControlPlaneDefaults_def tlsSteps_def coreSteps_def Let_def by (rule refl)

text \<open>What the core steps establish, on the environment alone.\<close>

definition coreDone :: "string \<Rightarrow> string \<Rightarrow> string set \<Rightarrow> EnvVar list \<Rightarrow> bool" where
  "coreDone ns svc D env \<longleftrightarrow>
     envVarSourceByName env ''POD_NAMESPACE'' = Some (fieldSource ''metadata.namespace'') \<and>
     envVarSourceByName env ''POD_NAME'' = Some (fieldSource ''metadata.name'') \<and>
     (ns \<noteq> '''' \<and> svc \<noteq> '''' \<longrightarrow>
        (''CONTROLLER_PUBLISH_SERVICE'' \<notin> D \<longrightarrow>
           envValueByName env ''CONTROLLER_PUBLISH_SERVICE'' = controllerPublishService svc ns) \<and>
        (''CONTROLLER_APISIX_ADMIN_URL'' \<notin> D \<longrightarrow>
           envValueByName env ''CONTROLLER_APISIX_ADMIN_URL'' = controllerApisixAdminURL svc ns))"

text \<open>Lookups through a step that is taken on a condition.\<close>

lemma step_if:
  "envValueByName (envOf (if c then ensureEnvValue m v st else st)) n =
     (if n = m \<and> c then v else envValueByName (envOf st) n)"
  "envValueByName (envOf (if c then writeEnv m v st else st)) n =
     (if n = m \<and> c then v else envValueByName (envOf st) n)"
  "n \<noteq> m \<Longrightarrow> envVarSourceByName (envOf (if c then ensureEnvValue m v st else st)) n =
     envVarSourceByName (envOf st) n"
  "n \<noteq> m \<Longrightarrow> envVarSourceByName (envOf (if c then writeEnv m v st else st)) n =
     envVarSourceByName (envOf st) n"
  by simp_all

definition tlsFiles :: "(string \<times> string) list" where
  "tlsFiles =
     [(''CONTROLLER_APISIX_ADMIN_TLS_CLIENT_CERT_FILE'', ''/var/cluster-certificate/tls.crt''),
      (''CONTROLLER_APISIX_ADMIN_TLS_CLIENT_KEY_FILE'', ''/var/cluster-certificate/tls.key''),
      (''CONTROLLER_APISIX_ADMIN_CA_CERT_FILE'', ''/var/cluster-certificate/ca.crt'')]"

lemma tlsSteps_value:
  "envValueByName (envOf (tlsSteps D st)) n =
   (case map_of tlsFiles n of
      Some path \<Rightarrow> if n \<notin> D then path else envValueByName (envOf st) n
    | None \<Rightarrow> envValueByName (envOf st) n)"
  unfolding tlsSteps_def Let_def step_if tlsFiles_def by auto

lemma tlsSteps_source:
  "map_of tlsFiles n = None \<Longrightarrow>
   envVarSourceByName (envOf (tlsSteps D st)) n = envVarSourceByName (envOf st) n"
  by (simp add: tlsSteps_def Let_def tlsFiles_def split: if_split_asm)

lemma coreSteps_value:
  "n \<notin> {''POD_NAMESPACE'', ''POD_NAME''} \<Longrightarrow>
   envValueByName (envOf (coreSteps ns svc D st)) n =
   (if n = ''CONTROLLER_PUBLISH_SERVICE'' \<and> ns \<noteq> '''' \<and> svc \<noteq> '''' \<and> n \<notin> D
    then controllerPublishService svc ns
    else if n = ''CONTROLLER_APISIX_ADMIN_URL'' \<and> ns \<noteq> '''' \<and> svc \<noteq> '''' \<and> n \<notin> D
    then controllerApisixAdminURL svc ns
    else envValueByName (envOf st) n)"
  by (cases "ns \<noteq> '''' \<and> svc \<noteq> ''''") (auto simp: coreSteps_def Let_def step_if)

lemma coreSteps_source:
  "n \<notin> {''POD_NAMESPACE'', ''POD_NAME'', ''CONTROLLER_PUBLISH_SERVICE'',
         ''CONTROLLER_APISIX_ADMIN_URL''} \<Longrightarrow>
   envVarSourceByName (envOf (coreSteps ns svc D st)) n = envVarSourceByName (envOf st) n"
  by (cases "ns \<noteq> '''' \<and> svc \<noteq> ''''") (auto simp: coreSteps_def Let_def step_if)

lemma tlsSteps_frame: "(snd (tlsSteps D st))\<lparr>opt_Env := e\<rparr> = (snd st)\<lparr>opt_Env := e\<rparr>"
  by (simp add: tlsSteps_def Let_def step_frame)

lemma coreSteps_frame: "(snd (coreSteps ns svc D st))\<lparr>opt_Env := e\<rparr> = (snd st)\<lparr>opt_Env := e\<rparr>"
  by (simp add: coreSteps_def Let_def step_frame)

lemma coreSteps_done: "coreDone ns svc D (envOf (coreSteps ns svc D st))"
  by (simp add: coreSteps_def coreDone_def Let_def)

lemma coreSteps_id: "coreDone ns svc D (envOf st) \<Longrightarrow> coreSteps ns svc D st = st"
  by (simp add: coreSteps_def coreDone_def Let_def ensureEnvSource_id ensureEnvValue_id)

lemma coreDone_tls: "coreDone ns svc D (envOf (tlsSteps D st)) = coreDone ns svc D (envOf st)"
  by (simp add: coreDone_def tlsSteps_def Let_def)

lemma envOf_pair [simp]: "envOf (b, snd st) = envOf st"
  by (simp add: envOf_def)

lemma dataPlaneIsSet_defaults:
  "dataPlaneIsSet (snd (setControlPlaneDefaults spec ns svc D)) = dataPlaneIsSet spec"
  by (simp add: setControlPlaneDefaults_def Let_def)

lemma setControlPlaneDefaults_done:
  "coreDone ns svc D (envOf (setControlPlaneDefaults spec ns svc D))"
  by (simp add: setControlPlaneDefaults_steps coreDone_tls coreSteps_done)

lemma defaults_value:
  assumes "n \<notin> {''POD_NAMESPACE'', ''POD_NAME''}"
  shows "envValueByName (envOf (setControlPlaneDefaults spec ns svc D)) n =
    (let base = (if n = ''CONTROLLER_PUBLISH_SERVICE'' \<and> ns \<noteq> '''' \<and> svc \<noteq> '''' \<and> n \<notin> D
                 then controllerPublishService svc ns
                 else if n = ''CONTROLLER_APISIX_ADMIN_URL'' \<and> ns \<noteq> '''' \<and> svc \<noteq> '''' \<and> n \<notin> D
                 then controllerApisixAdminURL svc ns
                 else envValueByName (items (opt_Env spec)) n)
     in case map_of tlsFiles n of Some path \<Rightarrow> if n \<notin> D then path else base | None \<Rightarrow> base)"
  unfolding setControlPlaneDefaults_steps tlsSteps_value coreSteps_value [OF assms] envOf_spec Let_def
  by (rule refl)

lemma defaults_source:
  assumes "n \<notin> {''POD_NAMESPACE'', ''POD_NAME'', ''CONTROLLER_PUBLISH_SERVICE'',
         ''CONTROLLER_APISIX_ADMIN_URL''}" and "map_of tlsFiles n = None"
  shows "envVarSourceByName (envOf (setControlPlaneDefaults spec ns svc D)) n =
    envVarSourceByName (items (opt_Env spec)) n"
  unfolding setControlPlaneDefaults_steps tlsSteps_source [OF assms(2)] coreSteps_source [OF assms(1)]
    envOf_spec by (rule refl)

lemma tlsFiles_lookup:
  "map_of tlsFiles ''CONTROLLER_PUBLISH_SERVICE'' = None"
  "map_of tlsFiles ''CONTROLLER_APISIX_ADMIN_URL'' = None"
  "map_of tlsFiles ''CONTROLLER_APISIX_ADMIN_TLS_CLIENT_CERT_FILE'' = Some ''/var/cluster-certificate/tls.crt''"
  "map_of tlsFiles ''CONTROLLER_APISIX_ADMIN_TLS_CLIENT_KEY_FILE'' = Some ''/var/cluster-certificate/tls.key''"
  "map_of tlsFiles ''CONTROLLER_APISIX_ADMIN_CA_CERT_FILE'' = Some ''/var/cluster-certificate/ca.crt''"
  by (simp_all add: tlsFiles_def)

lemma setControlPlaneDefaults_fixpoint:
  "setControlPlaneDefaults (snd (setControlPlaneDefaults spec ns svc D)) ns svc D =
   (False, snd (setControlPlaneDefaults spec ns svc D))"
proof -
  let ?st = "tlsSteps D (coreSteps ns svc D (False, spec))"
  have "coreSteps ns svc D (False, snd ?st) = (False, snd ?st)"
    by (rule coreSteps_id) (simp add: coreDone_tls coreSteps_done)
  then show ?thesis by (simp add: setControlPlaneDefaults_steps tlsSteps_tlsSteps)
qed

subsection \<open>The two updates together\<close>

definition tlsVars :: "EnvVar list" where
  "tlsVars =
     [\<lparr>ev_Name = ''CONTROLLER_APISIX_ADMIN_TLS_CLIENT_CERT_FILE'',
       ev_Value = ''/var/cluster-certificate/tls.crt'', ev_ValueFrom = None\<rparr>,
      \<lparr>ev_Name = ''CONTROLLER_APISIX_ADMIN_TLS_CLIENT_KEY_FILE'',
       ev_Value = ''/var/cluster-certificate/tls.key'', ev_ValueFrom = None\<rparr>,
      \<lparr>ev_Name = ''CONTROLLER_APISIX_ADMIN_CA_CERT_FILE'',
       ev_Value = ''/var/cluster-certificate/ca.crt'', ev_ValueFrom = None\<rparr>]"

definition notTls :: "EnvVar \<Rightarrow> bool" where
  "notTls e \<longleftrightarrow> ev_Name e \<notin> ev_Name ` set tlsVars"

lemma tlsSteps_all:
  "tlsSteps {} (b, spec) = (b, spec\<lparr>opt_Env := Some (filter notTls (items (opt_Env spec)) @ tlsVars)\<rparr>)"
proof -
  have "notTls = (\<lambda>e. ev_Name e \<noteq> ''CONTROLLER_APISIX_ADMIN_CA_CERT_FILE'' \<and>
      ev_Name e \<noteq> ''CONTROLLER_APISIX_ADMIN_TLS_CLIENT_KEY_FILE'' \<and>
      ev_Name e \<noteq> ''CONTROLLER_APISIX_ADMIN_TLS_CLIENT_CERT_FILE'')"
    by (auto simp: notTls_def tlsVars_def)
  then show ?thesis
    by (simp add: tlsSteps_def writeEnv_def updateEnv_def tlsVars_def conj_ac)
qed

definition tlsLast :: "EnvVar slice \<Rightarrow> bool" where
  "tlsLast env \<longleftrightarrow> env = Some (filter notTls (items env) @ tlsVars)"

lemma tlsSteps_id: "tlsLast (opt_Env spec) \<Longrightarrow> tlsSteps {} (b, spec) = (b, spec)"
  unfolding tlsSteps_all tlsLast_def by (metis DeploymentOptions.surjective DeploymentOptions.update_convs(3))

lemma tlsLast_tlsSteps: "tlsLast (opt_Env (snd (tlsSteps {} st)))"
proof -
  have "filter notTls tlsVars = []" by (simp add: tlsVars_def notTls_def)
  then show ?thesis by (cases st) (simp add: tlsSteps_all tlsLast_def)
qed

lemma tlsLast_reject:
  assumes "tlsLast env" and "m \<notin> ev_Name ` set tlsVars"
  shows "tlsLast (rejectEnvByName env m)"
proof -
  let ?P = "\<lambda>e. ev_Name e \<noteq> m"
  have t: "filter ?P tlsVars = tlsVars" using assms(2) by (auto simp: filter_id_conv)
  have e: "items env = filter notTls (items env) @ tlsVars"
    using assms(1) unfolding tlsLast_def by (metis items_simps(2))
  have "filter ?P (items env) = filter ?P (filter notTls (items env)) @ tlsVars"
    by (subst e) (simp add: t)
  also have "filter ?P (filter notTls (items env)) = filter notTls (filter ?P (items env))"
    by (simp only: filter_filter conj_commute)
  finally show ?thesis
    by (simp only: tlsLast_def rejectEnvByName_def items_simps)
qed

lemma tlsLast_clearEnv:
  "tlsLast (opt_Env (snd st)) \<Longrightarrow> m \<notin> ev_Name ` set tlsVars \<Longrightarrow> tlsLast (opt_Env (snd (clearEnv m st)))"
  by (cases st) (simp add: clearEnv_def tlsLast_reject)

lemma defaults_id:
  "coreDone ns svc {} (items (opt_Env spec)) \<Longrightarrow> tlsLast (opt_Env spec) \<Longrightarrow>
   setControlPlaneDefaults spec ns svc {} = (False, spec)"
  by (simp add: setControlPlaneDefaults_steps coreSteps_id envOf_def tlsSteps_id)

lemma defaults_tlsLast: "tlsLast (opt_Env (snd (setControlPlaneDefaults spec ns svc {})))"
  by (simp add: setControlPlaneDefaults_steps tlsLast_tlsSteps)

lemma clear_source [simp]:
  "n \<noteq> m \<Longrightarrow> envVarSourceByName (envOf (clearEnv m st)) n = envVarSourceByName (envOf st) n"
  by (auto simp: env_step_defs envOf_def split: prod.splits)

lemma onChange_fixpoint:
  "setControlPlaneEnvOnDataPlaneChange (snd (setControlPlaneEnvOnDataPlaneChange spec ns svc)) ns svc =
   (False, snd (setControlPlaneEnvOnDataPlaneChange spec ns svc))"
proof (cases "dataPlaneIsSet spec")
  case True
  let ?st = "ensureEnvValue ''CONTROLLER_APISIX_ADMIN_URL'' (controllerApisixAdminURL svc ns)
    (ensureEnvValue ''CONTROLLER_PUBLISH_SERVICE'' (controllerPublishService svc ns) (False, spec))"
  have "ensureEnvValue ''CONTROLLER_APISIX_ADMIN_URL'' (controllerApisixAdminURL svc ns)
    (ensureEnvValue ''CONTROLLER_PUBLISH_SERVICE'' (controllerPublishService svc ns) (False, snd ?st))
    = (False, snd ?st)"
    by (simp add: ensureEnvValue_id)
  with True show ?thesis
    by (simp add: setControlPlaneEnvOnDataPlaneChange_def Let_def)
next
  case False
  let ?st = "clearEnv ''CONTROLLER_APISIX_ADMIN_URL'' (clearEnv ''CONTROLLER_PUBLISH_SERVICE'' (False, spec))"
  have "clearEnv ''CONTROLLER_APISIX_ADMIN_URL'' (clearEnv ''CONTROLLER_PUBLISH_SERVICE'' (False, snd ?st))
    = (False, snd ?st)"
    by (simp add: clearEnv_id)
  with False show ?thesis
    by (simp add: setControlPlaneEnvOnDataPlaneChange_def Let_def)
qed

lemma onChange_after_defaults:
  assumes "ns \<noteq> ''''" and "dataPlaneIsSet spec \<longleftrightarrow> svc \<noteq> ''''"
  defines "spec1 \<equiv> snd (setControlPlaneDefaults spec ns svc {})"
  defines "spec2 \<equiv> snd (setControlPlaneEnvOnDataPlaneChange spec1 ns svc)"
  shows "setControlPlaneDefaults spec2 ns svc {} = (False, spec2)"
    and "svc \<noteq> '''' \<Longrightarrow> setControlPlaneEnvOnDataPlaneChange spec1 ns svc = (False, spec1)"
proof -
  have set1: "dataPlaneIsSet spec1 \<longleftrightarrow> svc \<noteq> ''''"
    by (simp add: spec1_def dataPlaneIsSet_defaults assms(2))
  have done1: "coreDone ns svc {} (envOf (b, spec1))" for b
    using setControlPlaneDefaults_done [of ns svc "{}" spec] by (simp add: spec1_def envOf_def)
  have last1: "tlsLast (opt_Env spec1)" by (simp add: spec1_def defaults_tlsLast)
  show same: "setControlPlaneEnvOnDataPlaneChange spec1 ns svc = (False, spec1)" if "svc \<noteq> ''''"
    using done1 that set1 assms(1)
    by (simp add: setControlPlaneEnvOnDataPlaneChange_def coreDone_def ensureEnvValue_id)
  show "setControlPlaneDefaults spec2 ns svc {} = (False, spec2)"
  proof (cases "svc = ''''")
    case False
    then have "spec2 = spec1" by (simp add: spec2_def same)
    then show ?thesis using defaults_id done1 last1 by (simp add: envOf_def)
  next
    case True
    let ?st = "clearEnv ''CONTROLLER_APISIX_ADMIN_URL'' (clearEnv ''CONTROLLER_PUBLISH_SERVICE'' (False, spec1))"
    have s2: "spec2 = snd ?st"
      using True set1 by (simp add: spec2_def setControlPlaneEnvOnDataPlaneChange_def)
    have "coreDone ns svc {} (envOf ?st)"
      using done1 True by (simp add: coreDone_def)
    moreover have "tlsLast (opt_Env (snd ?st))"
      by (intro tlsLast_clearEnv) (use last1 in \<open>simp_all add: tlsVars_def\<close>)
    ultimately show ?thesis using defaults_id s2 by (simp add: envOf_def)
  qed
qed

section \<open>The defaults of a data plane\<close>

fun IsEnvVarPresentLoop :: "EnvVar \<Rightarrow> EnvVar list \<Rightarrow> bool \<Rightarrow> bool" where
  "IsEnvVarPresentLoop envVar [] found = found"
| "IsEnvVarPresentLoop envVar (listVar # rest) found =
     IsEnvVarPresentLoop envVar rest (if ev_Name envVar = ev_Name listVar then True else found)"

definition IsEnvVarPresent :: "EnvVar \<Rightarrow> EnvVar list \<Rightarrow> bool" where
  "IsEnvVarPresent envVar envVars = IsEnvVarPresentLoop envVar envVars False"

lemma IsEnvVarPresentLoop_iff:
  "IsEnvVarPresentLoop e es b \<longleftrightarrow> b \<or> ev_Name e \<in> ev_Name ` set es"
  by (induction e es b rule: IsEnvVarPresentLoop.induct) auto

lemma IsEnvVarPresent_iff: "IsEnvVarPresent e es \<longleftrightarrow> ev_Name e \<in> ev_Name ` set es"
  by (simp add: IsEnvVarPresent_def IsEnvVarPresentLoop_iff)

text \<open>
  \<open>SortableEnvVars.Less\<close>: \<open>strings.Compare\<close> of name and value run together is \<open>-1\<close>. The
  order of strings is that of their bytes.
\<close>

definition sortKey :: "EnvVar \<Rightarrow> string" where
  "sortKey e = ev_Name e @ ev_Value e"

definition Less :: "EnvVar \<Rightarrow> EnvVar \<Rightarrow> bool" where
  "Less i j \<longleftrightarrow> sortKey i < sortKey j"

definition APISIXDefaults :: "(string \<times> string) list" where
  "APISIXDefaults =
     [(''APISIX_ADMIN_ACCESS_LOG'', ''/dev/stdout''),
      (''APISIX_ADMIN_ERROR_LOG'', ''/dev/stderr''),
      (''APISIX_ADMIN_GUI_ACCESS_LOG'', ''/dev/stdout''),
      (''APISIX_ADMIN_GUI_ERROR_LOG'', ''/dev/stderr''),
      (''APISIX_CLUSTER_LISTEN'', ''off''),
      (''APISIX_DATABASE'', ''off''),
      (''APISIX_NGINX_WORKER_PROCESSES'', ''2''),
      (''APISIX_PLUGINS'', ''bundled''),
      (''APISIX_PORTAL_API_ACCESS_LOG'', ''/dev/stdout''),
      (''APISIX_PORTAL_API_ERROR_LOG'', ''/dev/stderr''),
      (''APISIX_PORT_MAPS'', ''80:8000, 443:8443''),
      (''APISIX_PROXY_ACCESS_LOG'', ''/dev/stdout''),
      (''APISIX_PROXY_ERROR_LOG'', ''/dev/stderr''),
      (''APISIX_PROXY_LISTEN'', ''0.0.0.0:'' @ digits DefaultAPISIXHTTPPort @
         '' reuseport backlog=16384, 0.0.0.0:'' @ digits DefaultAPISIXHTTPSPort @
         '' http2 ssl reuseport backlog=16384''),
      (''APISIX_STATUS_LISTEN'', ''0.0.0.0:'' @ digits DefaultAPISIXStatusPort),
      (''APISIX_ADMIN_LISTEN'', ''0.0.0.0:'' @ digits DefaultAPISIXAdminPort @
         '' ssl reuseport backlog=16384''),
      (''APISIX_ADMIN_SSL_CERT'', ''/var/cluster-certificate/tls.crt''),
      (''APISIX_ADMIN_SSL_CERT_KEY'', ''/var/cluster-certificate/tls.key''),
      (''APISIX_NGINX_ADMIN_SSL_CLIENT_CERTIFICATE'', ''/var/cluster-certificate/ca.crt''),
      (''APISIX_NGINX_ADMIN_SSL_VERIFY_CLIENT'', ''on''),
      (''APISIX_NGINX_ADMIN_SSL_VERIFY_DEPTH'', ''3'')]"

text \<open>
  Go ranges over the map in any order, and \<open>sort.Sort\<close> is not stable; both are arguments:
  the order of the iteration as a list, the sort as a function of \<open>Less\<close>.
\<close>

fun addDefaults :: "(string \<times> string) list \<Rightarrow> EnvVar slice \<Rightarrow> EnvVar slice" where
  "addDefaults [] env = env"
| "addDefaults ((key, val) # rest) env =
     (let envVar = \<lparr>ev_Name = key, ev_Value = val, ev_ValueFrom = None\<rparr>
      in if \<not> IsEnvVarPresent envVar (items env) then addDefaults rest (appendS env envVar)
         else addDefaults rest env)"

definition SetDataPlaneDefaults ::
  "((EnvVar \<Rightarrow> EnvVar \<Rightarrow> bool) \<Rightarrow> EnvVar list \<Rightarrow> EnvVar list) \<Rightarrow> (string \<times> string) list
    \<Rightarrow> DataPlaneDeploymentOptions \<Rightarrow> DataPlaneDeploymentOptions" where
  "SetDataPlaneDefaults srt order spec =
     (let env = addDefaults order (opt_Env spec)
      in spec\<lparr>opt_Env := map_option (srt Less) env\<rparr>)"

text \<open>The contract of \<open>sort.Sort\<close> for an order given by a key.\<close>

lemma filter_key_singleton:
  "distinct (map key zs) \<Longrightarrow> z \<in> set zs \<Longrightarrow> filter (\<lambda>x. key z = key x) zs = [z]"
proof (induction zs)
  case (Cons y zs)
  have "filter (\<lambda>x. key y = key x) zs = []"
    using Cons.prems(1) by (auto simp: filter_empty_conv)
  with Cons show ?case by auto
qed simp

locale go_sort =
  fixes srt :: "('a \<Rightarrow> 'a \<Rightarrow> bool) \<Rightarrow> 'a list \<Rightarrow> 'a list" and key :: "'a \<Rightarrow> 'k::linorder"
  assumes perm: "mset (srt (\<lambda>x y. key x < key y) xs) = mset xs"
    and sorted: "sorted (map key (srt (\<lambda>x y. key x < key y) xs))"
begin

lemma unique:
  assumes "mset xs = mset ys" and "distinct (map key xs)"
  shows "srt (\<lambda>x y. key x < key y) xs = sort_key key ys"
proof (rule sym, rule properties_for_sort_key)
  let ?zs = "srt (\<lambda>x y. key x < key y) xs"
  show m: "mset ?zs = mset ys" using perm assms(1) by simp
  show "sorted (map key ?zs)" by (rule sorted)
  fix k
  assume k: "k \<in> set ?zs"
  have d: "distinct (map key zs)" if "mset zs = mset xs" for zs
    using assms(2) that by (metis mset_map mset_eq_imp_distinct_iff)
  have "filter (\<lambda>x. key k = key x) ?zs = [k]" "filter (\<lambda>x. key k = key x) ys = [k]"
    using k m assms(1) d [OF perm] d [of ys]
    by (auto intro!: filter_key_singleton dest: mset_eq_setD)
  then show "filter (\<lambda>x. key k = key x) ?zs = filter (\<lambda>x. key k = key x) ys" by simp
qed

end

text \<open>
  The library's sort for short slices, \<open>insertionSort\<close>: each element is swapped down while it
  is less than the one before it.
\<close>

fun insertDown :: "('a \<Rightarrow> 'a \<Rightarrow> bool) \<Rightarrow> 'a \<Rightarrow> 'a list \<Rightarrow> 'a list" where
  "insertDown lt x [] = [x]"
| "insertDown lt x (y # ys) = (if lt x y then y # insertDown lt x ys else x # y # ys)"

definition insertionSort :: "('a \<Rightarrow> 'a \<Rightarrow> bool) \<Rightarrow> 'a list \<Rightarrow> 'a list" where
  "insertionSort lt xs = rev (fold (insertDown lt) xs [])"

lemma mset_insertDown: "mset (insertDown lt x ys) = add_mset x (mset ys)"
  by (induction ys) auto

lemma sorted_insertDown:
  fixes key :: "'a \<Rightarrow> 'k::linorder"
  assumes "sorted_wrt (\<lambda>x y. key y \<le> key x) ys"
  shows "sorted_wrt (\<lambda>x y. key y \<le> key x) (insertDown (\<lambda>x y. key x < key y) x ys)"
  using assms
proof (induction ys)
  case (Cons y ys)
  have "set (insertDown (\<lambda>x y. key x < key y) x ys) = insert x (set ys)"
    using mset_insertDown [of _ x ys] by (metis set_mset_add_mset_insert set_mset_mset)
  with Cons show ?case by fastforce
qed simp

lemma mset_fold_insertDown: "mset (fold (insertDown lt) xs ys) = mset xs + mset ys"
  by (induction xs arbitrary: ys) (auto simp: mset_insertDown)

lemma sorted_fold_insertDown:
  fixes key :: "'a \<Rightarrow> 'k::linorder"
  shows "sorted_wrt (\<lambda>x y. key y \<le> key x) ys \<Longrightarrow>
    sorted_wrt (\<lambda>x y. key y \<le> key x) (fold (insertDown (\<lambda>x y. key x < key y)) xs ys)"
  by (induction xs arbitrary: ys) (auto simp: sorted_insertDown)

interpretation byNameValue: go_sort insertionSort sortKey
proof
  fix xs
  show "mset (insertionSort (\<lambda>x y. sortKey x < sortKey y) xs) = mset xs"
    by (simp add: insertionSort_def mset_fold_insertDown)
  show "sorted (map sortKey (insertionSort (\<lambda>x y. sortKey x < sortKey y) xs))"
    using sorted_fold_insertDown [of sortKey "[]" xs]
    by (simp add: insertionSort_def sorted_map sorted_wrt_rev)
qed

lemma Less_key: "Less = (\<lambda>x y. sortKey x < sortKey y)"
  by (simp add: Less_def fun_eq_iff)

subsection \<open>What the loop adds\<close>

definition asEnvVar :: "string \<times> string \<Rightarrow> EnvVar" where
  "asEnvVar kv = \<lparr>ev_Name = fst kv, ev_Value = snd kv, ev_ValueFrom = None\<rparr>"

definition missingDefaults :: "(string \<times> string) list \<Rightarrow> EnvVar list \<Rightarrow> EnvVar list" where
  "missingDefaults order env =
     map asEnvVar (filter (\<lambda>kv. fst kv \<notin> ev_Name ` set env) order)"

lemma asEnvVar_Name [simp]: "ev_Name (asEnvVar kv) = fst kv"
  by (simp add: asEnvVar_def)

lemma addDefaults_eq:
  "distinct (map fst order) \<Longrightarrow>
   items (addDefaults order env) = items env @ missingDefaults order (items env)"
proof (induction order env rule: addDefaults.induct)
  case (2 key val rest env)
  have "filter (\<lambda>kv. fst kv \<noteq> key \<and> fst kv \<notin> N) rest = filter (\<lambda>kv. fst kv \<notin> N) rest" for N
    using 2 by (intro filter_cong) auto
  with 2 show ?case
    by (auto simp: IsEnvVarPresent_iff missingDefaults_def asEnvVar_def Let_def)
qed (simp add: missingDefaults_def)

lemma items_map_option: "f [] = [] \<Longrightarrow> items (map_option f s) = f (items s)"
  by (cases s) simp_all

lemma APISIXDefaults_distinct: "distinct (map fst APISIXDefaults)"
  by (simp add: APISIXDefaults_def)

lemma APISIXDefaults_order:
  "mset order = mset APISIXDefaults \<Longrightarrow> distinct (map fst order)"
  by (metis APISIXDefaults_distinct mset_eq_imp_distinct_iff mset_map)

lemma missingDefaults_mset:
  "mset o1 = mset o2 \<Longrightarrow> mset (missingDefaults o1 env) = mset (missingDefaults o2 env)"
  by (simp add: missingDefaults_def)

lemma go_sort_Nil: "go_sort srt sortKey \<Longrightarrow> srt Less [] = []"
  using go_sort.perm [of srt sortKey "[]"] by (simp add: Less_key)

lemma SetDataPlaneDefaults_env:
  assumes "go_sort srt sortKey" and "mset order = mset APISIXDefaults"
  shows "items (opt_Env (SetDataPlaneDefaults srt order spec)) =
    srt Less (items (opt_Env spec) @ missingDefaults order (items (opt_Env spec)))"
  using assms
  by (simp add: SetDataPlaneDefaults_def items_map_option go_sort_Nil addDefaults_eq APISIXDefaults_order)

text \<open>
  What is said of the sorted list does not depend on the sort or on the order of the
  iteration if no two entries have the same key.
\<close>

lemma SetDataPlaneDefaults_mset:
  assumes "go_sort srt sortKey" and "mset order = mset APISIXDefaults"
  shows "mset (items (opt_Env (SetDataPlaneDefaults srt order spec))) =
    mset (items (opt_Env spec)) + mset (missingDefaults APISIXDefaults (items (opt_Env spec)))"
  using assms go_sort.perm [OF assms(1)]
  by (simp add: SetDataPlaneDefaults_env Less_key missingDefaults_mset [OF assms(2)])

lemma missingDefaults_names:
  "ev_Name ` set (missingDefaults order env) = fst ` set order - ev_Name ` set env"
  by (force simp: missingDefaults_def)

section \<open>Equality of deployment options\<close>

text \<open>
  \<open>reflect.DeepEqual\<close> compares pointers by what they point to and tells the nil slice from the
  empty one, as the equality of options does.
\<close>

definition deploymentOptionsDeepEqual ::
  "'a DeploymentOptions_scheme \<Rightarrow> 'b DeploymentOptions_scheme \<Rightarrow> bool" where
  "deploymentOptionsDeepEqual opts1 opts2 =
     (if opt_ContainerImage opts1 \<noteq> opt_ContainerImage opts2 then False
      else if opt_Version opts1 \<noteq> opt_Version opts2 then False
      else if opt_Env opts1 \<noteq> opt_Env opts2 then False
      else if opt_EnvFrom opts1 \<noteq> opt_EnvFrom opts2 then False
      else True)"

definition controlplaneSpecDeepEqual ::
  "'a ControlPlaneDeploymentOptions_scheme \<Rightarrow> 'b ControlPlaneDeploymentOptions_scheme \<Rightarrow> bool" where
  "controlplaneSpecDeepEqual spec1 spec2 =
     (if \<not> deploymentOptionsDeepEqual spec1 spec2 then False
      else if opt_DataPlane spec1 \<noteq> opt_DataPlane spec2 then False
      else True)"

definition dataplaneSpecDeepEqual :: "DataPlaneDeploymentOptions \<Rightarrow> DataPlaneDeploymentOptions \<Rightarrow> bool" where
  "dataplaneSpecDeepEqual spec1 spec2 = deploymentOptionsDeepEqual spec1 spec2"

section \<open>Properties\<close>

text \<open>C28. \<open>setControlPlaneDefaults\<close> sets exactly the variables it is in charge of. Afterwards
  the pod's namespace and name come from the downward API, the publish service and the admin
  URL are those of the data plane's service if there is one and overriding is not disabled, the
  certificate files are the mounted ones unless disabled; every other variable and every other
  field of the specification is as before; and a second call changes nothing and reports no
  change.\<close>

theorem setControlPlaneDefaults_correct:
  "let (changed, spec') = setControlPlaneDefaults spec ns svc D;
       old = items (opt_Env spec); new = items (opt_Env spec');
       connected = (ns \<noteq> '''' \<and> svc \<noteq> '''')
   in envVarSourceByName new ''POD_NAMESPACE'' = Some (fieldSource ''metadata.namespace'') \<and>
      envVarSourceByName new ''POD_NAME'' = Some (fieldSource ''metadata.name'') \<and>
      envValueByName new ''CONTROLLER_PUBLISH_SERVICE'' =
        (if connected \<and> ''CONTROLLER_PUBLISH_SERVICE'' \<notin> D then ns @ ''/'' @ svc
         else envValueByName old ''CONTROLLER_PUBLISH_SERVICE'') \<and>
      envValueByName new ''CONTROLLER_APISIX_ADMIN_URL'' =
        (if connected \<and> ''CONTROLLER_APISIX_ADMIN_URL'' \<notin> D
         then ''https://'' @ svc @ ''.'' @ ns @ ''.svc:9444''
         else envValueByName old ''CONTROLLER_APISIX_ADMIN_URL'') \<and>
      list_all (\<lambda>(name, path). envValueByName new name =
          (if name \<notin> D then path else envValueByName old name))
        [(''CONTROLLER_APISIX_ADMIN_TLS_CLIENT_CERT_FILE'', ''/var/cluster-certificate/tls.crt''),
         (''CONTROLLER_APISIX_ADMIN_TLS_CLIENT_KEY_FILE'', ''/var/cluster-certificate/tls.key''),
         (''CONTROLLER_APISIX_ADMIN_CA_CERT_FILE'', ''/var/cluster-certificate/ca.crt'')] \<and>
      (\<forall>name. name \<in> {''POD_NAMESPACE'', ''POD_NAME'', ''CONTROLLER_PUBLISH_SERVICE'',
           ''CONTROLLER_APISIX_ADMIN_URL'', ''CONTROLLER_APISIX_ADMIN_TLS_CLIENT_CERT_FILE'',
           ''CONTROLLER_APISIX_ADMIN_TLS_CLIENT_KEY_FILE'', ''CONTROLLER_APISIX_ADMIN_CA_CERT_FILE''} \<or>
         (envValueByName new name, envVarSourceByName new name) =
         (envValueByName old name, envVarSourceByName old name)) \<and>
      spec'\<lparr>opt_Env := opt_Env spec\<rparr> = spec \<and>
      setControlPlaneDefaults spec' ns svc D = (False, spec')"
proof -
  let ?r = "setControlPlaneDefaults spec ns svc D"
  have frame: "(snd ?r)\<lparr>opt_Env := opt_Env spec\<rparr> = spec"
    by (simp add: setControlPlaneDefaults_steps tlsSteps_frame coreSteps_frame)
  have pod: "envVarSourceByName (envOf ?r) ''POD_NAMESPACE'' = Some (fieldSource ''metadata.namespace'')"
    "envVarSourceByName (envOf ?r) ''POD_NAME'' = Some (fieldSource ''metadata.name'')"
    using setControlPlaneDefaults_done [of ns svc D spec] by (simp_all only: coreDone_def)
  have names: "fst ` set tlsFiles = {''CONTROLLER_APISIX_ADMIN_TLS_CLIENT_CERT_FILE'',
      ''CONTROLLER_APISIX_ADMIN_TLS_CLIENT_KEY_FILE'', ''CONTROLLER_APISIX_ADMIN_CA_CERT_FILE''}"
    by (simp add: tlsFiles_def)
  have rest: "name \<in> {''POD_NAMESPACE'', ''POD_NAME'', ''CONTROLLER_PUBLISH_SERVICE'',
         ''CONTROLLER_APISIX_ADMIN_URL''} \<union> fst ` set tlsFiles \<or>
      (envValueByName (envOf ?r) name, envVarSourceByName (envOf ?r) name) =
      (envValueByName (items (opt_Env spec)) name, envVarSourceByName (items (opt_Env spec)) name)" for name
    unfolding disj_imp
    by (rule impI) (simp add: defaults_value defaults_source map_of_eq_None_iff [THEN iffD2] Let_def)
  have vals: "envValueByName (envOf ?r) ''CONTROLLER_PUBLISH_SERVICE'' =
        (if (ns \<noteq> '''' \<and> svc \<noteq> '''') \<and> ''CONTROLLER_PUBLISH_SERVICE'' \<notin> D then ns @ ''/'' @ svc
         else envValueByName (items (opt_Env spec)) ''CONTROLLER_PUBLISH_SERVICE'')"
    "envValueByName (envOf ?r) ''CONTROLLER_APISIX_ADMIN_URL'' =
        (if (ns \<noteq> '''' \<and> svc \<noteq> '''') \<and> ''CONTROLLER_APISIX_ADMIN_URL'' \<notin> D
         then ''https://'' @ svc @ ''.'' @ ns @ ''.svc:9444''
         else envValueByName (items (opt_Env spec)) ''CONTROLLER_APISIX_ADMIN_URL'')"
    by (simp_all add: defaults_value tlsFiles_lookup controllerPublishService_def
        controllerApisixAdminURL_def DefaultAPISIXAdminPort_def digits_9444)
  have files: "list_all (\<lambda>(name, path). envValueByName (envOf ?r) name =
      (if name \<notin> D then path else envValueByName (items (opt_Env spec)) name)) tlsFiles"
    by (simp add: tlsFiles_def) (simp add: defaults_value tlsFiles_lookup)
  show ?thesis
    unfolding Let_def split_beta envOf_def [symmetric]
    using frame pod vals files rest [unfolded names] setControlPlaneDefaults_fixpoint [of spec ns svc D]
    unfolding tlsFiles_def split_beta by (intro conjI allI) (simp_all only: Un_insert_left Un_empty_left prod.collapse)
qed

text \<open>C29. The variables the controller sets are stable across reconciliations. For a control plane in
  a namespace, whose service name is known exactly when a data plane is named, once the defaults
  are set and the data plane's variables were brought up to date, setting the defaults again
  changes nothing; with a data plane, bringing them up to date changes nothing either, so the
  two steps of the loop do not fight over the variables they share.\<close>

theorem controlPlaneEnv_stable:
  assumes "ns \<noteq> ''''" and "dataPlaneIsSet spec \<longleftrightarrow> svc \<noteq> ''''"
  shows "let spec1 = snd (setControlPlaneDefaults spec ns svc {});
             (changed, spec2) = setControlPlaneEnvOnDataPlaneChange spec1 ns svc
         in setControlPlaneDefaults spec2 ns svc {} = (False, spec2) \<and>
            setControlPlaneEnvOnDataPlaneChange spec2 ns svc = (False, spec2) \<and>
            (if svc \<noteq> '''' then \<not> changed \<and> spec2 = spec1
             else envValueByName (items (opt_Env spec2)) ''CONTROLLER_PUBLISH_SERVICE'' = '''' \<and>
                  envValueByName (items (opt_Env spec2)) ''CONTROLLER_APISIX_ADMIN_URL'' = '''')"
proof -
  let ?spec1 = "snd (setControlPlaneDefaults spec ns svc {})"
  let ?r = "setControlPlaneEnvOnDataPlaneChange ?spec1 ns svc"
  have "\<not> dataPlaneIsSet spec \<Longrightarrow>
      envValueByName (envOf ?r) ''CONTROLLER_PUBLISH_SERVICE'' = '''' \<and>
      envValueByName (envOf ?r) ''CONTROLLER_APISIX_ADMIN_URL'' = ''''"
    by (simp add: setControlPlaneEnvOnDataPlaneChange_def Let_def dataPlaneIsSet_defaults)
  then show ?thesis
    using onChange_after_defaults [OF assms] onChange_fixpoint [of ?spec1 ns svc] assms(2)
    by (simp add: split_beta Let_def envOf_def)
qed

definition exampleSpec :: "string option \<Rightarrow> ControlPlaneDeploymentOptions" where
  "exampleSpec dp = \<lparr>opt_ContainerImage = None, opt_Version = None,
     opt_Env = Some [\<lparr>ev_Name = ''A'', ev_Value = ''1'', ev_ValueFrom = None\<rparr>],
     opt_EnvFrom = None, opt_DataPlane = dp\<rparr>"

theorem controlPlaneEnv_stable_witness:
  "let spec1 = snd (setControlPlaneDefaults (exampleSpec (Some ''dp'')) ''default'' ''svc-1'' {});
       (changed, spec2) = setControlPlaneEnvOnDataPlaneChange spec1 ''default'' ''svc-1''
   in setControlPlaneDefaults spec2 ''default'' ''svc-1'' {} = (False, spec2) \<and>
      setControlPlaneEnvOnDataPlaneChange spec2 ''default'' ''svc-1'' = (False, spec2) \<and>
      \<not> changed \<and> spec2 = spec1"
proof -
  have "dataPlaneIsSet (exampleSpec (Some ''dp'')) \<longleftrightarrow> ''svc-1'' \<noteq> ''''"
    by (simp add: exampleSpec_def dataPlaneIsSet_def)
  moreover have "''default'' \<noteq> ''''" by simp
  ultimately show ?thesis
    using controlPlaneEnv_stable [of "''default''" "exampleSpec (Some ''dp'')" "''svc-1''"]
    by (simp only: list.distinct not_False_eq_True simp_thms if_True)
qed

text \<open>C30. \<open>SetDataPlaneDefaults\<close> adds and does not replace, whatever the order in which Go ranges
  over the map of defaults and whatever sort it uses. Afterwards the variables are those that
  were there plus, once, every default whose name was not; they are in order; and if no two of
  them have the same name and value run together, the result is one and the same for every
  order and every sort.\<close>

theorem SetDataPlaneDefaults_correct:
  assumes "go_sort srt sortKey" and "mset order = mset APISIXDefaults"
  shows "let old = items (opt_Env spec); new = items (opt_Env (SetDataPlaneDefaults srt order spec));
             added = map asEnvVar (filter (\<lambda>kv. fst kv \<notin> ev_Name ` set old) APISIXDefaults)
         in mset new = mset old + mset added \<and> sorted (map sortKey new) \<and>
            ev_Name ` set new = ev_Name ` set old \<union> fst ` set APISIXDefaults \<and>
            (if distinct (map sortKey (old @ added)) then new = sort_key sortKey (old @ added)
             else True) \<and>
            (SetDataPlaneDefaults srt order spec)\<lparr>opt_Env := opt_Env spec\<rparr> = spec"
proof -
  let ?old = "items (opt_Env spec)"
  let ?new = "items (opt_Env (SetDataPlaneDefaults srt order spec))"
  let ?added = "missingDefaults APISIXDefaults ?old"
  have m: "mset ?new = mset ?old + mset ?added"
    by (rule SetDataPlaneDefaults_mset [OF assms])
  then have "set ?new = set ?old \<union> set ?added"
    by (metis set_mset_mset set_mset_union)
  then have "ev_Name ` set ?new = ev_Name ` set ?old \<union> fst ` set APISIXDefaults"
    using missingDefaults_names [of APISIXDefaults ?old] by (simp only: image_Un) blast
  moreover have n: "?new = srt (\<lambda>x y. sortKey x < sortKey y) (?old @ missingDefaults order ?old)"
    using SetDataPlaneDefaults_env [OF assms] by (simp only: Less_key)
  moreover have "?new = sort_key sortKey (?old @ ?added)" if "distinct (map sortKey (?old @ ?added))"
  proof -
    have e: "mset (?old @ missingDefaults order ?old) = mset (?old @ ?added)"
      by (simp add: missingDefaults_mset [OF assms(2)])
    then have "distinct (map sortKey (?old @ missingDefaults order ?old))"
      using that by (metis mset_eq_imp_distinct_iff mset_map)
    then show ?thesis using go_sort.unique [OF assms(1) e] n by metis
  qed
  moreover have frame: "(SetDataPlaneDefaults srt order spec)\<lparr>opt_Env := opt_Env spec\<rparr> = spec"
    by (simp add: SetDataPlaneDefaults_def Let_def)
  moreover have "sorted (map sortKey ?new)"
    unfolding n by (rule go_sort.sorted [OF assms(1)])
  ultimately show ?thesis
    using m unfolding Let_def missingDefaults_def [symmetric] if_bool_eq_conj
    by blast
qed

definition exampleOptions :: DataPlaneDeploymentOptions where
  "exampleOptions = \<lparr>opt_ContainerImage = None, opt_Version = None,
     opt_Env = Some [\<lparr>ev_Name = ''APISIX_DATABASE'', ev_Value = ''postgres'', ev_ValueFrom = None\<rparr>],
     opt_EnvFrom = None\<rparr>"

theorem SetDataPlaneDefaults_correct_witness:
  "let new = items (opt_Env (SetDataPlaneDefaults insertionSort (rev APISIXDefaults) exampleOptions))
   in sorted (map sortKey new) \<and> ev_Name ` set new = fst ` set APISIXDefaults"
proof -
  have "mset (rev APISIXDefaults) = mset APISIXDefaults" by simp
  moreover have "''APISIX_DATABASE'' \<in> fst ` set APISIXDefaults" by (simp add: APISIXDefaults_def)
  then have "ev_Name ` set (items (opt_Env exampleOptions)) \<union> fst ` set APISIXDefaults =
      fst ` set APISIXDefaults"
    by (simp add: exampleOptions_def insert_absorb)
  ultimately show ?thesis
    using SetDataPlaneDefaults_correct [OF byNameValue.go_sort_axioms, of "rev APISIXDefaults" exampleOptions]
    by (simp only: Let_def)
qed

section \<open>Where the code differs from its comments\<close>

text \<open>
  \<open>setControlPlaneDefaults\<close> reports no change when only the certificate variables changed.
\<close>

lemma setControlPlaneDefaults_silent_change:
  "let spec = snd (setControlPlaneDefaults (exampleSpec None) ''default'' '''' {});
       spec0 = spec\<lparr>opt_Env := rejectEnvByName (opt_Env spec) ''CONTROLLER_APISIX_ADMIN_CA_CERT_FILE''\<rparr>;
       (changed, spec1) = setControlPlaneDefaults spec0 ''default'' '''' {}
   in \<not> changed \<and> opt_Env spec1 \<noteq> opt_Env spec0"
  by (simp add: setControlPlaneDefaults_def exampleSpec_def ensureEnvSource_def writeEnv_def
      updateEnv_def updateEnvSource_def rejectEnvByName_def fieldSource_def Let_def)

text \<open>
  The sort by name and value can change which of two variables of one name comes last, the
  one that takes effect.
\<close>

lemma Less_reorders_duplicates:
  "insertionSort Less [\<lparr>ev_Name = ''A'', ev_Value = ''2'', ev_ValueFrom = None\<rparr>,
      \<lparr>ev_Name = ''A'', ev_Value = ''1'', ev_ValueFrom = None\<rparr>] =
   [\<lparr>ev_Name = ''A'', ev_Value = ''1'', ev_ValueFrom = None\<rparr>,
    \<lparr>ev_Name = ''A'', ev_Value = ''2'', ev_ValueFrom = None\<rparr>]"
  by (simp add: insertionSort_def Less_def sortKey_def less_char_def)

end
