(* ===== verification/GatewayUtils.thy ===== *)
theory GatewayUtils
  imports Lists Conditions EnvVars
begin

text \<open>
  The helpers on gateways and on the link between a control plane and its data plane
  (\<open>internal/utils/gateway/ownerrefs.go\<close>, \<open>status.go\<close>).
\<close>

section \<open>Objects of a gateway\<close>

definition ListDataPlanesForGateway :: "'w Client \<Rightarrow> Gateway \<Rightarrow> (DataPlane list, 'w) action" where
  "ListDataPlanesForGateway c gateway =
     (if om_Namespace (gw_Meta gateway) = '''' then
        failA (Errorf ''can't list dataplanes for gateway: gateway resource was missing namespace'')
      else bindA (cl_List (cl_DataPlanes c) (Some (om_Namespace (gw_Meta gateway)))
                    [(GatewayOperatorControlledLabel, GatewayManagedLabelValue)])
             (\<lambda>dataplaneList. retA (filter
                (\<lambda>dataplane. IsOwnedByRefUID (dp_Meta dataplane) (om_UID (gw_Meta gateway)))
                dataplaneList)))"

definition ListControlPlanesForGateway :: "'w Client \<Rightarrow> Gateway \<Rightarrow> (ControlPlane list, 'w) action" where
  "ListControlPlanesForGateway c gateway =
     (if om_Namespace (gw_Meta gateway) = '''' then
        failA (Errorf ''can't list dataplanes for gateway: gateway resource was missing namespace'')
      else bindA (cl_List (cl_ControlPlanes c) (Some (om_Namespace (gw_Meta gateway)))
                    [(GatewayOperatorControlledLabel, GatewayManagedLabelValue)])
             (\<lambda>controlplaneList. retA (filter
                (\<lambda>controlplane. IsOwnedByRefUID (cp_Meta controlplane) (om_UID (gw_Meta gateway)))
                controlplaneList)))"

definition ListNetworkPoliciesForGateway :: "'w Client \<Rightarrow> Gateway \<Rightarrow> (NetworkPolicy list, 'w) action" where
  "ListNetworkPoliciesForGateway c gateway =
     (if om_Namespace (gw_Meta gateway) = '''' then
        failA (Errorf ''can't list networkpolicies for gateway: gateway resource was missing namespace'')
      else bindA (cl_List (cl_NetworkPolicies c) (Some (om_Namespace (gw_Meta gateway)))
                    [(GatewayOperatorControlledLabel, GatewayManagedLabelValue)])
             (\<lambda>networkPolicyList. retA (filter
                (\<lambda>networkPolicy. IsOwnedByRefUID (np_Meta networkPolicy) (om_UID (gw_Meta gateway)))
                networkPolicyList)))"

text \<open>All three are the generic list of owned objects behind the check of the namespace.\<close>

definition listForGateway ::
  "('o, 'w) resource \<Rightarrow> 'o client_object \<Rightarrow> string \<Rightarrow> Gateway \<Rightarrow> ('o list, 'w) action" where
  "listForGateway res k msg gateway =
     (if om_Namespace (gw_Meta gateway) = '''' then failA (Errorf msg)
      else listOwned res k (Some (om_Namespace (gw_Meta gateway)))
             GatewayOperatorControlledLabel GatewayManagedLabelValue (om_UID (gw_Meta gateway)))"

lemma gateway_lists:
  "ListDataPlanesForGateway c gw = listForGateway (cl_DataPlanes c) DataPlaneObj
     ''can't list dataplanes for gateway: gateway resource was missing namespace'' gw"
  "ListControlPlanesForGateway c gw = listForGateway (cl_ControlPlanes c) ControlPlaneObj
     ''can't list dataplanes for gateway: gateway resource was missing namespace'' gw"
  "ListNetworkPoliciesForGateway c gw = listForGateway (cl_NetworkPolicies c) NetworkPolicyObj
     ''can't list networkpolicies for gateway: gateway resource was missing namespace'' gw"
  by (simp_all add: ListDataPlanesForGateway_def ListControlPlanesForGateway_def
      ListNetworkPoliciesForGateway_def listForGateway_def listOwned_def)

section \<open>The data plane of a control plane\<close>

definition GetDataPlaneForControlPlane :: "'w Client \<Rightarrow> ControlPlane \<Rightarrow> (DataPlane, 'w) action" where
  "GetDataPlaneForControlPlane c controlplane =
     (case opt_DataPlane (cp_Spec controlplane) of
        None \<Rightarrow> failA (ErrDataPlaneNotSet ('', controlplane = '' @
                  om_Namespace (cp_Meta controlplane) @ ''/'' @ om_Name (cp_Meta controlplane)))
      | Some name \<Rightarrow>
          if name = '''' then
            failA (ErrDataPlaneNotSet ('', controlplane = '' @
              om_Namespace (cp_Meta controlplane) @ ''/'' @ om_Name (cp_Meta controlplane)))
          else cl_Get (cl_DataPlanes c) (om_Namespace (cp_Meta controlplane)) name)"

definition GetDataplaneServiceName :: "'w Client \<Rightarrow> DataPlane \<Rightarrow> (string, 'w) action" where
  "GetDataplaneServiceName c dataplane =
     bindA (ListServicesForOwner c GatewayOperatorControlledLabel DataPlaneManagedLabelValue
              (om_Namespace (dp_Meta dataplane)) (om_UID (dp_Meta dataplane)))
       (\<lambda>services.
          (let count = length services
           in if count > 1 then
                failA (Errorf (''found '' @ digits count @
                  '' services for DataPlane currently unsupported: expected 1 or less''))
              else if count = 0 then failA (Errorf ''found 0 services for DataPlane'')
              else retA (om_Name (svc_Meta (services ! 0)))))"

section \<open>The status of a gateway\<close>

text \<open>
  \<open>GatewayConditionScheduled\<close> and its reason are \<open>Scheduled\<close>, \<open>GatewayConditionReady\<close> is
  \<open>Ready\<close> in the gateway API.
\<close>

definition GatewayConditionScheduled :: string where "GatewayConditionScheduled = ''Scheduled''"
definition GatewayReasonScheduled :: string where "GatewayReasonScheduled = ''Scheduled''"
definition GatewayConditionReady :: string where "GatewayConditionReady = ''Ready''"

fun conditionHolds :: "string \<Rightarrow> string \<Rightarrow> Condition list \<Rightarrow> bool" where
  "conditionHolds cType reason [] = False"
| "conditionHolds cType reason (cond # rest) =
     (if c_Type cond = cType \<and> c_Reason cond = reason \<and> c_Status cond = ConditionTrue then True
      else conditionHolds cType reason rest)"

definition GatewayIsScheduled :: "Gateway \<Rightarrow> bool" where
  "GatewayIsScheduled gateway =
     conditionHolds GatewayConditionScheduled GatewayReasonScheduled (gw_Conditions gateway)"

definition GatewayIsReady :: "Gateway \<Rightarrow> bool" where
  "GatewayIsReady gateway =
     conditionHolds GatewayConditionReady ResourceReadyReason (gw_Conditions gateway)"

text \<open>
  When each type occurs once, as the API declares, both are lookups of the condition of the type.
\<close>

lemma conditionHolds_condMap:
  "uniqueTypes cs \<Longrightarrow> conditionHolds t r cs \<longleftrightarrow>
   (case condMap cs t of None \<Rightarrow> False | Some c \<Rightarrow> c_Reason c = r \<and> c_Status c = ConditionTrue)"
proof (induction cs)
  case (Cons c cs)
  then show ?case
    by (cases "c_Type c = t") (auto simp: uniqueTypes_def condMap_None [THEN iffD2])
qed simp

lemma gateway_status_lookup:
  assumes "uniqueTypes (gw_Conditions gw)"
  defines "holds t r \<equiv> (case condMap (gw_Conditions gw) t of
     None \<Rightarrow> False | Some c \<Rightarrow> c_Reason c = r \<and> c_Status c = ConditionTrue)"
  shows "GatewayIsScheduled gw \<longleftrightarrow> holds ''Scheduled'' ''Scheduled''"
    and "GatewayIsReady gw \<longleftrightarrow> holds ''Ready'' ''ResourceReady''"
  using assms(1)
  by (simp_all add: GatewayIsScheduled_def GatewayIsReady_def conditionHolds_condMap holds_def
      GatewayConditionScheduled_def GatewayReasonScheduled_def GatewayConditionReady_def
      ResourceReadyReason_def)

section \<open>Lemmas on the link\<close>

text \<open>
  What looking up the data plane's service finds, over the stored objects; the name exists
  exactly if there is one service the data plane owns.
\<close>

definition dataPlaneServices :: "DataPlane \<Rightarrow> Cluster \<Rightarrow> Service list" where
  "dataPlaneServices dp v =
     ownedObjects ServiceObj (Some (om_Namespace (dp_Meta dp))) GatewayOperatorControlledLabel
       DataPlaneManagedLabelValue (om_UID (dp_Meta dp)) (st_Services v)"

section \<open>Properties\<close>

text \<open>The service of a data plane. Against an API whose reads are up to date, \<open>GetDataplaneServiceName\<close>
  changes nothing and answers a name only if the data plane owns exactly one service in its
  namespace, whose name it is; if it owns none or several, the answer is an error and not one of
  the API.\<close>

lemma GetDataplaneServiceName_correct:
  assumes "api_kind (cl_Services c) ServiceObj view st_Services put body status"
  shows "case GetDataplaneServiceName c dp w of (r, w1) \<Rightarrow> view w1 = view w \<and>
    (case r of
       Inr name \<Rightarrow> map (\<lambda>s. om_Name (svc_Meta s)) (dataPlaneServices dp (view w)) = [name]
     | Inl e \<Rightarrow> if isAPIErr e then True else length (dataPlaneServices dp (view w)) \<noteq> 1)"
proof -
  let ?s = "dataPlaneServices dp (view w)"
  have "wpA (GetDataplaneServiceName c dp) (\<lambda>r w1. view w1 = view w \<and>
      (case r of Inr name \<Rightarrow> map (\<lambda>s. om_Name (svc_Meta s)) ?s = [name]
       | Inl e \<Rightarrow> if isAPIErr e then True else length ?s \<noteq> 1)) w"
    unfolding GetDataplaneServiceName_def list_as_listOwned wp
    by (rule api_kind.wp_listOwned [OF assms])
      (auto simp: wp Let_def dataPlaneServices_def length_Suc_conv less_Suc_eq not_less_eq)
  then show ?thesis by (simp add: wpA_def)
qed

definition exampleService :: "string \<Rightarrow> string \<Rightarrow> Service" where
  "exampleService nm uid =
     \<lparr>svc_Meta = emptyMeta\<lparr>om_Namespace := ''default'', om_Name := nm,
        om_Labels := Some (fmupd GatewayOperatorControlledLabel DataPlaneManagedLabelValue fmempty),
        om_OwnerReferences := Some [\<lparr>or_APIVersion = ''v1'', or_Kind = ''DataPlane'',
          or_Name = ''dp'', or_UID = uid, or_Controller = Some True\<rparr>]\<rparr>,
      svc_Type = ''LoadBalancer'', svc_Selector = fmempty, svc_Ports = []\<rparr>"

definition exampleDataPlane :: "string \<Rightarrow> string \<Rightarrow> DataPlane" where
  "exampleDataPlane nm uid =
     \<lparr>dp_TypeMeta = typed SchemeGroup SchemeVersion ''DataPlane'',
      dp_Meta = emptyMeta\<lparr>om_Namespace := ''default'', om_Name := nm, om_UID := uid\<rparr>,
      dp_Spec = exampleOptions,
      dp_Status = \<lparr>dps_Conditions = [], dps_Service = ''''\<rparr>\<rparr>"

theorem GetDataplaneServiceName_correct_witness:
  "let w = quiet (emptyCluster\<lparr>st_Services := [exampleService ''s1'' ''u1'', exampleService ''s2'' ''u2'']\<rparr>)
   in case GetDataplaneServiceName memClient (exampleDataPlane ''dp'' ''u2'') w of (r, w1) \<Rightarrow>
        sim_Cluster w1 = sim_Cluster w \<and>
        (case r of Inr name \<Rightarrow> name = ''s2'' | Inl e \<Rightarrow> isAPIErr e)"
  using GetDataplaneServiceName_correct [where c = memClient and dp = "exampleDataPlane ''dp'' ''u2''" and
      w = "quiet (emptyCluster\<lparr>st_Services := [exampleService ''s1'' ''u1'', exampleService ''s2'' ''u2'']\<rparr>)",
      unfolded memClient_sel, OF mem_svc.api_kind_axioms]
  by (simp add: Let_def quiet_def dataPlaneServices_def ownedObjects_def exampleService_def
      exampleDataPlane_def emptyMeta_def selects_def IsOwnedByRefUID_def
      split: prod.splits sum.splits if_splits)

end
