(* ===== verification/Base64.thy ===== *)
theory Base64
  imports Prelude
begin

text \<open>
  The two base64 decoders of Go's \<open>encoding/base64\<close> that the validator calls,
  \<open>StdEncoding\<close> (padded) and \<open>RawStdEncoding\<close> (no padding), and the padded and
  unpadded encoders as what they invert. Both decoders skip line breaks and ignore the unused
  low bits of the last character (they are not \<open>Strict\<close>).
\<close>

section \<open>The alphabet\<close>

definition encodeStd :: string where
  "encodeStd = ''ABCDEFGHIJKLMNOPQRSTUVWXYZabcdefghijklmnopqrstuvwxyz0123456789+/''"

definition sextetChar :: "nat \<Rightarrow> char" where
  "sextetChar n = encodeStd ! n"

text \<open>\<open>NewEncoding\<close> fills the table with the index of each character of the alphabet.\<close>

definition decodeMap :: "char \<Rightarrow> nat option" where
  "decodeMap = map_of (zip encodeStd [0..<64])"

lemma encodeStd_facts:
  "length encodeStd = 64" "distinct encodeStd" "CHR ''='' \<notin> set encodeStd"
  "CHR 0x0A \<notin> set encodeStd" "CHR 0x0D \<notin> set encodeStd"
  by (simp_all add: encodeStd_def)

lemma sextetChar_in [simp]: "n < 64 \<Longrightarrow> sextetChar n \<in> set encodeStd"
  by (simp add: sextetChar_def encodeStd_facts(1))

lemma decodeMap_sextet [simp]: "n < 64 \<Longrightarrow> decodeMap (sextetChar n) = Some n"
  by (simp add: decodeMap_def sextetChar_def map_of_zip_nth encodeStd_facts(1,2))

lemma sextet_plain [simp]:
  "n < 64 \<Longrightarrow> sextetChar n \<noteq> CHR 0x0A" "n < 64 \<Longrightarrow> sextetChar n \<noteq> CHR 0x0D"
  "n < 64 \<Longrightarrow> sextetChar n \<noteq> CHR ''=''"
  using sextetChar_in [of n] encodeStd_facts(3-5) by metis+

lemma decodeMap_pad [simp]: "decodeMap CHR ''='' = None"
  using encodeStd_facts by (simp add: decodeMap_def map_of_zip_is_None)

section \<open>Decoding\<close>

definition byteOf :: "nat \<Rightarrow> char" where
  "byteOf n = char_of (n mod 256)"

text \<open>The bytes of four, three and two sextets, as \<open>decodeQuantum\<close> writes them.\<close>

definition bytes3 :: "nat \<Rightarrow> nat \<Rightarrow> nat \<Rightarrow> nat \<Rightarrow> string" where
  "bytes3 a b c d =
     (let val = a * 262144 + b * 4096 + c * 64 + d
      in [byteOf (val div 65536), byteOf (val div 256), byteOf val])"

definition bytes2 :: "nat \<Rightarrow> nat \<Rightarrow> nat \<Rightarrow> string" where
  "bytes2 a b c =
     (let val = a * 262144 + b * 4096 + c * 64
      in [byteOf (val div 65536), byteOf (val div 256)])"

definition bytes1 :: "nat \<Rightarrow> nat \<Rightarrow> string" where
  "bytes1 a b = (let val = a * 262144 + b * 4096 in [byteOf (val div 65536)])"

text \<open>
  The quanta of the input without its line breaks. With padding the last quantum is complete;
  without, it may have two or three characters and \<open>=\<close> is not a character of the alphabet.
\<close>

fun decodeQuanta :: "bool \<Rightarrow> string \<Rightarrow> string option" where
  "decodeQuanta padding [] = Some []"
| "decodeQuanta padding [a] = None"
| "decodeQuanta padding [a, b] =
     (if padding then None
      else (case (decodeMap a, decodeMap b) of
              (Some a', Some b') \<Rightarrow> Some (bytes1 a' b')
            | _ \<Rightarrow> None))"
| "decodeQuanta padding [a, b, c] =
     (if padding then None
      else (case (decodeMap a, decodeMap b, decodeMap c) of
              (Some a', Some b', Some c') \<Rightarrow> Some (bytes2 a' b' c')
            | _ \<Rightarrow> None))"
| "decodeQuanta padding (a # b # c # d # rest) =
     (case (decodeMap a, decodeMap b) of
        (Some a', Some b') \<Rightarrow>
          (case decodeMap c of
             Some c' \<Rightarrow>
               (case decodeMap d of
                  Some d' \<Rightarrow> map_option (\<lambda>bs. bytes3 a' b' c' d' @ bs) (decodeQuanta padding rest)
                | None \<Rightarrow> if padding \<and> d = CHR ''='' \<and> rest = [] then Some (bytes2 a' b' c') else None)
           | None \<Rightarrow> if padding \<and> c = CHR ''='' \<and> d = CHR ''='' \<and> rest = []
                     then Some (bytes1 a' b') else None)
      | _ \<Rightarrow> None)"

definition lineBreak :: "char \<Rightarrow> bool" where
  "lineBreak c \<longleftrightarrow> c = CHR 0x0A \<or> c = CHR 0x0D"

definition StdDecodeString :: "string \<Rightarrow> string option" where
  "StdDecodeString s = decodeQuanta True (filter (\<lambda>c. \<not> lineBreak c) s)"

definition RawStdDecodeString :: "string \<Rightarrow> string option" where
  "RawStdDecodeString s = decodeQuanta False (filter (\<lambda>c. \<not> lineBreak c) s)"

section \<open>Encoding\<close>

fun encodeQuanta :: "bool \<Rightarrow> string \<Rightarrow> string" where
  "encodeQuanta padding [] = []"
| "encodeQuanta padding [x] =
     (let val = (of_char x :: nat) * 65536
      in [sextetChar (val div 262144), sextetChar (val div 4096 mod 64)] @
         (if padding then ''=='' else []))"
| "encodeQuanta padding [x, y] =
     (let val = (of_char x :: nat) * 65536 + of_char y * 256
      in [sextetChar (val div 262144), sextetChar (val div 4096 mod 64),
          sextetChar (val div 64 mod 64)] @ (if padding then ''='' else []))"
| "encodeQuanta padding (x # y # z # rest) =
     (let val = (of_char x :: nat) * 65536 + of_char y * 256 + of_char z
      in [sextetChar (val div 262144), sextetChar (val div 4096 mod 64),
          sextetChar (val div 64 mod 64), sextetChar (val mod 64)] @ encodeQuanta padding rest)"

definition StdEncodeToString :: "string \<Rightarrow> string" where
  "StdEncodeToString s = encodeQuanta True s"

section \<open>Round trips\<close>

lemma byteOf_of_char [simp]: "byteOf (of_char c) = c"
  by (simp add: byteOf_def)

lemma of_char_less [simp]: "(of_char c :: nat) < 256"
  by (metis of_char_mod_256 mod_less_divisor zero_less_numeral)

lemma split_val:
  fixes val :: nat
  shows "val div 262144 * 262144 + val div 4096 mod 64 * 4096 + val div 64 mod 64 * 64 + val mod 64 = val"
proof -
  have "val div 262144 = val div 4096 div 64" "val div 4096 = val div 64 div 64"
    by (simp_all add: div_mult2_eq [symmetric])
  then show ?thesis
    using div_mult_mod_eq [of "val div 4096" 64] div_mult_mod_eq [of "val div 64" 64]
      div_mult_mod_eq [of val 64] by linarith
qed

lemma val_bytes:
  fixes x y z :: nat
  assumes "y < 256" "z < 256"
  shows "(x * 65536 + y * 256 + z) div 65536 = x" "(x * 65536 + y * 256 + z) div 256 = x * 256 + y"
    "(x * 65536 + y * 256 + z) mod 256 = z"
proof -
  have v: "x * 65536 + y * 256 + z = (x * 256 + y) * 256 + z" by simp
  show d: "(x * 65536 + y * 256 + z) div 256 = x * 256 + y"
    unfolding v using assms(2) by (simp add: div_nat_eqI)
  show "(x * 65536 + y * 256 + z) mod 256 = z"
    unfolding v using assms(2) by (metis mod_less mod_mult_self3)
  show "(x * 65536 + y * 256 + z) div 65536 = x"
    using assms by (intro div_nat_eqI) simp_all
qed

lemma sextets_small:
  fixes x y z :: nat
  assumes "x < 256" "y < 256" "z < 256"
  shows "(x * 65536 + y * 256 + z) div 262144 < 64"
  using assms by (simp add: div_less_iff_less_mult)

lemma bytes3_val:
  fixes x y z :: nat
  assumes "y < 256" "z < 256"
  defines "val \<equiv> x * 65536 + y * 256 + z"
  shows "bytes3 (val div 262144) (val div 4096 mod 64) (val div 64 mod 64) (val mod 64) =
    [byteOf x, byteOf y, byteOf z]"
  using val_bytes [OF assms(1,2), of x] assms(1,2)
  unfolding bytes3_def split_val Let_def val_def [symmetric]
  by (simp add: byteOf_def val_def)

lemma bytes2_val:
  fixes x y :: nat
  assumes "y < 256"
  defines "val \<equiv> x * 65536 + y * 256"
  shows "bytes2 (val div 262144) (val div 4096 mod 64) (val div 64 mod 64) = [byteOf x, byteOf y]"
proof -
  have "val = (x * 1024 + y * 4) * 64" by (simp add: val_def)
  then have "val mod 64 = 0" by simp
  then have v: "val div 262144 * 262144 + val div 4096 mod 64 * 4096 + val div 64 mod 64 * 64 = val"
    using split_val [of val] by simp
  show ?thesis
    using val_bytes [OF assms(1), of 0 x] unfolding bytes2_def v Let_def
    by (simp add: byteOf_def val_def)
qed

lemma bytes1_val:
  fixes x :: nat
  defines "val \<equiv> x * 65536"
  shows "bytes1 (val div 262144) (val div 4096 mod 64) = [byteOf x]"
proof -
  have "val = (x * 16) * 64 * 64" by (simp add: val_def)
  then have "val mod 64 = 0" "val div 64 mod 64 = 0" by simp_all
  then have "val div 262144 * 262144 + val div 4096 mod 64 * 4096 = val"
    using split_val [of val] by simp
  then show ?thesis
    unfolding bytes1_def Let_def by (simp add: val_def)
qed

lemmas quantum_facts =
  bytes3_val bytes2_val bytes2_val [simplified] bytes1_val [simplified] sextets_small sextets_small [where z = 0, simplified]
  sextets_small [where y = 0 and z = 0, simplified]

lemma decode_encodeQuanta: "decodeQuanta padding (encodeQuanta padding s) = Some s"
  by (induction padding s rule: encodeQuanta.induct) (simp_all add: Let_def quantum_facts)

lemma encodeQuanta_plain: "filter (\<lambda>c. \<not> lineBreak c) (encodeQuanta padding s) = encodeQuanta padding s"
  by (induction padding s rule: encodeQuanta.induct)
    (simp_all add: lineBreak_def Let_def quantum_facts)

lemma raw_decode_padded:
  "decodeQuanta False (encodeQuanta True s) = (if length s mod 3 = 0 then Some s else None)"
  by (induction True s rule: encodeQuanta.induct) (simp_all add: Let_def quantum_facts mod_Suc)

lemma StdDecode_Encode [simp]: "StdDecodeString (StdEncodeToString s) = Some s"
  by (simp add: StdDecodeString_def StdEncodeToString_def encodeQuanta_plain decode_encodeQuanta)

lemma RawStdDecode_Encode:
  "RawStdDecodeString (StdEncodeToString s) = (if length s mod 3 = 0 then Some s else None)"
  by (simp add: RawStdDecodeString_def StdEncodeToString_def encodeQuanta_plain raw_decode_padded)

lemma RawStdDecode_raw: "RawStdDecodeString (encodeQuanta False s) = Some s"
  by (simp add: RawStdDecodeString_def encodeQuanta_plain decode_encodeQuanta)

end
