(* ===== verification/Validation.thy ===== *)
theory Validation
  imports GatewayUtils Base64
begin

text \<open>
  The validation of data planes (\<open>internal/validation/dataplane/validation.go\<close>): the
  database mode is looked for in the environment, then in the sources of environments, and only
  the mode without a database is accepted.
\<close>

section \<open>Operations\<close>

text \<open>
  \<open>NewValidator\<close> stores the client. How a \<open>*SecretEnvSource\<close> is printed by \<open>%s\<close> is the
  business of the Kubernetes API package; it is kept as a function of the referenced name.
\<close>

record 'w Validator =
  v_c :: "'w Client"
  v_ShowSecretRef :: "string \<Rightarrow> string"

definition NewValidator :: "(string \<Rightarrow> string) \<Rightarrow> 'w Client \<Rightarrow> 'w Validator" where
  "NewValidator showSecretRef c = \<lparr>v_c = c, v_ShowSecretRef = showSecretRef\<rparr>"

text \<open>\<open>fmt.Errorf(msg + "%w", err)\<close>; a panic is not an error that is returned.\<close>

fun wrapError :: "string \<Rightarrow> go_error \<Rightarrow> go_error" where
  "wrapError msg (APIErr e) = WrappedErr msg e"
| "wrapError msg (WrappedErr s e) = WrappedErr (msg @ s) e"
| "wrapError msg (Panic s) = Panic s"
| "wrapError msg err = Errorf (msg @ ErrorText err)"

definition wrapA :: "string \<Rightarrow> ('a, 'w) action \<Rightarrow> ('a, 'w) action" where
  "wrapA msg m = bindA (attemptA m)
     (\<lambda>r. case r of Inl err \<Rightarrow> failA (wrapError msg err) | Inr x \<Rightarrow> retA x)"

definition getValueFromConfigMapKeyRef ::
  "'w Validator \<Rightarrow> string \<Rightarrow> KeySelector \<Rightarrow> (string \<times> bool, 'w) action" where
  "getValueFromConfigMapKeyRef v namespace cmKeyRef =
     bindA (wrapA (''failed to get configMap '' @ ks_Name cmKeyRef @ '' in configMapKeyRef: '')
              (cl_Get (cl_ConfigMaps (v_c v)) namespace (ks_Name cmKeyRef)))
       (\<lambda>cm. case cm_Data cm of
               Some dat \<Rightarrow>
                 (case fmlookup dat (ks_Key cmKeyRef) of
                    Some val \<Rightarrow> if val \<noteq> '''' then retA (val, True) else retA ('''', False)
                  | None \<Rightarrow> retA ('''', False))
             | None \<Rightarrow> retA ('''', False))"

definition getValueFromSecretRef ::
  "'w Validator \<Rightarrow> string \<Rightarrow> KeySelector \<Rightarrow> (string \<times> bool, 'w) action" where
  "getValueFromSecretRef v namespace secretKeyRef =
     bindA (wrapA (''failed to get secret '' @ ks_Name secretKeyRef @ '' in secretRef: '')
              (cl_Get (cl_Secrets (v_c v)) namespace (ks_Name secretKeyRef)))
       (\<lambda>secret. case sec_Data secret of
               Some dat \<Rightarrow>
                 (case fmlookup dat (ks_Key secretKeyRef) of
                    Some val \<Rightarrow>
                      if length val > 0 then
                        (case StdDecodeString val of
                           Some decoded \<Rightarrow> retA (decoded, True)
                         | None \<Rightarrow> retA ('''', False))
                      else retA ('''', False)
                  | None \<Rightarrow> retA ('''', False))
             | None \<Rightarrow> retA ('''', False))"

fun dbModeEnvLoop ::
  "'w Validator \<Rightarrow> string \<Rightarrow> EnvVar list \<Rightarrow> string \<times> bool \<Rightarrow> (string \<times> bool, 'w) action" where
  "dbModeEnvLoop v namespace [] acc = retA acc"
| "dbModeEnvLoop v namespace (envVar # rest) acc =
     (if ev_Name envVar = EnvVarApisixDatabase then
        (if ev_Value envVar \<noteq> '''' then dbModeEnvLoop v namespace rest (ev_Value envVar, True)
         else (case ev_ValueFrom envVar of
             None \<Rightarrow> dbModeEnvLoop v namespace rest acc
           | Some src \<Rightarrow>
               bindA (case es_ConfigMapKeyRef src of
                        None \<Rightarrow> retA acc
                      | Some ref \<Rightarrow> getValueFromConfigMapKeyRef v namespace ref)
                 (\<lambda>acc. bindA (case es_SecretKeyRef src of
                                 None \<Rightarrow> retA acc
                               | Some ref \<Rightarrow> getValueFromSecretRef v namespace ref)
                          (\<lambda>acc. dbModeEnvLoop v namespace rest acc))))
      else dbModeEnvLoop v namespace rest acc)"

definition getDBModeFromEnv ::
  "'w Validator \<Rightarrow> string \<Rightarrow> EnvVar list \<Rightarrow> (string \<times> bool, 'w) action" where
  "getDBModeFromEnv v namespace envs = dbModeEnvLoop v namespace envs ('''', False)"

definition getDBModeFromConfigMapRef ::
  "'w Validator \<Rightarrow> string \<Rightarrow> string \<Rightarrow> string \<Rightarrow> (string \<times> bool, 'w) action" where
  "getDBModeFromConfigMapRef v namespace prefix cmRef =
     bindA (wrapA (''failed to get configMap '' @ cmRef @ '' in configMapRef: '')
              (cl_Get (cl_ConfigMaps (v_c v)) namespace cmRef))
       (\<lambda>cm. case cm_Data cm of
               None \<Rightarrow> retA ('''', False)
             | Some dat \<Rightarrow>
                 (let suffix = TrimPrefix EnvVarApisixDatabase prefix
                  in case fmlookup dat suffix of
                       None \<Rightarrow> retA ('''', False)
                     | Some dbMode \<Rightarrow> retA (dbMode, True)))"

definition getDBModeFromSecretRef ::
  "'w Validator \<Rightarrow> string \<Rightarrow> string \<Rightarrow> string \<Rightarrow> (string \<times> bool, 'w) action" where
  "getDBModeFromSecretRef v namespace prefix secretRef =
     bindA (wrapA (''failed to get secret '' @ v_ShowSecretRef v secretRef @ '' in secretRef: '')
              (cl_Get (cl_Secrets (v_c v)) namespace secretRef))
       (\<lambda>secret. case sec_Data secret of
               None \<Rightarrow> retA ('''', False)
             | Some dat \<Rightarrow>
                 (let suffix = TrimPrefix EnvVarApisixDatabase prefix
                  in case fmlookup dat suffix of
                       None \<Rightarrow> retA ('''', False)
                     | Some val \<Rightarrow>
                         (case RawStdDecodeString val of
                            Some decoded \<Rightarrow> retA (decoded, True)
                          | None \<Rightarrow> retA ('''', False))))"

fun dbModeEnvFromLoop ::
  "'w Validator \<Rightarrow> string \<Rightarrow> EnvFromSource list \<Rightarrow> string \<times> bool \<Rightarrow> (string \<times> bool, 'w) action" where
  "dbModeEnvFromLoop v namespace [] acc = retA acc"
| "dbModeEnvFromLoop v namespace (envFrom # rest) acc =
     (if HasPrefix EnvVarApisixDatabase (ef_Prefix envFrom) then
        bindA (case ef_ConfigMapRef envFrom of
                 None \<Rightarrow> retA acc
               | Some ref \<Rightarrow> getDBModeFromConfigMapRef v namespace (ef_Prefix envFrom) ref)
          (\<lambda>acc. bindA (case ef_SecretRef envFrom of
                          None \<Rightarrow> retA acc
                        | Some ref \<Rightarrow> getDBModeFromSecretRef v namespace (ef_Prefix envFrom) ref)
                   (\<lambda>acc. dbModeEnvFromLoop v namespace rest acc))
      else dbModeEnvFromLoop v namespace rest acc)"

definition getDBModeFromEnvFrom ::
  "'w Validator \<Rightarrow> string \<Rightarrow> EnvFromSource list \<Rightarrow> (string \<times> bool, 'w) action" where
  "getDBModeFromEnvFrom v namespace envFroms = dbModeEnvFromLoop v namespace envFroms ('''', False)"

definition ValidateDeployOptions ::
  "'w Validator \<Rightarrow> string \<Rightarrow> 'a DeploymentOptions_scheme \<Rightarrow> (unit, 'w) action" where
  "ValidateDeployOptions v namespace opts =
     bindA (getDBModeFromEnv v namespace (items (opt_Env opts)))
       (\<lambda>(dbMode, dbModeFound).
          bindA (if \<not> dbModeFound
                 then bindA (getDBModeFromEnvFrom v namespace (items (opt_EnvFrom opts)))
                        (\<lambda>(dbMode, _). retA dbMode)
                 else retA dbMode)
            (\<lambda>dbMode.
               if dbMode \<noteq> '''' \<and> dbMode \<noteq> ''off''
               then failA (Errorf (''database backend '' @ dbMode @ '' of dataplane not supported currently''))
               else retA ()))"

definition Validate :: "'w Validator \<Rightarrow> DataPlane \<Rightarrow> (unit, 'w) action" where
  "Validate v dataplane = ValidateDeployOptions v (om_Namespace (dp_Meta dataplane)) (dp_Spec dataplane)"

section \<open>What the stored objects say\<close>

text \<open>
  The abstract specification: what one variable, and one source of variables, says about the
  database mode, given the stored config maps and secrets. \<open>None\<close> means it says nothing,
  \<open>Some (mode, found)\<close> that it replaces what was said before it.
\<close>

definition configMapAt :: "Cluster \<Rightarrow> string \<Rightarrow> string \<Rightarrow> (string, string) fmap" where
  "configMapAt cl ns nm = (case lookupKey ConfigMapObj (ns, nm) (st_ConfigMaps cl) of
     None \<Rightarrow> fmempty | Some cm \<Rightarrow> (case cm_Data cm of None \<Rightarrow> fmempty | Some dat \<Rightarrow> dat))"

definition secretAt :: "Cluster \<Rightarrow> string \<Rightarrow> string \<Rightarrow> (string, string) fmap" where
  "secretAt cl ns nm = (case lookupKey SecretObj (ns, nm) (st_Secrets cl) of
     None \<Rightarrow> fmempty | Some s \<Rightarrow> (case sec_Data s of None \<Rightarrow> fmempty | Some dat \<Rightarrow> dat))"

definition reading :: "string option \<Rightarrow> string \<times> bool" where
  "reading r = (case r of None \<Rightarrow> ('''', False) | Some val \<Rightarrow> (val, True))"

definition cmKeySays :: "Cluster \<Rightarrow> string \<Rightarrow> KeySelector \<Rightarrow> string \<times> bool" where
  "cmKeySays cl ns ref = reading
     (case fmlookup (configMapAt cl ns (ks_Name ref)) (ks_Key ref) of
        None \<Rightarrow> None | Some val \<Rightarrow> if val = '''' then None else Some val)"

definition secretKeySays :: "Cluster \<Rightarrow> string \<Rightarrow> KeySelector \<Rightarrow> string \<times> bool" where
  "secretKeySays cl ns ref = reading
     (case fmlookup (secretAt cl ns (ks_Name ref)) (ks_Key ref) of
        None \<Rightarrow> None | Some val \<Rightarrow> if val = '''' then None else StdDecodeString val)"

definition cmSays :: "Cluster \<Rightarrow> string \<Rightarrow> string \<Rightarrow> string \<Rightarrow> string \<times> bool" where
  "cmSays cl ns prefix nm =
     reading (fmlookup (configMapAt cl ns nm) (TrimPrefix EnvVarApisixDatabase prefix))"

definition secretSays :: "Cluster \<Rightarrow> string \<Rightarrow> string \<Rightarrow> string \<Rightarrow> string \<times> bool" where
  "secretSays cl ns prefix nm = reading
     (Option.bind (fmlookup (secretAt cl ns nm) (TrimPrefix EnvVarApisixDatabase prefix)) RawStdDecodeString)"

definition envVarSays :: "Cluster \<Rightarrow> string \<Rightarrow> EnvVar \<Rightarrow> (string \<times> bool) list" where
  "envVarSays cl ns e =
     (if ev_Name e \<noteq> EnvVarApisixDatabase then []
      else if ev_Value e \<noteq> '''' then [(ev_Value e, True)]
      else (case ev_ValueFrom e of
              None \<Rightarrow> []
            | Some src \<Rightarrow> map (cmKeySays cl ns) (case es_ConfigMapKeyRef src of None \<Rightarrow> [] | Some r \<Rightarrow> [r]) @
                          map (secretKeySays cl ns) (case es_SecretKeyRef src of None \<Rightarrow> [] | Some r \<Rightarrow> [r])))"

definition envFromSays :: "Cluster \<Rightarrow> string \<Rightarrow> EnvFromSource \<Rightarrow> (string \<times> bool) list" where
  "envFromSays cl ns e =
     (if \<not> HasPrefix EnvVarApisixDatabase (ef_Prefix e) then []
      else map (cmSays cl ns (ef_Prefix e)) (case ef_ConfigMapRef e of None \<Rightarrow> [] | Some r \<Rightarrow> [r]) @
           map (secretSays cl ns (ef_Prefix e)) (case ef_SecretRef e of None \<Rightarrow> [] | Some r \<Rightarrow> [r]))"

text \<open>The last one that says something wins.\<close>

definition lastSaid :: "(string \<times> bool) list \<Rightarrow> string \<times> bool" where
  "lastSaid xs = last (('''', False) # xs)"

definition effectiveDBMode :: "Cluster \<Rightarrow> string \<Rightarrow> 'a DeploymentOptions_scheme \<Rightarrow> string" where
  "effectiveDBMode cl ns opts =
     (let (mode, found) = lastSaid (concat (map (envVarSays cl ns) (items (opt_Env opts))))
      in if found then mode
         else fst (lastSaid (concat (map (envFromSays cl ns) (items (opt_EnvFrom opts))))))"

section \<open>The operations read what the objects say\<close>

text \<open>
  \<open>readsAs F view m f\<close>: \<open>m\<close> leaves the stored objects alone and answers \<open>f\<close> of them, or an
  error that \<open>F\<close> allows. For the validator that is the wrapped error of a config map or a secret of
  the namespace that the API did not deliver from these stored objects.
\<close>

fun isWrapped :: "go_error \<Rightarrow> bool" where
  "isWrapped (WrappedErr s e) = True"
| "isWrapped err = False"

definition failedRead :: "'w Validator \<Rightarrow> ('w \<Rightarrow> Cluster) \<Rightarrow> string \<Rightarrow> Cluster \<Rightarrow> go_error \<Rightarrow> bool" where
  "failedRead v view ns cl e \<longleftrightarrow> (\<exists>msg a nm w0. view w0 = cl \<and> e = WrappedErr msg a \<and>
     (fst (cl_Get (cl_ConfigMaps (v_c v)) ns nm w0) = Inl (APIErr a) \<or>
      fst (cl_Get (cl_Secrets (v_c v)) ns nm w0) = Inl (APIErr a)))"

lemma failedRead_wrapped: "failedRead v view ns cl e \<Longrightarrow> isWrapped e"
  by (auto simp: failedRead_def)

lemma failedRead_not_panic: "failedRead v view ns cl e \<Longrightarrow> \<not> isPanic e"
  by (auto simp: failedRead_def)

definition readsAs ::
  "(Cluster \<Rightarrow> go_error \<Rightarrow> bool) \<Rightarrow> ('w \<Rightarrow> Cluster) \<Rightarrow> ('a, 'w) action \<Rightarrow> (Cluster \<Rightarrow> 'a) \<Rightarrow> bool" where
  "readsAs F view m f \<longleftrightarrow> (\<forall>w. wpA m (\<lambda>r w1. view w1 = view w \<and>
     (case r of Inl e \<Rightarrow> F (view w) e | Inr x \<Rightarrow> x = f (view w))) w)"

lemma readsAs_retA: "readsAs F view (retA x) (\<lambda>_. x)"
  by (simp add: readsAs_def wp)

lemma readsAs_bindA:
  assumes m: "readsAs F view m f" and k: "\<And>x. readsAs F view (k x) (g x)"
  shows "readsAs F view (bindA m k) (\<lambda>cl. g (f cl) cl)"
  unfolding readsAs_def wp
proof (rule allI, rule wpA_mono)
  fix w
  show "wpA m (\<lambda>r w1. view w1 = view w \<and>
      (case r of Inl e \<Rightarrow> F (view w) e | Inr x \<Rightarrow> x = f (view w))) w"
    using m by (simp add: readsAs_def)
  fix r w1
  assume a: "view w1 = view w \<and> (case r of Inl e \<Rightarrow> F (view w) e | Inr x \<Rightarrow> x = f (view w))"
  then have v: "view w1 = view w" by (rule conjunct1)
  show "case r of
      Inl e \<Rightarrow> view w1 = view w \<and> (case Inl e of Inl e \<Rightarrow> F (view w) e | Inr x \<Rightarrow> x = g (f (view w)) (view w))
    | Inr x \<Rightarrow> wpA (k x) (\<lambda>r w1. view w1 = view w \<and>
        (case r of Inl e \<Rightarrow> F (view w) e | Inr x \<Rightarrow> x = g (f (view w)) (view w))) w1"
    using a k [unfolded readsAs_def, rule_format, of "f (view w)" w1, unfolded v] by (cases r) auto
qed

lemma last_skip: "last (x # y # ys) = last (y # ys)"
  by simp

lemma last_last_append: "last (last (x # xs) # ys) = last (x # xs @ ys)"
  by (cases ys) simp_all

lemma readsAs_three:
  assumes "\<And>acc. readsAs F view (m1 acc) (\<lambda>cl. last (acc # A cl))"
    and "\<And>acc. readsAs F view (m2 acc) (\<lambda>cl. last (acc # B cl))"
    and "\<And>acc. readsAs F view (m3 acc) (\<lambda>cl. last (acc # C cl))"
  shows "readsAs F view (bindA (m1 acc) (\<lambda>acc. bindA (m2 acc) m3)) (\<lambda>cl. last (acc # (A cl @ B cl) @ C cl))"
proof -
  have "readsAs F view (bindA (m2 a) m3) (\<lambda>cl. last (last (a # B cl) # C cl))" for a
    by (rule readsAs_bindA [OF assms(2,3)])
  then have rest: "readsAs F view (bindA (m2 a) m3) (\<lambda>cl. last (a # B cl @ C cl))" for a
    by (simp only: last_last_append)
  from readsAs_bindA [where k = "\<lambda>a. bindA (m2 a) m3" and g = "\<lambda>a cl. last (a # B cl @ C cl)",
      OF assms(1) rest, of acc]
  show ?thesis by (simp only: last_last_append append_assoc)
qed

text \<open>A reference that may be missing.\<close>

lemma readsAs_option:
  assumes "\<And>r. readsAs F view (m r) (\<lambda>cl. h cl r)"
  shows "readsAs F view (case ref of None \<Rightarrow> retA acc | Some r \<Rightarrow> m r)
    (\<lambda>cl. last (acc # map (h cl) (case ref of None \<Rightarrow> [] | Some r \<Rightarrow> [r])))"
  using assms by (cases ref) (simp_all add: readsAs_retA)

locale validator_api =
  cms: api_kind "cl_ConfigMaps (v_c v)" ConfigMapObj view st_ConfigMaps putCM bodyCM statusCM +
  secs: api_kind "cl_Secrets (v_c v)" SecretObj view st_Secrets putS bodyS statusS
  for v :: "'w Validator" and view :: "'w \<Rightarrow> Cluster"
    and putCM and bodyCM :: "ConfigMap \<Rightarrow> 'b" and statusCM :: "ConfigMap \<Rightarrow> 'c"
    and putS and bodyS :: "Secret \<Rightarrow> 'd" and statusS :: "Secret \<Rightarrow> 'e"
begin

lemma get_ConfigMap:
  assumes "\<And>w1 cm. lookupKey ConfigMapObj (n, nm) (st_ConfigMaps (view w)) = Some cm \<Longrightarrow>
      view w1 = view w \<Longrightarrow> Q (Inr cm) w1"
    and "\<And>e w1. failedRead v view n (view w) e \<Longrightarrow> view w1 = view w \<Longrightarrow> Q (Inl e) w1"
  shows "wpA (wrapA msg (cl_Get (cl_ConfigMaps (v_c v)) n nm)) Q w"
proof (cases "cl_Get (cl_ConfigMaps (v_c v)) n nm w")
  case (Pair r w1)
  have view: "view w1 = view w" using cms.get_view [OF Pair] .
  show ?thesis
  proof (cases r)
    case (Inl e)
    then obtain a where "e = APIErr a" using cms.get_err [of n nm w e w1] Pair by (auto elim: isAPIErr.elims)
    then have "failedRead v view n (view w) (WrappedErr msg a)"
      using Inl Pair unfolding failedRead_def by (intro exI [of _ msg] exI [of _ a] exI [of _ nm] exI [of _ w]) simp
    then show ?thesis
      using assms(2) [of "WrappedErr msg a" w1] view Inl Pair \<open>e = APIErr a\<close>
      by (simp add: wrapA_def action_defs wpA_def)
  next
    case (Inr x)
    then show ?thesis
      using assms(1) cms.get_ok [of n nm w x w1] view Pair by (simp add: wrapA_def action_defs wpA_def)
  qed
qed

lemma get_Secret:
  assumes "\<And>w1 s. lookupKey SecretObj (n, nm) (st_Secrets (view w)) = Some s \<Longrightarrow>
      view w1 = view w \<Longrightarrow> Q (Inr s) w1"
    and "\<And>e w1. failedRead v view n (view w) e \<Longrightarrow> view w1 = view w \<Longrightarrow> Q (Inl e) w1"
  shows "wpA (wrapA msg (cl_Get (cl_Secrets (v_c v)) n nm)) Q w"
proof (cases "cl_Get (cl_Secrets (v_c v)) n nm w")
  case (Pair r w1)
  have view: "view w1 = view w" using secs.get_view [OF Pair] .
  show ?thesis
  proof (cases r)
    case (Inl e)
    then obtain a where "e = APIErr a" using secs.get_err [of n nm w e w1] Pair by (auto elim: isAPIErr.elims)
    then have "failedRead v view n (view w) (WrappedErr msg a)"
      using Inl Pair unfolding failedRead_def by (intro exI [of _ msg] exI [of _ a] exI [of _ nm] exI [of _ w]) simp
    then show ?thesis
      using assms(2) [of "WrappedErr msg a" w1] view Inl Pair \<open>e = APIErr a\<close>
      by (simp add: wrapA_def action_defs wpA_def)
  next
    case (Inr x)
    then show ?thesis
      using assms(1) secs.get_ok [of n nm w x w1] view Pair by (simp add: wrapA_def action_defs wpA_def)
  qed
qed

lemmas says_defs = cmKeySays_def secretKeySays_def cmSays_def secretSays_def configMapAt_def
  secretAt_def reading_def

lemma reads_ConfigMapKeyRef:
  "readsAs (failedRead v view n) view (getValueFromConfigMapKeyRef v n r) (\<lambda>cl. cmKeySays cl n r)"
  unfolding readsAs_def getValueFromConfigMapKeyRef_def wp
  by (rule allI, rule get_ConfigMap) (auto simp: wp says_defs split: option.splits)

lemma reads_SecretKeyRef:
  "readsAs (failedRead v view n) view (getValueFromSecretRef v n r) (\<lambda>cl. secretKeySays cl n r)"
  unfolding readsAs_def getValueFromSecretRef_def wp
  by (rule allI, rule get_Secret) (auto simp: wp says_defs split: option.splits)

lemma reads_ConfigMapRef:
  "readsAs (failedRead v view n) view (getDBModeFromConfigMapRef v n p r) (\<lambda>cl. cmSays cl n p r)"
  unfolding readsAs_def getDBModeFromConfigMapRef_def wp
  by (rule allI, rule get_ConfigMap) (auto simp: wp says_defs Let_def split: option.splits)

lemma reads_SecretRef:
  "readsAs (failedRead v view n) view (getDBModeFromSecretRef v n p r) (\<lambda>cl. secretSays cl n p r)"
  unfolding readsAs_def getDBModeFromSecretRef_def wp
  by (rule allI, rule get_Secret)
    (auto simp: wp says_defs Let_def split: option.splits Option.bind_splits)

lemma reads_optional:
  "readsAs (failedRead v view n) view (case rc of None \<Rightarrow> retA acc | Some r \<Rightarrow> getValueFromConfigMapKeyRef v n r)
     (\<lambda>cl. last (acc # map (cmKeySays cl n) (case rc of None \<Rightarrow> [] | Some r \<Rightarrow> [r])))"
  "readsAs (failedRead v view n) view (case rs of None \<Rightarrow> retA acc | Some r \<Rightarrow> getValueFromSecretRef v n r)
     (\<lambda>cl. last (acc # map (secretKeySays cl n) (case rs of None \<Rightarrow> [] | Some r \<Rightarrow> [r])))"
  "readsAs (failedRead v view n) view (case fc of None \<Rightarrow> retA acc | Some r \<Rightarrow> getDBModeFromConfigMapRef v n p r)
     (\<lambda>cl. last (acc # map (cmSays cl n p) (case fc of None \<Rightarrow> [] | Some r \<Rightarrow> [r])))"
  "readsAs (failedRead v view n) view (case fs of None \<Rightarrow> retA acc | Some r \<Rightarrow> getDBModeFromSecretRef v n p r)
     (\<lambda>cl. last (acc # map (secretSays cl n p) (case fs of None \<Rightarrow> [] | Some r \<Rightarrow> [r])))"
  by (rule readsAs_option, rule reads_ConfigMapKeyRef reads_SecretKeyRef reads_ConfigMapRef reads_SecretRef)+

lemma reads_EnvLoop:
  "readsAs (failedRead v view n) view (dbModeEnvLoop v n es acc) (\<lambda>cl. last (acc # concat (map (envVarSays cl n) es)))"
proof (induction es arbitrary: acc)
  case (Cons e es)
  show ?case
  proof (cases "ev_Name e = EnvVarApisixDatabase \<and> ev_Value e = '''' \<and> ev_ValueFrom e \<noteq> None")
    case True
    then obtain src where "ev_ValueFrom e = Some src" by auto
    with True show ?thesis
      using readsAs_three [OF reads_optional(1) [where rc = "es_ConfigMapKeyRef src" and n = n]
          reads_optional(2) [where rs = "es_SecretKeyRef src" and n = n] Cons.IH, of acc]
      by (simp add: envVarSays_def [of _ n e] del: last.simps)
  next
    case False
    then show ?thesis
      using Cons.IH [of acc] Cons.IH [of "(ev_Value e, True)"]
      by (auto simp: envVarSays_def [of _ n e] last_skip simp del: last.simps split: option.splits)
  qed
qed (simp add: readsAs_retA)

lemma reads_EnvFromLoop:
  "readsAs (failedRead v view n) view (dbModeEnvFromLoop v n es acc) (\<lambda>cl. last (acc # concat (map (envFromSays cl n) es)))"
proof (induction es arbitrary: acc)
  case (Cons e es)
  show ?case
  proof (cases "HasPrefix EnvVarApisixDatabase (ef_Prefix e)")
    case True
    then show ?thesis
      using readsAs_three [OF
          reads_optional(3) [where fc = "ef_ConfigMapRef e" and n = n and p = "ef_Prefix e"]
          reads_optional(4) [where fs = "ef_SecretRef e" and n = n and p = "ef_Prefix e"] Cons.IH, of acc]
      by (simp add: envFromSays_def [of _ n e] del: last.simps)
  next
    case False
    then show ?thesis using Cons.IH [of acc] by (simp add: envFromSays_def)
  qed
qed (simp add: readsAs_retA)

lemma validate_reads:
  "wpA (ValidateDeployOptions v n opts) (\<lambda>r w1. view w1 = view w \<and>
     (case r of
        Inr u \<Rightarrow> effectiveDBMode (view w) n opts \<in> {'''', ''off''}
      | Inl e \<Rightarrow> failedRead v view n (view w) e \<or> effectiveDBMode (view w) n opts \<notin> {'''', ''off''} \<and>
          e = Errorf (''database backend '' @ effectiveDBMode (view w) n opts @
                '' of dataplane not supported currently''))) w"
proof -
  let ?env = "\<lambda>cl. lastSaid (concat (map (envVarSays cl n) (items (opt_Env opts))))"
  let ?from = "\<lambda>cl. lastSaid (concat (map (envFromSays cl n) (items (opt_EnvFrom opts))))"
  define k where "k = (\<lambda>(mode, found). if \<not> found
      then bindA (getDBModeFromEnvFrom v n (items (opt_EnvFrom opts))) (\<lambda>(dbMode, _). retA dbMode)
      else (retA mode :: (string, 'w) action))"
  define g where "g = (\<lambda>(mode, found) cl. if found then (mode :: string) else fst (?from cl))"
  have env: "readsAs (failedRead v view n) view (getDBModeFromEnv v n (items (opt_Env opts))) ?env"
    using reads_EnvLoop by (simp only: getDBModeFromEnv_def lastSaid_def)
  have "readsAs (failedRead v view n) view (getDBModeFromEnvFrom v n (items (opt_EnvFrom opts))) ?from"
    using reads_EnvFromLoop by (simp only: getDBModeFromEnvFrom_def lastSaid_def)
  then have "readsAs (failedRead v view n) view (bindA (getDBModeFromEnvFrom v n (items (opt_EnvFrom opts)))
      (\<lambda>(dbMode, _). retA dbMode)) (\<lambda>cl. fst (?from cl))"
    unfolding split_beta by (rule readsAs_bindA [OF _ readsAs_retA])
  then have mode: "readsAs (failedRead v view n) view (k mf) (g mf)" for mf
    by (cases mf) (simp add: k_def g_def readsAs_retA)
  have "readsAs (failedRead v view n) view (bindA (getDBModeFromEnv v n (items (opt_Env opts))) k)
      (\<lambda>cl. g (?env cl) cl)"
    by (rule readsAs_bindA [OF env mode])
  then have "readsAs (failedRead v view n) view (bindA (getDBModeFromEnv v n (items (opt_Env opts))) k)
      (\<lambda>cl. effectiveDBMode cl n opts)"
    by (simp add: g_def effectiveDBMode_def Let_def split_beta if_distrib)
  then have found: "wpA (bindA (getDBModeFromEnv v n (items (opt_Env opts))) k) (\<lambda>r w1. view w1 = view w \<and>
      (case r of Inl e \<Rightarrow> failedRead v view n (view w) e | Inr x \<Rightarrow> x = effectiveDBMode (view w) n opts)) w"
    by (simp add: readsAs_def)
  have eq: "ValidateDeployOptions v n opts =
      bindA (bindA (getDBModeFromEnv v n (items (opt_Env opts))) k) (\<lambda>dbMode.
        if dbMode \<noteq> '''' \<and> dbMode \<noteq> ''off''
        then failA (Errorf (''database backend '' @ dbMode @ '' of dataplane not supported currently''))
        else retA ())"
    by (simp add: ValidateDeployOptions_def k_def bindA_assoc case_prod_beta')
  show ?thesis
    unfolding eq wpA_bindA [of "bindA _ k"]
    by (rule wpA_mono [OF found]) (auto simp: wp split: sum.splits)
qed

end

lemma StdEncode_empty: "StdEncodeToString s = '''' \<longleftrightarrow> s = ''''"
proof
  assume "StdEncodeToString s = ''''"
  then show "s = ''''" using StdDecode_Encode [of s] StdDecode_Encode [of "''''"] by (metis encodeQuanta.simps(1) option.inject StdEncodeToString_def)
qed (simp add: StdEncodeToString_def)

definition memValidator :: "Sim Validator" where
  "memValidator = NewValidator (\<lambda>nm. nm) memClient"

interpretation mem_validator: validator_api memValidator sim_Cluster "\<lambda>xs v. v\<lparr>st_ConfigMaps := xs\<rparr>"
    "\<lambda>s. s\<lparr>cm_Meta := emptyMeta\<rparr>" "\<lambda>_. ()" "\<lambda>xs v. v\<lparr>st_Secrets := xs\<rparr>" sec_Type "\<lambda>_. ()"
  unfolding validator_api_def memValidator_def NewValidator_def
  using mem_cm.api_kind_axioms mem_sec.api_kind_axioms by simp

section \<open>Properties\<close>

text \<open>C23. Validation is sound and complete for the effective database mode. Against an API
  whose reads are up to date, \<open>Validate\<close> changes nothing; it accepts a data plane only if the
  mode the last variable or source that says anything sets is empty or \<open>off\<close>; and it rejects
  one only because that mode is another one, which the message names, or with the wrapped error
  of a config map or secret in the data plane's namespace that the API failed to deliver.\<close>

theorem Validate_correct:
  assumes "validator_api v view putCM bodyCM statusCM putS bodyS statusS"
  shows "case Validate v dp w of (r, w1) \<Rightarrow>
    (let mode = effectiveDBMode (view w) (om_Namespace (dp_Meta dp)) (dp_Spec dp)
     in view w1 = view w \<and>
        (case r of
           Inr u \<Rightarrow> mode \<in> {'''', ''off''}
         | Inl e \<Rightarrow> failedRead v view (om_Namespace (dp_Meta dp)) (view w) e \<or> mode \<notin> {'''', ''off''} \<and>
             e = Errorf (''database backend '' @ mode @ '' of dataplane not supported currently'')))"
  using validator_api.validate_reads [OF assms, of "om_Namespace (dp_Meta dp)" "dp_Spec dp" w]
  by (simp add: Validate_def wpA_def Let_def split: sum.splits)

definition exampleConfigMap :: "string \<Rightarrow> string \<Rightarrow> ConfigMap" where
  "exampleConfigMap nm mode = \<lparr>cm_Meta = emptyMeta\<lparr>om_Namespace := ''default'', om_Name := nm\<rparr>,
     cm_Data = Some (fmupd ''DATABASE'' mode fmempty)\<rparr>"

definition fromConfigMaps :: "string list \<Rightarrow> DataPlane" where
  "fromConfigMaps nms = (exampleDataPlane ''dp'' ''u'')\<lparr>dp_Spec := exampleOptions\<lparr>opt_Env := None,
     opt_EnvFrom := Some (map (\<lambda>nm. \<lparr>ef_Prefix = ''APISIX_'', ef_ConfigMapRef = Some nm,
       ef_SecretRef = None\<rparr>) nms)\<rparr>\<rparr>"

theorem Validate_correct_witness:
  "let w = quiet (emptyCluster\<lparr>st_ConfigMaps := [exampleConfigMap ''pg'' ''postgres'']\<rparr>)
   in case Validate memValidator (fromConfigMaps [''pg'']) w of (r, w1) \<Rightarrow>
        sim_Cluster w1 = sim_Cluster w \<and>
        (case r of Inr u \<Rightarrow> False
         | Inl e \<Rightarrow> isWrapped e \<or>
             e = Errorf ''database backend postgres of dataplane not supported currently'')"
proof -
  let ?v = "emptyCluster\<lparr>st_ConfigMaps := [exampleConfigMap ''pg'' ''postgres'']\<rparr>"
  have "effectiveDBMode ?v ''default'' (dp_Spec (fromConfigMaps [''pg''])) = ''postgres''"
    by (simp add: effectiveDBMode_def fromConfigMaps_def exampleConfigMap_def envFromSays_def
        cmSays_def configMapAt_def lookupKey_def keyOf_def emptyMeta_def EnvVarApisixDatabase_def
        TrimPrefix_def lastSaid_def reading_def)
  then show ?thesis
    using Validate_correct [OF mem_validator.validator_api_axioms,
        of "quiet ?v" "fromConfigMaps [''pg'']"]
    by (auto simp: Let_def quiet_def fromConfigMaps_def exampleDataPlane_def emptyMeta_def
        split: prod.splits sum.splits dest: failedRead_wrapped)
qed

text \<open>C39. The two ways to read a secret do not agree. Let a secret hold a mode in the usual padded
  base64. A reference to its key reads the mode. A reference to the whole secret reads it only if
  its length is a multiple of three: otherwise the padding is rejected and the secret counts as
  saying nothing. So a data plane that takes its environment from that secret is rejected for a
  database like \<open>xdb\<close>, but accepted for \<open>postgres\<close>. (A wrapped error of a read that
  failed aside.)\<close>

theorem secret_readings_differ:
  assumes "validator_api v view putCM bodyCM statusCM putS bodyS statusS"
    and "lookupKey SecretObj (ns, nm) (st_Secrets (view w)) = Some secret"
    and "sec_Data secret = Some dat" and "fmlookup dat EnvVarApisixDatabase = Some (StdEncodeToString mode)"
    and "mode \<noteq> ''''" and "mode \<noteq> ''off''"
  shows "wpA (getValueFromSecretRef v ns \<lparr>ks_Name = nm, ks_Key = EnvVarApisixDatabase\<rparr>) (\<lambda>r w1. case r of
        Inl e \<Rightarrow> failedRead v view ns (view w) e
      | Inr said \<Rightarrow> said = (mode, True)) w \<and>
    wpA (getDBModeFromSecretRef v ns '''' nm) (\<lambda>r w1. case r of
        Inl e \<Rightarrow> failedRead v view ns (view w) e
      | Inr said \<Rightarrow> said = (if length mode mod 3 = 0 then (mode, True) else ('''', False))) w \<and>
    wpA (ValidateDeployOptions v ns (exampleOptions\<lparr>opt_Env := None,
        opt_EnvFrom := Some [\<lparr>ef_Prefix = '''', ef_ConfigMapRef = None, ef_SecretRef = Some nm\<rparr>]\<rparr>)) (\<lambda>r w1. case r of
        Inl e \<Rightarrow> failedRead v view ns (view w) e \<or> length mode mod 3 = 0
      | Inr u \<Rightarrow> length mode mod 3 \<noteq> 0) w"
proof -
  have key: "secretKeySays (view w) ns \<lparr>ks_Name = nm, ks_Key = EnvVarApisixDatabase\<rparr> = (mode, True)"
    using assms(2-5) StdEncode_empty [of mode] by (simp add: secretKeySays_def secretAt_def reading_def)
  have ref: "secretSays (view w) ns '''' nm = (if length mode mod 3 = 0 then (mode, True) else ('''', False))"
    using assms(2-4) by (simp add: secretSays_def secretAt_def reading_def TrimPrefix_def RawStdDecode_Encode)
  have "effectiveDBMode (view w) ns (exampleOptions\<lparr>opt_Env := None,
      opt_EnvFrom := Some [\<lparr>ef_Prefix = '''', ef_ConfigMapRef = None, ef_SecretRef = Some nm\<rparr>]\<rparr>) =
      (if length mode mod 3 = 0 then mode else '''')"
    using ref by (simp add: effectiveDBMode_def envFromSays_def lastSaid_def)
  note reads = validator_api.reads_SecretKeyRef [OF assms(1), unfolded readsAs_def, rule_format, of ns _ w]
    validator_api.reads_SecretRef [OF assms(1), unfolded readsAs_def, rule_format, of ns "''''" nm w]
    validator_api.validate_reads [OF assms(1), of ns _ w]
  show ?thesis
    by (intro conjI wpA_mono [OF reads(1)] wpA_mono [OF reads(2)] wpA_mono [OF reads(3)])
      (use key ref \<open>effectiveDBMode _ _ _ = _\<close> assms(5,6) in \<open>auto split: sum.splits if_splits\<close>)
qed

definition encodedSecret :: "string \<Rightarrow> Secret" where
  "encodedSecret mode = \<lparr>sec_Meta = emptyMeta\<lparr>om_Namespace := ''default'', om_Name := ''db''\<rparr>, sec_Type = ''Opaque'',
     sec_Data = Some (fmupd EnvVarApisixDatabase (StdEncodeToString mode) fmempty), sec_StringData = None\<rparr>"

theorem secret_readings_differ_witness:
  "let w = quiet (emptyCluster\<lparr>st_Secrets := [encodedSecret ''postgres'']\<rparr>) in
   wpA (getDBModeFromSecretRef memValidator ''default'' '''' ''db'') (\<lambda>r w1. case r of
      Inl e \<Rightarrow> isWrapped e | Inr said \<Rightarrow> said = ('''', False)) w \<and>
   wpA (getValueFromSecretRef memValidator ''default'' \<lparr>ks_Name = ''db'', ks_Key = EnvVarApisixDatabase\<rparr>) (\<lambda>r w1. case r of
      Inl e \<Rightarrow> isWrapped e | Inr said \<Rightarrow> said = (''postgres'', True)) w"
proof -
  let ?w = "quiet (emptyCluster\<lparr>st_Secrets := [encodedSecret ''postgres'']\<rparr>)"
  let ?s = "encodedSecret ''postgres''"
  have stored: "lookupKey SecretObj (''default'', ''db'') (st_Secrets (sim_Cluster ?w)) = Some ?s"
    by (simp add: quiet_def lookupKey_def keyOf_def encodedSecret_def emptyMeta_def)
  have dat: "sec_Data ?s = Some (fmupd EnvVarApisixDatabase (StdEncodeToString ''postgres'') fmempty)"
    by (simp add: encodedSecret_def)
  note differ = secret_readings_differ [where view = sim_Cluster and w = ?w and mode = "''postgres''",
      OF mem_validator.validator_api_axioms stored dat]
  have "fmlookup (fmupd EnvVarApisixDatabase (StdEncodeToString ''postgres'') fmempty) EnvVarApisixDatabase =
      Some (StdEncodeToString ''postgres'')" by simp
  note all = differ [OF this]
  show ?thesis
    unfolding Let_def
  proof (intro conjI, goal_cases)
    case 1
    show ?case
      by (rule wpA_mono [OF all [THEN conjunct2, THEN conjunct1]]) (auto split: sum.splits dest: failedRead_wrapped)
  next
    case 2
    show ?case
      by (rule wpA_mono [OF all [THEN conjunct1]]) (auto split: sum.splits dest: failedRead_wrapped)
  qed
qed

section \<open>A later source that says nothing\<close>

text \<open>
  The last source wins even if it lacks the key: what an earlier one said is then forgotten.
\<close>

lemma later_source_forgets:
  "let cl = emptyCluster\<lparr>st_ConfigMaps := [exampleConfigMap ''pg'' ''postgres'',
        (exampleConfigMap ''other'' '''')\<lparr>cm_Data := Some fmempty\<rparr>]\<rparr>
   in effectiveDBMode cl ''default'' (dp_Spec (fromConfigMaps [''pg''])) = ''postgres'' \<and>
      effectiveDBMode cl ''default'' (dp_Spec (fromConfigMaps [''pg'', ''other''])) = ''''"
  by (simp add: effectiveDBMode_def fromConfigMaps_def exampleConfigMap_def envFromSays_def
      cmSays_def configMapAt_def lookupKey_def keyOf_def emptyMeta_def EnvVarApisixDatabase_def
      TrimPrefix_def lastSaid_def reading_def)

end
