(* ===== verification/Admission.thy ===== *)
theory Admission
  imports Validation
begin

text \<open>
  The validating webhook (\<open>internal/admission/server.go\<close>, \<open>validator.go\<close>): from the body of an
  HTTP request to the answer. JSON and the deserializer of the API machinery are not code of
  the repository and are functions of the handler (\<open>Codec\<close>).
\<close>

section \<open>Data\<close>

record GroupVersionResource =
  gvr_Group :: string
  gvr_Version :: string
  gvr_Resource :: string

datatype Operation = Create | Update | Delete | Connect

record AdmissionRequest =
  req_UID :: string
  req_Resource :: GroupVersionResource
  req_Operation :: Operation
  req_ObjectRaw :: string

record Status =
  sts_Status :: string
  sts_Message :: string
  sts_Reason :: string
  sts_Code :: int

record AdmissionResponse =
  resp_UID :: string
  resp_Allowed :: bool
  resp_Result :: "Status option"

record AdmissionReview =
  rev_TypeMeta :: GVK
  rev_Request :: "AdmissionRequest option"
  rev_Response :: "AdmissionResponse option"

definition StatusOK :: int where "StatusOK = 200"
definition StatusBadRequest :: int where "StatusBadRequest = 400"
definition StatusInternalServerError :: int where "StatusInternalServerError = 500"
definition StatusReasonBadRequest :: string where "StatusReasonBadRequest = ''BadRequest''"
definition StatusSuccess :: string where "StatusSuccess = ''Success''"
definition StatusFailure :: string where "StatusFailure = ''Failure''"

record Codec =
  cd_Unmarshal :: "string \<Rightarrow> go_error + AdmissionReview"
  cd_Marshal :: "AdmissionReview \<Rightarrow> go_error + string"
  cd_DecodeControlPlane :: "string \<Rightarrow> go_error + ControlPlane"
  cd_DecodeDataPlane :: "string \<Rightarrow> go_error + DataPlane"

text \<open>The interface \<open>Validator\<close>, and the handler.\<close>

record 'w ObjectValidator =
  ov_ValidateControlPlane :: "ControlPlane \<Rightarrow> (unit, 'w) action"
  ov_ValidateDataPlane :: "DataPlane \<Rightarrow> (unit, 'w) action"

record 'w RequestHandler =
  rh_Validator :: "'w ObjectValidator"
  rh_Codec :: Codec

section \<open>Operations\<close>

definition ValidateControlPlane :: "'w Validator \<Rightarrow> ControlPlane \<Rightarrow> (unit, 'w) action" where
  "ValidateControlPlane v controlPlane = retA ()"

definition ValidateDataPlane :: "'w Validator \<Rightarrow> DataPlane \<Rightarrow> (unit, 'w) action" where
  "ValidateDataPlane v dataPlane = Validate v dataPlane"

definition NewRequestHandler :: "'w Validator \<Rightarrow> Codec \<Rightarrow> 'w RequestHandler" where
  "NewRequestHandler v codec =
     \<lparr>rh_Validator = \<lparr>ov_ValidateControlPlane = ValidateControlPlane v,
        ov_ValidateDataPlane = ValidateDataPlane v\<rparr>, rh_Codec = codec\<rparr>"

definition controlPlaneGVResource :: GroupVersionResource where
  "controlPlaneGVResource =
     \<lparr>gvr_Group = SchemeGroup, gvr_Version = SchemeVersion, gvr_Resource = ''controlplanes''\<rparr>"

definition dataPlaneGVResource :: GroupVersionResource where
  "dataPlaneGVResource =
     \<lparr>gvr_Group = SchemeGroup, gvr_Version = SchemeVersion, gvr_Resource = ''dataplanes''\<rparr>"

text \<open>Decode the object and validate it: what both cases of the switch do.\<close>

definition decodeAndValidate ::
  "(string \<Rightarrow> go_error + 'o) \<Rightarrow> ('o \<Rightarrow> (unit, 'w) action) \<Rightarrow> AdmissionRequest
    \<Rightarrow> (bool \<times> string, 'w) action" where
  "decodeAndValidate decode validate req =
     (if req_Operation req = Create \<or> req_Operation req = Update then
        bindA (liftE (decode (req_ObjectRaw req)))
          (\<lambda>obj. bindA (attemptA (validate obj))
             (\<lambda>r. case r of
                    Inl err \<Rightarrow> retA (False, ErrorText err)
                  | Inr _ \<Rightarrow> retA (True, '''')))
      else retA (True, ''''))"

definition handleValidation ::
  "'w RequestHandler \<Rightarrow> AdmissionRequest option \<Rightarrow> (AdmissionResponse, 'w) action" where
  "handleValidation h reqp =
     (case reqp of
        None \<Rightarrow> retA \<lparr>resp_UID = '''', resp_Allowed = False,
          resp_Result = Some \<lparr>sts_Status = StatusFailure, sts_Message = ''empty request'',
            sts_Reason = StatusReasonBadRequest, sts_Code = StatusBadRequest\<rparr>\<rparr>
      | Some req \<Rightarrow>
          bindA (if req_Resource req = controlPlaneGVResource then
                   decodeAndValidate (cd_DecodeControlPlane (rh_Codec h))
                     (ov_ValidateControlPlane (rh_Validator h)) req
                 else if req_Resource req = dataPlaneGVResource then
                   decodeAndValidate (cd_DecodeDataPlane (rh_Codec h))
                     (ov_ValidateDataPlane (rh_Validator h)) req
                 else retA (True, ''''))
            (\<lambda>(ok, msg). retA \<lparr>resp_UID = req_UID req, resp_Allowed = ok,
               resp_Result = Some
                 (if ok then \<lparr>sts_Status = StatusSuccess, sts_Message = msg, sts_Reason = '''',
                    sts_Code = StatusOK\<rparr>
                  else \<lparr>sts_Status = StatusFailure, sts_Message = msg,
                    sts_Reason = StatusReasonBadRequest, sts_Code = StatusBadRequest\<rparr>)\<rparr>))"

text \<open>
  What is done to the \<open>ResponseWriter\<close>: \<open>http.Error\<close> with a message and a code, or a write
  of the data. The body of the request is nil, or what reading it gives; whether the write
  succeeds is decided by the connection.
\<close>

datatype HttpEvent = HttpError string int | HttpWrite string

definition ServeHTTP ::
  "'w RequestHandler \<Rightarrow> (string \<Rightarrow> go_error option) \<Rightarrow> (go_error + string) option
    \<Rightarrow> (HttpEvent list, 'w) action" where
  "ServeHTTP h writeFails body =
     (case body of
        None \<Rightarrow> retA [HttpError ''admission review object is missing'' StatusBadRequest]
      | Some (Inl err) \<Rightarrow> retA [HttpError (ErrorText err) StatusInternalServerError]
      | Some (Inr dat) \<Rightarrow>
          (case cd_Unmarshal (rh_Codec h) dat of
             Inl err \<Rightarrow> retA [HttpError (ErrorText err) StatusBadRequest]
           | Inr review \<Rightarrow>
               bindA (attemptA (handleValidation h (rev_Request review)))
                 (\<lambda>r. case r of
                    Inl err \<Rightarrow> retA [HttpError (ErrorText err) StatusInternalServerError]
                  | Inr response \<Rightarrow>
                      (let review = review\<lparr>rev_Response := Some response\<rparr>
                       in case cd_Marshal (rh_Codec h) review of
                            Inl err \<Rightarrow> retA [HttpError (ErrorText err) StatusInternalServerError]
                          | Inr out \<Rightarrow>
                              (case writeFails out of
                                 Some err \<Rightarrow> retA [HttpWrite out,
                                   HttpError (ErrorText err) StatusInternalServerError]
                               | None \<Rightarrow> retA [HttpWrite out])))))"

text \<open>
  The handler is registered with the webhook server of the manager, which is not code of the
  repository: it hands its server out, and the server takes handlers for paths. A path that is taken
  makes it panic.
\<close>

record ('w, 'm, 's, 'p) WebhookManager =
  wm_GetWebhookServer :: "'m \<Rightarrow> ('s, 'p) action"
  wm_GetClient :: "'m \<Rightarrow> 'w Client"
  wm_Register :: "'s \<Rightarrow> string \<Rightarrow> 'w RequestHandler \<Rightarrow> (unit, 'p) action"

definition NewWebhookServerFromManager ::
  "('w, 'm, 's, 'p) WebhookManager \<Rightarrow> (string \<Rightarrow> string) \<Rightarrow> Codec \<Rightarrow> 'm \<Rightarrow> ('s, 'p) action" where
  "NewWebhookServerFromManager wm showSecretRef codec mgr =
     bindA (wm_GetWebhookServer wm mgr) (\<lambda>hookServer.
       (let handler = NewRequestHandler (NewValidator showSecretRef (wm_GetClient wm mgr)) codec
        in bindA (wm_Register wm hookServer ''/validate'' handler) (\<lambda>_. retA hookServer)))"

locale webhook_routes =
  fixes wm :: "('w, 'm, 's, 'p) WebhookManager" and routes :: "'s \<Rightarrow> 'p \<Rightarrow> string \<rightharpoonup> 'w RequestHandler"
  assumes wp_GetWebhookServer: "wpA (wm_GetWebhookServer wm mgr)
      (\<lambda>r p1. (\<forall>s. routes s p1 = routes s p) \<and> (case r of Inl e \<Rightarrow> False | Inr s \<Rightarrow> True)) p"
    and wp_Register: "wpA (wm_Register wm s path h) (\<lambda>r p1. case r of
        Inl e \<Rightarrow> isPanic e \<and> path \<in> dom (routes s p) \<and> routes s p1 = routes s p
      | Inr u \<Rightarrow> path \<notin> dom (routes s p) \<and> routes s p1 = (routes s p)(path \<mapsto> h)) p"
begin

text \<open>The server serves the validation of data planes over the manager's client, and what it did before.\<close>

lemma wp_NewWebhookServer:
  "wpA (NewWebhookServerFromManager wm showSecretRef codec mgr) (\<lambda>r p1. case r of
      Inl e \<Rightarrow> isPanic e \<and> (\<exists>s. ''/validate'' \<in> dom (routes s p))
    | Inr s \<Rightarrow> ''/validate'' \<notin> dom (routes s p) \<and> routes s p1 = (routes s p)
        (''/validate'' \<mapsto> NewRequestHandler (NewValidator showSecretRef (wm_GetClient wm mgr)) codec)) p"
  unfolding NewWebhookServerFromManager_def wpA_bindA [of "wm_GetWebhookServer wm mgr"]
proof (rule wpA_mono [OF wp_GetWebhookServer], goal_cases)
  case (1 r p1)
  then obtain s where s: "r = Inr s" "routes s p1 = routes s p" by (cases r) auto
  show ?case
    unfolding s(1) sum.case Let_def wpA_bindA
    by (rule wpA_mono [OF wp_Register]) (auto simp: s(2) wp split: sum.splits)
qed

end

text \<open>A server in memory: its state is the table of routes.\<close>

definition memWebhooks :: "'w Client \<Rightarrow> ('w, unit, unit, string \<rightharpoonup> 'w RequestHandler) WebhookManager" where
  "memWebhooks c =
     \<lparr>wm_GetWebhookServer = (\<lambda>_. retA ()), wm_GetClient = (\<lambda>_. c),
      wm_Register = (\<lambda>_ path h p. case p path of
        None \<Rightarrow> (Inr (), p(path \<mapsto> h)) | Some _ \<Rightarrow> (Inl (Panic ''can't register duplicate path''), p))\<rparr>"

interpretation mem_webhooks: webhook_routes "memWebhooks c" "\<lambda>_ p. p" for c
  by unfold_locales (auto simp: memWebhooks_def retA_def wpA_def split: option.splits)

section \<open>The contract of a validator\<close>

text \<open>
  What the handler relies on: validating does not change the stored objects, a control plane is
  always accepted, and a data plane is refused only with an error that \<open>refuses\<close> allows and
  accepted only if it is \<open>valid\<close>, where both may depend on the world the request is served in.
\<close>

text \<open>What a request submits for validation: an object that cannot be decoded, or a data plane.\<close>

definition undecodable :: "Codec \<Rightarrow> AdmissionRequest \<Rightarrow> go_error option" where
  "undecodable codec req =
     (if req_Operation req \<notin> {Create, Update} then None
      else if req_Resource req = controlPlaneGVResource then
        (case cd_DecodeControlPlane codec (req_ObjectRaw req) of Inl e \<Rightarrow> Some e | Inr _ \<Rightarrow> None)
      else if req_Resource req = dataPlaneGVResource then
        (case cd_DecodeDataPlane codec (req_ObjectRaw req) of Inl e \<Rightarrow> Some e | Inr _ \<Rightarrow> None)
      else None)"

definition submitted :: "Codec \<Rightarrow> AdmissionRequest \<Rightarrow> DataPlane option" where
  "submitted codec req =
     (if req_Operation req \<in> {Create, Update} \<and> req_Resource req = dataPlaneGVResource then
        (case cd_DecodeDataPlane codec (req_ObjectRaw req) of Inl _ \<Rightarrow> None | Inr dp \<Rightarrow> Some dp)
      else None)"

text \<open>The two kinds of answers, and which one a request gets.\<close>

definition allowed :: "string \<Rightarrow> AdmissionResponse" where
  "allowed uid = \<lparr>resp_UID = uid, resp_Allowed = True, resp_Result = Some
     \<lparr>sts_Status = ''Success'', sts_Message = '''', sts_Reason = '''', sts_Code = 200\<rparr>\<rparr>"

definition denied :: "string \<Rightarrow> string \<Rightarrow> AdmissionResponse" where
  "denied uid msg = \<lparr>resp_UID = uid, resp_Allowed = False, resp_Result = Some
     \<lparr>sts_Status = ''Failure'', sts_Message = msg, sts_Reason = ''BadRequest'', sts_Code = 400\<rparr>\<rparr>"

definition answers ::
  "(DataPlane \<Rightarrow> bool) \<Rightarrow> (DataPlane \<Rightarrow> go_error \<Rightarrow> bool) \<Rightarrow> Codec \<Rightarrow> AdmissionRequest option
    \<Rightarrow> AdmissionResponse \<Rightarrow> bool" where
  "answers valid refuses codec reqp resp =
     (case reqp of
        None \<Rightarrow> resp = denied '''' ''empty request''
      | Some req \<Rightarrow>
          (case submitted codec req of
             None \<Rightarrow> resp = allowed (req_UID req)
           | Some dp \<Rightarrow> resp = allowed (req_UID req) \<and> valid dp \<or>
               (\<exists>e. resp = denied (req_UID req) (ErrorText e) \<and> refuses dp e)))"

lemma gvResources_differ: "dataPlaneGVResource \<noteq> controlPlaneGVResource"
  by (simp add: dataPlaneGVResource_def controlPlaneGVResource_def)

locale object_validator =
  fixes v :: "'w ObjectValidator" and view :: "'w \<Rightarrow> Cluster"
    and valid :: "'w \<Rightarrow> DataPlane \<Rightarrow> bool" and refuses :: "'w \<Rightarrow> DataPlane \<Rightarrow> go_error \<Rightarrow> bool"
  assumes cp_accepts: "wpA (ov_ValidateControlPlane v cp) (\<lambda>r w1. view w1 = view w \<and> r = Inr ()) w"
    and dp_decides: "wpA (ov_ValidateDataPlane v dp) (\<lambda>r w1. view w1 = view w \<and>
      (case r of Inr u \<Rightarrow> valid w dp | Inl e \<Rightarrow> \<not> isPanic e \<and> refuses w dp e)) w"
begin

lemma wp_decodeAndValidate:
  assumes "\<And>obj. wpA (validate obj) (\<lambda>r w1. view w1 = view w \<and>
      (case r of Inr u \<Rightarrow> good obj | Inl e \<Rightarrow> \<not> isPanic e \<and> bad obj e)) w"
  shows "wpA (decodeAndValidate decode validate req) (\<lambda>r w1. view w1 = view w \<and>
      (if req_Operation req \<notin> {Create, Update} then r = Inr (True, '''')
       else case decode (req_ObjectRaw req) of
         Inl e \<Rightarrow> r = Inl e
       | Inr obj \<Rightarrow> r = Inr (True, '''') \<and> good obj \<or> (\<exists>e. r = Inr (False, ErrorText e) \<and> bad obj e))) w"
proof (cases "req_Operation req \<in> {Create, Update}")
  case True
  show ?thesis
  proof (cases "decode (req_ObjectRaw req)")
    case (Inr obj)
    show ?thesis
      unfolding decodeAndValidate_def using True
      by (simp add: wp Inr) (rule wpA_mono [OF assms [of obj]], auto simp: wp Inr split: sum.splits)
  qed (use True in \<open>auto simp: decodeAndValidate_def wp\<close>)
qed (auto simp: decodeAndValidate_def wp)

lemmas response_defs = allowed_def denied_def StatusOK_def StatusBadRequest_def StatusReasonBadRequest_def
  StatusSuccess_def StatusFailure_def

lemma wp_handleRequest:
  assumes h: "rh_Validator h = v"
  shows "wpA (handleValidation h (Some req)) (\<lambda>r w1. view w1 = view w \<and>
      (case undecodable (rh_Codec h) req of
         Some e \<Rightarrow> r = Inl e
       | None \<Rightarrow> \<exists>resp. r = Inr resp \<and> answers (valid w) (refuses w) (rh_Codec h) (Some req) resp)) w"
proof -
  have cp: "wpA (ov_ValidateControlPlane v cp) (\<lambda>r w1. view w1 = view w \<and>
      (case r of Inr u \<Rightarrow> True | Inl e \<Rightarrow> \<not> isPanic e \<and> False)) w" for cp
    by (rule wpA_mono [OF cp_accepts]) auto
  consider "req_Resource req = controlPlaneGVResource" | "req_Resource req = dataPlaneGVResource"
    | "req_Resource req \<notin> {controlPlaneGVResource, dataPlaneGVResource}" by auto
  then show ?thesis
  proof cases
    case 1
    show ?thesis
      unfolding handleValidation_def option.case h wp using 1 gvResources_differ
      by (simp, intro wpA_mono [OF wp_decodeAndValidate [where good = "\<lambda>_. True" and bad = "\<lambda>_ _. False"], OF cp])
        (auto simp: wp undecodable_def answers_def submitted_def response_defs split: sum.splits if_splits)
  next
    case 2
    show ?thesis
      unfolding handleValidation_def option.case h wp using 2 gvResources_differ
      by (simp, intro wpA_mono [OF wp_decodeAndValidate [where good = "valid w" and bad = "refuses w"], OF dp_decides])
        (auto simp: wp undecodable_def answers_def submitted_def response_defs split: sum.splits if_splits)
  next
    case 3
    then show ?thesis
      by (simp add: handleValidation_def wp undecodable_def answers_def submitted_def response_defs)
  qed
qed

lemma wp_handleValidation:
  assumes "rh_Validator h = v"
  shows "wpA (handleValidation h reqp) (\<lambda>r w1. view w1 = view w \<and>
      (case Option.bind reqp (undecodable (rh_Codec h)) of
         Some e \<Rightarrow> r = Inl e
       | None \<Rightarrow> \<exists>resp. r = Inr resp \<and> answers (valid w) (refuses w) (rh_Codec h) reqp resp)) w"
proof (cases reqp)
  case None
  then show ?thesis
    by (simp add: handleValidation_def wp answers_def response_defs)
next
  case (Some req)
  show ?thesis using wp_handleRequest [OF assms, of req w] unfolding Some by simp
qed

end

text \<open>
  The operator's validator decides the database mode: it refuses a data plane with the mode in
  the message, or with the wrapped error of a read that failed, as \<open>Validate\<close> does in that world.
\<close>

definition dataPlaneValid :: "Cluster \<Rightarrow> DataPlane \<Rightarrow> bool" where
  "dataPlaneValid cl dp \<longleftrightarrow> effectiveDBMode cl (om_Namespace (dp_Meta dp)) (dp_Spec dp) \<in> {'''', ''off''}"

definition dataPlaneRefused :: "'w Validator \<Rightarrow> ('w \<Rightarrow> Cluster) \<Rightarrow> 'w \<Rightarrow> DataPlane \<Rightarrow> go_error \<Rightarrow> bool" where
  "dataPlaneRefused v view w dp e \<longleftrightarrow> fst (Validate v dp w) = Inl e \<and>
     (failedRead v view (om_Namespace (dp_Meta dp)) (view w) e \<or> \<not> dataPlaneValid (view w) dp \<and>
      e = Errorf (''database backend '' @ effectiveDBMode (view w) (om_Namespace (dp_Meta dp)) (dp_Spec dp) @
            '' of dataplane not supported currently''))"

lemma object_validator_of:
  assumes "validator_api v view putCM bodyCM statusCM putS bodyS statusS"
  shows "object_validator (rh_Validator (NewRequestHandler v codec)) view (\<lambda>w. dataPlaneValid (view w))
    (dataPlaneRefused v view)"
proof
  fix cp w
  show "wpA (ov_ValidateControlPlane (rh_Validator (NewRequestHandler v codec)) cp)
      (\<lambda>r w1. view w1 = view w \<and> r = Inr ()) w"
    by (simp add: NewRequestHandler_def ValidateControlPlane_def wp)
next
  fix dp w
  show "wpA (ov_ValidateDataPlane (rh_Validator (NewRequestHandler v codec)) dp) (\<lambda>r w1. view w1 = view w \<and>
      (case r of Inl e \<Rightarrow> \<not> isPanic e \<and> dataPlaneRefused v view w dp e
       | Inr u \<Rightarrow> dataPlaneValid (view w) dp)) w"
  proof (cases "Validate v dp w")
    case (Pair r w1)
    then show ?thesis
      using validator_api.validate_reads [OF assms, of "om_Namespace (dp_Meta dp)" "dp_Spec dp" w]
      by (auto simp: NewRequestHandler_def ValidateDataPlane_def Validate_def wpA_def dataPlaneValid_def
          dataPlaneRefused_def dest: failedRead_not_panic split: sum.splits)
  qed
qed

interpretation mem_object_validator: object_validator
    "rh_Validator (NewRequestHandler memValidator codec)" sim_Cluster "\<lambda>w. dataPlaneValid (sim_Cluster w)"
    "dataPlaneRefused memValidator sim_Cluster"
  for codec
  by (rule object_validator_of [OF mem_validator.validator_api_axioms])

lemma handler_codec: "rh_Codec (NewRequestHandler v codec) = codec"
  by (simp add: NewRequestHandler_def)

section \<open>Properties\<close>

text \<open>C27. The verdict of the webhook. Against an API whose reads are up to date, handling a request
  changes nothing and fails exactly with the decoder's error, if the request creates or updates
  a control plane or a data plane that cannot be decoded. Otherwise there is an answer: no request at
  all is denied as empty; a request that does not create or update a data plane is allowed; and one
  that does is allowed only if its effective database mode is empty or \<open>off\<close>, and denied only
  with an error \<open>Validate\<close> gives in that world, which names another mode or wraps a read of a config
  map or secret that failed. An answer that allows has the UID, no message and code 200; one
  that denies has the UID, the message and code 400.\<close>

theorem handleValidation_correct:
  assumes "validator_api v view putCM bodyCM statusCM putS bodyS statusS"
  shows "case handleValidation (NewRequestHandler v codec) reqp w of (r, w1) \<Rightarrow> view w1 = view w \<and>
    (case Option.bind reqp (undecodable codec) of
       Some e \<Rightarrow> r = Inl e
     | None \<Rightarrow> \<exists>resp. r = Inr resp \<and>
         answers (dataPlaneValid (view w)) (dataPlaneRefused v view w) codec reqp resp)"
  using object_validator.wp_handleValidation [OF object_validator_of [OF assms] refl, of codec reqp w]
  by (simp only: handler_codec wpA_def)

definition exampleCodec :: "DataPlane \<Rightarrow> Codec" where
  "exampleCodec dp = \<lparr>cd_Unmarshal = (\<lambda>_. Inl (Errorf ''unexpected end of JSON input'')),
     cd_Marshal = (\<lambda>_. Inr ''{}''), cd_DecodeControlPlane = (\<lambda>_. Inl (Errorf ''not a control plane'')),
     cd_DecodeDataPlane = (\<lambda>_. Inr dp)\<rparr>"

definition createDataPlane :: AdmissionRequest where
  "createDataPlane = \<lparr>req_UID = ''r1'', req_Resource = dataPlaneGVResource, req_Operation = Create,
     req_ObjectRaw = ''{}''\<rparr>"

lemma example_postgres:
  "effectiveDBMode (emptyCluster\<lparr>st_ConfigMaps := [exampleConfigMap ''pg'' ''postgres'']\<rparr>) ''default''
     (dp_Spec (fromConfigMaps [''pg''])) = ''postgres''"
  by (simp add: effectiveDBMode_def fromConfigMaps_def exampleConfigMap_def envFromSays_def
      cmSays_def configMapAt_def lookupKey_def keyOf_def emptyMeta_def EnvVarApisixDatabase_def
      TrimPrefix_def lastSaid_def reading_def)

lemma createDataPlane_submitted:
  "undecodable (exampleCodec dp) createDataPlane = None" "submitted (exampleCodec dp) createDataPlane = Some dp"
  using gvResources_differ by (simp_all add: undecodable_def submitted_def createDataPlane_def exampleCodec_def)

theorem handleValidation_correct_witness:
  "let w = quiet (emptyCluster\<lparr>st_ConfigMaps := [exampleConfigMap ''pg'' ''postgres'']\<rparr>)
   in case handleValidation (NewRequestHandler memValidator (exampleCodec (fromConfigMaps [''pg''])))
             (Some createDataPlane) w of (r, w1) \<Rightarrow>
        sim_Cluster w1 = sim_Cluster w \<and> (\<exists>msg. r = Inr (denied ''r1'' msg))"
proof -
  let ?v = "emptyCluster\<lparr>st_ConfigMaps := [exampleConfigMap ''pg'' ''postgres'']\<rparr>"
  have "\<not> dataPlaneValid ?v (fromConfigMaps [''pg''])"
    using example_postgres by (simp add: dataPlaneValid_def fromConfigMaps_def exampleDataPlane_def emptyMeta_def)
  moreover have "req_UID createDataPlane = ''r1''" "sim_Cluster (quiet ?v) = ?v"
    by (simp_all add: createDataPlane_def quiet_def)
  ultimately show ?thesis
    using handleValidation_correct [where codec = "exampleCodec (fromConfigMaps [''pg''])" and
        reqp = "Some createDataPlane" and w = "quiet ?v", OF mem_validator.validator_api_axioms]
    by (auto simp: Let_def createDataPlane_submitted answers_def split: prod.splits)
qed

text \<open>C40. Every HTTP request is answered, each failure with its own status: 400 without a body or if
  the body is no review, 500 if the body cannot be read, the submitted object cannot be decoded
  (with the decoder's message; a panic of the decoder is not answered) or the answer cannot be
  encoded. Otherwise the review is written with the verdict of C27 as its response, and only if that
  write fails an error of code 500 follows. Nothing stored is changed.\<close>

theorem ServeHTTP_answers:
  assumes "validator_api v view putCM bodyCM statusCM putS bodyS statusS"
  shows "case ServeHTTP (NewRequestHandler v codec) writeFails body w of (r, w1) \<Rightarrow> view w1 = view w \<and>
    (case body of
       None \<Rightarrow> r = Inr [HttpError ''admission review object is missing'' 400]
     | Some (Inl err) \<Rightarrow> r = Inr [HttpError (ErrorText err) 500]
     | Some (Inr dat) \<Rightarrow>
         (case cd_Unmarshal codec dat of
            Inl err \<Rightarrow> r = Inr [HttpError (ErrorText err) 400]
          | Inr review \<Rightarrow>
              (case Option.bind (rev_Request review) (undecodable codec) of
                 Some err \<Rightarrow> r = (if isPanic err then Inl err else Inr [HttpError (ErrorText err) 500])
               | None \<Rightarrow> \<exists>resp.
                   answers (dataPlaneValid (view w)) (dataPlaneRefused v view w) codec (rev_Request review) resp \<and>
                   r = Inr (case cd_Marshal codec (review\<lparr>rev_Response := Some resp\<rparr>) of
                     Inl err \<Rightarrow> [HttpError (ErrorText err) 500]
                   | Inr out \<Rightarrow> HttpWrite out # (case writeFails out of
                       None \<Rightarrow> [] | Some err \<Rightarrow> [HttpError (ErrorText err) 500])))))"
proof -
  note codes = StatusBadRequest_def StatusInternalServerError_def
  note handled = object_validator.wp_handleValidation [OF object_validator_of [OF assms, where codec = codec] refl,
      unfolded handler_codec]
  show ?thesis
  proof (cases body)
    case (Some read)
    show ?thesis
    proof (cases read)
      case (Inr dat)
      show ?thesis
      proof (cases "cd_Unmarshal codec dat")
        case review: (Inr review)
        obtain r w1 where run: "handleValidation (NewRequestHandler v codec) (rev_Request review) w = (r, w1)"
          by fastforce
        note answer = wpA_E [OF handled run]
        show ?thesis
        proof (cases "Option.bind (rev_Request review) (undecodable codec)")
          case None
          then obtain resp where resp: "view w1 = view w" "r = Inr resp"
            "answers (dataPlaneValid (view w)) (dataPlaneRefused v view w) codec (rev_Request review) resp"
            using answer by auto
          have "ServeHTTP (NewRequestHandler v codec) writeFails body w =
              (Inr (case cd_Marshal codec (review\<lparr>rev_Response := Some resp\<rparr>) of
                 Inl err \<Rightarrow> [HttpError (ErrorText err) 500]
               | Inr out \<Rightarrow> HttpWrite out # (case writeFails out of
                   None \<Rightarrow> [] | Some err \<Rightarrow> [HttpError (ErrorText err) 500])), w1)"
            using run resp(2) by (simp add: ServeHTTP_def handler_codec Some Inr review codes action_defs
                split: sum.split option.split)
          then show ?thesis
            using resp(1,3) None by (auto simp: Some Inr review intro!: exI [of _ resp])
        next
          case failed: (Some err)
          then show ?thesis
            using run answer by (simp add: ServeHTTP_def handler_codec Some Inr review codes action_defs)
        qed
      qed (use Some Inr in \<open>simp add: ServeHTTP_def handler_codec action_defs codes\<close>)
    qed (use Some in \<open>simp add: ServeHTTP_def action_defs codes\<close>)
  qed (simp add: ServeHTTP_def action_defs codes)
qed

definition reviewCodec :: "DataPlane \<Rightarrow> Codec" where
  "reviewCodec dp = (exampleCodec dp)\<lparr>cd_Unmarshal := (\<lambda>_. Inr \<lparr>rev_TypeMeta = typed '''' '''' '''',
     rev_Request = Some createDataPlane, rev_Response = None\<rparr>)\<rparr>"

theorem ServeHTTP_answers_witness:
  "case ServeHTTP (NewRequestHandler memValidator (reviewCodec (fromConfigMaps [''pg'']))) (\<lambda>_. None) (Some (Inr ''{}''))
      (quiet emptyCluster) of (r, w1) \<Rightarrow> sim_Cluster w1 = emptyCluster \<and> r = Inr [HttpWrite ''{}'']"
proof -
  have "undecodable (reviewCodec dp) createDataPlane = None" for dp
    using gvResources_differ by (simp add: undecodable_def createDataPlane_def reviewCodec_def exampleCodec_def)
  then show ?thesis
    using ServeHTTP_answers [where codec = "reviewCodec (fromConfigMaps [''pg''])" and writeFails = "\<lambda>_. None" and
        body = "Some (Inr ''{}'')" and w = "quiet emptyCluster", OF mem_validator.validator_api_axioms]
    by (auto simp: reviewCodec_def exampleCodec_def quiet_def split: prod.splits)
qed

end
