(* ===== verification/Watch.thy ===== *)
theory Watch
  imports GatewayUtils
begin

text \<open>
  What the control plane controller watches besides its own kind: the predicates and map
  functions on cluster roles and cluster role bindings
  (\<open>controllers/controlplane_controller_watch.go\<close>) and the update predicates that
  \<open>SetupWithManager\<close> puts in place.
\<close>

section \<open>Operations\<close>

datatype WatchedObject =
    WatchedClusterRole ClusterRole
  | WatchedClusterRoleBinding ClusterRoleBinding
  | OtherObject ObjectMeta

record Request =
  rq_Namespace :: string
  rq_Name :: string

fun anyOwner :: "ObjectMeta \<Rightarrow> ControlPlane list \<Rightarrow> bool" where
  "anyOwner obj [] = False"
| "anyOwner obj (controlplane # rest) =
     (if IsOwnedByRefUID obj (om_UID (cp_Meta controlplane)) then True else anyOwner obj rest)"

definition objHasControlplaneOwner :: "'w Client \<Rightarrow> ObjectMeta \<Rightarrow> (bool, 'w) action" where
  "objHasControlplaneOwner c obj =
     bindA (attemptA (cl_List (cl_ControlPlanes c) None []))
       (\<lambda>r. case r of
              Inl err \<Rightarrow> retA True
            | Inr controlplanes \<Rightarrow> retA (anyOwner obj controlplanes))"

definition clusterRoleHasControlplaneOwner :: "'w Client \<Rightarrow> WatchedObject \<Rightarrow> (bool, 'w) action" where
  "clusterRoleHasControlplaneOwner c obj =
     (case obj of
        WatchedClusterRole clusterRole \<Rightarrow> objHasControlplaneOwner c (cr_Meta clusterRole)
      | _ \<Rightarrow> retA False)"

definition clusterRoleBindingHasControlplaneOwner :: "'w Client \<Rightarrow> WatchedObject \<Rightarrow> (bool, 'w) action" where
  "clusterRoleBindingHasControlplaneOwner c obj =
     (case obj of
        WatchedClusterRoleBinding clusterRoleBinding \<Rightarrow>
          objHasControlplaneOwner c (crb_Meta clusterRoleBinding)
      | _ \<Rightarrow> retA False)"

fun firstOwner :: "ObjectMeta \<Rightarrow> ControlPlane list \<Rightarrow> Request list" where
  "firstOwner obj [] = []"
| "firstOwner obj (controlplane # rest) =
     (if IsOwnedByRefUID obj (om_UID (cp_Meta controlplane))
      then [\<lparr>rq_Namespace = om_Namespace (cp_Meta controlplane),
             rq_Name = om_Name (cp_Meta controlplane)\<rparr>]
      else firstOwner obj rest)"

definition getControlplaneRequestFromRefUID :: "'w Client \<Rightarrow> ObjectMeta \<Rightarrow> (Request list, 'w) action" where
  "getControlplaneRequestFromRefUID c obj =
     bindA (attemptA (cl_List (cl_ControlPlanes c) None []))
       (\<lambda>r. case r of
              Inl err \<Rightarrow> retA []
            | Inr controlplanes \<Rightarrow> retA (firstOwner obj controlplanes))"

definition getControlplaneForClusterRole :: "'w Client \<Rightarrow> WatchedObject \<Rightarrow> (Request list, 'w) action" where
  "getControlplaneForClusterRole c obj =
     (case obj of
        WatchedClusterRole clusterRole \<Rightarrow> getControlplaneRequestFromRefUID c (cr_Meta clusterRole)
      | _ \<Rightarrow> retA [])"

definition getControlplaneForClusterRoleBinding ::
  "'w Client \<Rightarrow> WatchedObject \<Rightarrow> (Request list, 'w) action" where
  "getControlplaneForClusterRoleBinding c obj =
     (case obj of
        WatchedClusterRoleBinding clusterRoleBinding \<Rightarrow>
          getControlplaneRequestFromRefUID c (crb_Meta clusterRoleBinding)
      | _ \<Rightarrow> retA [])"

text \<open>
  The predicates on events: creations, deletions and generic events ask the object itself, an
  update asks the old one, so that the loss of an owner reference is seen.
\<close>

datatype WatchEvent =
    ObjectEvent WatchedObject
  | UpdateEvent WatchedObject WatchedObject \<comment> \<open>old, new\<close>

fun clusterRolePredicate :: "'w Client \<Rightarrow> WatchEvent \<Rightarrow> (bool, 'w) action" where
  "clusterRolePredicate c (ObjectEvent obj) = clusterRoleHasControlplaneOwner c obj"
| "clusterRolePredicate c (UpdateEvent objectOld objectNew) = clusterRoleHasControlplaneOwner c objectOld"

fun clusterRoleBindingPredicate :: "'w Client \<Rightarrow> WatchEvent \<Rightarrow> (bool, 'w) action" where
  "clusterRoleBindingPredicate c (ObjectEvent obj) = clusterRoleBindingHasControlplaneOwner c obj"
| "clusterRoleBindingPredicate c (UpdateEvent objectOld objectNew) =
     clusterRoleBindingHasControlplaneOwner c objectOld"

section \<open>Lemmas\<close>

lemma anyOwner_iff: "anyOwner obj cps \<longleftrightarrow> (\<exists>cp \<in> set cps. IsOwnedByRefUID obj (om_UID (cp_Meta cp)))"
  by (induction cps) auto

lemma firstOwner_Nil: "firstOwner obj cps = [] \<longleftrightarrow> \<not> anyOwner obj cps"
  by (induction cps) auto

lemma firstOwner_single:
  "firstOwner obj cps = rq # rqs \<Longrightarrow> rqs = [] \<and>
   (\<exists>cp \<in> set cps. IsOwnedByRefUID obj (om_UID (cp_Meta cp)) \<and>
      keyOf (cp_Meta cp) = (rq_Namespace rq, rq_Name rq))"
  by (induction cps) (auto simp: keyOf_def split: if_splits)

lemma selects_all: "selects None [] m"
  by (simp add: selects_def)

section \<open>Properties\<close>

text \<open>
  What the operator is to see: the object an event asks about, its metadata if it is of the watched
  kind, and the stored control planes that own it.
\<close>

fun askedObject :: "WatchEvent \<Rightarrow> WatchedObject" where
  "askedObject (ObjectEvent obj) = obj"
| "askedObject (UpdateEvent objectOld objectNew) = objectOld"

fun roleMeta :: "WatchedObject \<Rightarrow> ObjectMeta option" where
  "roleMeta (WatchedClusterRole r) = Some (cr_Meta r)"
| "roleMeta _ = None"

fun bindingMeta :: "WatchedObject \<Rightarrow> ObjectMeta option" where
  "bindingMeta (WatchedClusterRoleBinding b) = Some (crb_Meta b)"
| "bindingMeta _ = None"

definition ownersOf :: "ObjectMeta \<Rightarrow> Cluster \<Rightarrow> ControlPlane list" where
  "ownersOf m v = filter (\<lambda>cp. IsOwnedByRefUID m (om_UID (cp_Meta cp))) (st_ControlPlanes v)"

definition requestFor :: "ControlPlane \<Rightarrow> Request" where
  "requestFor cp = \<lparr>rq_Namespace = om_Namespace (cp_Meta cp), rq_Name = om_Name (cp_Meta cp)\<rparr>"

text \<open>Both answers for the metadata of an object, \<open>listed\<close> telling whether the control planes could be listed.\<close>

definition letsThrough :: "bool \<Rightarrow> Cluster \<Rightarrow> ObjectMeta option \<Rightarrow> bool" where
  "letsThrough listed v meta = (case meta of None \<Rightarrow> False | Some m \<Rightarrow> \<not> listed \<or> ownersOf m v \<noteq> [])"

definition enqueues :: "bool \<Rightarrow> Cluster \<Rightarrow> ObjectMeta option \<Rightarrow> Request list" where
  "enqueues listed v meta = (case meta of None \<Rightarrow> []
     | Some m \<Rightarrow> if listed then map requestFor (take 1 (ownersOf m v)) else [])"

lemma anyOwner_owners: "anyOwner m (st_ControlPlanes v) \<longleftrightarrow> ownersOf m v \<noteq> []"
  by (auto simp: anyOwner_iff ownersOf_def filter_empty_conv)

lemma firstOwner_owners: "firstOwner m cps =
  map requestFor (take 1 (filter (\<lambda>cp. IsOwnedByRefUID m (om_UID (cp_Meta cp))) cps))"
  by (induction cps) (auto simp: requestFor_def)

context api_kind
begin

text \<open>Whether a list succeeds, it tells nothing but what is stored.\<close>

lemma list_all_cases:
  obtains (listed) w1 where "cl_List res None [] w = (Inr (sel (view w)), w1)" "view w1 = view w"
  | (failed) a w1 where "cl_List res None [] w = (Inl (APIErr a), w1)" "view w1 = view w"
proof (cases "cl_List res None [] w")
  case (Pair r w1)
  then show ?thesis
    using that list_view [OF Pair] list_ok [of None "[]" w _ w1] list_err [of None "[]" w _ w1]
    by (cases r) (auto simp: selects_all elim: isAPIErr.elims)
qed

end

lemma watch_answers:
  assumes "api_kind (cl_ControlPlanes c) ControlPlaneObj view st_ControlPlanes put body status"
  defines "listed w \<equiv> \<exists>cps. fst (cl_List (cl_ControlPlanes c) None [] w) = Inr cps"
  shows "wpA (objHasControlplaneOwner c m) (\<lambda>r w1. view w1 = view w \<and> r = Inr (letsThrough (listed w) (view w) (Some m))) w"
    and "wpA (getControlplaneRequestFromRefUID c m) (\<lambda>r w1. view w1 = view w \<and> r = Inr (enqueues (listed w) (view w) (Some m))) w"
  by (cases rule: api_kind.list_all_cases [OF assms(1), of w];
      simp add: objHasControlplaneOwner_def getControlplaneRequestFromRefUID_def action_defs wpA_def listed_def
        letsThrough_def enqueues_def anyOwner_owners firstOwner_owners ownersOf_def [symmetric])+

text \<open>C38. What comes of an event of a cluster role or a cluster role binding. Against an API whose reads
  are up to date, neither the predicates nor the map functions change anything. While the control
  planes can be listed, a predicate lets an event through exactly if the object (for an update, the
  old one) is of its kind and a stored control plane owns it, and a map function answers one
  request, for the first owner, or none if there is no owner. When its list fails a predicate lets every
  event of its kind through, while a map function whose list fails answers no request: an event that
  was let through for this reason is lost if the list fails again.\<close>

theorem clusterRole_watch_correct:
  assumes "api_kind (cl_ControlPlanes c) ControlPlaneObj view st_ControlPlanes put body status"
  shows "let listed = (\<exists>cps. fst (cl_List (cl_ControlPlanes c) None [] w) = Inr cps)
    in wpA (clusterRolePredicate c ev)
         (\<lambda>r w1. view w1 = view w \<and> r = Inr (letsThrough listed (view w) (roleMeta (askedObject ev)))) w \<and>
       wpA (getControlplaneForClusterRole c obj)
         (\<lambda>r w1. view w1 = view w \<and> r = Inr (enqueues listed (view w) (roleMeta obj))) w \<and>
       wpA (clusterRoleBindingPredicate c ev)
         (\<lambda>r w1. view w1 = view w \<and> r = Inr (letsThrough listed (view w) (bindingMeta (askedObject ev)))) w \<and>
       wpA (getControlplaneForClusterRoleBinding c obj)
         (\<lambda>r w1. view w1 = view w \<and> r = Inr (enqueues listed (view w) (bindingMeta obj))) w"
proof -
  note answers = watch_answers [OF assms]
  have role: "wpA (clusterRoleHasControlplaneOwner c obj) (\<lambda>r w1. view w1 = view w \<and> r = Inr (letsThrough
      (\<exists>cps. fst (cl_List (cl_ControlPlanes c) None [] w) = Inr cps) (view w) (roleMeta obj))) w" for obj
    unfolding clusterRoleHasControlplaneOwner_def
    by (cases obj) (use answers(1) in \<open>simp_all add: letsThrough_def wp\<close>)
  have binding: "wpA (clusterRoleBindingHasControlplaneOwner c obj) (\<lambda>r w1. view w1 = view w \<and> r = Inr (letsThrough
      (\<exists>cps. fst (cl_List (cl_ControlPlanes c) None [] w) = Inr cps) (view w) (bindingMeta obj))) w" for obj
    unfolding clusterRoleBindingHasControlplaneOwner_def
    by (cases obj) (use answers(1) in \<open>simp_all add: letsThrough_def wp\<close>)
  show ?thesis
    unfolding Let_def
  proof (intro conjI)
    show "wpA (getControlplaneForClusterRole c obj) (\<lambda>r w1. view w1 = view w \<and> r = Inr (enqueues
        (\<exists>cps. fst (cl_List (cl_ControlPlanes c) None [] w) = Inr cps) (view w) (roleMeta obj))) w"
      unfolding getControlplaneForClusterRole_def
      by (cases obj) (use answers(2) in \<open>simp_all add: enqueues_def wp\<close>)
    show "wpA (getControlplaneForClusterRoleBinding c obj) (\<lambda>r w1. view w1 = view w \<and> r = Inr (enqueues
        (\<exists>cps. fst (cl_List (cl_ControlPlanes c) None [] w) = Inr cps) (view w) (bindingMeta obj))) w"
      unfolding getControlplaneForClusterRoleBinding_def
      by (cases obj) (use answers(2) in \<open>simp_all add: enqueues_def wp\<close>)
    show "wpA (clusterRolePredicate c ev) (\<lambda>r w1. view w1 = view w \<and> r = Inr (letsThrough
        (\<exists>cps. fst (cl_List (cl_ControlPlanes c) None [] w) = Inr cps) (view w) (roleMeta (askedObject ev)))) w"
      by (cases ev) (simp_all only: clusterRolePredicate.simps askedObject.simps role)
    show "wpA (clusterRoleBindingPredicate c ev) (\<lambda>r w1. view w1 = view w \<and> r = Inr (letsThrough
        (\<exists>cps. fst (cl_List (cl_ControlPlanes c) None [] w) = Inr cps) (view w) (bindingMeta (askedObject ev)))) w"
      by (cases ev) (simp_all only: clusterRoleBindingPredicate.simps askedObject.simps binding)
  qed
qed

definition ownedRole :: ClusterRole where
  "ownedRole = \<lparr>cr_Meta = emptyMeta\<lparr>om_Name := ''cp-1'', om_OwnerReferences := Some
     [\<lparr>or_APIVersion = ''v1'', or_Kind = ''ControlPlane'', or_Name = ''cp'', or_UID = ''u1'',
       or_Controller = Some True\<rparr>]\<rparr>, cr_Rules = []\<rparr>"

definition exampleControlPlane :: "string option \<Rightarrow> ControlPlane" where
  "exampleControlPlane dp =
     \<lparr>cp_TypeMeta = typed SchemeGroup SchemeVersion ''ControlPlane'',
      cp_Meta = emptyMeta\<lparr>om_Namespace := ''default'', om_Name := ''cp'', om_UID := ''u1''\<rparr>,
      cp_Spec = \<lparr>opt_ContainerImage = None, opt_Version = None, opt_Env = None, opt_EnvFrom = None,
        opt_DataPlane = dp, spec_GatewayClass = None, spec_IngressClass = None\<rparr>,
      cp_Status = \<lparr>cps_Conditions = []\<rparr>\<rparr>"

theorem clusterRole_watch_correct_witness:
  "let w = quiet (emptyCluster\<lparr>st_ControlPlanes := [exampleControlPlane None]\<rparr>);
       ev = UpdateEvent (WatchedClusterRole ownedRole) (WatchedClusterRole (ownedRole\<lparr>cr_Meta := emptyMeta\<rparr>))
   in fst (clusterRolePredicate memClient ev w) = Inr True \<and>
      fst (getControlplaneForClusterRole memClient (WatchedClusterRole ownedRole) w) =
        Inr [\<lparr>rq_Namespace = ''default'', rq_Name = ''cp''\<rparr>]"
proof -
  let ?v = "emptyCluster\<lparr>st_ControlPlanes := [exampleControlPlane None]\<rparr>"
  have "ownersOf (cr_Meta ownedRole) ?v = [exampleControlPlane None]"
    by (simp add: ownersOf_def ownedRole_def exampleControlPlane_def emptyMeta_def IsOwnedByRefUID_def)
  moreover have "\<exists>cps. fst (cl_List memControlPlanes None [] (quiet ?v)) = Inr cps"
    by (simp add: memControlPlanes_def memResource_def memList_def apiCall_def quiet_def)
  ultimately show ?thesis
    using clusterRole_watch_correct [where c = memClient and obj = "WatchedClusterRole ownedRole" and w = "quiet ?v" and
        ev = "UpdateEvent (WatchedClusterRole ownedRole) (WatchedClusterRole (ownedRole\<lparr>cr_Meta := emptyMeta\<rparr>))",
        unfolded memClient_sel, OF mem_cp.api_kind_axioms]
    by (auto simp: Let_def wpA_def quiet_def letsThrough_def enqueues_def requestFor_def exampleControlPlane_def
        emptyMeta_def split: prod.splits)
qed

end
