(* ===== verification/Ownership.thy ===== *)
theory Ownership
  imports Lists
begin

text \<open>
  Keeping one owned object: the pattern of the \<open>ensure...\<close> methods of both controllers and of
  \<open>maybeCreateCertificateSecret\<close>. List the objects of the owner, refuse more than one,
  generate the wanted object, then bring the metadata of the existing one up to date, or create
  it. The contract is proved once, in the locale \<open>owned_kind\<close>, for every kind.
\<close>

section \<open>The pattern\<close>

text \<open>
  What is to become of the existing object: whether it has to be written, and how. The
  simplest case is \<open>updated, existing.ObjectMeta = EnsureObjectMetaIsUpdated(
  existing.ObjectMeta, generated.ObjectMeta)\<close>.
\<close>

type_synonym 'o update = "'o \<Rightarrow> 'o \<Rightarrow> go_error + (bool \<times> 'o)" \<comment> \<open>existing, generated\<close>

definition updateMeta :: "'o client_object \<Rightarrow> 'o update" where
  "updateMeta k existing generated =
     (case EnsureObjectMetaIsUpdated (co_Meta k existing) (co_Meta k generated) of
        Inl e \<Rightarrow> Inl e
      | Inr (updated, m) \<Rightarrow> Inr (updated, co_SetMeta k m existing))"

text \<open>\<open>if updated { return true, existing, Update(existing) }; return false, existing, nil\<close>\<close>

definition writeIfUpdated ::
  "('o, 'w) resource \<Rightarrow> go_error + (bool \<times> 'o) \<Rightarrow> (bool \<times> 'o, 'w) action" where
  "writeIfUpdated res r =
     bindA (liftE r) (\<lambda>(updated, existing).
       if updated then bindA (cl_Update res existing) (\<lambda>y. retA (True, y))
       else retA (False, existing))"

text \<open>\<open>return true, generated, Create(generated)\<close>\<close>

definition createOwned :: "('o, 'w) resource \<Rightarrow> 'o \<Rightarrow> (bool \<times> 'o, 'w) action" where
  "createOwned res generated = bindA (cl_Create res generated) (\<lambda>y. retA (True, y))"

definition ensureOwned ::
  "('o, 'w) resource \<Rightarrow> ('o list, 'w) action \<Rightarrow> (string \<Rightarrow> string) \<Rightarrow> (go_error + 'o)
    \<Rightarrow> 'o update \<Rightarrow> ('o \<Rightarrow> (bool \<times> 'o, 'w) action) \<Rightarrow> (bool \<times> 'o, 'w) action" where
  "ensureOwned res list msg generate update create =
     bindA list (\<lambda>objects.
       (let count = length objects
        in if count > 1 then failA (Errorf (msg (digits count)))
           else bindA (liftE generate) (\<lambda>generated.
             if count = 1 then writeIfUpdated res (update (objects ! 0) generated)
             else create generated)))"

section \<open>The contract\<close>

text \<open>The metadata of an object is what the generated object asks for.\<close>

definition upToDate :: "'o client_object \<Rightarrow> 'o \<Rightarrow> 'o \<Rightarrow> bool" where
  "upToDate k generated x \<longleftrightarrow>
     EnsureObjectMetaIsUpdated (co_Meta k x) (co_Meta k generated) = Inr (False, co_Meta k x)"

lemma upToDate_iff:
  "upToDate k g x \<longleftrightarrow>
   om_OwnerReferences (co_Meta k x) = om_OwnerReferences (co_Meta k g) \<and>
   writeLabels (om_Labels (co_Meta k x)) (om_Labels (co_Meta k g)) = Inr (om_Labels (co_Meta k x))"
proof -
  have "m = m\<lparr>om_OwnerReferences := r, om_Labels := l\<rparr> \<longleftrightarrow>
      (om_OwnerReferences m = r \<and> om_Labels m = l)" for m :: ObjectMeta and r l
    by (cases m) auto
  then show ?thesis
    unfolding upToDate_def EnsureObjectMeta_Inr by auto
qed

lemma upToDate_cong:
  "sameWritten (co_Meta k x) (co_Meta k y) \<Longrightarrow> upToDate k g x = upToDate k g y"
  by (simp add: upToDate_iff sameWritten_def)

lemma upToDate_written:
  assumes "sameWritten (co_Meta k g) (co_Meta k y)"
  shows "upToDate k g y"
proof -
  have "writeLabels l l = Inr l" for l
    by (cases l) (simp_all add: writeLabels_def fmap_ext)
  then show ?thesis using assms by (simp add: upToDate_iff sameWritten_def)
qed

text \<open>What is up to date belongs to the owner if the generated object does.\<close>

lemma upToDate_owned:
  assumes "upToDate k g x"
    and "IsOwnedByRefUID (co_Meta k g) uid"
    and "fmlookup (labelMap (om_Labels (co_Meta k g))) l = Some v"
  shows "IsOwnedByRefUID (co_Meta k x) uid" and "fmlookup (labelMap (om_Labels (co_Meta k x))) l = Some v"
  using assms writeLabels_lookup [of "om_Labels (co_Meta k x)" "om_Labels (co_Meta k g)" _ l]
  by (simp_all add: upToDate_iff IsOwnedByRefUID_def)

text \<open>The stored keys are unique, as they are in any API server.\<close>

definition uniqueKeys :: "'o client_object \<Rightarrow> 'o list \<Rightarrow> bool" where
  "uniqueKeys k xs \<longleftrightarrow> distinct (map (\<lambda>x. keyOf (co_Meta k x)) xs)"

lemma uniqueKeys_same:
  "uniqueKeys k xs \<Longrightarrow> x \<in> set xs \<Longrightarrow> y \<in> set xs \<Longrightarrow>
   keyOf (co_Meta k x) = keyOf (co_Meta k y) \<Longrightarrow> x = y"
  by (auto simp: uniqueKeys_def distinct_map inj_on_def)

lemma lookupKey_unique:
  assumes "uniqueKeys k xs" and "x \<in> set xs"
  shows "lookupKey k (keyOf (co_Meta k x)) xs = Some x"
proof (cases "lookupKey k (keyOf (co_Meta k x)) xs")
  case None
  then show ?thesis using assms(2) unfolding lookupKey_None by blast
next
  case (Some y)
  then show ?thesis using lookupKey_Some [OF Some] uniqueKeys_same [OF assms(1)] assms(2) by blast
qed

lemma ownedObjects_replace:
  assumes "uniqueKeys k xs" and "ownedObjects k ns l v uid xs = [x]"
    and "keyOf (co_Meta k y) = keyOf (co_Meta k x)"
    and "selects ns [(l, v)] (co_Meta k y)" and "IsOwnedByRefUID (co_Meta k y) uid"
  shows "ownedObjects k ns l v uid (replaceKey k y xs) = [y]"
proof -
  let ?P = "\<lambda>z. selects ns [(l, v)] (co_Meta k z) \<and> IsOwnedByRefUID (co_Meta k z) uid"
  let ?f = "\<lambda>z. if keyOf (co_Meta k z) = keyOf (co_Meta k y) then y else z"
  have "x \<in> set (filter ?P xs)" using assms(2) by (simp add: ownedObjects_def)
  then have x: "x \<in> set xs" "?P x" by simp_all
  have "?P (?f z) = ?P z" if "z \<in> set xs" for z
    using uniqueKeys_same [OF assms(1) that x(1)] assms(3-5) x(2) by auto
  then have "filter (?P \<circ> ?f) xs = filter ?P xs" by (intro filter_cong) auto
  then have "filter (?P \<circ> ?f) xs = [x]" using assms(2) by (simp only: ownedObjects_def)
  then have "map ?f (filter (?P \<circ> ?f) xs) = [y]" using assms(3) by simp
  then show ?thesis
    by (simp only: ownedObjects_def replaceKey_def filter_map)
qed

text \<open>
  An update is settled on an object it does not want to write. The contract of an update, for
  a kind whose written part besides the metadata is \<open>body\<close>: it is defined on labelled objects,
  keeps the identity, writes only if something changes, and is settled on what it wrote, and on
  what was created from the generated object \<open>g\<close> (which \<open>init\<close> may have adjusted); and it
  keeps the metadata up to date.
\<close>

definition settled :: "'o update \<Rightarrow> 'o \<Rightarrow> 'o \<Rightarrow> bool" where
  "settled upd g x \<longleftrightarrow> upd x g = Inr (False, x)"

definition sameIdentity :: "ObjectMeta \<Rightarrow> ObjectMeta \<Rightarrow> bool" where
  "sameIdentity m n \<longleftrightarrow> om_Namespace n = om_Namespace m \<and> om_Name n = om_Name m \<and>
     om_UID n = om_UID m \<and> om_Finalizers n = om_Finalizers m \<and>
     om_DeletionTimestamp n = om_DeletionTimestamp m"

definition converging ::
  "'o client_object \<Rightarrow> ('o \<Rightarrow> 'b) \<Rightarrow> ('o \<Rightarrow> 'o) \<Rightarrow> 'o update \<Rightarrow> 'o \<Rightarrow> bool" where
  "converging k body init upd g \<longleftrightarrow>
     (\<forall>x. om_Labels (co_Meta k x) \<noteq> None \<longrightarrow>
        (\<exists>b y. upd x g = Inr (b, y) \<and> sameIdentity (co_Meta k x) (co_Meta k y) \<and>
           (\<not> b \<longrightarrow> y = x) \<and>
           (\<forall>z. sameWritten (co_Meta k y) (co_Meta k z) \<longrightarrow> body z = body y \<longrightarrow> settled upd g z))) \<and>
     (\<forall>z. sameWritten (co_Meta k g) (co_Meta k z) \<longrightarrow> body z = body (init g) \<longrightarrow> settled upd g z) \<and>
     (\<forall>z. settled upd g z \<longrightarrow> upToDate k g z)"

text \<open>
  The result of a run of the pattern: the update is settled on the object, and it was there and
  nothing happened, or there was none and it was created, or there was one and it was updated.
\<close>

definition ensured ::
  "'o client_object \<Rightarrow> (Cluster \<Rightarrow> 'o list) \<Rightarrow> ('o list \<Rightarrow> Cluster \<Rightarrow> Cluster) \<Rightarrow> ('o \<Rightarrow> 'b)
    \<Rightarrow> ('o \<Rightarrow> 'o) \<Rightarrow> 'o update \<Rightarrow> 'o list \<Rightarrow> 'o \<Rightarrow> Cluster \<Rightarrow> bool \<times> 'o \<Rightarrow> Cluster \<Rightarrow> bool" where
  "ensured k sel put body init upd owned g before result after \<longleftrightarrow>
     (let (changed, y) = result
      in settled upd g y \<and>
         (if \<not> changed then owned = [y] \<and> after = before
          else (owned = [] \<and> after = put (sel before @ [y]) before \<and> body y = body (init g) \<and>
                  sameWritten (co_Meta k g) (co_Meta k y) \<and>
                  lookupKey k (keyOf (co_Meta k y)) (sel before) = None \<and>
                  om_DeletionTimestamp (co_Meta k y) = None) \<or>
               (\<exists>x x1. owned = [x] \<and> upd x g = Inr (True, x1) \<and>
                  after = put (settle k y (sel before)) before \<and> body y = body x1 \<and>
                  sameWritten (co_Meta k x1) (co_Meta k y) \<and> sameIdentity (co_Meta k x) (co_Meta k y))))"

locale owned_kind = api_kind res k view sel put body status + object_kind k
  for res :: "('o, 'w) resource" and k :: "'o client_object" and view :: "'w \<Rightarrow> Cluster"
    and sel :: "Cluster \<Rightarrow> 'o list" and put :: "'o list \<Rightarrow> Cluster \<Rightarrow> Cluster"
    and body :: "'o \<Rightarrow> 'b" and status :: "'o \<Rightarrow> 's" +
  assumes body_meta: "body (co_SetMeta k m x) = body x"
begin

lemma converging_updateMeta: "converging k body id (updateMeta k) g"
  unfolding converging_def
proof (intro conjI allI impI)
  fix x
  assume "om_Labels (co_Meta k x) \<noteq> None"
  then obtain b m where e: "EnsureObjectMetaIsUpdated (co_Meta k x) (co_Meta k g) = Inr (b, m)"
    using EnsureObjectMeta_total by blast
  have up: "updateMeta k z g = Inr (False, z) \<longleftrightarrow> upToDate k g z" for z
    by (auto simp: updateMeta_def upToDate_def split: sum.splits) (metis meta_set set_meta)+
  have "upToDate k g (co_SetMeta k m x)"
    using EnsureObjectMeta_fixpoint [OF e] by (simp add: upToDate_def)
  then have "settled (updateMeta k) g z" if "sameWritten m (co_Meta k z)" for z
    using that upToDate_cong [of k "co_SetMeta k m x" z g] by (simp add: settled_def up)
  moreover have "\<not> b \<longrightarrow> co_SetMeta k m x = x"
    using e unfolding EnsureObjectMeta_Inr by (metis set_meta)
  ultimately show "\<exists>b y. updateMeta k x g = Inr (b, y) \<and> sameIdentity (co_Meta k x) (co_Meta k y) \<and>
      (\<not> b \<longrightarrow> y = x) \<and> (\<forall>z. sameWritten (co_Meta k y) (co_Meta k z) \<longrightarrow> body z = body y \<longrightarrow>
        settled (updateMeta k) g z)"
    using EnsureObjectMeta_frame [OF e] e by (simp add: updateMeta_def sameIdentity_def)
qed (auto simp: settled_def updateMeta_def dest!: upToDate_written
      simp: upToDate_def split: sum.splits dest: arg_cong [of _ _ "co_Meta k"])

lemma wp_Update:
  assumes "\<And>y old w1. lookupKey k (keyOf (co_Meta k x)) (sel (view w)) = Some old \<Longrightarrow>
      view w1 = put (settle k y (sel (view w))) (view w) \<Longrightarrow>
      sameWritten (co_Meta k x) (co_Meta k y) \<Longrightarrow> om_Name (co_Meta k y) = om_Name (co_Meta k x) \<Longrightarrow>
      om_UID (co_Meta k y) = om_UID (co_Meta k old) \<Longrightarrow>
      om_DeletionTimestamp (co_Meta k y) = om_DeletionTimestamp (co_Meta k old) \<Longrightarrow>
      body y = body x \<Longrightarrow> status y = status old \<Longrightarrow> Q (Inr y) w1"
    and "\<And>e w1. isAPIErr e \<Longrightarrow> view w1 = view w \<Longrightarrow> Q (Inl e) w1"
  shows "wpA (cl_Update res x) Q w"
proof (cases "cl_Update res x w")
  case (Pair r w1)
  then show ?thesis
    using assms update_ok [of x w _ w1] update_err [of x w _ w1]
    by (cases r) (fastforce simp: wpA_def)+
qed

lemma wp_Create:
  assumes "\<And>y w1. view w1 = put (sel (view w) @ [y]) (view w) \<Longrightarrow>
      sameWritten (co_Meta k x) (co_Meta k y) \<Longrightarrow>
      lookupKey k (keyOf (co_Meta k y)) (sel (view w)) = None \<Longrightarrow>
      om_DeletionTimestamp (co_Meta k y) = None \<Longrightarrow> body y = body x \<Longrightarrow> Q (Inr y) w1"
    and "\<And>e w1. isAPIErr e \<Longrightarrow> view w1 = view w \<Longrightarrow> Q (Inl e) w1"
  shows "wpA (cl_Create res x) Q w"
proof (cases "cl_Create res x w")
  case (Pair r w1)
  then show ?thesis
    using assms create_ok [of x w _ w1] create_err [of x w _ w1]
    by (cases r) (auto simp: wpA_def)
qed

lemma wp_writeIfUpdated:
  assumes u: "uniqueKeys k (sel (view w))" "x \<in> set (sel (view w))"
    and labels: "om_Labels (co_Meta k x) \<noteq> None" and conv: "converging k body init upd g"
    and keep: "\<And>w1. view w1 = view w \<Longrightarrow> settled upd g x \<Longrightarrow> Q (Inr (False, x)) w1"
    and upd: "\<And>x1 y w1. upd x g = Inr (True, x1) \<Longrightarrow>
      view w1 = put (settle k y (sel (view w))) (view w) \<Longrightarrow> settled upd g y \<Longrightarrow> body y = body x1 \<Longrightarrow>
      sameWritten (co_Meta k x1) (co_Meta k y) \<Longrightarrow> sameIdentity (co_Meta k x) (co_Meta k y) \<Longrightarrow>
      Q (Inr (True, y)) w1"
    and err: "\<And>e w1. isAPIErr e \<Longrightarrow> view w1 = view w \<Longrightarrow> Q (Inl e) w1"
  shows "wpA (writeIfUpdated res (upd x g)) Q w"
proof -
  obtain b x1 where x1: "upd x g = Inr (b, x1)" "sameIdentity (co_Meta k x) (co_Meta k x1)"
    "\<not> b \<longrightarrow> x1 = x"
    and fixed: "\<And>z. sameWritten (co_Meta k x1) (co_Meta k z) \<Longrightarrow> body z = body x1 \<Longrightarrow> settled upd g z"
    using conv labels unfolding converging_def by metis
  show ?thesis
  proof (cases b)
    case False
    then show ?thesis
      using x1 by (simp add: writeIfUpdated_def wp keep settled_def)
  next
    case True
    have key: "keyOf (co_Meta k x1) = keyOf (co_Meta k x)"
      using x1(2) by (simp add: keyOf_def sameIdentity_def)
    have lk: "lookupKey k (keyOf (co_Meta k x1)) (sel (view w)) = Some x"
      unfolding key using lookupKey_unique [OF u] .
    have "wpA (cl_Update res x1) (\<lambda>r w1. case r of
        Inl e \<Rightarrow> Q (Inl e) w1 | Inr y \<Rightarrow> wpA (retA (True, y)) Q w1) w"
    proof (rule wp_Update)
      fix y old w1
      assume a: "lookupKey k (keyOf (co_Meta k x1)) (sel (view w)) = Some old"
        "view w1 = put (settle k y (sel (view w))) (view w)"
        "sameWritten (co_Meta k x1) (co_Meta k y)" "om_Name (co_Meta k y) = om_Name (co_Meta k x1)"
        "om_UID (co_Meta k y) = om_UID (co_Meta k old)"
        "om_DeletionTimestamp (co_Meta k y) = om_DeletionTimestamp (co_Meta k old)"
        "body y = body x1"
      have "old = x" using a(1) lk by simp
      then have "Q (Inr (True, y)) w1"
        using a x1 True fixed [of y]
        by (intro upd [of x1]) (simp_all add: sameWritten_def sameIdentity_def)
      then show "case Inr y of Inl e \<Rightarrow> Q (Inl e) w1 | Inr y \<Rightarrow> wpA (retA (True, y)) Q w1"
        by (simp add: wp)
    qed (simp add: err)
    then show ?thesis using x1 True by (simp add: writeIfUpdated_def wp)
  qed
qed

text \<open>What an action that creates has to satisfy; \<open>allowed\<close> are its errors.\<close>

definition creates ::
  "('o \<Rightarrow> 'o) \<Rightarrow> (go_error \<Rightarrow> bool) \<Rightarrow> ('o \<Rightarrow> (bool \<times> 'o, 'w) action) \<Rightarrow> bool" where
  "creates init allowed create \<longleftrightarrow> (\<forall>g w. wpA (create g) (\<lambda>r w1. case r of
     Inl e \<Rightarrow> allowed e \<and> view w1 = view w
   | Inr (b, y) \<Rightarrow> b \<and> view w1 = put (sel (view w) @ [y]) (view w) \<and>
       sameWritten (co_Meta k g) (co_Meta k y) \<and> body y = body (init g) \<and>
       lookupKey k (keyOf (co_Meta k y)) (sel (view w)) = None \<and>
       om_DeletionTimestamp (co_Meta k y) = None) w)"

lemma creates_init:
  assumes "\<And>g. co_Meta k (init g) = co_Meta k g"
  shows "creates init isAPIErr (\<lambda>g. createOwned res (init g))"
  unfolding creates_def createOwned_def wp
  by (intro allI, rule wp_Create) (auto simp: wp assms)

lemma creates_createOwned: "creates id isAPIErr (createOwned res)"
  using creates_init [of id] by simp

text \<open>
  The pattern, when the list is one of the lists of owned objects and the stored objects have
  keys of their own.
\<close>

lemma wp_ensureOwned:
  fixes ns l v uid
  assumes "uniqueKeys k (sel (view w))"
    and conv: "\<And>g. gen = Inr g \<Longrightarrow> converging k body init upd g"
    and create: "creates init allowed create"
  defines "owned \<equiv> ownedObjects k ns l v uid (sel (view w))"
  shows "wpA (ensureOwned res (listOwned res k ns l v uid) msg gen upd create) (\<lambda>r w1.
    case r of
      Inl e \<Rightarrow> view w1 = view w \<and>
        (isAPIErr e \<or> length owned > 1 \<and> e = Errorf (msg (digits (length owned))) \<or> gen = Inl e \<or>
         owned = [] \<and> allowed e)
    | Inr p \<Rightarrow> (\<exists>g. gen = Inr g \<and>
        ensured k sel put body init upd owned g (view w) p (view w1))) w"
    (is "wpA _ ?Q w")
  unfolding ensureOwned_def wp
proof (rule wp_listOwned, goal_cases)
  case (1 w1)
  note v1 = \<open>view w1 = view w\<close>
  show ?case
  proof (cases "length owned > 1")
    case True
    then show ?thesis using v1 by (simp add: wp Let_def flip: owned_def)
  next
    case few: False
    show ?thesis
    proof (cases gen)
      case (Inl e)
      then show ?thesis using v1 few by (simp add: wp Let_def flip: owned_def)
    next
      case (Inr g)
      show ?thesis
      proof (cases owned)
        case Nil
        have "settled upd g y" if "sameWritten (co_Meta k g) (co_Meta k y)" "body y = body (init g)" for y
          using conv [OF Inr] that by (simp add: converging_def)
        then have "wpA (create g) ?Q w1"
          by (intro wpA_mono [OF create [unfolded creates_def, rule_format, of g w1]])
            (use v1 Nil Inr in \<open>auto simp: ensured_def split: sum.splits\<close>)
        then show ?thesis
          by (simp add: wp Let_def Inr Nil flip: owned_def)
      next
        case (Cons x xs)
        then have x: "owned = [x]" using few by simp
        then have "x \<in> set (ownedObjects k ns l v uid (sel (view w)))" by (simp add: owned_def)
        note mem = ownedObjects_subset [OF this] ownedObjects_labelled [OF this]
        have "wpA (writeIfUpdated res (upd x g)) ?Q w1"
          by (rule wp_writeIfUpdated [OF _ _ mem(2) conv [OF Inr]])
            (use assms(1) mem(1) v1 x Inr in \<open>auto simp: ensured_def Let_def\<close>)
        then show ?thesis
          by (simp add: wp Let_def Inr x flip: owned_def)
      qed
    qed
  qed
qed (auto simp: wp)

text \<open>After the pattern has run, exactly the object it returned is owned.\<close>

lemma ensured_owned:
  assumes "uniqueKeys k (sel before)" and "converging k body init upd g"
    and "ensured k sel put body init upd (ownedObjects k ns l v uid (sel before)) g before (b, y) after"
    and "case ns of None \<Rightarrow> True | Some n \<Rightarrow> n = '''' \<or> om_Namespace (co_Meta k g) = n"
    and "fmlookup (labelMap (om_Labels (co_Meta k g))) l = Some v"
    and "IsOwnedByRefUID (co_Meta k g) uid"
    and "\<not> (b \<and> gone (co_Meta k y))"
  shows "ownedObjects k ns l v uid (sel after) = [y]" and "settled upd g y"
proof -
  show u: "settled upd g y" using assms(3) by (simp add: ensured_def)
  then have "upToDate k g y" using assms(2) by (simp add: converging_def)
  note y = upToDate_owned [OF this assms(6,5)]
  consider (keep) "ownedObjects k ns l v uid (sel before) = [y]" "after = before"
    | (create) "b" "ownedObjects k ns l v uid (sel before) = []" "after = put (sel before @ [y]) before"
        "sameWritten (co_Meta k g) (co_Meta k y)"
    | (upd) x where "b" "ownedObjects k ns l v uid (sel before) = [x]"
        "after = put (settle k y (sel before)) before" "keyOf (co_Meta k y) = keyOf (co_Meta k x)"
    using assms(3) by (auto simp: ensured_def keyOf_def sameIdentity_def Let_def split: if_splits)
  then show "ownedObjects k ns l v uid (sel after) = [y]"
  proof cases
    case create
    then show ?thesis using assms(4) y
      by (auto simp: sel_put ownedObjects_append ownedObjects_def selects_def sameWritten_def
          split: option.splits)
  next
    case upd
    have "x \<in> set (ownedObjects k ns l v uid (sel before))" by (simp add: upd(2))
    then have "selects ns [(l, v)] (co_Meta k x)" by (simp add: ownedObjects_def)
    then have "selects ns [(l, v)] (co_Meta k y)"
      using y(2) upd(4) by (auto simp: selects_def keyOf_def split: option.splits)
    then show ?thesis
      using ownedObjects_replace [OF assms(1) upd(2,4)] y(1) upd assms(7)
      by (simp add: sel_put settle_def)
  qed simp
qed

lemma uniqueKeys_ensured:
  assumes "uniqueKeys k (sel before)" and "ensured k sel put body init upd owned g before p after"
  shows "uniqueKeys k (sel after)"
proof -
  have rep: "uniqueKeys k (replaceKey k y xs)" if "uniqueKeys k xs" for y xs
  proof -
    have "map (\<lambda>x. keyOf (co_Meta k x)) (replaceKey k y xs) = map (\<lambda>x. keyOf (co_Meta k x)) xs"
      by (simp add: replaceKey_def)
    then show ?thesis using that by (simp add: uniqueKeys_def)
  qed
  have rem: "uniqueKeys k (removeKey k key xs)" if "uniqueKeys k xs" for key xs
    using that by (simp add: uniqueKeys_def removeKey_def distinct_map_filter)
  have app: "uniqueKeys k (xs @ [y])" if "uniqueKeys k xs" "lookupKey k (keyOf (co_Meta k y)) xs = None" for y xs
    using that by (auto simp: uniqueKeys_def lookupKey_None)
  show ?thesis
    using assms rep app
    by (auto simp: ensured_def sel_put settle_def split: prod.splits if_splits intro!: rem)
qed

text \<open>A second run finds nothing to do.\<close>

lemma wp_ensureOwned_again:
  assumes "uniqueKeys k (sel (view w))"
    and conv: "converging k body init upd g"
    and create: "creates init allowed create"
    and "ownedObjects k ns l v uid (sel (view w)) = [y]" and "settled upd g y"
  shows "wpA (ensureOwned res (listOwned res k ns l v uid) msg (Inr g) upd create) (\<lambda>r w1.
    view w1 = view w \<and> (case r of Inl e \<Rightarrow> isAPIErr e | Inr p \<Rightarrow> p = (False, y))) w"
  by (rule wpA_mono [OF wp_ensureOwned [OF assms(1) _ create]])
    (use assms(2,4,5) in \<open>auto simp: ensured_def settled_def split: sum.splits if_splits\<close>)

end

section \<open>The kinds of the in-memory API server\<close>

interpretation own_dep: owned_kind memDeployments DeploymentObj sim_Cluster st_Deployments
    "\<lambda>xs v. v\<lparr>st_Deployments := xs\<rparr>" depBody depStatus
  by (intro owned_kind.intro owned_kind_axioms.intro mem_dep.api_kind_axioms deployment.object_kind_axioms)
    (simp add: depBody_def)

interpretation own_svc: owned_kind memServices ServiceObj sim_Cluster st_Services
    "\<lambda>xs v. v\<lparr>st_Services := xs\<rparr>" svcBody "\<lambda>_. ()"
  by (intro owned_kind.intro owned_kind_axioms.intro mem_svc.api_kind_axioms service.object_kind_axioms)
    (simp add: svcBody_def defaultedPorts_def)

interpretation own_sa: owned_kind memServiceAccounts ServiceAccountObj sim_Cluster st_ServiceAccounts
    "\<lambda>xs v. v\<lparr>st_ServiceAccounts := xs\<rparr>" "\<lambda>s. s\<lparr>sa_Meta := emptyMeta\<rparr>" "\<lambda>_. ()"
  by (intro owned_kind.intro owned_kind_axioms.intro mem_sa.api_kind_axioms serviceaccount.object_kind_axioms) simp

interpretation own_cr: owned_kind memClusterRoles ClusterRoleObj sim_Cluster st_ClusterRoles
    "\<lambda>xs v. v\<lparr>st_ClusterRoles := xs\<rparr>" "\<lambda>s. s\<lparr>cr_Meta := emptyMeta\<rparr>" "\<lambda>_. ()"
  by (intro owned_kind.intro owned_kind_axioms.intro mem_cr.api_kind_axioms clusterrole.object_kind_axioms) simp

interpretation own_crb: owned_kind memClusterRoleBindings ClusterRoleBindingObj sim_Cluster
    st_ClusterRoleBindings "\<lambda>xs v. v\<lparr>st_ClusterRoleBindings := xs\<rparr>"
    "\<lambda>s. s\<lparr>crb_Meta := emptyMeta\<rparr>" "\<lambda>_. ()"
  by (intro owned_kind.intro owned_kind_axioms.intro mem_crb.api_kind_axioms clusterrolebinding.object_kind_axioms) simp

interpretation own_sec: owned_kind memSecrets SecretObj sim_Cluster st_Secrets
    "\<lambda>xs v. v\<lparr>st_Secrets := xs\<rparr>" sec_Type "\<lambda>_. ()"
  by (intro owned_kind.intro owned_kind_axioms.intro mem_sec.api_kind_axioms secret.object_kind_axioms) simp

end
