(* ===== verification/ClusterApi.thy ===== *)
theory ClusterApi
  imports Ownership
begin

text \<open>
  The API server as a whole: the locale \<open>cluster_api\<close> collects the contracts of all kinds of
  objects under one view of the world, and the in-memory server satisfies it. Besides, the
  consequence of the contract of \<open>Ownership\<close> that the controllers' theorems state: what is
  ensured is there once, and ensuring it again changes nothing.
\<close>

section \<open>Well-formed stores\<close>

text \<open>
  What an API server keeps of its store: keys are unique, and an object whose deletion was
  requested is stored only as long as it has finalizers.
\<close>

definition wellStored :: "'o client_object \<Rightarrow> 'o list \<Rightarrow> bool" where
  "wellStored k xs \<longleftrightarrow> uniqueKeys k xs \<and> list_all (\<lambda>x. \<not> gone (co_Meta k x)) xs"

lemma wellStored_gone: "wellStored k xs \<Longrightarrow> x \<in> set xs \<Longrightarrow> \<not> gone (co_Meta k x)"
  by (simp add: wellStored_def list_all_iff)

lemma sameIdentity_gone: "sameIdentity m n \<Longrightarrow> gone n = gone m"
  by (simp add: sameIdentity_def gone_def)

lemma lookupKey_replaceKey:
  assumes "lookupKey k key xs = Some x" and "keyOf (co_Meta k y) = key"
  shows "lookupKey k key (replaceKey k y xs) = Some y"
  using assms by (induction xs) (auto simp: lookupKey_def replaceKey_def split: if_splits)

lemma wellStored_replaceKey:
  assumes "wellStored k xs" and "\<not> gone (co_Meta k y)"
  shows "wellStored k (replaceKey k y xs)"
proof -
  have "map (\<lambda>x. keyOf (co_Meta k x)) (replaceKey k y xs) = map (\<lambda>x. keyOf (co_Meta k x)) xs"
    by (simp add: replaceKey_def)
  then have "uniqueKeys k (replaceKey k y xs)"
    using assms(1) by (simp only: wellStored_def uniqueKeys_def)
  then show ?thesis
    using assms by (auto simp: wellStored_def list_all_iff replaceKey_def)
qed

context api_kind
begin

lemma wp_StatusUpdate:
  assumes "\<And>y old w1. lookupKey k (keyOf (co_Meta k x)) (sel (view w)) = Some old \<Longrightarrow>
      view w1 = put (replaceKey k y (sel (view w))) (view w) \<Longrightarrow>
      sameWritten (co_Meta k old) (co_Meta k y) \<Longrightarrow> sameIdentity (co_Meta k old) (co_Meta k y) \<Longrightarrow>
      body y = body old \<Longrightarrow> status y = status x \<Longrightarrow> Q (Inr y) w1"
    and "\<And>e w1. isAPIErr e \<Longrightarrow> view w1 = view w \<Longrightarrow> Q (Inl e) w1"
  shows "wpA (cl_StatusUpdate res x) Q w"
proof (cases "cl_StatusUpdate res x w")
  case (Pair r w1)
  show ?thesis
  proof (cases r)
    case (Inl e)
    then show ?thesis using assms(2) status_err [of x w e w1] Pair by (simp add: wpA_def)
  next
    case (Inr y)
    then obtain old where "lookupKey k (keyOf (co_Meta k x)) (sel (view w)) = Some old"
      "view w1 = put (replaceKey k y (sel (view w))) (view w)" "sameWritten (co_Meta k old) (co_Meta k y)"
      "sameIdentity (co_Meta k old) (co_Meta k y)" "body y = body old" "status y = status x"
      using status_ok [of x w y w1] Pair by (auto simp: sameIdentity_def sameWritten_def)
    then show ?thesis using assms(1) Inr Pair by (simp add: wpA_def)
  qed
qed

end

section \<open>Once and for all\<close>

text \<open>
  The object that was ensured is the only one owned, in a well-formed store; running again on
  the same objects, with whatever update and generated object that are settled on it, returns it
  and changes nothing.
\<close>

definition ensuredOnce ::
  "'o client_object \<Rightarrow> string option \<Rightarrow> string \<Rightarrow> string \<Rightarrow> string \<Rightarrow> 'o \<Rightarrow> 'o list \<Rightarrow> bool" where
  "ensuredOnce k ns l v uid y xs \<longleftrightarrow> ownedObjects k ns l v uid xs = [y] \<and> wellStored k xs"

definition unchangedBy ::
  "('w \<Rightarrow> Cluster) \<Rightarrow> (bool \<times> 'o, 'w) action \<Rightarrow> 'o \<Rightarrow> 'w \<Rightarrow> bool" where
  "unchangedBy view act y w \<longleftrightarrow> (case act w of (r, w1) \<Rightarrow> view w1 = view w \<and>
     (case r of Inl e \<Rightarrow> isAPIErr e | Inr p \<Rightarrow> p = (False, y)))"

context owned_kind
begin

lemma ensured_not_gone:
  assumes "wellStored k (sel before)"
    and "ensured k sel put body init upd (ownedObjects k ns l v uid (sel before)) g before (b, y) after"
  shows "\<not> gone (co_Meta k y)"
proof -
  have stored: "x \<in> set (sel before)" if "ownedObjects k ns l v uid (sel before) = [x]" for x
    using ownedObjects_subset [of x k ns l v uid "sel before"] that by simp
  have "\<not> gone (co_Meta k x)" if "ownedObjects k ns l v uid (sel before) = [x]" for x
    using wellStored_gone [OF assms(1) stored [OF that]] .
  then show ?thesis
    using assms(2) by (auto simp: ensured_def gone_def sameIdentity_def Let_def split: if_splits)
qed

lemma wellStored_ensured:
  assumes "wellStored k (sel before)"
    and "ensured k sel put body init upd (ownedObjects k ns l v uid (sel before)) g before (b, y) after"
  shows "wellStored k (sel after)"
proof -
  have "uniqueKeys k (sel after)"
    using uniqueKeys_ensured [OF _ assms(2)] assms(1) by (simp add: wellStored_def)
  moreover have "list_all (\<lambda>x. \<not> gone (co_Meta k x)) (sel after)"
    using assms ensured_not_gone [OF assms]
    by (auto simp: ensured_def sel_put settle_def wellStored_def list_all_iff replaceKey_def
        removeKey_def Let_def split: if_splits)
  ultimately show ?thesis by (simp add: wellStored_def)
qed

lemma ensureOwned_once:
  assumes run: "ensureOwned res (listOwned res k ns l v uid) msg (Inr g) upd create w = (Inr (b, y), w1)"
    and store: "wellStored k (sel (view w))"
    and conv: "converging k body init upd g" and create: "creates init allowed create"
    and g: "case ns of None \<Rightarrow> True | Some n \<Rightarrow> n = '''' \<or> om_Namespace (co_Meta k g) = n"
      "fmlookup (labelMap (om_Labels (co_Meta k g))) l = Some v" "IsOwnedByRefUID (co_Meta k g) uid"
  shows "ensuredOnce k ns l v uid y (sel (view w1))" and "settled upd g y"
    and "ensured k sel put body init upd (ownedObjects k ns l v uid (sel (view w))) g (view w) (b, y) (view w1)"
proof -
  have u: "uniqueKeys k (sel (view w))" using store by (simp add: wellStored_def)
  show ens: "ensured k sel put body init upd (ownedObjects k ns l v uid (sel (view w))) g (view w) (b, y) (view w1)"
    using wpA_E [OF wp_ensureOwned [OF u _ create] run] conv by auto
  note owned = ensured_owned [OF u conv ens g]
  show "settled upd g y" using ens by (simp add: ensured_def)
  show "ensuredOnce k ns l v uid y (sel (view w1))"
    using owned(1) ensured_not_gone [OF store ens] wellStored_ensured [OF store ens]
    by (simp add: ensuredOnce_def)
qed

text \<open>
  When only the metadata of an existing object is updated, a new object is the generated one, and an
  existing one keeps everything but its metadata.
\<close>

lemma ensured_updateMeta:
  assumes "ensured k sel put body id (updateMeta k) owned g before (b, y) after"
  shows "case owned of [] \<Rightarrow> b \<and> body y = body g
    | old # _ \<Rightarrow> owned = [old] \<and> body y = body old \<and> keyOf (co_Meta k y) = keyOf (co_Meta k old) \<and>
        (b \<longleftrightarrow> \<not> upToDate k g old)"
proof -
  have wrote: "body x1 = body x \<and> \<not> upToDate k g x" if "updateMeta k x g = Inr (True, x1)" for x x1
    using that by (auto simp: updateMeta_def upToDate_def body_meta split: sum.splits)
  have kept: "upToDate k g y" if "settled (updateMeta k) g y"
    using converging_updateMeta [of g] that by (simp add: converging_def)
  show ?thesis
    using assms kept by (cases b) (auto simp: ensured_def keyOf_def sameIdentity_def dest!: wrote split: list.split)
qed

lemma ensureOwned_unchanged:
  assumes "ensuredOnce k ns l v uid y (sel (view w))" and "settled upd g y"
    and "converging k body init upd g" and "creates init allowed create"
  shows "unchangedBy view (ensureOwned res (listOwned res k ns l v uid) msg (Inr g) upd create) y w"
  using wp_ensureOwned_again [OF _ assms(3,4) _ assms(2)] assms(1)
  by (simp add: unchangedBy_def wpA_def ensuredOnce_def wellStored_def)

end

section \<open>The whole server\<close>

locale cluster_api =
  cp: owned_kind "cl_ControlPlanes c" ControlPlaneObj view st_ControlPlanes
    "\<lambda>xs v. v\<lparr>st_ControlPlanes := xs\<rparr>" cpBody cp_Status +
  dp: owned_kind "cl_DataPlanes c" DataPlaneObj view st_DataPlanes
    "\<lambda>xs v. v\<lparr>st_DataPlanes := xs\<rparr>" dpBody dp_Status +
  dep: owned_kind "cl_Deployments c" DeploymentObj view st_Deployments
    "\<lambda>xs v. v\<lparr>st_Deployments := xs\<rparr>" depBody depStatus +
  svc: owned_kind "cl_Services c" ServiceObj view st_Services
    "\<lambda>xs v. v\<lparr>st_Services := xs\<rparr>" svcBody "\<lambda>_. ()" +
  sa: owned_kind "cl_ServiceAccounts c" ServiceAccountObj view st_ServiceAccounts
    "\<lambda>xs v. v\<lparr>st_ServiceAccounts := xs\<rparr>" "\<lambda>s. s\<lparr>sa_Meta := emptyMeta\<rparr>" "\<lambda>_. ()" +
  cr: owned_kind "cl_ClusterRoles c" ClusterRoleObj view st_ClusterRoles
    "\<lambda>xs v. v\<lparr>st_ClusterRoles := xs\<rparr>" "\<lambda>s. s\<lparr>cr_Meta := emptyMeta\<rparr>" "\<lambda>_. ()" +
  crb: owned_kind "cl_ClusterRoleBindings c" ClusterRoleBindingObj view st_ClusterRoleBindings
    "\<lambda>xs v. v\<lparr>st_ClusterRoleBindings := xs\<rparr>" "\<lambda>s. s\<lparr>crb_Meta := emptyMeta\<rparr>" "\<lambda>_. ()" +
  sec: owned_kind "cl_Secrets c" SecretObj view st_Secrets
    "\<lambda>xs v. v\<lparr>st_Secrets := xs\<rparr>" sec_Type "\<lambda>_. ()"
  for c :: "'w Client" and view :: "'w \<Rightarrow> Cluster"

interpretation own_cp: owned_kind memControlPlanes ControlPlaneObj sim_Cluster st_ControlPlanes
    "\<lambda>xs v. v\<lparr>st_ControlPlanes := xs\<rparr>" cpBody cp_Status
  by (intro owned_kind.intro owned_kind_axioms.intro mem_cp.api_kind_axioms controlplane.object_kind_axioms)
    (simp add: cpBody_def)

interpretation own_dp: owned_kind memDataPlanes DataPlaneObj sim_Cluster st_DataPlanes
    "\<lambda>xs v. v\<lparr>st_DataPlanes := xs\<rparr>" dpBody dp_Status
  by (intro owned_kind.intro owned_kind_axioms.intro mem_dp.api_kind_axioms dataplane.object_kind_axioms)
    (simp add: dpBody_def)

interpretation mem: cluster_api memClient sim_Cluster
  unfolding cluster_api_def memClient_sel
  by (intro conjI own_cp.owned_kind_axioms own_dp.owned_kind_axioms own_dep.owned_kind_axioms
      own_svc.owned_kind_axioms own_sa.owned_kind_axioms own_cr.owned_kind_axioms
      own_crb.owned_kind_axioms own_sec.owned_kind_axioms)

end
