(* ===== verification/ClusterRoles.thy ===== *)
theory ClusterRoles
  imports KubeTypes
begin

text \<open>
  The cluster roles of the control plane deployment, one generator per range of versions
  (\<open>internal/utils/kubernetes/resources/clusterroles/\<close>), each split into the rules of the
  core API group, those of the ingress controller's own resources, and the rest.
\<close>

definition policyRule :: "string list \<Rightarrow> string list \<Rightarrow> string list \<Rightarrow> PolicyRule" where
  "policyRule apiGroups resources verbs =
     \<lparr>rule_APIGroups = apiGroups, rule_Resources = resources, rule_Verbs = verbs\<rparr>"

definition clusterRoleMeta :: "string \<Rightarrow> ObjectMeta" where
  "clusterRoleMeta controlplaneName =
     emptyMeta\<lparr>om_GenerateName := controlplaneName @ ''-'',
       om_Labels := Some (fmupd ''app'' controlplaneName fmempty)\<rparr>"

section \<open>Versions from 2.1 and below 2.2\<close>

definition coreRules_ge2_1_lt2_2 :: "PolicyRule list" where
  "coreRules_ge2_1_lt2_2 =
     [policyRule [''''] [''endpoints''] [''list'', ''watch''],
      policyRule [''''] [''endpoints/status''] [''get'', ''patch'', ''update''],
      policyRule [''''] [''events''] [''create'', ''patch''],
      policyRule [''''] [''nodes''] [''list'', ''watch''],
      policyRule [''''] [''pods''] [''get'', ''list'', ''watch''],
      policyRule [''''] [''secrets''] [''list'', ''watch''],
      policyRule [''''] [''secrets/status''] [''get'', ''patch'', ''update''],
      policyRule [''''] [''services''] [''get'', ''list'', ''watch''],
      policyRule [''''] [''services/status''] [''get'', ''patch'', ''update'']]"

definition controllerRules_ge2_1_lt2_2 :: "PolicyRule list" where
  "controllerRules_ge2_1_lt2_2 =
     [policyRule [''configuration.konghq.com''] [''kongclusterplugins''] [''get'', ''list'', ''watch''],
      policyRule [''configuration.konghq.com''] [''kongclusterplugins/status''] [''get'', ''patch'', ''update''],
      policyRule [''configuration.konghq.com''] [''kongconsumers''] [''get'', ''list'', ''watch''],
      policyRule [''configuration.konghq.com''] [''kongconsumers/status''] [''get'', ''patch'', ''update''],
      policyRule [''configuration.konghq.com''] [''kongingresses''] [''get'', ''list'', ''watch''],
      policyRule [''configuration.konghq.com''] [''kongingresses/status''] [''get'', ''patch'', ''update''],
      policyRule [''configuration.konghq.com''] [''kongplugins''] [''get'', ''list'', ''watch''],
      policyRule [''configuration.konghq.com''] [''kongplugins/status''] [''get'', ''patch'', ''update''],
      policyRule [''configuration.konghq.com''] [''tcpingresses''] [''get'', ''list'', ''watch''],
      policyRule [''configuration.konghq.com''] [''tcpingresses/status''] [''get'', ''patch'', ''update''],
      policyRule [''configuration.konghq.com''] [''udpingresses''] [''get'', ''list'', ''watch''],
      policyRule [''configuration.konghq.com''] [''udpingresses/status''] [''get'', ''patch'', ''update'']]"

definition networkingRules_ge2_1_lt2_2 :: "PolicyRule list" where
  "networkingRules_ge2_1_lt2_2 =
     [policyRule [''extensions''] [''ingresses''] [''get'', ''list'', ''watch''],
      policyRule [''extensions''] [''ingresses/status''] [''get'', ''patch'', ''update''],
      policyRule [''networking.internal.knative.dev''] [''ingresses''] [''get'', ''list'', ''watch''],
      policyRule [''networking.internal.knative.dev''] [''ingresses/status''] [''get'', ''patch'', ''update''],
      policyRule [''networking.k8s.io''] [''gatewayclasses''] [''get'', ''list'', ''watch''],
      policyRule [''networking.k8s.io''] [''gatewayclasses/status''] [''get''],
      policyRule [''networking.k8s.io''] [''gateways''] [''get'', ''list'', ''watch''],
      policyRule [''networking.k8s.io''] [''gateways/status''] [''get''],
      policyRule [''networking.k8s.io''] [''httproutes''] [''get'', ''list'', ''watch''],
      policyRule [''networking.k8s.io''] [''httproutes/status''] [''get''],
      policyRule [''networking.k8s.io''] [''ingresses''] [''get'', ''list'', ''watch''],
      policyRule [''networking.k8s.io''] [''ingresses/status''] [''get'', ''patch'', ''update'']]"

definition GenerateNewClusterRoleForControlPlane_ge2_1_lt2_2 :: "string \<Rightarrow> ClusterRole" where
  "GenerateNewClusterRoleForControlPlane_ge2_1_lt2_2 controlplaneName =
     \<lparr>cr_Meta = clusterRoleMeta controlplaneName,
      cr_Rules = coreRules_ge2_1_lt2_2 @ controllerRules_ge2_1_lt2_2 @ networkingRules_ge2_1_lt2_2\<rparr>"

section \<open>Versions from 2.2 and below 2.3\<close>

definition coreRules_ge2_2_lt2_3 :: "PolicyRule list" where
  "coreRules_ge2_2_lt2_3 =
     [policyRule [''''] [''endpoints''] [''list'', ''watch''],
      policyRule [''''] [''endpoints/status''] [''get'', ''patch'', ''update''],
      policyRule [''''] [''events''] [''create'', ''patch''],
      policyRule [''''] [''nodes''] [''list'', ''watch''],
      policyRule [''''] [''pods''] [''get'', ''list'', ''watch''],
      policyRule [''''] [''secrets''] [''list'', ''watch''],
      policyRule [''''] [''secrets/status''] [''get'', ''patch'', ''update''],
      policyRule [''''] [''services''] [''get'', ''list'', ''watch''],
      policyRule [''''] [''services/status''] [''get'', ''patch'', ''update'']]"

definition controllerRules_ge2_2_lt2_3 :: "PolicyRule list" where
  "controllerRules_ge2_2_lt2_3 =
     [policyRule [''configuration.konghq.com''] [''kongclusterplugins''] [''get'', ''list'', ''watch''],
      policyRule [''configuration.konghq.com''] [''kongclusterplugins/status''] [''get'', ''patch'', ''update''],
      policyRule [''configuration.konghq.com''] [''kongconsumers''] [''get'', ''list'', ''watch''],
      policyRule [''configuration.konghq.com''] [''kongconsumers/status''] [''get'', ''patch'', ''update''],
      policyRule [''configuration.konghq.com''] [''kongingresses''] [''get'', ''list'', ''watch''],
      policyRule [''configuration.konghq.com''] [''kongingresses/status''] [''get'', ''patch'', ''update''],
      policyRule [''configuration.konghq.com''] [''kongplugins''] [''get'', ''list'', ''watch''],
      policyRule [''configuration.konghq.com''] [''kongplugins/status''] [''get'', ''patch'', ''update''],
      policyRule [''configuration.konghq.com''] [''tcpingresses''] [''get'', ''list'', ''watch''],
      policyRule [''configuration.konghq.com''] [''tcpingresses/status''] [''get'', ''patch'', ''update''],
      policyRule [''configuration.konghq.com''] [''udpingresses''] [''get'', ''list'', ''watch''],
      policyRule [''configuration.konghq.com''] [''udpingresses/status''] [''get'', ''patch'', ''update'']]"

definition networkingRules_ge2_2_lt2_3 :: "PolicyRule list" where
  "networkingRules_ge2_2_lt2_3 =
     [policyRule [''extensions''] [''ingresses''] [''get'', ''list'', ''watch''],
      policyRule [''extensions''] [''ingresses/status''] [''get'', ''patch'', ''update''],
      policyRule [''gateway.networking.k8s.io''] [''gatewayclasses''] [''get'', ''list'', ''watch''],
      policyRule [''gateway.networking.k8s.io''] [''gatewayclasses/status''] [''get'', ''update''],
      policyRule [''gateway.networking.k8s.io''] [''gateways''] [''get'', ''list'', ''update'', ''watch''],
      policyRule [''gateway.networking.k8s.io''] [''gateways/status''] [''get'', ''update''],
      policyRule [''gateway.networking.k8s.io''] [''httproutes''] [''get'', ''list'', ''watch''],
      policyRule [''gateway.networking.k8s.io''] [''httproutes/status''] [''get'', ''update''],
      policyRule [''networking.internal.knative.dev''] [''ingresses''] [''get'', ''list'', ''watch''],
      policyRule [''networking.internal.knative.dev''] [''ingresses/status''] [''get'', ''patch'', ''update''],
      policyRule [''networking.k8s.io''] [''ingresses''] [''get'', ''list'', ''watch''],
      policyRule [''networking.k8s.io''] [''ingresses/status''] [''get'', ''patch'', ''update'']]"

definition GenerateNewClusterRoleForControlPlane_ge2_2_lt2_3 :: "string \<Rightarrow> ClusterRole" where
  "GenerateNewClusterRoleForControlPlane_ge2_2_lt2_3 controlplaneName =
     \<lparr>cr_Meta = clusterRoleMeta controlplaneName,
      cr_Rules = coreRules_ge2_2_lt2_3 @ controllerRules_ge2_2_lt2_3 @ networkingRules_ge2_2_lt2_3\<rparr>"

section \<open>Versions from 2.3 and below 2.4\<close>

definition coreRules_ge2_3_lt2_4 :: "PolicyRule list" where
  "coreRules_ge2_3_lt2_4 =
     [policyRule [''''] [''endpoints''] [''list'', ''watch''],
      policyRule [''''] [''endpoints/status''] [''get'', ''patch'', ''update''],
      policyRule [''''] [''events''] [''create'', ''patch''],
      policyRule [''''] [''nodes''] [''list'', ''watch''],
      policyRule [''''] [''pods''] [''get'', ''list'', ''watch''],
      policyRule [''''] [''secrets''] [''list'', ''watch''],
      policyRule [''''] [''secrets/status''] [''get'', ''patch'', ''update''],
      policyRule [''''] [''services''] [''get'', ''list'', ''watch''],
      policyRule [''''] [''services/status''] [''get'', ''patch'', ''update'']]"

definition controllerRules_ge2_3_lt2_4 :: "PolicyRule list" where
  "controllerRules_ge2_3_lt2_4 =
     [policyRule [''configuration.konghq.com''] [''kongclusterplugins''] [''get'', ''list'', ''watch''],
      policyRule [''configuration.konghq.com''] [''kongclusterplugins/status''] [''get'', ''patch'', ''update''],
      policyRule [''configuration.konghq.com''] [''kongconsumers''] [''get'', ''list'', ''watch''],
      policyRule [''configuration.konghq.com''] [''kongconsumers/status''] [''get'', ''patch'', ''update''],
      policyRule [''configuration.konghq.com''] [''kongingresses''] [''get'', ''list'', ''watch''],
      policyRule [''configuration.konghq.com''] [''kongingresses/status''] [''get'', ''patch'', ''update''],
      policyRule [''configuration.konghq.com''] [''kongplugins''] [''get'', ''list'', ''watch''],
      policyRule [''configuration.konghq.com''] [''kongplugins/status''] [''get'', ''patch'', ''update''],
      policyRule [''configuration.konghq.com''] [''tcpingresses''] [''get'', ''list'', ''watch''],
      policyRule [''configuration.konghq.com''] [''tcpingresses/status''] [''get'', ''patch'', ''update''],
      policyRule [''configuration.konghq.com''] [''udpingresses''] [''get'', ''list'', ''watch''],
      policyRule [''configuration.konghq.com''] [''udpingresses/status''] [''get'', ''patch'', ''update'']]"

definition gatewayRules_ge2_3_lt2_4 :: "PolicyRule list" where
  "gatewayRules_ge2_3_lt2_4 =
     [policyRule [''extensions''] [''ingresses''] [''get'', ''list'', ''watch''],
      policyRule [''extensions''] [''ingresses/status''] [''get'', ''patch'', ''update''],
      policyRule [''gateway.networking.k8s.io''] [''gatewayclasses''] [''get'', ''list'', ''watch''],
      policyRule [''gateway.networking.k8s.io''] [''gatewayclasses/status''] [''get'', ''update''],
      policyRule [''gateway.networking.k8s.io''] [''gateways''] [''get'', ''list'', ''update'', ''watch''],
      policyRule [''gateway.networking.k8s.io''] [''gateways/status''] [''get'', ''update''],
      policyRule [''gateway.networking.k8s.io''] [''httproutes''] [''get'', ''list'', ''watch''],
      policyRule [''gateway.networking.k8s.io''] [''httproutes/status''] [''get'', ''update''],
      policyRule [''gateway.networking.k8s.io''] [''udproutes''] [''get'', ''list'', ''watch''],
      policyRule [''gateway.networking.k8s.io''] [''udproutes/status''] [''get'', ''update'']]"

definition networkingRules_ge2_3_lt2_4 :: "PolicyRule list" where
  "networkingRules_ge2_3_lt2_4 =
     [policyRule [''networking.internal.knative.dev''] [''ingresses''] [''get'', ''list'', ''watch''],
      policyRule [''networking.internal.knative.dev''] [''ingresses/status''] [''get'', ''patch'', ''update''],
      policyRule [''networking.k8s.io''] [''ingressclasses''] [''get'', ''list'', ''watch''],
      policyRule [''networking.k8s.io''] [''ingresses''] [''get'', ''list'', ''watch''],
      policyRule [''networking.k8s.io''] [''ingresses/status''] [''get'', ''patch'', ''update'']]"

definition GenerateNewClusterRoleForControlPlane_ge2_3_lt2_4 :: "string \<Rightarrow> ClusterRole" where
  "GenerateNewClusterRoleForControlPlane_ge2_3_lt2_4 controlplaneName =
     \<lparr>cr_Meta = clusterRoleMeta controlplaneName,
      cr_Rules = coreRules_ge2_3_lt2_4 @ controllerRules_ge2_3_lt2_4 @ gatewayRules_ge2_3_lt2_4 @ networkingRules_ge2_3_lt2_4\<rparr>"

section \<open>Versions from 2.4\<close>

definition coreRules_ge2_4 :: "PolicyRule list" where
  "coreRules_ge2_4 =
     [policyRule [''''] [''endpoints''] [''list'', ''watch''],
      policyRule [''''] [''endpoints/status''] [''get'', ''patch'', ''update''],
      policyRule [''''] [''events''] [''create'', ''patch''],
      policyRule [''''] [''nodes''] [''list'', ''watch''],
      policyRule [''''] [''pods''] [''get'', ''list'', ''watch''],
      policyRule [''''] [''secrets''] [''list'', ''watch''],
      policyRule [''''] [''secrets/status''] [''get'', ''patch'', ''update''],
      policyRule [''''] [''services''] [''get'', ''list'', ''watch''],
      policyRule [''''] [''services/status''] [''get'', ''patch'', ''update'']]"

definition controllerRules_ge2_4 :: "PolicyRule list" where
  "controllerRules_ge2_4 =
     [policyRule [''configuration.konghq.com''] [''kongclusterplugins''] [''get'', ''list'', ''watch''],
      policyRule [''configuration.konghq.com''] [''kongclusterplugins/status''] [''get'', ''patch'', ''update''],
      policyRule [''configuration.konghq.com''] [''kongconsumers''] [''get'', ''list'', ''watch''],
      policyRule [''configuration.konghq.com''] [''kongconsumers/status''] [''get'', ''patch'', ''update''],
      policyRule [''configuration.konghq.com''] [''kongingresses''] [''get'', ''list'', ''watch''],
      policyRule [''configuration.konghq.com''] [''kongingresses/status''] [''get'', ''patch'', ''update''],
      policyRule [''configuration.konghq.com''] [''kongplugins''] [''get'', ''list'', ''watch''],
      policyRule [''configuration.konghq.com''] [''kongplugins/status''] [''get'', ''patch'', ''update''],
      policyRule [''configuration.konghq.com''] [''tcpingresses''] [''get'', ''list'', ''watch''],
      policyRule [''configuration.konghq.com''] [''tcpingresses/status''] [''get'', ''patch'', ''update''],
      policyRule [''configuration.konghq.com''] [''udpingresses''] [''get'', ''list'', ''watch''],
      policyRule [''configuration.konghq.com''] [''udpingresses/status''] [''get'', ''patch'', ''update'']]"

definition gatewayRules_ge2_4 :: "PolicyRule list" where
  "gatewayRules_ge2_4 =
     [policyRule [''extensions''] [''ingresses''] [''get'', ''list'', ''watch''],
      policyRule [''extensions''] [''ingresses/status''] [''get'', ''patch'', ''update''],
      policyRule [''gateway.networking.k8s.io''] [''gatewayclasses''] [''get'', ''list'', ''watch''],
      policyRule [''gateway.networking.k8s.io''] [''gatewayclasses/status''] [''get'', ''update''],
      policyRule [''gateway.networking.k8s.io''] [''gateways''] [''get'', ''list'', ''update'', ''watch''],
      policyRule [''gateway.networking.k8s.io''] [''gateways/status''] [''get'', ''update''],
      policyRule [''gateway.networking.k8s.io''] [''httproutes''] [''get'', ''list'', ''watch''],
      policyRule [''gateway.networking.k8s.io''] [''httproutes/status''] [''get'', ''update''],
      policyRule [''gateway.networking.k8s.io''] [''referencepolicies''] [''create'', ''delete'', ''get'', ''list'', ''patch'', ''update'', ''watch''],
      policyRule [''gateway.networking.k8s.io''] [''referencepolicies/finalizers''] [''update''],
      policyRule [''gateway.networking.k8s.io''] [''referencepolicies/status''] [''get'', ''patch'', ''update'']]"

definition routeRules_ge2_4 :: "PolicyRule list" where
  "routeRules_ge2_4 =
     [policyRule [''gateway.networking.k8s.io''] [''tcproutes''] [''get'', ''list'', ''watch''],
      policyRule [''gateway.networking.k8s.io''] [''tcproutes/status''] [''get'', ''update''],
      policyRule [''gateway.networking.k8s.io''] [''tlsroutes''] [''get'', ''list'', ''watch''],
      policyRule [''gateway.networking.k8s.io''] [''tlsroutes/status''] [''get'', ''update''],
      policyRule [''gateway.networking.k8s.io''] [''udproutes''] [''get'', ''list'', ''watch''],
      policyRule [''gateway.networking.k8s.io''] [''udproutes/status''] [''get'', ''update'']]"

definition networkingRules_ge2_4 :: "PolicyRule list" where
  "networkingRules_ge2_4 =
     [policyRule [''networking.internal.knative.dev''] [''ingresses''] [''get'', ''list'', ''watch''],
      policyRule [''networking.internal.knative.dev''] [''ingresses/status''] [''get'', ''patch'', ''update''],
      policyRule [''networking.k8s.io''] [''ingressclasses''] [''get'', ''list'', ''watch''],
      policyRule [''networking.k8s.io''] [''ingresses''] [''get'', ''list'', ''watch''],
      policyRule [''networking.k8s.io''] [''ingresses/status''] [''get'', ''patch'', ''update'']]"

definition GenerateNewClusterRoleForControlPlane_ge2_4 :: "string \<Rightarrow> ClusterRole" where
  "GenerateNewClusterRoleForControlPlane_ge2_4 controlplaneName =
     \<lparr>cr_Meta = clusterRoleMeta controlplaneName,
      cr_Rules = coreRules_ge2_4 @ controllerRules_ge2_4 @ gatewayRules_ge2_4 @
        routeRules_ge2_4 @ networkingRules_ge2_4\<rparr>"

lemmas clusterRole_defs =
  coreRules_ge2_1_lt2_2_def controllerRules_ge2_1_lt2_2_def networkingRules_ge2_1_lt2_2_def
  GenerateNewClusterRoleForControlPlane_ge2_1_lt2_2_def
  coreRules_ge2_2_lt2_3_def controllerRules_ge2_2_lt2_3_def networkingRules_ge2_2_lt2_3_def
  GenerateNewClusterRoleForControlPlane_ge2_2_lt2_3_def
  coreRules_ge2_3_lt2_4_def controllerRules_ge2_3_lt2_4_def gatewayRules_ge2_3_lt2_4_def networkingRules_ge2_3_lt2_4_def
  GenerateNewClusterRoleForControlPlane_ge2_3_lt2_4_def
  coreRules_ge2_4_def controllerRules_ge2_4_def gatewayRules_ge2_4_def routeRules_ge2_4_def networkingRules_ge2_4_def
  GenerateNewClusterRoleForControlPlane_ge2_4_def

section \<open>What the roles grant\<close>

text \<open>
  Nothing by wildcard; secrets can only be listed and watched; only events and reference
  policies can be created, and only reference policies deleted.
\<close>

definition restrained :: "PolicyRule \<Rightarrow> bool" where
  "restrained rule \<longleftrightarrow>
     ''*'' \<notin> set (rule_APIGroups rule) \<union> set (rule_Resources rule) \<union> set (rule_Verbs rule) \<and>
     (if ''secrets'' \<in> set (rule_Resources rule)
      then set (rule_Verbs rule) \<subseteq> {''list'', ''watch''} else True) \<and>
     (if ''create'' \<in> set (rule_Verbs rule)
      then rule_Resources rule \<in> {[''events''], [''referencepolicies'']} else True) \<and>
     (if ''delete'' \<in> set (rule_Verbs rule)
      then rule_Resources rule = [''referencepolicies''] else True) \<and>
     ''deletecollection'' \<notin> set (rule_Verbs rule) \<and> ''escalate'' \<notin> set (rule_Verbs rule) \<and>
     ''bind'' \<notin> set (rule_Verbs rule) \<and> ''impersonate'' \<notin> set (rule_Verbs rule)"

lemma restrained_core:
  "list_all restrained coreRules_ge2_1_lt2_2" "list_all restrained coreRules_ge2_2_lt2_3"
  "list_all restrained coreRules_ge2_3_lt2_4" "list_all restrained coreRules_ge2_4"
  by (simp_all add: clusterRole_defs restrained_def policyRule_def)

lemma restrained_controller:
  "list_all restrained controllerRules_ge2_1_lt2_2" "list_all restrained controllerRules_ge2_2_lt2_3"
  "list_all restrained controllerRules_ge2_3_lt2_4" "list_all restrained controllerRules_ge2_4"
  by (simp_all add: clusterRole_defs restrained_def policyRule_def)

lemma restrained_networking:
  "list_all restrained networkingRules_ge2_1_lt2_2" "list_all restrained networkingRules_ge2_2_lt2_3"
  "list_all restrained gatewayRules_ge2_3_lt2_4" "list_all restrained networkingRules_ge2_3_lt2_4"
  "list_all restrained gatewayRules_ge2_4" "list_all restrained routeRules_ge2_4" "list_all restrained networkingRules_ge2_4"
  by (simp_all add: clusterRole_defs restrained_def policyRule_def)

definition generatedRoles :: "string \<Rightarrow> ClusterRole list" where
  "generatedRoles nm =
     [GenerateNewClusterRoleForControlPlane_ge2_1_lt2_2 nm,
      GenerateNewClusterRoleForControlPlane_ge2_2_lt2_3 nm,
      GenerateNewClusterRoleForControlPlane_ge2_3_lt2_4 nm,
      GenerateNewClusterRoleForControlPlane_ge2_4 nm]"

lemma generatedRoles_restrained:
  "role \<in> set (generatedRoles nm) \<Longrightarrow> list_all restrained (cr_Rules role) \<and> cr_Meta role = clusterRoleMeta nm"
  using restrained_core restrained_controller restrained_networking
  by (auto simp: generatedRoles_def GenerateNewClusterRoleForControlPlane_ge2_1_lt2_2_def
      GenerateNewClusterRoleForControlPlane_ge2_2_lt2_3_def
      GenerateNewClusterRoleForControlPlane_ge2_3_lt2_4_def
      GenerateNewClusterRoleForControlPlane_ge2_4_def)

end
