(* ===== verification/Resources.thy ===== *)
theory Resources
  imports ClusterRoles
begin

text \<open>
  The generators of the owned objects that both controllers share
  (\<open>internal/utils/kubernetes/resources/\<close>): roles, bindings, service accounts, TLS secrets,
  and the lookup of a container.
\<close>

section \<open>Versions\<close>

text \<open>
  \<open>github.com/Masterminds/semver\<close> is not code of the repository: its three operations are a
  parameter. The locale \<open>semver_range\<close> states what its documentation promises of the four
  constraints the code writes, for released versions (major, minor, patch).
\<close>

record ('v, 'c) Semver =
  sv_NewVersion :: "string \<Rightarrow> go_error + 'v"
  sv_NewConstraint :: "string \<Rightarrow> go_error + 'c"
  sv_Check :: "'c \<Rightarrow> 'v \<Rightarrow> bool"

definition Latest :: string where "Latest = ''2.5.0''"

definition atLeast :: "nat \<Rightarrow> nat \<Rightarrow> nat \<times> nat \<times> nat \<Rightarrow> bool" where
  "atLeast a b v \<longleftrightarrow> a < fst v \<or> a = fst v \<and> b \<le> fst (snd v)"

text \<open>\<open>constraintHolds\<close>: the constraint parses and the version satisfies it.\<close>

definition constraintHolds :: "('v, 'c) Semver \<Rightarrow> string \<Rightarrow> 'v \<Rightarrow> bool \<Rightarrow> bool" where
  "constraintHolds sv s v b \<longleftrightarrow> (\<exists>c. sv_NewConstraint sv s = Inr c \<and> sv_Check sv c v = b)"

locale semver_range =
  fixes sv :: "('v, 'c) Semver" and num :: "'v \<Rightarrow> (nat \<times> nat \<times> nat) option"
  assumes range21: "num v = Some n \<Longrightarrow> constraintHolds sv ''>=2.1,<2.2'' v (atLeast 2 1 n \<and> \<not> atLeast 2 2 n)"
    and range22: "num v = Some n \<Longrightarrow> constraintHolds sv ''>=2.2,<2.3'' v (atLeast 2 2 n \<and> \<not> atLeast 2 3 n)"
    and range23: "num v = Some n \<Longrightarrow> constraintHolds sv ''>=2.3,<2.4'' v (atLeast 2 3 n \<and> \<not> atLeast 2 4 n)"
    and range24: "num v = Some n \<Longrightarrow> constraintHolds sv ''>=2.4'' v (atLeast 2 4 n)"

section \<open>Generators\<close>

text \<open>The version that the image's tag stands for.\<close>

definition versionOfImage :: "string option \<Rightarrow> string" where
  "versionOfImage imagep =
     (let version = DefaultControlPlaneTag
      in case imagep of
           None \<Rightarrow> version
         | Some img \<Rightarrow>
             if img \<noteq> '''' then
               (let parts = Split img CHR '':''
                in if length parts \<noteq> 2 \<or> parts ! 1 = ''latest'' then Latest
                   else if length parts = 2 then parts ! 1
                   else version)
             else version)"

definition GenerateNewClusterRoleForControlPlane ::
  "('v, 'c) Semver \<Rightarrow> string \<Rightarrow> string option \<Rightarrow> go_error + ClusterRole" where
  "GenerateNewClusterRoleForControlPlane sv controlplaneName imagep =
     (let version = versionOfImage imagep
      in case sv_NewVersion sv version of
         Inl err \<Rightarrow> Inl err
       | Inr semVersion \<Rightarrow>
      (case sv_NewConstraint sv ''>=2.1,<2.2'' of
         Inl err \<Rightarrow> Inl err
       | Inr c21 \<Rightarrow>
           if sv_Check sv c21 semVersion
           then Inr (GenerateNewClusterRoleForControlPlane_ge2_1_lt2_2 controlplaneName)
           else
      (case sv_NewConstraint sv ''>=2.2,<2.3'' of
         Inl err \<Rightarrow> Inl err
       | Inr c22 \<Rightarrow>
           if sv_Check sv c22 semVersion
           then Inr (GenerateNewClusterRoleForControlPlane_ge2_2_lt2_3 controlplaneName)
           else
      (case sv_NewConstraint sv ''>=2.3,<2.4'' of
         Inl err \<Rightarrow> Inl err
       | Inr c23 \<Rightarrow>
           if sv_Check sv c23 semVersion
           then Inr (GenerateNewClusterRoleForControlPlane_ge2_3_lt2_4 controlplaneName)
           else
      (case sv_NewConstraint sv ''>=2.4'' of
         Inl err \<Rightarrow> Inl err
       | Inr c24 \<Rightarrow>
           if sv_Check sv c24 semVersion
           then Inr (GenerateNewClusterRoleForControlPlane_ge2_4 controlplaneName)
           else Inl (Errorf (''version '' @ version @ '' not supported'')))))))"

definition GenerateNewClusterRoleBindingForControlPlane ::
  "string \<Rightarrow> string \<Rightarrow> string \<Rightarrow> string \<Rightarrow> ClusterRoleBinding" where
  "GenerateNewClusterRoleBindingForControlPlane namespace controlplaneName serviceAccountName clusterRoleName =
     \<lparr>crb_Meta = emptyMeta\<lparr>
        om_GenerateName := ControlPlanePrefix @ ''-'' @ controlplaneName @ ''-'',
        om_Labels := Some (fmupd ''app'' controlplaneName fmempty)\<rparr>,
      crb_RoleRef = \<lparr>rr_APIGroup = ''rbac.authorization.k8s.io'', rr_Kind = ''ClusterRole'',
        rr_Name = clusterRoleName\<rparr>,
      crb_Subjects = [\<lparr>sub_Kind = ''ServiceAccount'', sub_Name = serviceAccountName,
        sub_Namespace = namespace\<rparr>]\<rparr>"

definition GenerateNewServiceAccountForControlPlane :: "string \<Rightarrow> string \<Rightarrow> ServiceAccount" where
  "GenerateNewServiceAccountForControlPlane namespace controlplaneName =
     \<lparr>sa_Meta = emptyMeta\<lparr>
        om_GenerateName := ControlPlanePrefix @ ''-'' @ controlplaneName @ ''-'',
        om_Namespace := namespace,
        om_Labels := Some (fmupd ''app'' controlplaneName fmempty)\<rparr>\<rparr>"

definition SecretTypeTLS :: string where "SecretTypeTLS = ''kubernetes.io/tls''"

definition GenerateNewTLSSecret :: "string \<Rightarrow> string \<Rightarrow> string \<Rightarrow> Secret" where
  "GenerateNewTLSSecret namespace namePrefix ownerPrefix =
     \<lparr>sec_Meta = emptyMeta\<lparr>om_Namespace := namespace,
        om_GenerateName := ownerPrefix @ ''-'' @ namePrefix @ ''-''\<rparr>,
      sec_Type = SecretTypeTLS, sec_Data = None, sec_StringData = None\<rparr>"

text \<open>The pointer into the slice of containers is the index of the container.\<close>

fun containerIndex :: "Container list \<Rightarrow> string \<Rightarrow> nat \<Rightarrow> nat option" where
  "containerIndex [] name i = None"
| "containerIndex (container # rest) name i =
     (if ct_Name container = name then Some i else containerIndex rest name (Suc i))"

definition GetPodContainerByName :: "PodSpec \<Rightarrow> string \<Rightarrow> nat option" where
  "GetPodContainerByName podSpec name = containerIndex (ps_Containers podSpec) name 0"

section \<open>Lemmas\<close>

lemma containerIndex_Some:
  "containerIndex cs name i = Some j \<Longrightarrow>
   i \<le> j \<and> j - i < length cs \<and> ct_Name (cs ! (j - i)) = name \<and>
   (\<forall>k < j - i. ct_Name (cs ! k) \<noteq> name)"
proof (induction cs arbitrary: i)
  case (Cons c cs)
  show ?case
  proof (cases "ct_Name c = name")
    case False
    then have "containerIndex cs name (Suc i) = Some j" using Cons.prems by simp
    note ih = Cons.IH [OF this]
    have "j - i = Suc (j - Suc i)" using ih by linarith
    with ih False show ?thesis by (auto simp: less_Suc_eq_0_disj)
  qed (use Cons.prems in auto)
qed simp

lemma containerIndex_None: "containerIndex cs name i = None \<longleftrightarrow> name \<notin> ct_Name ` set cs"
  by (induction cs arbitrary: i) auto

lemma GetPodContainer_Some:
  assumes "GetPodContainerByName ps name = Some i"
  shows "i < length (ps_Containers ps)" "ct_Name (ps_Containers ps ! i) = name"
  using containerIndex_Some [of "ps_Containers ps" name 0 i] assms
  by (simp_all add: GetPodContainerByName_def)

lemma containerIndex_cong:
  "map ct_Name cs = map ct_Name ds \<Longrightarrow> containerIndex cs name i = containerIndex ds name i"
proof (induction cs arbitrary: ds i)
  case (Cons c cs)
  then show ?case by (cases ds) auto
qed simp

lemma containerIndex_update:
  "ct_Name x = ct_Name (cs ! j) \<Longrightarrow> containerIndex (cs[j := x]) name i = containerIndex cs name i"
  by (rule containerIndex_cong) (metis list_update_id map_update)

lemma generated_role:
  "GenerateNewClusterRoleForControlPlane sv nm imagep = Inr role \<Longrightarrow> role \<in> set (generatedRoles nm)"
  by (auto simp: GenerateNewClusterRoleForControlPlane_def generatedRoles_def Let_def
      split: sum.splits if_splits)

context semver_range
begin

lemma role_of_version:
  assumes "sv_NewVersion sv (versionOfImage imagep) = Inr v" and "num v = Some n"
  shows "GenerateNewClusterRoleForControlPlane sv nm imagep =
    (if \<not> atLeast 2 1 n then Inl (Errorf (''version '' @ versionOfImage imagep @ '' not supported''))
     else if \<not> atLeast 2 2 n then Inr (GenerateNewClusterRoleForControlPlane_ge2_1_lt2_2 nm)
     else if \<not> atLeast 2 3 n then Inr (GenerateNewClusterRoleForControlPlane_ge2_2_lt2_3 nm)
     else if \<not> atLeast 2 4 n then Inr (GenerateNewClusterRoleForControlPlane_ge2_3_lt2_4 nm)
     else Inr (GenerateNewClusterRoleForControlPlane_ge2_4 nm))"
proof -
  obtain c1 c2 c3 c4 where
    c: "sv_NewConstraint sv ''>=2.1,<2.2'' = Inr c1" "sv_Check sv c1 v = (atLeast 2 1 n \<and> \<not> atLeast 2 2 n)"
      "sv_NewConstraint sv ''>=2.2,<2.3'' = Inr c2" "sv_Check sv c2 v = (atLeast 2 2 n \<and> \<not> atLeast 2 3 n)"
      "sv_NewConstraint sv ''>=2.3,<2.4'' = Inr c3" "sv_Check sv c3 v = (atLeast 2 3 n \<and> \<not> atLeast 2 4 n)"
      "sv_NewConstraint sv ''>=2.4'' = Inr c4" "sv_Check sv c4 v = atLeast 2 4 n"
    using range21 [OF assms(2)] range22 [OF assms(2)] range23 [OF assms(2)] range24 [OF assms(2)]
    unfolding constraintHolds_def by blast
  have "atLeast 2 (Suc b) n \<Longrightarrow> atLeast 2 b n" for b by (auto simp: atLeast_def)
  from this [of 1] this [of 2] this [of 3]
  have mono: "atLeast 2 2 n \<Longrightarrow> atLeast 2 1 n" "atLeast 2 3 n \<Longrightarrow> atLeast 2 2 n" "atLeast 2 4 n \<Longrightarrow> atLeast 2 3 n"
    by (simp_all add: numeral_eq_Suc)
  show ?thesis
    unfolding GenerateNewClusterRoleForControlPlane_def Let_def assms(1)
    using mono by (simp add: c)
qed

end

section \<open>A reading of versions\<close>

text \<open>
  Versions of two or three numbers and constraints that are lists of \<open>>=\<close> and \<open><\<close>, as the
  library reads them, without its pre-releases.
\<close>

definition digitOf :: "char \<Rightarrow> nat option" where
  "digitOf c = (let n = of_char c :: nat in if 48 \<le> n \<and> n \<le> 57 then Some (n - 48) else None)"

fun parseNat :: "nat \<Rightarrow> string \<Rightarrow> nat option" where
  "parseNat acc [] = Some acc"
| "parseNat acc (c # cs) = (case digitOf c of None \<Rightarrow> None | Some d \<Rightarrow> parseNat (10 * acc + d) cs)"

definition parseNumber :: "string \<Rightarrow> nat option" where
  "parseNumber s = (if s = '''' then None else parseNat 0 s)"

definition parseVersion :: "string \<Rightarrow> go_error + (nat \<times> nat \<times> nat)" where
  "parseVersion s =
     (case map parseNumber (Split s CHR ''.'') of
        [Some a, Some b] \<Rightarrow> Inr (a, b, 0)
      | [Some a, Some b, Some c] \<Rightarrow> Inr (a, b, c)
      | _ \<Rightarrow> Inl (Errorf ''Invalid Semantic Version''))"

datatype Bound = AtLeast "nat \<times> nat \<times> nat" | Below "nat \<times> nat \<times> nat"

definition parseBound :: "string \<Rightarrow> Bound option" where
  "parseBound s =
     (if HasPrefix s ''>='' then
        (case parseVersion (TrimPrefix s ''>='') of Inr v \<Rightarrow> Some (AtLeast v) | Inl _ \<Rightarrow> None)
      else if HasPrefix s ''<'' then
        (case parseVersion (TrimPrefix s ''<'') of Inr v \<Rightarrow> Some (Below v) | Inl _ \<Rightarrow> None)
      else None)"

definition versionLE :: "nat \<times> nat \<times> nat \<Rightarrow> nat \<times> nat \<times> nat \<Rightarrow> bool" where
  "versionLE v w \<longleftrightarrow> fst v < fst w \<or> fst v = fst w \<and>
     (fst (snd v) < fst (snd w) \<or> fst (snd v) = fst (snd w) \<and> snd (snd v) \<le> snd (snd w))"

fun inBound :: "Bound \<Rightarrow> nat \<times> nat \<times> nat \<Rightarrow> bool" where
  "inBound (AtLeast w) v = versionLE w v"
| "inBound (Below w) v = (\<not> versionLE w v)"

definition numericSemver :: "(nat \<times> nat \<times> nat, Bound list) Semver" where
  "numericSemver =
     \<lparr>sv_NewVersion = parseVersion,
      sv_NewConstraint = (\<lambda>s. let bs = map parseBound (Split s CHR '','')
        in if None \<in> set bs then Inl (Errorf ''improper constraint'') else Inr (map the bs)),
      sv_Check = (\<lambda>bs v. list_all (\<lambda>b. inBound b v) bs)\<rparr>"

lemma versionLE_minor: "versionLE (a, b, 0) v \<longleftrightarrow> atLeast a b v"
  by (auto simp: versionLE_def atLeast_def)

lemmas version_parsing = parseBound_def parseVersion_def TrimPrefix_def parseNumber_def digitOf_def

interpretation numeric: semver_range numericSemver Some
  by unfold_locales
    (simp_all add: constraintHolds_def numericSemver_def version_parsing versionLE_minor
      numeral_2_eq_2 [symmetric])

section \<open>Properties\<close>

text \<open>C31. The cluster role fits the version. With a library of versions that keeps to its
  documentation, for a tag that is a released version, the generated role is the one of the
  range the version lies in, and a version before 2.1 is an error that names it; the version
  is the tag of an image that has exactly one colon, unless it is \<open>latest\<close>, and that of the
  latest known role for every other image.\<close>

theorem ClusterRole_of_version:
  assumes "semver_range sv num" and "sv_NewVersion sv (versionOfImage (Some img)) = Inr v"
    and "num v = Some (major, minor, patch)"
  shows "(img = '''' \<or> versionOfImage (Some img) =
      (case Split img CHR '':'' of [_, tag] \<Rightarrow> if tag = ''latest'' then ''2.5.0'' else tag | _ \<Rightarrow> ''2.5.0'')) \<and>
    GenerateNewClusterRoleForControlPlane sv nm (Some img) =
     (if major < 2 \<or> major = 2 \<and> minor < 1
      then Inl (Errorf (''version '' @ versionOfImage (Some img) @ '' not supported''))
      else if major = 2 \<and> minor = 1 then Inr (GenerateNewClusterRoleForControlPlane_ge2_1_lt2_2 nm)
      else if major = 2 \<and> minor = 2 then Inr (GenerateNewClusterRoleForControlPlane_ge2_2_lt2_3 nm)
      else if major = 2 \<and> minor = 3 then Inr (GenerateNewClusterRoleForControlPlane_ge2_3_lt2_4 nm)
      else Inr (GenerateNewClusterRoleForControlPlane_ge2_4 nm))"
proof
  show "img = '''' \<or> versionOfImage (Some img) =
      (case Split img CHR '':'' of [_, tag] \<Rightarrow> if tag = ''latest'' then ''2.5.0'' else tag | _ \<Rightarrow> ''2.5.0'')"
    by (simp add: versionOfImage_def Latest_def Let_def split: list.split)
  have "atLeast 2 1 (major, minor, patch) \<longleftrightarrow> \<not> (major < 2 \<or> major = 2 \<and> minor < 1)"
    "atLeast 2 2 (major, minor, patch) \<longleftrightarrow> \<not> (major < 2 \<or> major = 2 \<and> minor < 2)"
    "atLeast 2 3 (major, minor, patch) \<longleftrightarrow> \<not> (major < 2 \<or> major = 2 \<and> minor < 3)"
    "atLeast 2 4 (major, minor, patch) \<longleftrightarrow> \<not> (major < 2 \<or> major = 2 \<and> minor < 4)"
    by (auto simp: atLeast_def)
  note rng = this
  show "GenerateNewClusterRoleForControlPlane sv nm (Some img) =
     (if major < 2 \<or> major = 2 \<and> minor < 1
      then Inl (Errorf (''version '' @ versionOfImage (Some img) @ '' not supported''))
      else if major = 2 \<and> minor = 1 then Inr (GenerateNewClusterRoleForControlPlane_ge2_1_lt2_2 nm)
      else if major = 2 \<and> minor = 2 then Inr (GenerateNewClusterRoleForControlPlane_ge2_2_lt2_3 nm)
      else if major = 2 \<and> minor = 3 then Inr (GenerateNewClusterRoleForControlPlane_ge2_3_lt2_4 nm)
      else Inr (GenerateNewClusterRoleForControlPlane_ge2_4 nm))"
    unfolding semver_range.role_of_version [OF assms, of nm] rng by simp
qed

theorem ClusterRole_of_version_witness:
  "GenerateNewClusterRoleForControlPlane numericSemver ''cp'' (Some ''apisix/apisix-ingress-controller:2.3'') =
   Inr (GenerateNewClusterRoleForControlPlane_ge2_3_lt2_4 ''cp'')"
proof -
  have "sv_NewVersion numericSemver
      (versionOfImage (Some ''apisix/apisix-ingress-controller:2.3'')) = Inr (2, 3, 0)"
    by (simp add: versionOfImage_def numericSemver_def version_parsing)
  from ClusterRole_of_version [OF numeric.semver_range_axioms this, of 2 3 0 "''cp''"]
  show ?thesis by simp
qed

text \<open>C32. The roles give no more than they should. Whatever the library of versions, the name and
  the image, a role that is generated carries the control plane's label, uses no wildcard, only
  lists and watches secrets, creates only events and reference policies, deletes only the
  latter, and cannot escalate, bind or impersonate.\<close>

theorem ClusterRole_restrained:
  "case GenerateNewClusterRoleForControlPlane sv nm img of
     Inl e \<Rightarrow> True
   | Inr role \<Rightarrow> list_all restrained (cr_Rules role) \<and>
       om_Labels (cr_Meta role) = Some (fmupd ''app'' nm fmempty) \<and>
       om_GenerateName (cr_Meta role) = nm @ ''-''"
  using generated_role [of sv nm img] generatedRoles_restrained
  by (auto simp: clusterRoleMeta_def split: sum.split)

section \<open>Where the code differs from its intent\<close>

text \<open>
  Without an image the version is the tag \<open>latest\<close> itself, which is not a version; with a
  registry that has a port, the tag is not looked at.
\<close>

lemma ClusterRole_without_image:
  "sv_NewVersion sv ''latest'' = Inl e \<Longrightarrow> GenerateNewClusterRoleForControlPlane sv nm None = Inl e"
  by (simp add: GenerateNewClusterRoleForControlPlane_def versionOfImage_def DefaultControlPlaneTag_def)

lemma ClusterRole_registry_port:
  "GenerateNewClusterRoleForControlPlane numericSemver nm (Some ''registry:5000/controller:2.1'') =
   Inr (GenerateNewClusterRoleForControlPlane_ge2_4 nm)"
proof -
  have "sv_NewVersion numericSemver (versionOfImage (Some ''registry:5000/controller:2.1'')) = Inr (2, 5, 0)"
    by (simp add: versionOfImage_def numericSemver_def version_parsing Latest_def)
  from numeric.role_of_version [OF this, of "(2, 5, 0)"] show ?thesis
    by (simp add: atLeast_def)
qed

end
