(* ===== verification/Workloads.thy ===== *)
theory Workloads
  imports Ownership Resources EnvVars
begin

text \<open>
  The workloads of the two controllers: the deployments and the service they generate
  (\<open>controllers/controlplane_controller_utils.go\<close>, \<open>dataplane_controller_utils.go\<close>), and what
  becomes of a deployment that exists already (the middle part of the two
  \<open>ensureDeploymentFor...\<close> methods), with the proof that it converges.
\<close>

section \<open>Generators\<close>

text \<open>The image of a container from the options and the default.\<close>

definition containerImage :: "'a DeploymentOptions_scheme \<Rightarrow> string \<Rightarrow> string" where
  "containerImage opts dflt =
     (case opt_ContainerImage opts of
        Some img \<Rightarrow> (case opt_Version opts of Some version \<Rightarrow> img @ '':'' @ version | None \<Rightarrow> img)
      | None \<Rightarrow> dflt)"

definition appLabel :: "string \<Rightarrow> (string, string) fmap" where
  "appLabel nm = fmupd ''app'' nm fmempty"

definition certificateVolume :: "string \<Rightarrow> Volume" where
  "certificateVolume certSecretName =
     \<lparr>vol_Name = ''cluster-certificate'', vol_SecretName = certSecretName,
      vol_Items = [\<lparr>kp_Key = ''tls.crt'', kp_Path = ''tls.crt''\<rparr>,
        \<lparr>kp_Key = ''tls.key'', kp_Path = ''tls.key''\<rparr>, \<lparr>kp_Key = ''ca.crt'', kp_Path = ''ca.crt''\<rparr>]\<rparr>"

definition certificateMount :: VolumeMount where
  "certificateMount = \<lparr>vm_Name = ''cluster-certificate'', vm_ReadOnly = True,
     vm_MountPath = ''/var/cluster-certificate''\<rparr>"

definition httpProbe :: "string \<Rightarrow> int \<Rightarrow> Probe" where
  "httpProbe path port =
     \<lparr>pr_FailureThreshold = 3, pr_InitialDelaySeconds = 5, pr_PeriodSeconds = 10,
      pr_SuccessThreshold = 1, pr_TimeoutSeconds = 1, pr_Path = path, pr_Port = port,
      pr_Scheme = ''HTTP''\<rparr>"

definition tcpPort :: "string \<Rightarrow> int \<Rightarrow> ContainerPort" where
  "tcpPort nm port = \<lparr>cp_PortName = nm, cp_ContainerPort = port, cp_Protocol = ''TCP''\<rparr>"

definition generateNewDeploymentForControlPlane :: "ControlPlane \<Rightarrow> string \<Rightarrow> string \<Rightarrow> Deployment" where
  "generateNewDeploymentForControlPlane controlplane serviceAccountName certSecretName =
     (let nm = om_Name (cp_Meta controlplane);
          controlplaneImage = containerImage (cp_Spec controlplane) DefaultControlPlaneImage
      in \<lparr>dep_Meta = emptyMeta\<lparr>
            om_Namespace := om_Namespace (cp_Meta controlplane),
            om_GenerateName := ControlPlanePrefix @ ''-'' @ nm @ ''-'',
            om_Labels := Some (appLabel nm),
            om_OwnerReferences := Some [GenerateOwnerReferenceForObject ControlPlaneObj controlplane]\<rparr>,
          dep_Spec = \<lparr>
            ds_Replicas = None,
            ds_SelectorMatchLabels = appLabel nm,
            ds_TemplateLabels = appLabel nm,
            ds_PodSpec = \<lparr>
              ps_ServiceAccountName = serviceAccountName,
              ps_Volumes = [certificateVolume certSecretName],
              ps_Containers = [\<lparr>
                ct_Name = ControlPlaneControllerContainerName,
                ct_Env = opt_Env (cp_Spec controlplane),
                ct_EnvFrom = opt_EnvFrom (cp_Spec controlplane),
                ct_Image = controlplaneImage,
                ct_ImagePullPolicy = ''IfNotPresent'',
                ct_VolumeMounts = [certificateMount],
                ct_PreStopCommand = [''/bin/sh'', ''-c'', ''apisix quit''],
                ct_Ports = [tcpPort ''health'' 10254],
                ct_LivenessProbe = Some (httpProbe ''/healthz'' 10254),
                ct_ReadinessProbe = Some (httpProbe ''/readyz'' 10254)\<rparr>]\<rparr>\<rparr>,
          dep_StatusReplicas = 0,
          dep_StatusAvailableReplicas = 0\<rparr>)"

definition generateNewDeploymentForDataPlane :: "DataPlane \<Rightarrow> string \<Rightarrow> Deployment" where
  "generateNewDeploymentForDataPlane dataplane certSecretName =
     (let nm = om_Name (dp_Meta dataplane);
          dataplaneImage = containerImage (dp_Spec dataplane) DefaultDataPlaneImage
      in \<lparr>dep_Meta = emptyMeta\<lparr>
            om_Namespace := om_Namespace (dp_Meta dataplane),
            om_GenerateName := DataPlanePrefix @ ''-'' @ nm @ ''-'',
            om_Labels := Some (appLabel nm)\<rparr>,
          dep_Spec = \<lparr>
            ds_Replicas = None,
            ds_SelectorMatchLabels = appLabel nm,
            ds_TemplateLabels = appLabel nm,
            ds_PodSpec = \<lparr>
              ps_ServiceAccountName = '''',
              ps_Volumes = [certificateVolume certSecretName],
              ps_Containers = [\<lparr>
                ct_Name = DataPlaneProxyContainerName,
                ct_Env = opt_Env (dp_Spec dataplane),
                ct_EnvFrom = opt_EnvFrom (dp_Spec dataplane),
                ct_Image = dataplaneImage,
                ct_ImagePullPolicy = ''IfNotPresent'',
                ct_VolumeMounts = [certificateMount],
                ct_PreStopCommand = [''/bin/sh'', ''-c'', '' quit''],
                ct_Ports = [tcpPort ''proxy'' DataPlaneProxyPort,
                  tcpPort ''proxy-ssl'' DataPlaneProxySSLPort,
                  tcpPort ''metrics'' DataPlaneMetricsPort,
                  tcpPort ''admin-ssl'' DataPlaneAdminAPIPort],
                ct_LivenessProbe = None,
                ct_ReadinessProbe = Some (httpProbe ''/status'' 8100)\<rparr>]\<rparr>\<rparr>,
          dep_StatusReplicas = 0,
          dep_StatusAvailableReplicas = 0\<rparr>)"

definition generateNewServiceForDataplane :: "DataPlane \<Rightarrow> Service" where
  "generateNewServiceForDataplane dataplane =
     \<lparr>svc_Meta = emptyMeta\<lparr>
        om_Namespace := om_Namespace (dp_Meta dataplane),
        om_GenerateName := DataPlanePrefix @ ''-'' @ om_Name (dp_Meta dataplane) @ ''-''\<rparr>,
      svc_Type = ''LoadBalancer'',
      svc_Selector = appLabel (om_Name (dp_Meta dataplane)),
      svc_Ports =
        [\<lparr>sp_Name = ''http'', sp_Protocol = ''TCP'', sp_Port = int DefaultHTTPPort,
           sp_TargetPort = int DefaultAPISIXHTTPPort\<rparr>,
         \<lparr>sp_Name = ''https'', sp_Protocol = ''TCP'', sp_Port = int DefaultHTTPSPort,
           sp_TargetPort = int DefaultAPISIXHTTPSPort\<rparr>,
         \<lparr>sp_Name = ''admin'', sp_Protocol = ''TCP'', sp_Port = int DefaultAPISIXAdminPort,
           sp_TargetPort = 0\<rparr>]\<rparr>"

section \<open>An existing deployment\<close>

text \<open>
  \<open>existingDeployment.Spec.Template.Spec.Containers\<close>, and writing through the pointer to the
  container at an index.
\<close>

definition containersOf :: "Deployment \<Rightarrow> Container list" where
  "containersOf d = ps_Containers (ds_PodSpec (dep_Spec d))"

definition setContainers :: "Container list \<Rightarrow> Deployment \<Rightarrow> Deployment" where
  "setContainers cs d = d\<lparr>dep_Spec := (dep_Spec d)\<lparr>ds_PodSpec :=
     (ds_PodSpec (dep_Spec d))\<lparr>ps_Containers := cs\<rparr>\<rparr>\<rparr>"

definition setReplicas :: "int option \<Rightarrow> Deployment \<Rightarrow> Deployment" where
  "setReplicas n d = d\<lparr>dep_Spec := (dep_Spec d)\<lparr>ds_Replicas := n\<rparr>\<rparr>"

definition writeContainer :: "nat \<Rightarrow> (Container \<Rightarrow> Container) \<Rightarrow> Deployment \<Rightarrow> Deployment" where
  "writeContainer i f d = setContainers ((containersOf d)[i := f (containersOf d ! i)]) d"

text \<open>
  The deleted main container is replaced along with all others; the result is the deployment
  and the pointer to the container, which is nil only if the generated set lacks it too.
\<close>

definition restoreContainer ::
  "string \<Rightarrow> Deployment \<Rightarrow> bool \<times> Deployment \<Rightarrow> (bool \<times> Deployment) \<times> nat option" where
  "restoreContainer name generated = (\<lambda>(updated, existing).
     (case GetPodContainerByName (ds_PodSpec (dep_Spec existing)) name of
        Some i \<Rightarrow> ((updated, existing), Some i)
      | None \<Rightarrow>
          (let existing = setContainers (containersOf generated) existing
           in ((True, existing), GetPodContainerByName (ds_PodSpec (dep_Spec existing)) name))))"

text \<open>Direct edits of the environment are purged.\<close>

definition purgeEnv ::
  "nat \<Rightarrow> EnvVar slice \<Rightarrow> EnvFromSource slice \<Rightarrow> bool \<times> Deployment \<Rightarrow> bool \<times> Deployment" where
  "purgeEnv i env envFrom = (\<lambda>(updated, existing).
     (let (updated, existing) =
            (if ct_Env (containersOf existing ! i) \<noteq> env
             then (True, writeContainer i (\<lambda>c. c\<lparr>ct_Env := env\<rparr>) existing) else (updated, existing))
      in if ct_EnvFrom (containersOf existing ! i) \<noteq> envFrom
         then (True, writeContainer i (\<lambda>c. c\<lparr>ct_EnvFrom := envFrom\<rparr>) existing)
         else (updated, existing)))"

definition updateDataPlaneDeployment :: "DataPlaneSpec \<Rightarrow> Deployment update" where
  "updateDataPlaneDeployment spec existing generated =
     (case updateMeta DeploymentObj existing generated of
        Inl e \<Rightarrow> Inl e
      | Inr st \<Rightarrow>
          (case restoreContainer DataPlaneProxyContainerName generated st of
             (st, None) \<Rightarrow> Inl (Panic ''nil container'')
           | (st, Some i) \<Rightarrow> Inr (purgeEnv i (opt_Env spec) (opt_EnvFrom spec) st)))"

text \<open>
  The replicas of a control plane: none without a data plane; with one again, the default
  number, and then the environment is brought up to date.
\<close>

definition scale :: "bool \<Rightarrow> EnvVar slice \<Rightarrow> nat \<Rightarrow> bool \<times> Deployment \<Rightarrow> bool \<times> Deployment" where
  "scale dataplaneIsSet env i = (\<lambda>(updated, existing).
     (let replicas = ds_Replicas (dep_Spec existing)
      in if \<not> dataplaneIsSet \<and> (replicas = None \<or> replicas \<noteq> Some 0) then
           (True, setReplicas (Some 0) existing)
         else if dataplaneIsSet \<and> (replicas \<noteq> None \<and> replicas = Some 0) then
           (let existing = setReplicas None existing
            in (True, if length (items (ct_Env (containersOf existing ! i))) > 0
                      then writeContainer i (\<lambda>c. c\<lparr>ct_Env := env\<rparr>) existing else existing))
         else (updated, existing)))"

definition updateControlPlaneDeployment :: "ControlPlaneSpec \<Rightarrow> Deployment update" where
  "updateControlPlaneDeployment spec existing generated =
     (case updateMeta DeploymentObj existing generated of
        Inl e \<Rightarrow> Inl e
      | Inr st \<Rightarrow>
          (case restoreContainer ControlPlaneControllerContainerName generated st of
             (st, None) \<Rightarrow> Inl (Panic ''nil container'')
           | (st, Some i) \<Rightarrow>
               Inr (purgeEnv i (opt_Env spec) (opt_EnvFrom spec)
                      (scale (dataPlaneIsSet spec) (opt_Env spec) i st))))"

section \<open>The steps of an update\<close>

text \<open>
  A step on the pair of the flag and the deployment is conservative if it keeps the metadata
  and raises the flag whenever it changes the deployment, never lowering it.
\<close>

definition conservative :: "bool \<times> Deployment \<Rightarrow> bool \<times> Deployment \<Rightarrow> bool" where
  "conservative st st1 \<longleftrightarrow> dep_Meta (snd st1) = dep_Meta (snd st) \<and> (\<not> fst st1 \<longrightarrow> \<not> fst st \<and> snd st1 = snd st)"

lemma conservative_refl [simp]: "conservative st st"
  by (simp add: conservative_def)

lemma conservative_trans: "conservative st st1 \<Longrightarrow> conservative st1 st2 \<Longrightarrow> conservative st st2"
  by (auto simp: conservative_def)

definition mainContainer :: "string \<Rightarrow> Deployment \<Rightarrow> nat option" where
  "mainContainer name d = GetPodContainerByName (ds_PodSpec (dep_Spec d)) name"

lemma setContainers_simps [simp]:
  "containersOf (setContainers cs d) = cs" "dep_Meta (setContainers cs d) = dep_Meta d"
  "ds_Replicas (dep_Spec (setContainers cs d)) = ds_Replicas (dep_Spec d)"
  "mainContainer name (setContainers cs d) = containerIndex cs name 0"
  "containersOf (setReplicas n d) = containersOf d" "dep_Meta (setReplicas n d) = dep_Meta d"
  "ds_Replicas (dep_Spec (setReplicas n d)) = n"
  "mainContainer name (setReplicas n d) = mainContainer name d"
  by (simp_all add: setContainers_def containersOf_def mainContainer_def GetPodContainerByName_def
      setReplicas_def)

lemma mainContainer_index: "mainContainer name d = containerIndex (containersOf d) name 0"
  by (simp add: mainContainer_def GetPodContainerByName_def containersOf_def)

lemma mainContainer_less: "mainContainer name d = Some i \<Longrightarrow> i < length (containersOf d)"
  using GetPodContainer_Some(1) by (simp add: mainContainer_def containersOf_def)

lemma writeContainer_simps [simp]:
  "dep_Meta (writeContainer i f d) = dep_Meta d"
  "ds_Replicas (dep_Spec (writeContainer i f d)) = ds_Replicas (dep_Spec d)"
  "containersOf (writeContainer i f d) = (containersOf d)[i := f (containersOf d ! i)]"
  "(\<And>c. ct_Name (f c) = ct_Name c) \<Longrightarrow> mainContainer name (writeContainer i f d) = mainContainer name d"
  by (simp_all add: writeContainer_def containerIndex_update mainContainer_index)

definition envSettled :: "string \<Rightarrow> EnvVar slice \<Rightarrow> EnvFromSource slice \<Rightarrow> Deployment \<Rightarrow> bool" where
  "envSettled name env envFrom d \<longleftrightarrow>
     (case mainContainer name d of
        None \<Rightarrow> False
      | Some i \<Rightarrow> ct_Env (containersOf d ! i) = env \<and> ct_EnvFrom (containersOf d ! i) = envFrom)"

lemma depBody_eq:
  assumes "depBody d = depBody d1"
  shows "containersOf d = containersOf d1" and "ds_Replicas (dep_Spec d) = Some 0 \<longleftrightarrow> ds_Replicas (dep_Spec d1) = Some 0"
  using arg_cong [OF assms, of ds_PodSpec] arg_cong [OF assms, of ds_Replicas]
  by (auto simp: depBody_def containersOf_def split: option.splits)

lemma depBody_spec: "dep_Spec d = dep_Spec d1 \<Longrightarrow> depBody d = depBody d1"
  by (simp add: depBody_def)

lemma envSettled_spec:
  assumes "depBody d = depBody d1"
  shows "envSettled name env ef d = envSettled name env ef d1"
  unfolding envSettled_def mainContainer_index depBody_eq(1) [OF assms] by (rule refl)

lemma purgeEnv_step:
  assumes "mainContainer name d = Some i"
  shows "conservative (b, d) (purgeEnv i env ef (b, d))"
    and "envSettled name env ef (snd (purgeEnv i env ef (b, d)))"
    and "ds_Replicas (dep_Spec (snd (purgeEnv i env ef (b, d)))) = ds_Replicas (dep_Spec d)"
  using assms mainContainer_less [OF assms]
  by (auto simp: purgeEnv_def conservative_def envSettled_def)

lemma purgeEnv_settled:
  "envSettled name env ef d \<Longrightarrow> mainContainer name d = Some i \<Longrightarrow> purgeEnv i env ef (b, d) = (b, d)"
  by (simp add: purgeEnv_def envSettled_def)

lemma restoreContainer_step:
  assumes "mainContainer name g \<noteq> None"
  obtains st1 i where "restoreContainer name g st = (st1, Some i)" "mainContainer name (snd st1) = Some i"
    "conservative st st1"
proof (cases "mainContainer name (snd st)")
  case None
  obtain i where "mainContainer name g = Some i" using assms by auto
  then have "mainContainer name (setContainers (containersOf g) (snd st)) = Some i"
    by (simp add: mainContainer_index)
  with None that [of "(True, setContainers (containersOf g) (snd st))" i] show ?thesis
    by (cases st) (simp add: restoreContainer_def conservative_def mainContainer_def)
next
  case (Some i)
  with that [of st i] show ?thesis
    by (cases st) (simp add: restoreContainer_def mainContainer_def)
qed

lemma restoreContainer_settled:
  "mainContainer name (snd st) = Some i \<Longrightarrow> restoreContainer name g st = (st, Some i)"
  by (cases st) (simp add: restoreContainer_def mainContainer_def)

definition scaleSettled :: "bool \<Rightarrow> Deployment \<Rightarrow> bool" where
  "scaleSettled dataplaneIsSet d \<longleftrightarrow> (ds_Replicas (dep_Spec d) = Some 0 \<longleftrightarrow> \<not> dataplaneIsSet)"

lemma scale_step:
  assumes "mainContainer name d = Some i"
  shows "conservative (b, d) (scale on env i (b, d))"
    and "scaleSettled on (snd (scale on env i (b, d)))"
    and "mainContainer name (snd (scale on env i (b, d))) = Some i"
  using assms by (auto simp: scale_def conservative_def scaleSettled_def Let_def)

lemma scale_settled: "scaleSettled on d \<Longrightarrow> scale on env i (b, d) = (b, d)"
  by (auto simp: scale_def scaleSettled_def Let_def)

lemma updateMeta_settled:
  "upToDate DeploymentObj g x \<Longrightarrow> updateMeta DeploymentObj x g = Inr (False, x)"
  by (simp add: updateMeta_def upToDate_def)

section \<open>Convergence\<close>

lemma settled_dataplane:
  assumes "upToDate DeploymentObj g z"
    and "envSettled DataPlaneProxyContainerName (opt_Env spec) (opt_EnvFrom spec) z"
  shows "settled (updateDataPlaneDeployment spec) g z"
proof -
  obtain i where "mainContainer DataPlaneProxyContainerName z = Some i"
    using assms(2) by (auto simp: envSettled_def split: option.splits)
  then show ?thesis
    using assms by (simp add: settled_def updateDataPlaneDeployment_def updateMeta_settled
        restoreContainer_settled purgeEnv_settled)
qed

lemma settled_controlplane:
  assumes "upToDate DeploymentObj g z"
    and "envSettled ControlPlaneControllerContainerName (opt_Env spec) (opt_EnvFrom spec) z"
    and "scaleSettled (dataPlaneIsSet spec) z"
  shows "settled (updateControlPlaneDeployment spec) g z"
proof -
  obtain i where "mainContainer ControlPlaneControllerContainerName z = Some i"
    using assms(2) by (auto simp: envSettled_def split: option.splits)
  then show ?thesis
    using assms by (simp add: settled_def updateControlPlaneDeployment_def updateMeta_settled
        restoreContainer_settled purgeEnv_settled scale_settled)
qed

text \<open>Conservative steps after the update of the metadata: settled means up to date.\<close>

lemma conservative_upToDate:
  assumes "updateMeta DeploymentObj z g = Inr st" and "conservative st (False, z)"
  shows "upToDate DeploymentObj g z"
  using assms by (cases st) (auto simp: updateMeta_def conservative_def upToDate_def
      split: sum.splits dest: arg_cong [where f = dep_Meta])

lemma meta_written:
  fixes x g :: Deployment
  assumes "EnsureObjectMetaIsUpdated (dep_Meta x) (dep_Meta g) = Inr (b, m)"
    and "conservative (b, x\<lparr>dep_Meta := m\<rparr>) (b1, y)"
  shows "sameIdentity (dep_Meta x) (dep_Meta y)" and "\<not> b1 \<longrightarrow> y = x" and "upToDate DeploymentObj g y"
    and "sameWritten (dep_Meta y) (dep_Meta z) \<Longrightarrow> upToDate DeploymentObj g z"
proof -
  have m: "dep_Meta y = m" using assms(2) by (simp add: conservative_def)
  show "sameIdentity (dep_Meta x) (dep_Meta y)"
    using EnsureObjectMeta_frame [OF assms(1)] by (simp add: m sameIdentity_def)
  have "b \<longleftrightarrow> m \<noteq> dep_Meta x"
    using assms(1) unfolding EnsureObjectMeta_Inr by blast
  then show "\<not> b1 \<longrightarrow> y = x"
    using assms(2) by (auto simp: conservative_def)
  show u: "upToDate DeploymentObj g y"
    using EnsureObjectMeta_fixpoint [OF assms(1)] by (simp add: upToDate_def m)
  show "upToDate DeploymentObj g z" if "sameWritten (dep_Meta y) (dep_Meta z)"
    using upToDate_cong [of DeploymentObj y z g] u that by simp
qed

lemma updateDataPlaneDeployment_run:
  fixes x g :: Deployment
  assumes m: "EnsureObjectMetaIsUpdated (dep_Meta x) (dep_Meta g) = Inr (b, m)"
    and "mainContainer DataPlaneProxyContainerName g \<noteq> None"
  obtains b1 y where
    "updateDataPlaneDeployment spec x g = Inr (b1, y)" "conservative (b, x\<lparr>dep_Meta := m\<rparr>) (b1, y)"
    "envSettled DataPlaneProxyContainerName (opt_Env spec) (opt_EnvFrom spec) y"
proof -
  have u: "updateMeta DeploymentObj x g = Inr (b, x\<lparr>dep_Meta := m\<rparr>)"
    by (simp add: updateMeta_def m)
  obtain b0 d i where r: "restoreContainer DataPlaneProxyContainerName g (b, x\<lparr>dep_Meta := m\<rparr>) = ((b0, d), Some i)"
    "mainContainer DataPlaneProxyContainerName d = Some i" "conservative (b, x\<lparr>dep_Meta := m\<rparr>) (b0, d)"
    using restoreContainer_step [OF assms(2)] by (metis prod.collapse snd_conv)
  note pu = purgeEnv_step [OF r(2), where b = b0 and env = "opt_Env spec" and ef = "opt_EnvFrom spec"]
  show ?thesis
  proof (rule that)
    show "updateDataPlaneDeployment spec x g =
        Inr (fst (purgeEnv i (opt_Env spec) (opt_EnvFrom spec) (b0, d)),
             snd (purgeEnv i (opt_Env spec) (opt_EnvFrom spec) (b0, d)))"
      by (simp add: updateDataPlaneDeployment_def u r)
  qed (use conservative_trans [OF r(3)] pu in simp_all)
qed

lemma updateControlPlaneDeployment_run:
  fixes x g :: Deployment
  assumes m: "EnsureObjectMetaIsUpdated (dep_Meta x) (dep_Meta g) = Inr (b, m)"
    and "mainContainer ControlPlaneControllerContainerName g \<noteq> None"
  obtains b1 y where
    "updateControlPlaneDeployment spec x g = Inr (b1, y)" "conservative (b, x\<lparr>dep_Meta := m\<rparr>) (b1, y)"
    "envSettled ControlPlaneControllerContainerName (opt_Env spec) (opt_EnvFrom spec) y"
    "scaleSettled (dataPlaneIsSet spec) y"
proof -
  have u: "updateMeta DeploymentObj x g = Inr (b, x\<lparr>dep_Meta := m\<rparr>)"
    by (simp add: updateMeta_def m)
  obtain b0 d i where
    r: "restoreContainer ControlPlaneControllerContainerName g (b, x\<lparr>dep_Meta := m\<rparr>) = ((b0, d), Some i)"
    "mainContainer ControlPlaneControllerContainerName d = Some i" "conservative (b, x\<lparr>dep_Meta := m\<rparr>) (b0, d)"
    using restoreContainer_step [OF assms(2)] by (metis prod.collapse snd_conv)
  obtain b2 d2 where sc: "scale (dataPlaneIsSet spec) (opt_Env spec) i (b0, d) = (b2, d2)" by fastforce
  note s = scale_step [OF r(2), where b = b0 and on = "dataPlaneIsSet spec" and env = "opt_Env spec",
    unfolded sc snd_conv]
  obtain b3 y where py: "purgeEnv i (opt_Env spec) (opt_EnvFrom spec) (b2, d2) = (b3, y)" by fastforce
  note pu = purgeEnv_step [OF s(3), where b = b2 and env = "opt_Env spec" and ef = "opt_EnvFrom spec",
    unfolded py snd_conv]
  show ?thesis
  proof (rule that)
    show "updateControlPlaneDeployment spec x g = Inr (b3, y)"
      by (simp add: updateControlPlaneDeployment_def u r sc py)
    show "conservative (b, x\<lparr>dep_Meta := m\<rparr>) (b3, y)"
      using conservative_trans [OF r(3)] conservative_trans [OF s(1)] pu(1) by blast
    show "scaleSettled (dataPlaneIsSet spec) y" using s(2) pu(3) by (simp add: scaleSettled_def)
  qed (rule pu(2))
qed

lemma updateMeta_Inl:
  fixes x g :: Deployment
  shows "EnsureObjectMetaIsUpdated (dep_Meta x) (dep_Meta g) = Inl e \<Longrightarrow> updateMeta DeploymentObj x g = Inl e"
  by (simp add: updateMeta_def)

text \<open>What both deployments need of the generated one: its own environment is the specification's.\<close>

text \<open>
  An update of a deployment converges when, after the metadata, it brings about a property \<open>Q\<close> of the
  specification, and leaves alone what is up to date and has the property.
\<close>

lemma converging_update:
  fixes upd :: "Deployment update"
  assumes run: "\<And>x b m. EnsureObjectMetaIsUpdated (dep_Meta x) (dep_Meta g) = Inr (b, m) \<Longrightarrow>
      \<exists>b1 y. upd x g = Inr (b1, y) \<and> conservative (b, x\<lparr>dep_Meta := m\<rparr>) (b1, y) \<and> Q y"
    and fails: "\<And>x e. EnsureObjectMetaIsUpdated (dep_Meta x) (dep_Meta g) = Inl e \<Longrightarrow> \<not> settled upd g x"
    and settles: "\<And>z. upToDate DeploymentObj g z \<Longrightarrow> Q z \<Longrightarrow> settled upd g z"
    and spec: "\<And>z y. depBody z = depBody y \<Longrightarrow> Q z = Q y"
    and init: "Q (init g)"
  shows "converging DeploymentObj depBody init upd g"
  unfolding converging_def obj_sel
proof (intro conjI allI impI)
  fix x :: Deployment
  assume "om_Labels (dep_Meta x) \<noteq> None"
  then obtain b m where m: "EnsureObjectMetaIsUpdated (dep_Meta x) (dep_Meta g) = Inr (b, m)"
    using EnsureObjectMeta_total by blast
  obtain b1 y where y: "upd x g = Inr (b1, y)" "conservative (b, x\<lparr>dep_Meta := m\<rparr>) (b1, y)" "Q y"
    using run [OF m] by blast
  note meta = meta_written [OF m y(2)]
  have "settled upd g z" if "sameWritten (dep_Meta y) (dep_Meta z)" "depBody z = depBody y" for z
    using settles [OF meta(4) [OF that(1)]] y(3) spec [OF that(2)] by simp
  with y(1) meta(1,2)
  show "\<exists>b y. upd x g = Inr (b, y) \<and> sameIdentity (dep_Meta x) (dep_Meta y) \<and>
      (\<not> b \<longrightarrow> y = x) \<and> (\<forall>z. sameWritten (dep_Meta y) (dep_Meta z) \<longrightarrow>
         depBody z = depBody y \<longrightarrow> settled upd g z)"
    by blast
next
  fix z :: Deployment
  assume z: "sameWritten (dep_Meta g) (dep_Meta z)" "depBody z = depBody (init g)"
  have "upToDate DeploymentObj g z" using z(1) by (intro upToDate_written) simp
  then show "settled upd g z" using settles spec [OF z(2)] init by simp
next
  fix z :: Deployment
  assume st: "settled upd g z"
  then obtain b m where m: "EnsureObjectMetaIsUpdated (dep_Meta z) (dep_Meta g) = Inr (b, m)"
    using fails by (metis (no_types, lifting) old.sum.exhaust surj_pair)
  then show "upToDate DeploymentObj g z"
    using run [OF m] meta_written(3) [OF m] st by (auto simp: settled_def)
qed

lemma converging_dataplane:
  assumes g: "envSettled DataPlaneProxyContainerName (opt_Env spec) (opt_EnvFrom spec) g"
  shows "converging DeploymentObj depBody id (updateDataPlaneDeployment spec) g"
proof (rule converging_update [where Q = "envSettled DataPlaneProxyContainerName (opt_Env spec) (opt_EnvFrom spec)"])
  have mg: "mainContainer DataPlaneProxyContainerName g \<noteq> None"
    using g by (auto simp: envSettled_def split: option.splits)
  show "\<exists>b1 y. updateDataPlaneDeployment spec x g = Inr (b1, y) \<and> conservative (b, x\<lparr>dep_Meta := m\<rparr>) (b1, y) \<and>
      envSettled DataPlaneProxyContainerName (opt_Env spec) (opt_EnvFrom spec) y"
    if "EnsureObjectMetaIsUpdated (dep_Meta x) (dep_Meta g) = Inr (b, m)" for x b m
    using updateDataPlaneDeployment_run [OF that mg] by blast
  show "\<not> settled (updateDataPlaneDeployment spec) g x"
    if "EnsureObjectMetaIsUpdated (dep_Meta x) (dep_Meta g) = Inl e" for x e
    using that by (simp add: settled_def updateDataPlaneDeployment_def updateMeta_Inl)
qed (simp_all add: g settled_dataplane, rule envSettled_spec)

lemma converging_controlplane:
  assumes g: "envSettled ControlPlaneControllerContainerName (opt_Env spec) (opt_EnvFrom spec) g"
    and n: "ds_Replicas (dep_Spec g) = None"
  shows "converging DeploymentObj depBody (\<lambda>g. if dataPlaneIsSet spec then g else setReplicas (Some 0) g)
    (updateControlPlaneDeployment spec) g"
proof (rule converging_update [where Q = "\<lambda>y. envSettled ControlPlaneControllerContainerName (opt_Env spec)
      (opt_EnvFrom spec) y \<and> scaleSettled (dataPlaneIsSet spec) y"])
  have mg: "mainContainer ControlPlaneControllerContainerName g \<noteq> None"
    using g by (auto simp: envSettled_def split: option.splits)
  show "\<exists>b1 y. updateControlPlaneDeployment spec x g = Inr (b1, y) \<and> conservative (b, x\<lparr>dep_Meta := m\<rparr>) (b1, y) \<and>
      envSettled ControlPlaneControllerContainerName (opt_Env spec) (opt_EnvFrom spec) y \<and>
      scaleSettled (dataPlaneIsSet spec) y"
    if "EnsureObjectMetaIsUpdated (dep_Meta x) (dep_Meta g) = Inr (b, m)" for x b m
    using updateControlPlaneDeployment_run [OF that mg] by blast
  show "\<not> settled (updateControlPlaneDeployment spec) g x"
    if "EnsureObjectMetaIsUpdated (dep_Meta x) (dep_Meta g) = Inl e" for x e
    using that by (simp add: settled_def updateControlPlaneDeployment_def updateMeta_Inl)
next
  fix z y :: Deployment
  assume "depBody z = depBody y"
  then show "(envSettled ControlPlaneControllerContainerName (opt_Env spec) (opt_EnvFrom spec) z \<and>
        scaleSettled (dataPlaneIsSet spec) z) =
      (envSettled ControlPlaneControllerContainerName (opt_Env spec) (opt_EnvFrom spec) y \<and>
        scaleSettled (dataPlaneIsSet spec) y)"
    using envSettled_spec [of z y] depBody_eq(2) [of z y] by (simp add: scaleSettled_def)
next
  let ?init = "if dataPlaneIsSet spec then g else setReplicas (Some 0) g"
  show "envSettled ControlPlaneControllerContainerName (opt_Env spec) (opt_EnvFrom spec) ?init \<and>
      scaleSettled (dataPlaneIsSet spec) ?init"
    using g n by (auto simp: envSettled_def scaleSettled_def split: option.splits)
qed (simp add: settled_controlplane)

section \<open>What an update writes\<close>

text \<open>
  The deployment with all containers of \<open>cs\<close>, the one at \<open>i\<close> with the given environment.
\<close>

definition withContainerEnv ::
  "Container list \<Rightarrow> nat \<Rightarrow> EnvVar slice \<Rightarrow> EnvFromSource slice \<Rightarrow> Deployment \<Rightarrow> Deployment" where
  "withContainerEnv cs i env ef d =
     setContainers (cs[i := (cs ! i)\<lparr>ct_Env := env, ct_EnvFrom := ef\<rparr>]) d"

lemma setContainers_self [simp]: "setContainers (containersOf d) d = d"
  by (simp add: setContainers_def containersOf_def)

lemma setContainers_twice [simp]: "setContainers cs (setContainers cs' d) = setContainers cs d"
  by (simp add: setContainers_def)

lemma setContainers_setReplicas:
  "setContainers cs (setReplicas n d) = setReplicas n (setContainers cs d)"
  by (simp add: setContainers_def setReplicas_def)

lemma setReplicas_self: "ds_Replicas (dep_Spec d) = n \<Longrightarrow> setReplicas n d = d"
  by (simp add: setReplicas_def)

lemma purgeEnv_writes:
  assumes "i < length (containersOf d)"
  shows "snd (purgeEnv i env ef (b, d)) = withContainerEnv (containersOf d) i env ef d"
proof -
  have self: "(containersOf d)[i := c] = containersOf d" if "c = containersOf d ! i" for c
    using that by simp
  show ?thesis
    using assms by (auto simp: purgeEnv_def withContainerEnv_def writeContainer_def self)
qed

lemma restoreContainer_writes:
  assumes "restoreContainer name g (b, d) = (st, Some i)"
  defines "cs \<equiv> (if mainContainer name d = None then containersOf g else containersOf d)"
  shows "snd st = setContainers cs d" and "containerIndex cs name 0 = Some i"
  using assms by (auto simp: restoreContainer_def mainContainer_index GetPodContainerByName_def
      containersOf_def [symmetric] cs_def split: option.splits)

definition scaledReplicas :: "bool \<Rightarrow> int option \<Rightarrow> int option" where
  "scaledReplicas on n = (if \<not> on then Some 0 else if n = Some 0 then None else n)"

lemma scale_writes:
  assumes "i < length (containersOf d)"
  shows "withContainerEnv (containersOf (snd (scale on env i (b, d)))) i env ef (snd (scale on env i (b, d))) =
    setReplicas (scaledReplicas on (ds_Replicas (dep_Spec d))) (withContainerEnv (containersOf d) i env ef d)"
  using assms
  by (auto simp: scale_def scaledReplicas_def withContainerEnv_def writeContainer_def Let_def
      setContainers_setReplicas setReplicas_self)

lemma settled_reports_change:
  assumes "upd x g = Inr (b, y)" and "\<not> b \<longrightarrow> y = x" and "settled upd g y"
  shows "b \<longleftrightarrow> y \<noteq> x"
  using assms by (auto simp: settled_def)

section \<open>The deployments the controllers want\<close>

definition wantedControlPlaneDeployment :: "ControlPlane \<Rightarrow> string \<Rightarrow> string \<Rightarrow> Deployment" where
  "wantedControlPlaneDeployment controlplane serviceAccountName certSecretName =
     (let generatedDeployment = generateNewDeploymentForControlPlane controlplane serviceAccountName certSecretName;
          generatedDeployment = SetOwnerForObject DeploymentObj ControlPlaneObj generatedDeployment controlplane
      in addLabelForControlPlane DeploymentObj generatedDeployment)"

definition wantedDataPlaneDeployment :: "DataPlane \<Rightarrow> string \<Rightarrow> Deployment" where
  "wantedDataPlaneDeployment dataplane certSecretName =
     (let generatedDeployment = generateNewDeploymentForDataPlane dataplane certSecretName;
          generatedDeployment = SetOwnerForObject DeploymentObj DataPlaneObj generatedDeployment dataplane
      in addLabelForDataplane DeploymentObj generatedDeployment)"

lemma dep_SetOwner [simp]:
  "dep_Spec (SetOwnerForObject DeploymentObj ko d owner) = dep_Spec d"
  "om_Namespace (dep_Meta (SetOwnerForObject DeploymentObj ko d owner)) = om_Namespace (dep_Meta d)"
  "IsOwnedByRefUID (dep_Meta (SetOwnerForObject DeploymentObj ko d owner)) (om_UID (co_Meta ko owner))"
  using deployment.owned_SetOwner [of ko d owner]
  by (simp_all add: SetOwnerForObject_def Let_def)

lemma owned_setLabel' [simp]: "IsOwnedByRefUID (setLabel key val m) uid = IsOwnedByRefUID m uid"
  by (simp add: IsOwnedByRefUID_def)

lemma wantedControlPlaneDeployment_meta:
  "om_Namespace (dep_Meta (wantedControlPlaneDeployment cp sa cert)) = om_Namespace (cp_Meta cp)"
  "fmlookup (labelMap (om_Labels (dep_Meta (wantedControlPlaneDeployment cp sa cert))))
     GatewayOperatorControlledLabel = Some ControlPlaneManagedLabelValue"
  "IsOwnedByRefUID (dep_Meta (wantedControlPlaneDeployment cp sa cert)) (om_UID (cp_Meta cp))"
  using dep_SetOwner(3) [of ControlPlaneObj _ cp]
  by (simp_all add: wantedControlPlaneDeployment_def addLabelForControlPlane_def Let_def)
    (simp add: generateNewDeploymentForControlPlane_def Let_def)

lemma wantedDataPlaneDeployment_meta:
  "om_Namespace (dep_Meta (wantedDataPlaneDeployment dp cert)) = om_Namespace (dp_Meta dp)"
  "fmlookup (labelMap (om_Labels (dep_Meta (wantedDataPlaneDeployment dp cert))))
     GatewayOperatorControlledLabel = Some DataPlaneManagedLabelValue"
  "IsOwnedByRefUID (dep_Meta (wantedDataPlaneDeployment dp cert)) (om_UID (dp_Meta dp))"
  using dep_SetOwner(3) [of DataPlaneObj _ dp]
  by (simp_all add: wantedDataPlaneDeployment_def addLabelForDataplane_def Let_def)
    (simp add: generateNewDeploymentForDataPlane_def Let_def)

lemma wantedControlPlaneDeployment_spec:
  "envSettled ControlPlaneControllerContainerName (opt_Env (cp_Spec cp)) (opt_EnvFrom (cp_Spec cp))
     (wantedControlPlaneDeployment cp sa cert)"
  "ds_Replicas (dep_Spec (wantedControlPlaneDeployment cp sa cert)) = None"
proof -
  have spec: "dep_Spec (wantedControlPlaneDeployment cp sa cert) =
      dep_Spec (generateNewDeploymentForControlPlane cp sa cert)"
    by (simp add: wantedControlPlaneDeployment_def addLabelForControlPlane_def Let_def)
  show "envSettled ControlPlaneControllerContainerName (opt_Env (cp_Spec cp)) (opt_EnvFrom (cp_Spec cp))
     (wantedControlPlaneDeployment cp sa cert)"
    unfolding envSettled_spec [OF depBody_spec [OF spec]]
    by (simp add: envSettled_def mainContainer_index containersOf_def generateNewDeploymentForControlPlane_def Let_def)
  show "ds_Replicas (dep_Spec (wantedControlPlaneDeployment cp sa cert)) = None"
    by (simp add: spec generateNewDeploymentForControlPlane_def Let_def)
qed

lemma wantedDataPlaneDeployment_spec:
  "envSettled DataPlaneProxyContainerName (opt_Env (dp_Spec dp)) (opt_EnvFrom (dp_Spec dp))
     (wantedDataPlaneDeployment dp cert)"
proof -
  have spec: "dep_Spec (wantedDataPlaneDeployment dp cert) = dep_Spec (generateNewDeploymentForDataPlane dp cert)"
    by (simp add: wantedDataPlaneDeployment_def addLabelForDataplane_def Let_def)
  show ?thesis
    unfolding envSettled_spec [OF depBody_spec [OF spec]]
    by (simp add: envSettled_def mainContainer_index containersOf_def generateNewDeploymentForDataPlane_def Let_def)
qed

lemmas converging_wantedControlPlane = converging_controlplane [OF wantedControlPlaneDeployment_spec]
lemmas converging_wantedDataPlane = converging_dataplane [OF wantedDataPlaneDeployment_spec]

section \<open>Properties\<close>

lemma updateMeta_Inr:
  fixes x g :: Deployment
  shows "EnsureObjectMetaIsUpdated (dep_Meta x) (dep_Meta g) = Inr (b, m) \<Longrightarrow>
    updateMeta DeploymentObj x g = Inr (b, x\<lparr>dep_Meta := m\<rparr>)"
  by (simp add: updateMeta_def)

lemma EnsureObjectMeta_panics:
  "EnsureObjectMetaIsUpdated old gen = Inl e \<Longrightarrow> isPanic e \<and> om_Labels old = None"
  by (auto simp: EnsureObjectMetaIsUpdated_def writeLabels_def Let_def split: if_splits option.splits)

lemma containersOf_meta [simp]:
  "containersOf (x\<lparr>dep_Meta := m\<rparr>) = containersOf x"
  "mainContainer name (x\<lparr>dep_Meta := m\<rparr>) = mainContainer name x"
  by (simp_all add: containersOf_def mainContainer_def)

lemma restored_containers:
  fixes d
  assumes "mainContainer name g \<noteq> None"
  defines "cs \<equiv> (if mainContainer name d = None then containersOf g else containersOf d)"
  obtains i b1 where "restoreContainer name g (b, d) = ((b1, setContainers cs d), Some i)"
    "containerIndex cs name 0 = Some i" "i < length cs" "mainContainer name (setContainers cs d) = Some i"
proof -
  obtain st i where r: "restoreContainer name g (b, d) = (st, Some i)" "mainContainer name (snd st) = Some i"
    using restoreContainer_step [OF assms(1)] by metis
  note w = restoreContainer_writes [OF r(1), folded cs_def]
  have "i < length cs" using mainContainer_less [OF r(2)] by (simp add: w(1))
  with that [of "fst st" i] r w show ?thesis by (metis prod.collapse)
qed

lemma updateDataPlaneDeployment_writes:
  fixes x g :: Deployment
  assumes m: "EnsureObjectMetaIsUpdated (dep_Meta x) (dep_Meta g) = Inr (b, m)"
    and run: "updateDataPlaneDeployment spec x g = Inr (b1, y)"
    and g: "mainContainer DataPlaneProxyContainerName g \<noteq> None"
  defines "cs \<equiv> (if mainContainer DataPlaneProxyContainerName x = None then containersOf g else containersOf x)"
  obtains i where "containerIndex cs DataPlaneProxyContainerName 0 = Some i"
    "y = withContainerEnv cs i (opt_Env spec) (opt_EnvFrom spec) (x\<lparr>dep_Meta := m\<rparr>)"
proof -
  let ?d = "x\<lparr>dep_Meta := m\<rparr>"
  obtain i b1 where r: "restoreContainer DataPlaneProxyContainerName g (b, ?d) = ((b1, setContainers cs ?d), Some i)"
    "containerIndex cs DataPlaneProxyContainerName 0 = Some i" "i < length cs"
    using restored_containers [OF g, where d = ?d and b = b] unfolding cs_def containersOf_meta by blast
  have "snd (purgeEnv i env ef (b1, setContainers cs ?d)) = withContainerEnv cs i env ef ?d" for env ef
    using purgeEnv_writes [of i "setContainers cs ?d"] r(3) by (simp add: withContainerEnv_def)
  then have "updateDataPlaneDeployment spec x g =
      Inr (fst (purgeEnv i (opt_Env spec) (opt_EnvFrom spec) (b1, setContainers cs ?d)),
           withContainerEnv cs i (opt_Env spec) (opt_EnvFrom spec) ?d)"
    by (simp add: updateDataPlaneDeployment_def updateMeta_Inr [OF m] r(1)) (metis prod.collapse)
  with that [OF r(2)] run show ?thesis by simp
qed

lemma updateControlPlaneDeployment_writes:
  fixes x g :: Deployment
  assumes m: "EnsureObjectMetaIsUpdated (dep_Meta x) (dep_Meta g) = Inr (b, m)"
    and run: "updateControlPlaneDeployment spec x g = Inr (b1, y)"
    and g: "mainContainer ControlPlaneControllerContainerName g \<noteq> None"
  defines "cs \<equiv> (if mainContainer ControlPlaneControllerContainerName x = None then containersOf g
                  else containersOf x)"
  obtains i where "containerIndex cs ControlPlaneControllerContainerName 0 = Some i"
    "y = setReplicas (scaledReplicas (dataPlaneIsSet spec) (ds_Replicas (dep_Spec x)))
       (withContainerEnv cs i (opt_Env spec) (opt_EnvFrom spec) (x\<lparr>dep_Meta := m\<rparr>))"
proof -
  let ?d = "x\<lparr>dep_Meta := m\<rparr>"
  obtain i b1 where r: "restoreContainer ControlPlaneControllerContainerName g (b, ?d) = ((b1, setContainers cs ?d), Some i)"
    "containerIndex cs ControlPlaneControllerContainerName 0 = Some i" "i < length cs"
    "mainContainer ControlPlaneControllerContainerName (setContainers cs ?d) = Some i"
    using restored_containers [OF g, where d = ?d and b = b] unfolding cs_def containersOf_meta by blast
  obtain b2 d2 where sc: "scale (dataPlaneIsSet spec) (opt_Env spec) i (b1, setContainers cs ?d) = (b2, d2)"
    by fastforce
  have "i < length (containersOf d2)"
    using mainContainer_less [OF scale_step(3) [OF r(4)], of "dataPlaneIsSet spec" "opt_Env spec" b1]
    by (simp add: sc)
  note pu = purgeEnv_writes [OF this, of "opt_Env spec" "opt_EnvFrom spec" b2]
  have "withContainerEnv (containersOf d2) i (opt_Env spec) (opt_EnvFrom spec) d2 =
      setReplicas (scaledReplicas (dataPlaneIsSet spec) (ds_Replicas (dep_Spec x)))
        (withContainerEnv cs i (opt_Env spec) (opt_EnvFrom spec) ?d)"
    using scale_writes [of i "setContainers cs ?d" "dataPlaneIsSet spec" "opt_Env spec" b1 "opt_EnvFrom spec"] r(3)
    by (simp add: sc withContainerEnv_def)
  then have "updateControlPlaneDeployment spec x g =
      Inr (fst (purgeEnv i (opt_Env spec) (opt_EnvFrom spec) (b2, d2)),
           setReplicas (scaledReplicas (dataPlaneIsSet spec) (ds_Replicas (dep_Spec x)))
             (withContainerEnv cs i (opt_Env spec) (opt_EnvFrom spec) ?d))"
    by (simp add: updateControlPlaneDeployment_def updateMeta_Inr [OF m] r(1) sc) (metis pu prod.collapse)
  with that [OF r(2)] run show ?thesis by simp
qed

text \<open>C26. An existing deployment of a control plane is brought up to date completely. Either it has
  no label map and the write into it panics, or the result is the existing deployment with the
  updated metadata, with the generated containers if the controller container is missing and its
  own otherwise, with the environment of the specification in the controller container, and
  scaled: to zero without a data plane, and back to the default from zero with one. Everything
  else is as before, the flag is raised exactly when something changed, and a second update
  changes nothing.\<close>

theorem updateControlPlaneDeployment_correct:
  "let g = wantedControlPlaneDeployment cp serviceAccountName certSecretName;
       spec = cp_Spec cp;
       cs = (if mainContainer ''controller'' x = None then containersOf g else containersOf x);
       on = dataPlaneIsSet spec
   in case updateControlPlaneDeployment spec x g of
        Inl e \<Rightarrow> isPanic e \<and> om_Labels (dep_Meta x) = None
      | Inr (changed, y) \<Rightarrow>
          (\<exists>b m i. EnsureObjectMetaIsUpdated (dep_Meta x) (dep_Meta g) = Inr (b, m) \<and>
             containerIndex cs ''controller'' 0 = Some i \<and>
             y = setReplicas (if \<not> on then Some 0 else if ds_Replicas (dep_Spec x) = Some 0 then None
                              else ds_Replicas (dep_Spec x))
                   (setContainers (cs[i := (cs ! i)\<lparr>ct_Env := opt_Env spec, ct_EnvFrom := opt_EnvFrom spec\<rparr>])
                      (x\<lparr>dep_Meta := m\<rparr>))) \<and>
          (changed \<longleftrightarrow> y \<noteq> x) \<and>
          updateControlPlaneDeployment spec y g = Inr (False, y)"
proof -
  let ?g = "wantedControlPlaneDeployment cp serviceAccountName certSecretName"
  let ?u = "updateControlPlaneDeployment (cp_Spec cp)"
  have g: "mainContainer ''controller'' ?g \<noteq> None"
    using wantedControlPlaneDeployment_spec(1) [of cp serviceAccountName certSecretName]
    by (auto simp: envSettled_def ControlPlaneControllerContainerName_def split: option.splits)
  show ?thesis
  proof (cases "EnsureObjectMetaIsUpdated (dep_Meta x) (dep_Meta ?g)")
    case (Inl e)
    then show ?thesis
      using EnsureObjectMeta_total [of "dep_Meta x" "dep_Meta ?g"] EnsureObjectMeta_panics [OF Inl]
      by (auto simp: updateControlPlaneDeployment_def updateMeta_Inl Let_def)
  next
    case (Inr p)
    then obtain b m where m: "EnsureObjectMetaIsUpdated (dep_Meta x) (dep_Meta ?g) = Inr (b, m)"
      by (cases p) simp
    obtain b1 y where run: "?u x ?g = Inr (b1, y)" "conservative (b, x\<lparr>dep_Meta := m\<rparr>) (b1, y)"
      "envSettled ControlPlaneControllerContainerName (opt_Env (cp_Spec cp)) (opt_EnvFrom (cp_Spec cp)) y"
      "scaleSettled (dataPlaneIsSet (cp_Spec cp)) y"
      using updateControlPlaneDeployment_run [OF m] g
      unfolding ControlPlaneControllerContainerName_def by blast
    note mw = meta_written [OF m run(2)]
    have s: "settled ?u ?g y" using settled_controlplane [OF mw(3) run(3,4)] .
    have "b1 \<longleftrightarrow> y \<noteq> x" using settled_reports_change [OF run(1) mw(2) s] .
    moreover obtain i where
      "containerIndex (if mainContainer ''controller'' x = None then containersOf ?g else containersOf x)
         ''controller'' 0 = Some i"
      "y = setReplicas (scaledReplicas (dataPlaneIsSet (cp_Spec cp)) (ds_Replicas (dep_Spec x)))
         (withContainerEnv (if mainContainer ''controller'' x = None then containersOf ?g else containersOf x)
            i (opt_Env (cp_Spec cp)) (opt_EnvFrom (cp_Spec cp)) (x\<lparr>dep_Meta := m\<rparr>))"
      using updateControlPlaneDeployment_writes [OF m run(1)] g
      unfolding ControlPlaneControllerContainerName_def by blast
    ultimately show ?thesis
      using s m unfolding Let_def run(1) sum.case prod.case withContainerEnv_def scaledReplicas_def settled_def
      by blast
  qed
qed

text \<open>An existing deployment of a data plane is brought up to date in the same way: its metadata, its
  containers if the proxy container is missing, and the environment of the proxy container;
  everything else, the number of replicas included, is as before.\<close>

lemma updateDataPlaneDeployment_correct:
  "let g = wantedDataPlaneDeployment dp certSecretName;
       spec = dp_Spec dp;
       cs = (if mainContainer ''proxy'' x = None then containersOf g else containersOf x)
   in case updateDataPlaneDeployment spec x g of
        Inl e \<Rightarrow> isPanic e \<and> om_Labels (dep_Meta x) = None
      | Inr (changed, y) \<Rightarrow>
          (\<exists>b m i. EnsureObjectMetaIsUpdated (dep_Meta x) (dep_Meta g) = Inr (b, m) \<and>
             containerIndex cs ''proxy'' 0 = Some i \<and>
             y = setContainers (cs[i := (cs ! i)\<lparr>ct_Env := opt_Env spec, ct_EnvFrom := opt_EnvFrom spec\<rparr>])
                   (x\<lparr>dep_Meta := m\<rparr>)) \<and>
          (changed \<longleftrightarrow> y \<noteq> x) \<and>
          updateDataPlaneDeployment spec y g = Inr (False, y)"
proof -
  let ?g = "wantedDataPlaneDeployment dp certSecretName"
  let ?u = "updateDataPlaneDeployment (dp_Spec dp)"
  have g: "mainContainer ''proxy'' ?g \<noteq> None"
    using wantedDataPlaneDeployment_spec [of dp certSecretName]
    by (auto simp: envSettled_def DataPlaneProxyContainerName_def split: option.splits)
  show ?thesis
  proof (cases "EnsureObjectMetaIsUpdated (dep_Meta x) (dep_Meta ?g)")
    case (Inl e)
    then show ?thesis
      using EnsureObjectMeta_total [of "dep_Meta x" "dep_Meta ?g"] EnsureObjectMeta_panics [OF Inl]
      by (auto simp: updateDataPlaneDeployment_def updateMeta_Inl Let_def)
  next
    case (Inr p)
    then obtain b m where m: "EnsureObjectMetaIsUpdated (dep_Meta x) (dep_Meta ?g) = Inr (b, m)"
      by (cases p) simp
    obtain b1 y where run: "?u x ?g = Inr (b1, y)" "conservative (b, x\<lparr>dep_Meta := m\<rparr>) (b1, y)"
      "envSettled DataPlaneProxyContainerName (opt_Env (dp_Spec dp)) (opt_EnvFrom (dp_Spec dp)) y"
      using updateDataPlaneDeployment_run [OF m] g
      unfolding DataPlaneProxyContainerName_def by blast
    note mw = meta_written [OF m run(2)]
    have s: "settled ?u ?g y" using settled_dataplane [OF mw(3) run(3)] .
    have "b1 \<longleftrightarrow> y \<noteq> x" using settled_reports_change [OF run(1) mw(2) s] .
    moreover obtain i where
      "containerIndex (if mainContainer ''proxy'' x = None then containersOf ?g else containersOf x)
         ''proxy'' 0 = Some i"
      "y = withContainerEnv (if mainContainer ''proxy'' x = None then containersOf ?g else containersOf x)
            i (opt_Env (dp_Spec dp)) (opt_EnvFrom (dp_Spec dp)) (x\<lparr>dep_Meta := m\<rparr>)"
      using updateDataPlaneDeployment_writes [OF m run(1)] g
      unfolding DataPlaneProxyContainerName_def by blast
    ultimately show ?thesis
      using s m unfolding Let_def run(1) sum.case prod.case withContainerEnv_def settled_def
      by blast
  qed
qed

section \<open>What modelling showed\<close>

text \<open>
  A new image or version in the specification does not reach a deployment that exists: its
  images are kept, whatever the generated deployment has.
\<close>

lemma images_withContainerEnv:
  "i < length cs \<Longrightarrow> map ct_Image (containersOf (withContainerEnv cs i env ef d)) = map ct_Image cs"
  by (simp add: withContainerEnv_def map_update) (metis list_update_id map_update nth_map)

lemma update_keeps_images:
  fixes x g :: Deployment
  assumes "updateControlPlaneDeployment spec x g = Inr (b, y)"
    and x: "mainContainer ControlPlaneControllerContainerName x \<noteq> None"
    and g: "mainContainer ControlPlaneControllerContainerName g \<noteq> None"
  shows "map ct_Image (containersOf y) = map ct_Image (containersOf x)"
proof (cases "EnsureObjectMetaIsUpdated (dep_Meta x) (dep_Meta g)")
  case (Inl e)
  then show ?thesis using assms(1) by (simp add: updateControlPlaneDeployment_def updateMeta_Inl)
next
  case (Inr p)
  then obtain b1 m where m: "EnsureObjectMetaIsUpdated (dep_Meta x) (dep_Meta g) = Inr (b1, m)"
    by (cases p) simp
  obtain i where i: "containerIndex (containersOf x) ControlPlaneControllerContainerName 0 = Some i"
    "y = setReplicas (scaledReplicas (dataPlaneIsSet spec) (ds_Replicas (dep_Spec x)))
       (withContainerEnv (containersOf x) i (opt_Env spec) (opt_EnvFrom spec) (x\<lparr>dep_Meta := m\<rparr>))"
    using updateControlPlaneDeployment_writes [OF m assms(1) g] x by (auto split: if_splits)
  have "i < length (containersOf x)"
    using mainContainer_less [of ControlPlaneControllerContainerName x i] i(1) by (simp add: mainContainer_index)
  then show ?thesis by (simp add: i(2) images_withContainerEnv)
qed

end
