(* ===== verification/Certs.thy ===== *)
theory Certs
  imports Ownership Resources GatewayUtils Watch
begin

text \<open>
  Certificates and the metadata that depends on the kind of the owner (\<open>controllers/utils.go\<close>).
  Keys, PEM, X.509 and the cfssl signer are not code of the repository: they are the functions
  of the record \<open>Crypto\<close>; what a random source yields is part of its values.
\<close>

section \<open>Owners\<close>

text \<open>The owner is a \<open>client.Object\<close> that the code switches on the type of.\<close>

datatype Owner =
    OwnerControlPlane ControlPlane
  | OwnerDataPlane DataPlane
  | OwnerOther GVK ObjectMeta

fun ownerMeta :: "Owner \<Rightarrow> ObjectMeta" where
  "ownerMeta (OwnerControlPlane cp) = cp_Meta cp"
| "ownerMeta (OwnerDataPlane dp) = dp_Meta dp"
| "ownerMeta (OwnerOther g m) = m"

fun setOwnerMeta :: "ObjectMeta \<Rightarrow> Owner \<Rightarrow> Owner" where
  "setOwnerMeta m (OwnerControlPlane cp) = OwnerControlPlane (cp\<lparr>cp_Meta := m\<rparr>)"
| "setOwnerMeta m (OwnerDataPlane dp) = OwnerDataPlane (dp\<lparr>dp_Meta := m\<rparr>)"
| "setOwnerMeta m (OwnerOther g _) = OwnerOther g m"

fun ownerGVK :: "Owner \<Rightarrow> GVK" where
  "ownerGVK (OwnerControlPlane cp) = cp_TypeMeta cp"
| "ownerGVK (OwnerDataPlane dp) = dp_TypeMeta dp"
| "ownerGVK (OwnerOther g m) = g"

definition OwnerObj :: "Owner client_object" where
  "OwnerObj = \<lparr>co_Meta = ownerMeta, co_SetMeta = setOwnerMeta, co_GVK = ownerGVK\<rparr>"

lemma OwnerObj_sel [simp]: "co_Meta OwnerObj = ownerMeta" "co_SetMeta OwnerObj = setOwnerMeta"
  by (simp_all add: OwnerObj_def)

interpretation owner: object_kind OwnerObj
proof
  fix m m' x
  show "co_Meta OwnerObj (co_SetMeta OwnerObj m x) = m" by (cases x) simp_all
  show "co_SetMeta OwnerObj m (co_SetMeta OwnerObj m' x) = co_SetMeta OwnerObj m x" by (cases x) simp_all
  show "co_SetMeta OwnerObj (co_Meta OwnerObj x) x = x" by (cases x) simp_all
qed

fun getPrefixForOwner :: "Owner \<Rightarrow> string" where
  "getPrefixForOwner (OwnerControlPlane _) = ControlPlanePrefix"
| "getPrefixForOwner (OwnerDataPlane _) = DataPlanePrefix"
| "getPrefixForOwner (OwnerOther _ _) = ''''"

fun getManagedLabelForOwner :: "Owner \<Rightarrow> string \<times> string" where
  "getManagedLabelForOwner (OwnerControlPlane _) =
     (GatewayOperatorControlledLabel, ControlPlaneManagedLabelValue)"
| "getManagedLabelForOwner (OwnerDataPlane _) =
     (GatewayOperatorControlledLabel, DataPlaneManagedLabelValue)"
| "getManagedLabelForOwner (OwnerOther _ _) = ('''', '''')"

text \<open>The call for control planes is commented out in the source.\<close>

fun addLabelForOwner :: "'o client_object \<Rightarrow> 'o \<Rightarrow> Owner \<Rightarrow> 'o" where
  "addLabelForOwner k obj (OwnerControlPlane _) = obj"
| "addLabelForOwner k obj (OwnerDataPlane _) = addLabelForDataplane k obj"
| "addLabelForOwner k obj (OwnerOther _ _) = obj"

section \<open>Signing\<close>

record SigningPolicy =
  pol_Usage :: "string list"
  pol_Expiry :: int
  pol_ExpiryString :: string

record CSRSpec =
  csr_Request :: string
  csr_SignerName :: string
  csr_ExpirationSeconds :: "int option"
  csr_Usages :: "string list"

record CertificateSigningRequest =
  csr_Namespace :: string
  csr_Name :: string
  csr_Spec :: CSRSpec

record CertificateRequest =
  crt_CommonName :: string
  crt_Organization :: "string list"
  crt_Country :: "string list"
  crt_SignatureAlgorithm :: string
  crt_DNSNames :: "string list"

record ('key, 'cert, 'signer) Crypto =
  cy_PemDecode :: "string \<Rightarrow> string option" \<comment> \<open>the bytes of the first block\<close>
  cy_PemEncode :: "string \<Rightarrow> string \<Rightarrow> string" \<comment> \<open>type, bytes\<close>
  cy_ParseECPrivateKey :: "string \<Rightarrow> go_error + 'key"
  cy_MarshalECPrivateKey :: "'key \<Rightarrow> go_error + string"
  cy_ParseCertificate :: "string \<Rightarrow> go_error + 'cert"
  cy_NotAfter :: "'cert \<Rightarrow> time"
  cy_NewSigner :: "'key \<Rightarrow> 'cert \<Rightarrow> string \<Rightarrow> SigningPolicy \<Rightarrow> go_error + 'signer"
  cy_Sign :: "'signer \<Rightarrow> string \<Rightarrow> go_error + string"
  cy_GenerateKey :: "go_error + 'key"
  cy_CreateCertificateRequest :: "CertificateRequest \<Rightarrow> 'key \<Rightarrow> go_error + string"
  cy_DurationString :: "int \<Rightarrow> string"
  cy_TimeString :: "time \<Rightarrow> string"

definition bindE :: "go_error + 'a \<Rightarrow> ('a \<Rightarrow> go_error + 'b) \<Rightarrow> go_error + 'b" where
  "bindE m f = (case m of Inl e \<Rightarrow> Inl e | Inr x \<Rightarrow> f x)"

text \<open>A \<open>time.Duration\<close> is a 64-bit number of nanoseconds; \<open>Time.Sub\<close> saturates.\<close>

definition maxDuration :: int where "maxDuration = 9223372036854775807"
definition minDuration :: int where "minDuration = - 9223372036854775808"
definition second :: int where "second = 1000000000"

definition timeSub :: "time \<Rightarrow> time \<Rightarrow> int" where
  "timeSub t u = max minDuration (min maxDuration (t - u))"

definition secretKey :: "Secret \<Rightarrow> string \<Rightarrow> string" where
  "secretKey s key = (case sec_Data s of None \<Rightarrow> '''' | Some dat \<Rightarrow>
     (case fmlookup dat key of None \<Rightarrow> '''' | Some val \<Rightarrow> val))"

definition nilDereference :: go_error where
  "nilDereference = Panic ''invalid memory address or nil pointer dereference''"

text \<open>\<open>block.Bytes\<close> of the pointer that \<open>pem.Decode\<close> returns.\<close>

definition blockBytes :: "string option \<Rightarrow> go_error + string" where
  "blockBytes block = (case block of None \<Rightarrow> Inl nilDereference | Some bytes \<Rightarrow> Inr bytes)"

definition signCertificate ::
  "('key, 'cert, 'signer) Crypto \<Rightarrow> time \<Rightarrow> CertificateSigningRequest \<Rightarrow> Secret \<Rightarrow> go_error + string" where
  "signCertificate cy now csr ca =
     (let caKeyBlock = cy_PemDecode cy (secretKey ca ''tls.key'');
          caCertBlock = cy_PemDecode cy (secretKey ca ''tls.crt'')
      in bindE (bindE (blockBytes caKeyBlock) (cy_ParseECPrivateKey cy)) (\<lambda>priv.
         bindE (bindE (blockBytes caCertBlock) (cy_ParseCertificate cy)) (\<lambda>caCert.
         case csr_ExpirationSeconds (csr_Spec csr) of
           None \<Rightarrow> Inl nilDereference
         | Some expirationSeconds \<Rightarrow>
             (let usages = csr_Usages (csr_Spec csr);
                  certExpiryDuration = second * expirationSeconds;
                  durationUntilExpiry = timeSub (cy_NotAfter cy caCert) now
              in if durationUntilExpiry \<le> 0 then
                   Inl (Errorf (''the signer has expired: '' @ cy_TimeString cy (cy_NotAfter cy caCert)))
                 else
                   (let certExpiryDuration = (if durationUntilExpiry < certExpiryDuration
                                              then durationUntilExpiry else certExpiryDuration);
                        policy = \<lparr>pol_Usage = usages, pol_Expiry = certExpiryDuration,
                                  pol_ExpiryString = cy_DurationString cy certExpiryDuration\<rparr>
                    in bindE (cy_NewSigner cy priv caCert ''ECDSA-SHA256'' policy) (\<lambda>cfs.
                       cy_Sign cy cfs (csr_Request (csr_Spec csr))))))))"

section \<open>The certificate secret\<close>

definition certificateRequest :: "string \<Rightarrow> CertificateRequest" where
  "certificateRequest subject =
     \<lparr>crt_CommonName = subject, crt_Organization = [''Apisix, Inc.''], crt_Country = [''US''],
      crt_SignatureAlgorithm = ''ECDSA-SHA256'', crt_DNSNames = [subject]\<rparr>"

definition certificateSigningRequest ::
  "('key, 'cert, 'signer) Crypto \<Rightarrow> Owner \<Rightarrow> string list \<Rightarrow> string \<Rightarrow> CertificateSigningRequest" where
  "certificateSigningRequest cy owner usages der =
     \<lparr>csr_Namespace = om_Namespace (ownerMeta owner), csr_Name = om_Name (ownerMeta owner),
      csr_Spec = \<lparr>csr_Request = cy_PemEncode cy ''CERTIFICATE REQUEST'' der,
        csr_SignerName = ''apisix-operator.apisix.apache.org/mtls'',
        csr_ExpirationSeconds = Some 315400000, csr_Usages = usages\<rparr>\<rparr>"

definition generateCertificateSecret :: "Owner \<Rightarrow> Secret" where
  "generateCertificateSecret owner =
     (let ownerPrefix = getPrefixForOwner owner;
          generatedSecret = GenerateNewTLSSecret (om_Namespace (ownerMeta owner))
            (om_Name (ownerMeta owner)) ownerPrefix;
          generatedSecret = SetOwnerForObject SecretObj OwnerObj generatedSecret owner
      in addLabelForOwner SecretObj generatedSecret owner)"

definition createCertificateSecret ::
  "('key, 'cert, 'signer) Crypto \<Rightarrow> time \<Rightarrow> Owner \<Rightarrow> string \<Rightarrow> string \<Rightarrow> string \<Rightarrow> string list
    \<Rightarrow> 'w Client \<Rightarrow> Secret \<Rightarrow> (bool \<times> Secret, 'w) action" where
  "createCertificateSecret cy now owner subject mtlsCASecretName mtlsCASecretNamespace usages c generatedSecret =
     bindA (liftE (cy_GenerateKey cy)) (\<lambda>priv.
     bindA (liftE (cy_CreateCertificateRequest cy (certificateRequest subject) priv)) (\<lambda>der.
     bindA (cl_Get (cl_Secrets c) mtlsCASecretNamespace mtlsCASecretName) (\<lambda>ca.
     bindA (liftE (signCertificate cy now (certificateSigningRequest cy owner usages der) ca)) (\<lambda>signed.
     bindA (liftE (cy_MarshalECPrivateKey cy priv)) (\<lambda>privDer.
     createOwned (cl_Secrets c)
       (generatedSecret\<lparr>sec_StringData := Some (fmap_of_list
          [(''ca.crt'', secretKey ca ''tls.crt''), (''tls.crt'', signed),
           (''tls.key'', cy_PemEncode cy ''EC PRIVATE KEY'' privDer)])\<rparr>))))))"

definition maybeCreateCertificateSecret ::
  "('key, 'cert, 'signer) Crypto \<Rightarrow> time \<Rightarrow> Owner \<Rightarrow> string \<Rightarrow> string \<Rightarrow> string \<Rightarrow> string list
    \<Rightarrow> 'w Client \<Rightarrow> (bool \<times> Secret, 'w) action" where
  "maybeCreateCertificateSecret cy now owner subject mtlsCASecretName mtlsCASecretNamespace usages c =
     (let (selectorKey, selectorValue) = getManagedLabelForOwner owner
      in ensureOwned (cl_Secrets c)
           (ListSecretsForOwner c selectorKey selectorValue (om_UID (ownerMeta owner)))
           (\<lambda>count. ''found '' @ count @
              '' mTLS secrets for DataPlane currently unsupported: expected 1 or less'')
           (Inr (generateCertificateSecret owner)) (updateMeta SecretObj)
           (createCertificateSecret cy now owner subject mtlsCASecretName mtlsCASecretNamespace usages c))"

section \<open>Lemmas\<close>

lemma bindE_Inr: "bindE m f = Inr y \<longleftrightarrow> (\<exists>x. m = Inr x \<and> f x = Inr y)"
  by (auto simp: bindE_def split: sum.splits)

lemma timeSub_le: "0 < timeSub t u \<Longrightarrow> timeSub t u \<le> t - u"
  by (auto simp: timeSub_def maxDuration_def minDuration_def split: if_splits)

lemma sec_SetOwner:
  "sec_Type (SetOwnerForObject SecretObj OwnerObj s owner) = sec_Type s"
  "om_Namespace (sec_Meta (SetOwnerForObject SecretObj OwnerObj s owner)) = om_Namespace (sec_Meta s)"
  "IsOwnedByRefUID (sec_Meta (SetOwnerForObject SecretObj OwnerObj s owner)) (om_UID (ownerMeta owner))"
  "om_Labels (sec_Meta (SetOwnerForObject SecretObj OwnerObj s owner)) = om_Labels (sec_Meta s)"
  using secret.owned_SetOwner [of OwnerObj s owner] secret.labels_SetOwner [of OwnerObj s owner]
  by (simp_all add: SetOwnerForObject_def Let_def)

lemma owned_setLabel [simp]: "IsOwnedByRefUID (setLabel key val m) uid = IsOwnedByRefUID m uid"
  by (simp add: IsOwnedByRefUID_def)

lemma sec_addLabelForOwner:
  "sec_Type (addLabelForOwner SecretObj s owner) = sec_Type s"
  "om_Namespace (sec_Meta (addLabelForOwner SecretObj s owner)) = om_Namespace (sec_Meta s)"
  "IsOwnedByRefUID (sec_Meta (addLabelForOwner SecretObj s owner)) uid = IsOwnedByRefUID (sec_Meta s) uid"
  by (cases owner; simp add: addLabelForDataplane_def)+

lemma generateCertificateSecret_simps:
  "sec_Type (generateCertificateSecret owner) = SecretTypeTLS"
  "om_Namespace (sec_Meta (generateCertificateSecret owner)) = om_Namespace (ownerMeta owner)"
  "IsOwnedByRefUID (sec_Meta (generateCertificateSecret owner)) (om_UID (ownerMeta owner))"
  by (simp_all add: generateCertificateSecret_def Let_def sec_SetOwner sec_addLabelForOwner
      GenerateNewTLSSecret_def)

lemma generateCertificateSecret_labels:
  "om_Labels (sec_Meta (generateCertificateSecret (OwnerControlPlane cp))) = None"
  "fmlookup (labelMap (om_Labels (sec_Meta (generateCertificateSecret (OwnerDataPlane dp)))))
     GatewayOperatorControlledLabel = Some DataPlaneManagedLabelValue"
  using sec_SetOwner(4)
  by (simp_all add: generateCertificateSecret_def Let_def addLabelForDataplane_def
      GenerateNewTLSSecret_def emptyMeta_def)

lemma creates_certificate:
  assumes "owned_kind (cl_Secrets c) SecretObj view st_Secrets put sec_Type status"
  shows "owned_kind.creates SecretObj view st_Secrets put sec_Type id (\<lambda>_. True)
    (createCertificateSecret cy now owner subject caName caNamespace usages c)"
proof -
  have "wpA (createCertificateSecret cy now owner subject caName caNamespace usages c g) (\<lambda>r w1. case r of
      Inl e \<Rightarrow> True \<and> view w1 = view w
    | Inr (b, y) \<Rightarrow> b \<and> view w1 = put (st_Secrets (view w) @ [y]) (view w) \<and>
        sameWritten (co_Meta SecretObj g) (co_Meta SecretObj y) \<and> sec_Type y = sec_Type (id g) \<and>
        lookupKey SecretObj (keyOf (co_Meta SecretObj y)) (st_Secrets (view w)) = None \<and>
        om_DeletionTimestamp (co_Meta SecretObj y) = None) w" for g w
    unfolding createCertificateSecret_def wp
  proof (cases "cy_GenerateKey cy", goal_cases)
    case (2 priv)
    show ?case
    proof (cases "cy_CreateCertificateRequest cy (certificateRequest subject) priv")
      case (Inr der)
      show ?thesis
        unfolding 2 Inr sum.case
      proof (rule api_kind.wp_Get [OF owned_kind.axioms(1) [OF assms]], goal_cases)
        case (1 ca w1)
        then show ?case
          by (simp split: sum.split) (auto simp: createOwned_def wp
              intro!: owned_kind.wp_Create [OF assms])
      qed simp
    qed (simp add: 2)
  qed simp
  then show ?thesis by (simp add: owned_kind.creates_def [OF assms])
qed

lemma maybeCreate_as_pattern:
  "maybeCreateCertificateSecret cy now owner subject caName caNamespace usages c =
   ensureOwned (cl_Secrets c)
     (listOwned (cl_Secrets c) SecretObj None (fst (getManagedLabelForOwner owner))
        (snd (getManagedLabelForOwner owner)) (om_UID (ownerMeta owner)))
     (\<lambda>count. ''found '' @ count @ '' mTLS secrets for DataPlane currently unsupported: expected 1 or less'')
     (Inr (generateCertificateSecret owner)) (updateMeta SecretObj)
     (createCertificateSecret cy now owner subject caName caNamespace usages c)"
  by (simp add: maybeCreateCertificateSecret_def list_as_listOwned split_beta Let_def)

definition ownerSecrets :: "Owner \<Rightarrow> Cluster \<Rightarrow> Secret list" where
  "ownerSecrets owner v = ownedObjects SecretObj None (fst (getManagedLabelForOwner owner))
     (snd (getManagedLabelForOwner owner)) (om_UID (ownerMeta owner)) (st_Secrets v)"

lemma maybeCreate_ensured:
  assumes "owned_kind (cl_Secrets c) SecretObj view st_Secrets put sec_Type status"
    and "uniqueKeys SecretObj (st_Secrets (view w))"
    and "maybeCreateCertificateSecret cy now owner subject caName caNamespace usages c w = (Inr p, w1)"
  shows "ensured SecretObj st_Secrets put sec_Type id (updateMeta SecretObj) (ownerSecrets owner (view w))
    (generateCertificateSecret owner) (view w) p (view w1)"
  using wpA_E [OF owned_kind.wp_ensureOwned [OF assms(1,2) owned_kind.converging_updateMeta [OF assms(1)] creates_certificate [OF assms(1)]]
      assms(3) [unfolded maybeCreate_as_pattern]]
  by (auto simp: ownerSecrets_def)

definition exampleCrypto :: "(unit, unit, unit) Crypto" where
  "exampleCrypto = \<lparr>cy_PemDecode = (\<lambda>s. if s = '''' then None else Some s),
     cy_PemEncode = (\<lambda>t bytes. t @ bytes), cy_ParseECPrivateKey = (\<lambda>_. Inr ()),
     cy_MarshalECPrivateKey = (\<lambda>_. Inr ''key''), cy_ParseCertificate = (\<lambda>_. Inr ()),
     cy_NotAfter = (\<lambda>_. 1000), cy_NewSigner = (\<lambda>_ _ _ _. Inr ()), cy_Sign = (\<lambda>_ _. Inr ''signed''),
     cy_GenerateKey = Inr (), cy_CreateCertificateRequest = (\<lambda>_ _. Inr ''der''),
     cy_DurationString = (\<lambda>_. ''''), cy_TimeString = (\<lambda>_. '''')\<rparr>"

definition caSecret :: Secret where
  "caSecret = \<lparr>sec_Meta = emptyMeta\<lparr>om_Namespace := ''kube-system'', om_Name := ''ca''\<rparr>,
     sec_Type = SecretTypeTLS,
     sec_Data = Some (fmupd ''tls.key'' ''k'' (fmupd ''tls.crt'' ''c'' fmempty)), sec_StringData = None\<rparr>"

definition caCluster :: Sim where
  "caCluster = quiet (emptyCluster\<lparr>st_Secrets := [caSecret]\<rparr>)"

definition exampleCertificate :: "Owner \<Rightarrow> (bool \<times> Secret, Sim) action" where
  "exampleCertificate owner =
     maybeCreateCertificateSecret exampleCrypto 0 owner ''s'' ''ca'' ''kube-system'' [] memClient"

lemma caCluster_facts:
  "uniqueKeys SecretObj (st_Secrets (sim_Cluster caCluster))"
  "fst (getManagedLabelForOwner owner) \<noteq> '''' \<Longrightarrow> ownerSecrets owner (sim_Cluster caCluster) = []"
  by (simp_all add: caCluster_def quiet_def uniqueKeys_def ownerSecrets_def ownedObjects_def selects_def
      caSecret_def emptyMeta_def split: prod.splits)

lemma exampleCertificate_runs:
  assumes "fst (getManagedLabelForOwner owner) \<noteq> ''''" and "om_Namespace (ownerMeta owner) = ''default''"
  shows "\<exists>s w1. exampleCertificate owner caCluster = (Inr (True, s), w1)"
proof -
  have "cl_List memSecrets None [getManagedLabelForOwner owner] caCluster = (Inr [], caCluster)"
    using assms(1) by (simp add: caCluster_def quiet_def memSecrets_def memResource_def memList_def
        apiCall_def selects_def caSecret_def emptyMeta_def split: prod.splits)
  then have l: "ListSecretsForOwner memClient (fst (getManagedLabelForOwner owner))
      (snd (getManagedLabelForOwner owner)) uid caCluster = (Inr [], caCluster)" for uid
    by (simp add: ListSecretsForOwner_def action_defs)
  have g: "cl_Get memSecrets ''kube-system'' ''ca'' caCluster = (Inr caSecret, caCluster)"
    by (simp add: caCluster_def quiet_def memSecrets_def memResource_def memGet_def apiCall_def
        lookupKey_def keyOf_def caSecret_def emptyMeta_def)
  have cr: "\<exists>y w1. cl_Create memSecrets x caCluster = (Inr y, w1)"
    if "om_Namespace (sec_Meta x) = ''default''" for x
    using that by (simp add: caCluster_def quiet_def memSecrets_def memResource_def memCreate_def
        apiCall_def lookupKey_def keyOf_def caSecret_def emptyMeta_def Let_def)
  have sign: "signCertificate exampleCrypto 0 (certificateSigningRequest exampleCrypto owner [] der) caSecret =
      Inr ''signed''" for der
    by (simp add: signCertificate_def certificateSigningRequest_def exampleCrypto_def secretKey_def
        caSecret_def bindE_def blockBytes_def timeSub_def maxDuration_def minDuration_def second_def)
  let ?x = "(generateCertificateSecret owner)\<lparr>sec_StringData := Some (fmap_of_list
      [(''ca.crt'', secretKey caSecret ''tls.crt''), (''tls.crt'', ''signed''),
       (''tls.key'', cy_PemEncode exampleCrypto ''EC PRIVATE KEY'' ''key'')])\<rparr>"
  obtain y w1 where "cl_Create memSecrets ?x caCluster = (Inr y, w1)"
    using cr [of ?x] assms(2) generateCertificateSecret_simps(2) by auto
  moreover have "cy_GenerateKey exampleCrypto = Inr ()" "cy_MarshalECPrivateKey exampleCrypto u = Inr ''key''"
    "cy_CreateCertificateRequest exampleCrypto r u = Inr ''der''" for r u
    by (simp_all add: exampleCrypto_def)
  ultimately have "exampleCertificate owner caCluster = (Inr (True, y), w1)"
    by (simp add: exampleCertificate_def maybeCreateCertificateSecret_def ensureOwned_def
        createCertificateSecret_def createOwned_def action_defs l g sign split_beta)
  then show ?thesis by blast
qed

section \<open>Properties\<close>

text \<open>C33. A signed certificate does not outlive its issuer. If \<open>signCertificate\<close> answers a
  certificate, then both PEM blocks of the CA secret were there and parsed, the CA had not
  expired, and what was signed is the request, with the requested usages and a lifetime that is
  at most the requested one and ends no later than the CA's; without the PEM blocks the call
  panics.\<close>

theorem signCertificate_bounded:
  "case signCertificate cy now csr ca of
     Inr pem \<Rightarrow> (\<exists>keyBytes certBytes priv caCert requested expiry signer.
       cy_PemDecode cy (secretKey ca ''tls.key'') = Some keyBytes \<and>
       cy_ParseECPrivateKey cy keyBytes = Inr priv \<and>
       cy_PemDecode cy (secretKey ca ''tls.crt'') = Some certBytes \<and>
       cy_ParseCertificate cy certBytes = Inr caCert \<and>
       csr_ExpirationSeconds (csr_Spec csr) = Some requested \<and>
       now < cy_NotAfter cy caCert \<and>
       expiry \<le> 1000000000 * requested \<and> now + expiry \<le> cy_NotAfter cy caCert \<and>
       cy_NewSigner cy priv caCert ''ECDSA-SHA256'' \<lparr>pol_Usage = csr_Usages (csr_Spec csr),
         pol_Expiry = expiry, pol_ExpiryString = cy_DurationString cy expiry\<rparr> = Inr signer \<and>
       cy_Sign cy signer (csr_Request (csr_Spec csr)) = Inr pem)
   | Inl e \<Rightarrow> (if cy_PemDecode cy (secretKey ca ''tls.key'') = None then e = nilDereference else True)"
proof (cases "signCertificate cy now csr ca")
  case (Inl e)
  then show ?thesis by (auto simp: signCertificate_def bindE_def blockBytes_def Let_def)
next
  case (Inr pem)
  then obtain keyBytes certBytes priv caCert requested where
    parsed: "cy_PemDecode cy (secretKey ca ''tls.key'') = Some keyBytes"
      "cy_ParseECPrivateKey cy keyBytes = Inr priv"
      "cy_PemDecode cy (secretKey ca ''tls.crt'') = Some certBytes"
      "cy_ParseCertificate cy certBytes = Inr caCert"
      "csr_ExpirationSeconds (csr_Spec csr) = Some requested"
    by (auto simp: signCertificate_def bindE_Inr blockBytes_def Let_def split: option.splits)
  let ?left = "timeSub (cy_NotAfter cy caCert) now"
  let ?expiry = "if ?left < second * requested then ?left else second * requested"
  from Inr parsed have left: "0 < ?left"
    by (auto simp: signCertificate_def bindE_def blockBytes_def Let_def split: if_splits)
  with Inr parsed obtain signer where
    "cy_NewSigner cy priv caCert ''ECDSA-SHA256'' \<lparr>pol_Usage = csr_Usages (csr_Spec csr),
         pol_Expiry = ?expiry, pol_ExpiryString = cy_DurationString cy ?expiry\<rparr> = Inr signer"
    "cy_Sign cy signer (csr_Request (csr_Spec csr)) = Inr pem"
    by (auto simp: signCertificate_def bindE_Inr bindE_def [of "Inr _"] blockBytes_def Let_def)
  moreover have "?left \<le> cy_NotAfter cy caCert - now" using left by (rule timeSub_le)
  then have "now < cy_NotAfter cy caCert" "?expiry \<le> 1000000000 * requested"
    "now + ?expiry \<le> cy_NotAfter cy caCert"
    using left by (auto simp: second_def)
  ultimately show ?thesis using parsed Inr by (simp only: sum.case) blast
qed

text \<open>C12. A data plane gets one certificate. Against an API whose reads are up to date, with unique
  names, a call that succeeds leaves the data plane with exactly one secret that is labelled and
  owned, the one it returns, a TLS secret; and the next call on the same objects, whenever it
  comes and whatever the random source yields, changes nothing and returns the same secret,
  unless the API fails.\<close>

theorem dataplane_certificate_once:
  assumes "owned_kind (cl_Secrets c) SecretObj view st_Secrets put sec_Type status"
    and "uniqueKeys SecretObj (st_Secrets (view w))"
    and "ownerSecrets (OwnerDataPlane dp) (view w) = []"
    and "maybeCreateCertificateSecret cy now (OwnerDataPlane dp) subject caName caNamespace usages c w =
      (Inr (changed, s), w1)"
    and "view w2 = view w1"
  shows "changed \<and> sec_Type s = SecretTypeTLS \<and> ownerSecrets (OwnerDataPlane dp) (view w1) = [s] \<and>
    (case maybeCreateCertificateSecret cy2 now2 (OwnerDataPlane dp) subject2 caName2 caNamespace2 usages2 c w2
     of (r, w3) \<Rightarrow> view w3 = view w2 \<and> (case r of Inl e \<Rightarrow> isAPIErr e | Inr p \<Rightarrow> p = (False, s)))"
proof -
  let ?g = "generateCertificateSecret (OwnerDataPlane dp)"
  note ens = maybeCreate_ensured [OF assms(1,2,4)]
  have c: "changed" "om_DeletionTimestamp (sec_Meta s) = None" "sec_Type s = SecretTypeTLS"
    using ens assms(3) generateCertificateSecret_simps(1)
    by (auto simp: ensured_def Let_def split: if_splits)
  have own: "ownerSecrets (OwnerDataPlane dp) (view w1) = [s]" "settled (updateMeta SecretObj) ?g s"
    using owned_kind.ensured_owned [OF assms(1,2) owned_kind.converging_updateMeta [OF assms(1)] ens [unfolded ownerSecrets_def]] c
      generateCertificateSecret_simps(3) [of "OwnerDataPlane dp"] generateCertificateSecret_labels(2)
    by (simp_all add: ownerSecrets_def gone_def)
  have "uniqueKeys SecretObj (st_Secrets (view w2))"
    using owned_kind.uniqueKeys_ensured [OF assms(1,2) ens] assms(5) by simp
  from owned_kind.wp_ensureOwned_again [OF assms(1) this owned_kind.converging_updateMeta [OF assms(1)] creates_certificate [OF assms(1)] own(1) [unfolded ownerSecrets_def, folded assms(5)] own(2)]
  show ?thesis
    using c own(1) assms(5)
    by (simp add: maybeCreate_as_pattern ownerSecrets_def wpA_def)
qed

theorem dataplane_certificate_once_witness:
  "\<exists>s w1. exampleCertificate (OwnerDataPlane (exampleDataPlane ''dp'' ''u2'')) caCluster = (Inr (True, s), w1) \<and>
     sec_Type s = SecretTypeTLS \<and>
     ownerSecrets (OwnerDataPlane (exampleDataPlane ''dp'' ''u2'')) (sim_Cluster w1) = [s] \<and>
     (case exampleCertificate (OwnerDataPlane (exampleDataPlane ''dp'' ''u2'')) w1 of (r, w3) \<Rightarrow>
        sim_Cluster w3 = sim_Cluster w1 \<and> (case r of Inl e \<Rightarrow> isAPIErr e | Inr p \<Rightarrow> p = (False, s)))"
proof -
  let ?o = "OwnerDataPlane (exampleDataPlane ''dp'' ''u2'')"
  have o: "fst (getManagedLabelForOwner ?o) \<noteq> ''''" "om_Namespace (ownerMeta ?o) = ''default''"
    by (simp_all add: GatewayOperatorControlledLabel_def exampleDataPlane_def emptyMeta_def)
  obtain s w1 where run: "exampleCertificate ?o caCluster = (Inr (True, s), w1)"
    using exampleCertificate_runs [OF o] by blast
  with dataplane_certificate_once [where c = memClient and view = sim_Cluster and
      ?cy2.0 = exampleCrypto and ?now2.0 = 0 and ?subject2.0 = "''s''" and ?caName2.0 = "''ca''" and
      ?caNamespace2.0 = "''kube-system''" and ?usages2.0 = "[]", unfolded memClient_sel,
      OF own_sec.owned_kind_axioms caCluster_facts(1) caCluster_facts(2) [OF o(1)]
        run [unfolded exampleCertificate_def] refl]
  show ?thesis unfolding exampleCertificate_def by (intro exI [of _ s] exI [of _ w1]) simp
qed

text \<open>C11. A control plane never gets past its certificate. The secret that is created for a
  control plane is not labelled, so the list by label does not find it: when the control plane
  owns no labelled secret, a call that succeeds has created one more secret, and afterwards the
  control plane still owns none, so every further call creates another.\<close>

theorem controlplane_certificate_never_found:
  assumes "owned_kind (cl_Secrets c) SecretObj view st_Secrets put sec_Type status"
    and "uniqueKeys SecretObj (st_Secrets (view w))"
    and "ownerSecrets (OwnerControlPlane cp) (view w) = []"
    and "maybeCreateCertificateSecret cy now (OwnerControlPlane cp) subject caName caNamespace usages c w =
      (Inr (changed, s), w1)"
  shows "changed \<and> st_Secrets (view w1) = st_Secrets (view w) @ [s] \<and>
    ownerSecrets (OwnerControlPlane cp) (view w1) = [] \<and> uniqueKeys SecretObj (st_Secrets (view w1))"
proof -
  note ens = maybeCreate_ensured [OF assms(1,2,4)]
  note sp = api_kind.sel_put [OF owned_kind.axioms(1) [OF assms(1)]]
  have s: "changed" "view w1 = put (st_Secrets (view w) @ [s]) (view w)"
    "sameWritten (sec_Meta (generateCertificateSecret (OwnerControlPlane cp))) (sec_Meta s)"
    using ens assms(3) by (auto simp: ensured_def Let_def split: if_splits)
  then have "om_Labels (sec_Meta s) = None"
    using generateCertificateSecret_labels(1) by (simp add: sameWritten_def)
  then have "ownerSecrets (OwnerControlPlane cp) (view w1) = []"
    using assms(3) by (simp add: s(2) ownerSecrets_def sp ownedObjects_append)
      (simp add: ownedObjects_def selects_def)
  then show ?thesis
    using s owned_kind.uniqueKeys_ensured [OF assms(1,2) ens] by (simp add: sp)
qed

theorem controlplane_certificate_never_found_witness:
  "\<exists>s w1. exampleCertificate (OwnerControlPlane (exampleControlPlane None)) caCluster = (Inr (True, s), w1) \<and>
     st_Secrets (sim_Cluster w1) = [caSecret, s] \<and>
     ownerSecrets (OwnerControlPlane (exampleControlPlane None)) (sim_Cluster w1) = []"
proof -
  let ?o = "OwnerControlPlane (exampleControlPlane None)"
  have o: "fst (getManagedLabelForOwner ?o) \<noteq> ''''" "om_Namespace (ownerMeta ?o) = ''default''"
    by (simp_all add: GatewayOperatorControlledLabel_def exampleControlPlane_def emptyMeta_def)
  obtain s w1 where run: "exampleCertificate ?o caCluster = (Inr (True, s), w1)"
    using exampleCertificate_runs [OF o] by blast
  have "st_Secrets (sim_Cluster caCluster) = [caSecret]" by (simp add: caCluster_def quiet_def)
  with run controlplane_certificate_never_found [where c = memClient and view = sim_Cluster,
      unfolded memClient_sel, OF own_sec.owned_kind_axioms caCluster_facts(1) caCluster_facts(2) [OF o(1)]
        run [unfolded exampleCertificate_def]]
  show ?thesis by auto
qed

end
