(* ===== verification/DataPlaneController.thy ===== *)
theory DataPlaneController
  imports ClusterApi Workloads Certs
begin

text \<open>
  The data plane controller (\<open>controllers/dataplane_controller.go\<close>,
  \<open>dataplane_controller_reconciler_utils.go\<close>, \<open>dataplane_controller_conditions.go\<close>). The
  methods of the reconciler take the client and, where they read it, the clock; \<open>clk i\<close> is the
  \<open>i\<close>-th time the pass reads it. A method that changes the object it is handed returns it.
\<close>

section \<open>Constants and results\<close>

definition DataPlaneConditionTypeProvisioned :: string where
  "DataPlaneConditionTypeProvisioned = ''Provisioned''"
definition DataPlaneConditionReasonPodsNotReady :: string where
  "DataPlaneConditionReasonPodsNotReady = ''PodsNotReady''"
definition DataPlaneConditionReasonPodsReady :: string where
  "DataPlaneConditionReasonPodsReady = ''PodsReady''"
definition DataPlaneConditionValidationFailed :: string where
  "DataPlaneConditionValidationFailed = ''ValidationFailed''"

record Result =
  rq_Requeue :: bool
  rq_RequeueAfter :: int

definition emptyResult :: Result where
  "emptyResult = \<lparr>rq_Requeue = False, rq_RequeueAfter = 0\<rparr>"

record DataPlaneReconciler =
  dpr_ClusterCASecretName :: string
  dpr_ClusterCASecretNamespace :: string

section \<open>Status management\<close>

definition DataPlane_ensureIsMarkedScheduled :: "time \<Rightarrow> DataPlane \<Rightarrow> bool \<times> DataPlane" where
  "DataPlane_ensureIsMarkedScheduled now dataplane =
     (let (_, present) = GetCondition DataPlaneConditions DataPlaneConditionTypeProvisioned dataplane
      in if \<not> present then
           (let condition = NewCondition DataPlaneConditionTypeProvisioned ConditionFalse
                  DataPlaneConditionReasonPodsNotReady
                  ''DataPlane resource is scheduled for provisioning'' now
            in (True, SetCondition DataPlaneConditions condition dataplane))
         else (False, dataplane))"

definition DataPlane_ensureIsMarkedProvisioned :: "time \<Rightarrow> time \<Rightarrow> DataPlane \<Rightarrow> DataPlane" where
  "DataPlane_ensureIsMarkedProvisioned now now2 dataplane =
     (let condition = NewCondition DataPlaneConditionTypeProvisioned ConditionTrue
            DataPlaneConditionReasonPodsReady ''pods for all Deployments are ready'' now;
          dataplane = SetCondition DataPlaneConditions condition dataplane
      in SetReady DataPlaneConditions now2 dataplane)"

definition ensureDataPlaneServiceStatus ::
  "'w Client \<Rightarrow> DataPlane \<Rightarrow> string \<Rightarrow> (DataPlane, 'w) action" where
  "ensureDataPlaneServiceStatus c dataplane serviceName =
     (let dataplane = dataplane\<lparr>dp_Status := (dp_Status dataplane)\<lparr>dps_Service := serviceName\<rparr>\<rparr>
      in cl_StatusUpdate (cl_DataPlanes c) dataplane)"

definition isSameDataPlaneCondition :: "Condition \<Rightarrow> Condition \<Rightarrow> bool" where
  "isSameDataPlaneCondition condition1 condition2 \<longleftrightarrow>
     c_Type condition1 = c_Type condition2 \<and> c_Status condition1 = c_Status condition2 \<and>
     c_Reason condition1 = c_Reason condition2 \<and> c_Message condition1 = c_Message condition2"

text \<open>The loop over the conditions, with \<open>conditionFound\<close> and \<open>shouldUpdate\<close>.\<close>

fun markLoop :: "Condition \<Rightarrow> Condition list \<Rightarrow> bool \<Rightarrow> bool \<Rightarrow> bool \<times> bool \<times> Condition list" where
  "markLoop notProvisioned [] conditionFound shouldUpdate = (conditionFound, shouldUpdate, [])"
| "markLoop notProvisioned (condition # rest) conditionFound shouldUpdate =
     (if c_Type condition = DataPlaneConditionTypeProvisioned then
        (if \<not> isSameDataPlaneCondition notProvisioned condition then
           (let (f, u, cs) = markLoop notProvisioned rest True True in (f, u, notProvisioned # cs))
         else
           (let (f, u, cs) = markLoop notProvisioned rest True shouldUpdate in (f, u, condition # cs)))
      else (let (f, u, cs) = markLoop notProvisioned rest conditionFound shouldUpdate
            in (f, u, condition # cs)))"

definition markNotProvisioned :: "Condition \<Rightarrow> Condition list \<Rightarrow> bool \<times> Condition list" where
  "markNotProvisioned notProvisioned conditions =
     (let (conditionFound, shouldUpdate, conditions) = markLoop notProvisioned conditions False False
      in if \<not> conditionFound then (True, conditions @ [notProvisioned]) else (shouldUpdate, conditions))"

definition notProvisionedCondition :: "time \<Rightarrow> int \<Rightarrow> string \<Rightarrow> string \<Rightarrow> Condition" where
  "notProvisionedCondition now generation reason message =
     \<lparr>c_Type = DataPlaneConditionTypeProvisioned, c_Status = ConditionFalse,
      c_ObservedGeneration = generation, c_LastTransitionTime = now, c_Reason = reason,
      c_Message = message\<rparr>"

definition ensureDataPlaneIsMarkedNotProvisioned ::
  "'w Client \<Rightarrow> time \<Rightarrow> DataPlane \<Rightarrow> string \<Rightarrow> string \<Rightarrow> (DataPlane, 'w) action" where
  "ensureDataPlaneIsMarkedNotProvisioned c now dataplane reason message =
     (let notProvisioned = notProvisionedCondition now (om_Generation (dp_Meta dataplane)) reason message;
          (shouldUpdate, conditions) = markNotProvisioned notProvisioned
            (GetConditions DataPlaneConditions dataplane);
          dataplane = SetConditions DataPlaneConditions conditions dataplane
      in if shouldUpdate then cl_StatusUpdate (cl_DataPlanes c) dataplane else retA dataplane)"

definition emptyDataPlane :: DataPlane where
  "emptyDataPlane = \<lparr>dp_TypeMeta = typed '''' '''' '''', dp_Meta = emptyMeta,
     dp_Spec = \<lparr>opt_ContainerImage = None, opt_Version = None, opt_Env = None, opt_EnvFrom = None\<rparr>,
     dp_Status = \<lparr>dps_Conditions = [], dps_Service = ''''\<rparr>\<rparr>"

definition DataPlane_updateStatus :: "'w Client \<Rightarrow> DataPlane \<Rightarrow> (unit, 'w) action" where
  "DataPlane_updateStatus c updated =
     bindA (attemptA (cl_Get (cl_DataPlanes c) (om_Namespace (dp_Meta updated)) (om_Name (dp_Meta updated))))
       (\<lambda>r. bindA (case r of
                     Inl err \<Rightarrow> (if \<not> IsNotFound err then failA err else retA emptyDataPlane)
                   | Inr current \<Rightarrow> retA current)
              (\<lambda>current.
                 if NeedsUpdate DataPlaneConditions current updated
                 then bindA (cl_StatusUpdate (cl_DataPlanes c) updated) (\<lambda>_. retA ())
                 else retA ()))"

section \<open>Owned resources\<close>

definition DataPlane_ensureCertificate ::
  "DataPlaneReconciler \<Rightarrow> ('key, 'cert, 'signer) Crypto \<Rightarrow> time \<Rightarrow> 'w Client \<Rightarrow> DataPlane \<Rightarrow> string
    \<Rightarrow> (bool \<times> Secret, 'w) action" where
  "DataPlane_ensureCertificate r cy now c dataplane serviceName =
     maybeCreateCertificateSecret cy now (OwnerDataPlane dataplane)
       (serviceName @ ''.'' @ om_Namespace (dp_Meta dataplane) @ ''.svc'')
       (dpr_ClusterCASecretName r) (dpr_ClusterCASecretNamespace r)
       [''key encipherment'', ''digital signature'', ''server auth''] c"

definition ensureDeploymentForDataPlane ::
  "'w Client \<Rightarrow> DataPlane \<Rightarrow> string \<Rightarrow> (bool \<times> Deployment, 'w) action" where
  "ensureDeploymentForDataPlane c dataplane certSecretName =
     ensureOwned (cl_Deployments c)
       (ListDeploymentsForOwner c GatewayOperatorControlledLabel DataPlaneManagedLabelValue
          (om_Namespace (dp_Meta dataplane)) (om_UID (dp_Meta dataplane)))
       (\<lambda>count. ''found '' @ count @
          '' deployments for DataPlane currently unsupported: expected 1 or less'')
       (Inr (wantedDataPlaneDeployment dataplane certSecretName))
       (updateDataPlaneDeployment (dp_Spec dataplane))
       (createOwned (cl_Deployments c))"

definition wantedService :: "DataPlane \<Rightarrow> Service" where
  "wantedService dataplane =
     (let generatedService = generateNewServiceForDataplane dataplane;
          generatedService = addLabelForDataplane ServiceObj generatedService
      in SetOwnerForObject ServiceObj DataPlaneObj generatedService dataplane)"

definition ensureServiceForDataPlane ::
  "'w Client \<Rightarrow> DataPlane \<Rightarrow> (bool \<times> Service, 'w) action" where
  "ensureServiceForDataPlane c dataplane =
     ensureOwned (cl_Services c)
       (ListServicesForOwner c GatewayOperatorControlledLabel DataPlaneManagedLabelValue
          (om_Namespace (dp_Meta dataplane)) (om_UID (dp_Meta dataplane)))
       (\<lambda>count. ''found '' @ count @
          '' services for DataPlane currently unsupported: expected 1 or less'')
       (Inr (wantedService dataplane)) (updateMeta ServiceObj)
       (createOwned (cl_Services c))"

section \<open>Reconcile\<close>

definition DataPlane_Reconcile ::
  "'w Client \<Rightarrow> (nat \<Rightarrow> time) \<Rightarrow> Request \<Rightarrow> (Result, 'w) action" where
  "DataPlane_Reconcile c clk req =
     bindA (attemptA (cl_Get (cl_DataPlanes c) (rq_Namespace req) (rq_Name req))) (\<lambda>r.
       case r of
         Inl err \<Rightarrow> if IsNotFound err then retA emptyResult else failA err
       | Inr dataplane \<Rightarrow>
           (let dataplane = InitReady DataPlaneConditions (clk 0) dataplane;
                (marked, dataplane) = DataPlane_ensureIsMarkedScheduled (clk 1) dataplane
            in if marked then bindA (DataPlane_updateStatus c dataplane) (\<lambda>_. retA emptyResult)
               else bindA (ensureServiceForDataPlane c dataplane) (\<lambda>(createdOrUpdated, dataplaneService).
                 if createdOrUpdated
                 then bindA (ensureDataPlaneServiceStatus c dataplane
                               (om_Name (svc_Meta dataplaneService))) (\<lambda>_. retA emptyResult)
                 else retA emptyResult)))"

section \<open>The conditions\<close>

lemma markLoop_eq:
  "markLoop np cs f u =
   (f \<or> list_ex (\<lambda>c. c_Type c = DataPlaneConditionTypeProvisioned) cs,
    u \<or> list_ex (\<lambda>c. c_Type c = DataPlaneConditionTypeProvisioned \<and> \<not> isSameDataPlaneCondition np c) cs,
    map (\<lambda>c. if c_Type c = DataPlaneConditionTypeProvisioned \<and> \<not> isSameDataPlaneCondition np c
             then np else c) cs)"
  by (induction np cs f u rule: markLoop.induct) auto

lemma isSame_refl [simp]: "isSameDataPlaneCondition c c"
  by (simp add: isSameDataPlaneCondition_def)

text \<open>Marking a data plane as not provisioned. Afterwards the condition \<open>Provisioned\<close> is there, and
  every condition of this type says what was asked for; the conditions of other types and their
  order are as before; an update is called for exactly when the list changed, and marking again
  changes nothing, so that the transition time of an equal condition is kept.\<close>

lemma markNotProvisioned_correct:
  "let np = notProvisionedCondition now generation reason message;
       mine = filter (\<lambda>c. c_Type c = ''Provisioned'');
       others = filter (\<lambda>c. c_Type c \<noteq> ''Provisioned'');
       (shouldUpdate, cs') = markNotProvisioned np cs
   in mine cs' \<noteq> [] \<and> list_all (isSameDataPlaneCondition np) (mine cs') \<and> others cs' = others cs \<and>
      (shouldUpdate \<longleftrightarrow> cs' \<noteq> cs) \<and> markNotProvisioned np cs' = (False, cs')"
proof -
  let ?np = "notProvisionedCondition now generation reason message"
  have np [simp]: "c_Type ?np = ''Provisioned''"
    by (simp add: notProvisionedCondition_def DataPlaneConditionTypeProvisioned_def)
  let ?f = "\<lambda>c. if c_Type c = ''Provisioned'' \<and> \<not> isSameDataPlaneCondition ?np c then ?np else c"
  have others: "filter (\<lambda>c. c_Type c \<noteq> ''Provisioned'') (map ?f cs) = filter (\<lambda>c. c_Type c \<noteq> ''Provisioned'') cs"
    by (induction cs) auto
  have mine: "list_all (isSameDataPlaneCondition ?np) (filter (\<lambda>c. c_Type c = ''Provisioned'') (map ?f cs))"
    by (induction cs) auto
  have idem: "map ?f (map ?f cs) = map ?f cs" by simp
  have change: "map ?f cs \<noteq> cs \<longleftrightarrow>
      list_ex (\<lambda>c. c_Type c = ''Provisioned'' \<and> \<not> isSameDataPlaneCondition ?np c) cs"
    by (induction cs) auto
  have absent: "map ?f cs = cs \<and> filter (\<lambda>c. c_Type c = ''Provisioned'') cs = []"
    if "\<not> list_ex (\<lambda>c. c_Type c = ''Provisioned'') cs"
    using that by (auto simp: list_ex_iff intro!: map_idI simp: filter_empty_conv)
  have type: "list_ex (\<lambda>c. c_Type c = ''Provisioned'') (map ?f cs) = list_ex (\<lambda>c. c_Type c = ''Provisioned'') cs"
    by (induction cs) auto
  have settled: "\<not> list_ex (\<lambda>c. c_Type c = ''Provisioned'' \<and> \<not> isSameDataPlaneCondition ?np c) (map ?f cs)"
    by (induction cs) auto
  show ?thesis
  proof (cases "list_ex (\<lambda>c. c_Type c = ''Provisioned'') cs")
    case True
    then have "filter (\<lambda>c. c_Type c = ''Provisioned'') (map ?f cs) \<noteq> []"
      using type by (auto simp: list_ex_iff filter_empty_conv)
    moreover have "markNotProvisioned ?np cs = (map ?f cs \<noteq> cs, map ?f cs)"
      using True by (simp add: markNotProvisioned_def markLoop_eq DataPlaneConditionTypeProvisioned_def change)
    moreover have "markNotProvisioned ?np (map ?f cs) = (False, map ?f cs)"
      using True type settled idem
      by (simp only: markNotProvisioned_def markLoop_eq DataPlaneConditionTypeProvisioned_def) simp
    ultimately show ?thesis using mine others by (simp add: Let_def)
  next
    case False
    have "markNotProvisioned ?np cs = (True, cs @ [?np])"
      using False absent by (simp add: markNotProvisioned_def markLoop_eq DataPlaneConditionTypeProvisioned_def)
    moreover have "markNotProvisioned ?np (cs @ [?np]) = (False, cs @ [?np])"
      using absent [OF False] False
      by (auto simp: markNotProvisioned_def markLoop_eq DataPlaneConditionTypeProvisioned_def list_ex_iff)
    ultimately show ?thesis using absent [OF False] by (simp add: Let_def)
  qed
qed

section \<open>What the controller wants\<close>

lemma wantedService_meta:
  "om_Namespace (svc_Meta (wantedService dp)) = om_Namespace (dp_Meta dp)"
  "fmlookup (labelMap (om_Labels (svc_Meta (wantedService dp)))) GatewayOperatorControlledLabel =
     Some DataPlaneManagedLabelValue"
  "IsOwnedByRefUID (svc_Meta (wantedService dp)) (om_UID (dp_Meta dp))"
proof -
  let ?s = "addLabelForDataplane ServiceObj (generateNewServiceForDataplane dp)"
  show "IsOwnedByRefUID (svc_Meta (wantedService dp)) (om_UID (dp_Meta dp))"
    using service.owned_SetOwner [of DataPlaneObj ?s dp] by (simp add: wantedService_def Let_def)
  show "fmlookup (labelMap (om_Labels (svc_Meta (wantedService dp)))) GatewayOperatorControlledLabel =
     Some DataPlaneManagedLabelValue"
    using service.labels_SetOwner [of DataPlaneObj ?s dp]
    by (simp add: wantedService_def Let_def addLabelForDataplane_def)
  show "om_Namespace (svc_Meta (wantedService dp)) = om_Namespace (dp_Meta dp)"
    using service.meta_SetOwner [of DataPlaneObj ?s dp]
    by (simp add: wantedService_def Let_def addLabelForDataplane_def generateNewServiceForDataplane_def)
qed

text \<open>It depends on the identity of the data plane only.\<close>

definition onlyStatus :: "DataPlane \<Rightarrow> DataPlane \<Rightarrow> bool" where
  "onlyStatus dp y \<longleftrightarrow> dpBody y = dpBody dp \<and> sameWritten (dp_Meta dp) (dp_Meta y) \<and>
     sameIdentity (dp_Meta dp) (dp_Meta y)"

lemma wantedService_cong:
  assumes "onlyStatus dp y"
  shows "wantedService y = wantedService dp"
proof -
  have "GenerateOwnerReferenceForObject DataPlaneObj y = GenerateOwnerReferenceForObject DataPlaneObj dp"
    "generateNewServiceForDataplane y = generateNewServiceForDataplane dp"
    "om_UID (dp_Meta y) = om_UID (dp_Meta dp)"
    using assms by (simp_all add: onlyStatus_def dpBody_def sameIdentity_def generateNewServiceForDataplane_def
        GenerateOwnerReferenceForObject_def GetAPIVersionForObject_def)
  then show ?thesis by (simp add: wantedService_def SetOwnerForObject_def Let_def)
qed

lemma onlyStatus_refl [simp]: "onlyStatus dp dp"
  by (simp add: onlyStatus_def sameWritten_def sameIdentity_def)

definition dataPlaneOnce :: "DataPlane \<Rightarrow> Service \<Rightarrow> Cluster \<Rightarrow> bool" where
  "dataPlaneOnce dp s v \<longleftrightarrow>
     ensuredOnce ServiceObj (Some (om_Namespace (dp_Meta dp))) GatewayOperatorControlledLabel
       DataPlaneManagedLabelValue (om_UID (dp_Meta dp)) s (st_Services v)"

lemma dataPlaneOnce_cong: "onlyStatus dp y \<Longrightarrow> dataPlaneOnce y = dataPlaneOnce dp"
  by (rule ext)+ (simp add: dataPlaneOnce_def onlyStatus_def sameIdentity_def)

lemma dataPlaneOnce_services: "dataPlaneOnce dp s v \<Longrightarrow> dataPlaneServices dp v = [s]"
  by (simp add: dataPlaneOnce_def ensuredOnce_def dataPlaneServices_def)

definition markedScheduled :: "(nat \<Rightarrow> time) \<Rightarrow> DataPlane \<Rightarrow> bool \<times> DataPlane" where
  "markedScheduled clk dp =
     DataPlane_ensureIsMarkedScheduled (clk 1) (InitReady DataPlaneConditions (clk 0) dp)"

lemma DataPlaneConditions_type [simp]:
  "dp_TypeMeta (SetConditions DataPlaneConditions cs d) = dp_TypeMeta d"
  "dps_Service (dp_Status (SetConditions DataPlaneConditions cs d)) = dps_Service (dp_Status d)"
  by (simp_all add: DataPlaneConditions_def)

lemma set_frame [simp]:
  "dp_Meta (SetCondition DataPlaneConditions cnd d) = dp_Meta d"
  "dpBody (SetCondition DataPlaneConditions cnd d) = dpBody d"
  "dps_Service (dp_Status (SetCondition DataPlaneConditions cnd d)) = dps_Service (dp_Status d)"
  by (simp_all add: SetCondition_def dpBody_def Let_def)

lemma markedScheduled_frame:
  "dp_Meta (snd (markedScheduled clk dp)) = dp_Meta dp" "dpBody (snd (markedScheduled clk dp)) = dpBody dp"
  "dps_Service (dp_Status (snd (markedScheduled clk dp))) = dps_Service (dp_Status dp)"
  by (simp_all add: markedScheduled_def DataPlane_ensureIsMarkedScheduled_def InitReady_def
      split: prod.splits)

abbreviation conditionsOf :: "DataPlane \<Rightarrow> Condition list" where
  "conditionsOf d \<equiv> GetConditions DataPlaneConditions d"

definition scheduledCondition :: "time \<Rightarrow> Condition" where
  "scheduledCondition now = NewCondition ''Provisioned'' ConditionFalse ''PodsNotReady''
     ''DataPlane resource is scheduled for provisioning'' now"

lemma conditionsOf_status: "conditionsOf d = dps_Conditions (dp_Status d)"
  by (simp add: DataPlaneConditions_def)

lemma present_condMap:
  "snd (GetCondition DataPlaneConditions t d) \<longleftrightarrow> condMap (conditionsOf d) t \<noteq> None"
  by (simp add: GetCondition_def findCondition_condMap split: option.splits)

lemma condMap_InitReady:
  "condMap (conditionsOf (InitReady DataPlaneConditions now d)) ''Provisioned'' =
   condMap (conditionsOf d) ''Provisioned''"
  by (simp add: InitReady_def dpc.condMap_SetCondition NewCondition_def ReadyType_def)

lemma markedScheduled_conditions:
  assumes "uniqueTypes (conditionsOf dp)"
  shows "fst (markedScheduled clk dp) \<longleftrightarrow> condMap (conditionsOf dp) ''Provisioned'' = None"
    and "condMap (conditionsOf (snd (markedScheduled clk dp))) ''Provisioned'' =
      Some (case condMap (conditionsOf dp) ''Provisioned'' of None \<Rightarrow> scheduledCondition (clk 1) | Some c \<Rightarrow> c)"
    and "\<not> IsReady DataPlaneConditions (snd (markedScheduled clk dp))"
    and "uniqueTypes (conditionsOf (snd (markedScheduled clk dp)))"
proof -
  let ?d = "InitReady DataPlaneConditions (clk 0) dp"
  have cases: "markedScheduled clk dp =
      (if condMap (conditionsOf dp) ''Provisioned'' = None
       then (True, SetCondition DataPlaneConditions (scheduledCondition (clk 1)) ?d) else (False, ?d))"
    using present_condMap [of "''Provisioned''" ?d]
    by (simp add: markedScheduled_def DataPlane_ensureIsMarkedScheduled_def condMap_InitReady split_beta
        DataPlaneConditionTypeProvisioned_def DataPlaneConditionReasonPodsNotReady_def scheduledCondition_def)
  have type [simp]: "c_Type (scheduledCondition t) = ''Provisioned''" for t
    by (simp add: scheduledCondition_def NewCondition_def)
  show "fst (markedScheduled clk dp) \<longleftrightarrow> condMap (conditionsOf dp) ''Provisioned'' = None"
    by (simp add: cases)
  show "condMap (conditionsOf (snd (markedScheduled clk dp))) ''Provisioned'' =
      Some (case condMap (conditionsOf dp) ''Provisioned'' of None \<Rightarrow> scheduledCondition (clk 1) | Some c \<Rightarrow> c)"
    by (auto simp: cases dpc.condMap_SetCondition condMap_InitReady)
  have "\<not> IsReady DataPlaneConditions (SetCondition DataPlaneConditions (scheduledCondition (clk 1)) ?d)"
    using dpc.not_ready_InitReady [of "clk 0" dp]
    by (simp add: IsReady_def validIn_condMap dpc.condMap_SetCondition ReadyType_def)
  then show "\<not> IsReady DataPlaneConditions (snd (markedScheduled clk dp))"
    by (simp add: cases dpc.not_ready_InitReady)
  show "uniqueTypes (conditionsOf (snd (markedScheduled clk dp)))"
    by (simp add: cases dpc.unique_SetCondition dpc.unique_InitReady assms)
qed

text \<open>What a status written by a pass says: it is never ready, and never changes \<open>Provisioned\<close>
  once it is there.\<close>

definition writtenStatus :: "(nat \<Rightarrow> time) \<Rightarrow> DataPlane \<Rightarrow> DataPlane \<Rightarrow> bool" where
  "writtenStatus clk dp y \<longleftrightarrow> onlyStatus dp y \<and> \<not> IsReady DataPlaneConditions y \<and>
     uniqueTypes (conditionsOf y) \<and>
     condMap (conditionsOf y) ''Provisioned'' =
       Some (case condMap (conditionsOf dp) ''Provisioned'' of None \<Rightarrow> scheduledCondition (clk 1) | Some c \<Rightarrow> c)"

lemma writtenStatus_marked:
  assumes "uniqueTypes (conditionsOf dp)" and "onlyStatus dp y"
    and "dps_Conditions (dp_Status y) = conditionsOf (snd (markedScheduled clk dp))"
  shows "writtenStatus clk dp y"
proof -
  have "conditionsOf y = conditionsOf (snd (markedScheduled clk dp))"
    using assms(3) by (simp only: conditionsOf_status)
  then show ?thesis
    using markedScheduled_conditions [OF assms(1), of clk] assms(2)
    by (simp add: writtenStatus_def IsReady_def)
qed

context cluster_api
begin

lemma wp_ensureService:
  assumes "wellStored ServiceObj (st_Services (view w))" and "onlyStatus dp d"
  shows "wpA (ensureServiceForDataPlane c d) (\<lambda>r w1. case r of
      Inl e \<Rightarrow> view w1 = view w
    | Inr (b, s) \<Rightarrow> dataPlaneOnce dp s (view w1) \<and> settled (updateMeta ServiceObj) (wantedService dp) s \<and>
        (if b then view w1 = (view w)\<lparr>st_Services := st_Services (view w1)\<rparr> else view w1 = view w)) w"
proof (cases "ensureServiceForDataPlane c d w")
  case (Pair r w1)
  let ?ns = "Some (om_Namespace (dp_Meta dp))" and ?uid = "om_UID (dp_Meta dp)"
  have d: "om_Namespace (dp_Meta d) = om_Namespace (dp_Meta dp)" "om_UID (dp_Meta d) = ?uid"
    using assms(2) by (simp_all add: onlyStatus_def sameIdentity_def)
  have u: "uniqueKeys ServiceObj (st_Services (view w))" using assms(1) by (simp add: wellStored_def)
  note run = Pair [unfolded ensureServiceForDataPlane_def list_as_listOwned d wantedService_cong [OF assms(2)]]
  show ?thesis
  proof (cases r)
    case (Inl e)
    then show ?thesis
      using wpA_E [OF svc.wp_ensureOwned [OF u svc.converging_updateMeta svc.creates_createOwned] run] Pair
      by (simp add: wpA_def)
  next
    case (Inr p)
    then obtain b s where p: "r = Inr (b, s)" by (cases p) simp
    note once = svc.ensureOwned_once [OF run [unfolded p] assms(1) svc.converging_updateMeta svc.creates_createOwned]
    have "ensuredOnce ServiceObj ?ns GatewayOperatorControlledLabel DataPlaneManagedLabelValue ?uid s (st_Services (view w1))"
      "settled (updateMeta ServiceObj) (wantedService dp) s"
      using once(1,2) by (simp_all add: wantedService_meta)
    moreover have "if b then view w1 = (view w)\<lparr>st_Services := st_Services (view w1)\<rparr> else view w1 = view w"
      using once(3) by (auto simp: wantedService_meta ensured_def split: if_splits)
    ultimately show ?thesis using Pair p by (simp add: wpA_def dataPlaneOnce_def)
  qed
qed

lemma wp_updateStatus:
  assumes "lookupKey DataPlaneObj (keyOf (dp_Meta d)) (st_DataPlanes (view w)) = Some dp"
    and "uniqueTypes (conditionsOf dp)" and "uniqueTypes (conditionsOf d)"
    and "condMap (conditionsOf dp) t = None" and "condMap (conditionsOf d) t \<noteq> None"
    and "\<And>y w1. view w1 = (view w)\<lparr>st_DataPlanes := replaceKey DataPlaneObj y (st_DataPlanes (view w))\<rparr> \<Longrightarrow>
      onlyStatus dp y \<Longrightarrow> dp_Status y = dp_Status d \<Longrightarrow> Q (Inr ()) w1"
    and "\<And>e w1. view w1 = view w \<Longrightarrow> Q (Inl e) w1"
  shows "wpA (DataPlane_updateStatus c d) Q w"
  unfolding DataPlane_updateStatus_def wp
proof (rule dp.wp_Get, goal_cases)
  case (1 cur w1)
  have "cur = dp" using 1(1) assms(1) by (simp add: keyOf_def)
  have "map_option says (condMap (conditionsOf dp) t) \<noteq> map_option says (condMap (conditionsOf d) t)"
    using assms(4,5) by simp
  then have "NeedsUpdate DataPlaneConditions dp d"
    unfolding dpc.NeedsUpdate_abs [OF assms(2,3)] by blast
  moreover have "wpA (cl_StatusUpdate (cl_DataPlanes c) d)
      (\<lambda>r w1. case r of Inl e \<Rightarrow> Q (Inl e) w1 | Inr x \<Rightarrow> wpA (retA ()) Q w1) w1"
    by (rule dp.wp_StatusUpdate) (use 1(2) assms(1,6,7) in \<open>auto simp: wp onlyStatus_def\<close>)
  ultimately show ?case using \<open>cur = dp\<close> by (simp add: wp)
next
  case (2 e w1)
  then show ?case using assms(1,7) by (auto simp: wp keyOf_def)
qed

end

section \<open>One pass\<close>

text \<open>
  The outcome of a pass that returned no error: the data plane was marked as scheduled, or its
  one service is there, and if this pass created or updated it, its name was written to the
  status.
\<close>

definition passOutcome ::
  "(nat \<Rightarrow> time) \<Rightarrow> DataPlane \<Rightarrow> Cluster \<Rightarrow> Cluster \<Rightarrow> bool" where
  "passOutcome clk dp v v1 \<longleftrightarrow>
     (case condMap (conditionsOf dp) ''Provisioned'' of
        None \<Rightarrow> (\<exists>y. writtenStatus clk dp y \<and> dps_Service (dp_Status y) = dps_Service (dp_Status dp) \<and>
                   v1 = v\<lparr>st_DataPlanes := replaceKey DataPlaneObj y (st_DataPlanes v)\<rparr>)
      | Some _ \<Rightarrow> (\<exists>s. dataPlaneOnce dp s v1 \<and> settled (updateMeta ServiceObj) (wantedService dp) s \<and>
                   (v1 = v \<or>
                    (\<exists>y. writtenStatus clk dp y \<and> dps_Service (dp_Status y) = om_Name (svc_Meta s) \<and>
                       v1 = v\<lparr>st_Services := st_Services v1,
                              st_DataPlanes := replaceKey DataPlaneObj y (st_DataPlanes v)\<rparr>))))"

text \<open>The outcome of any pass; one that fails leaves the data planes as they were.\<close>

definition passResult ::
  "(nat \<Rightarrow> time) \<Rightarrow> DataPlane \<Rightarrow> Cluster \<Rightarrow> go_error + Result \<Rightarrow> Cluster \<Rightarrow> bool" where
  "passResult clk dp v r v1 \<longleftrightarrow> (case r of
     Inl e \<Rightarrow> st_DataPlanes v1 = st_DataPlanes v \<and> (condMap (conditionsOf dp) ''Provisioned'' = None \<longrightarrow> v1 = v)
   | Inr res \<Rightarrow> res = emptyResult \<and> passOutcome clk dp v v1)"

context cluster_api
begin

lemma wp_pass_marks:
  assumes stored: "lookupKey DataPlaneObj (keyOf (dp_Meta dp)) (st_DataPlanes (view w)) = Some dp"
    and types: "uniqueTypes (conditionsOf dp)" and none: "condMap (conditionsOf dp) ''Provisioned'' = None"
    and v: "view w = v"
  shows "wpA (bindA (DataPlane_updateStatus c (snd (markedScheduled clk dp))) (\<lambda>_. retA emptyResult))
    (\<lambda>r w1. passResult clk dp v r (view w1)) w"
  unfolding wpA_bindA
proof (rule wp_updateStatus [OF _ types markedScheduled_conditions(4) [OF types] none], goal_cases)
  case (3 y w2)
  have "writtenStatus clk dp y"
    using 3 by (intro writtenStatus_marked [OF types]) (simp_all add: conditionsOf_status)
  then show ?case
    using 3 none markedScheduled_frame(3) v by (auto simp: wp passOutcome_def passResult_def)
qed (use stored v none markedScheduled_frame(1) markedScheduled_conditions(2) [OF types] in \<open>auto simp: passResult_def\<close>)

lemma wp_pass_names:
  assumes stored: "lookupKey DataPlaneObj (keyOf (dp_Meta dp)) (st_DataPlanes v) = Some dp"
    and types: "uniqueTypes (conditionsOf dp)" and some: "condMap (conditionsOf dp) ''Provisioned'' \<noteq> None"
    and w: "view w = v\<lparr>st_Services := st_Services (view w)\<rparr>"
    and s: "dataPlaneOnce dp s (view w)" "settled (updateMeta ServiceObj) (wantedService dp) s"
  shows "wpA (bindA (ensureDataPlaneServiceStatus c (snd (markedScheduled clk dp)) (om_Name (svc_Meta s)))
    (\<lambda>_. retA emptyResult)) (\<lambda>r w1. passResult clk dp v r (view w1)) w"
  unfolding ensureDataPlaneServiceStatus_def Let_def wpA_bindA
proof (rule dp.wp_StatusUpdate, goal_cases)
  case (1 y old w3)
  note dps = arg_cong [OF w, of st_DataPlanes, simplified]
  have "old = dp" using 1(1) stored markedScheduled_frame(1) dps by (simp add: keyOf_def)
  then have "writtenStatus clk dp y"
    using 1 by (intro writtenStatus_marked [OF types]) (simp_all add: onlyStatus_def conditionsOf_status)
  moreover have "view w3 = v\<lparr>st_Services := st_Services (view w3),
      st_DataPlanes := replaceKey DataPlaneObj y (st_DataPlanes v)\<rparr>"
  proof -
    obtain ss where "view w = v\<lparr>st_Services := ss\<rparr>" using w by blast
    then show ?thesis using 1(2) by simp
  qed
  moreover have "dataPlaneOnce dp s (view w3)"
    using s(1) 1(2) by (simp add: dataPlaneOnce_def)
  ultimately show ?case using s some 1(6) by (auto simp: wp passOutcome_def passResult_def split: option.splits)
qed (use arg_cong [OF w, of st_DataPlanes] some in \<open>auto simp: passResult_def\<close>)

lemma wp_pass_ensures:
  assumes svcs: "wellStored ServiceObj (st_Services (view w))"
    and stored: "lookupKey DataPlaneObj (keyOf (dp_Meta dp)) (st_DataPlanes (view w)) = Some dp"
    and types: "uniqueTypes (conditionsOf dp)" and some: "condMap (conditionsOf dp) ''Provisioned'' \<noteq> None"
    and v: "view w = v"
  shows "wpA (bindA (ensureServiceForDataPlane c (snd (markedScheduled clk dp)))
    (\<lambda>(createdOrUpdated, dataplaneService).
       if createdOrUpdated
       then bindA (ensureDataPlaneServiceStatus c (snd (markedScheduled clk dp)) (om_Name (svc_Meta dataplaneService)))
              (\<lambda>_. retA emptyResult)
       else retA emptyResult)) (\<lambda>r w1. passResult clk dp v r (view w1)) w"
  unfolding wpA_bindA [of "ensureServiceForDataPlane _ _"]
proof (rule wpA_mono [OF wp_ensureService [OF svcs, of dp "snd (markedScheduled clk dp)"]], goal_cases)
  case 1
  show "onlyStatus dp (snd (markedScheduled clk dp))"
    using markedScheduled_frame by (simp add: onlyStatus_def sameWritten_def sameIdentity_def)
next
  case (2 r w2)
  show ?case
  proof (cases r)
    case (Inr p)
    then obtain b s where p: "r = Inr (b, s)" by (cases p) simp
    show ?thesis
    proof (cases b)
      case True
      then have "wpA (bindA (ensureDataPlaneServiceStatus c (snd (markedScheduled clk dp)) (om_Name (svc_Meta s)))
          (\<lambda>_. retA emptyResult)) (\<lambda>r w1. passResult clk dp v r (view w1)) w2"
        using 2(2) v stored by (intro wp_pass_names [OF _ types some]) (simp_all add: p)
      then show ?thesis using True by (simp add: p)
    next
      case False
      then show ?thesis using 2(2) v some by (auto simp: p wpA_retA passOutcome_def passResult_def)
    qed
  qed (use 2(2) some v in \<open>auto simp: passResult_def\<close>)
qed

lemma wp_DataPlane_Reconcile:
  assumes "wellStored ServiceObj (st_Services (view w))"
    and stored: "lookupKey DataPlaneObj (ns, nm) (st_DataPlanes (view w)) = Some dp"
    and types: "uniqueTypes (conditionsOf dp)"
  shows "wpA (DataPlane_Reconcile c clk \<lparr>rq_Namespace = ns, rq_Name = nm\<rparr>)
    (\<lambda>r w1. passResult clk dp (view w) r (view w1)) w"
  unfolding DataPlane_Reconcile_def wpA_bindA [of "attemptA _"] wpA_attemptA Request.simps
proof (rule dp.wp_Get, goal_cases)
  case (1 d w1)
  then have d: "d = dp" using stored by simp
  note v1 = \<open>view w1 = view w\<close>
  have key: "keyOf (dp_Meta dp) = (ns, nm)" using lookupKey_Some [OF stored] by simp
  have unfold: "DataPlane_ensureIsMarkedScheduled (clk 1) (InitReady DataPlaneConditions (clk 0) dp) =
      (fst (markedScheduled clk dp), snd (markedScheduled clk dp))" by (simp add: markedScheduled_def)
  have st: "lookupKey DataPlaneObj (keyOf (dp_Meta dp)) (st_DataPlanes (view w1)) = Some dp"
    using stored key v1 by simp
  have svcs: "wellStored ServiceObj (st_Services (view w1))" using assms(1) v1 by simp
  show ?case
  proof (cases "fst (markedScheduled clk dp)")
    case True
    then have "condMap (conditionsOf dp) ''Provisioned'' = None"
      using markedScheduled_conditions(1) [OF types] by simp
    from wp_pass_marks [OF st types this v1] show ?thesis
      unfolding d sum.case Let_def unfold prod.case if_P [OF True] .
  next
    case False
    then have "condMap (conditionsOf dp) ''Provisioned'' \<noteq> None"
      using markedScheduled_conditions(1) [OF types] by simp
    from wp_pass_ensures [OF svcs st types this v1] show ?thesis
      unfolding d sum.case Let_def unfold prod.case if_not_P [OF False] .
  qed
next
  case (2 e w1)
  then show ?case using stored by (auto simp: wp passResult_def)
qed

end

section \<open>Repeated passes\<close>

text \<open>The state a data plane settles in.\<close>

definition dataPlaneSettled :: "string \<Rightarrow> string \<Rightarrow> DataPlane \<Rightarrow> Cluster \<Rightarrow> bool" where
  "dataPlaneSettled ns nm dp v \<longleftrightarrow> (\<exists>z s. onlyStatus dp z \<and>
     lookupKey DataPlaneObj (ns, nm) (st_DataPlanes v) = Some z \<and> uniqueTypes (conditionsOf z) \<and>
     condMap (conditionsOf z) ''Provisioned'' \<noteq> None \<and> dataPlaneOnce dp s v \<and>
     settled (updateMeta ServiceObj) (wantedService dp) s)"

lemma onlyStatus_trans: "onlyStatus x y \<Longrightarrow> onlyStatus y z \<Longrightarrow> onlyStatus x z"
  by (auto simp: onlyStatus_def sameWritten_def sameIdentity_def)

lemma passOutcome_settles:
  assumes "passOutcome clk z v v1" and "onlyStatus dp z"
    and stored: "lookupKey DataPlaneObj (ns, nm) (st_DataPlanes v) = Some z"
    and types: "uniqueTypes (conditionsOf z)"
    and "condMap (conditionsOf z) ''Provisioned'' \<noteq> None"
  shows "dataPlaneSettled ns nm dp v1"
proof -
  obtain cnd where cnd: "condMap (conditionsOf z) ''Provisioned'' = Some cnd" using assms(5) by auto
  have key: "keyOf (dp_Meta z) = (ns, nm)" using lookupKey_Some [OF stored] by simp
  obtain s where s: "dataPlaneOnce z s v1" "settled (updateMeta ServiceObj) (wantedService z) s"
    "v1 = v \<or> (\<exists>y. writtenStatus clk z y \<and> dps_Service (dp_Status y) = om_Name (svc_Meta s) \<and>
       v1 = v\<lparr>st_Services := st_Services v1, st_DataPlanes := replaceKey DataPlaneObj y (st_DataPlanes v)\<rparr>)"
    using assms(1) cnd by (auto simp: passOutcome_def)
  have "dataPlaneOnce dp s v1" "settled (updateMeta ServiceObj) (wantedService dp) s"
    using s(1,2) dataPlaneOnce_cong [OF assms(2)] wantedService_cong [OF assms(2)] by simp_all
  moreover have "\<exists>z. onlyStatus dp z \<and> lookupKey DataPlaneObj (ns, nm) (st_DataPlanes v1) = Some z \<and>
      uniqueTypes (conditionsOf z) \<and> condMap (conditionsOf z) ''Provisioned'' \<noteq> None"
    using s(3)
  proof (elim disjE exE conjE)
    fix y
    assume y: "writtenStatus clk z y"
      and v1: "v1 = v\<lparr>st_Services := st_Services v1, st_DataPlanes := replaceKey DataPlaneObj y (st_DataPlanes v)\<rparr>"
    have "keyOf (dp_Meta y) = (ns, nm)"
      using y key by (simp add: writtenStatus_def onlyStatus_def sameIdentity_def keyOf_def)
    then have "lookupKey DataPlaneObj (ns, nm) (st_DataPlanes v1) = Some y"
      using lookupKey_replaceKey [OF stored, of y] by (subst v1) simp
    then show ?thesis
      using y onlyStatus_trans [OF assms(2)] by (auto simp: writtenStatus_def)
  qed (use assms cnd in auto)
  ultimately show ?thesis by (auto simp: dataPlaneSettled_def)
qed

context cluster_api
begin

lemma wp_DataPlane_idle:
  assumes "dataPlaneSettled ns nm dp (view w)"
  shows "wpA (DataPlane_Reconcile c clk \<lparr>rq_Namespace = ns, rq_Name = nm\<rparr>) (\<lambda>r w1. view w1 = view w \<and>
      (case r of Inl e \<Rightarrow> isAPIErr e | Inr res \<Rightarrow> res = emptyResult)) w"
    (is "wpA _ ?Q w")
  unfolding DataPlane_Reconcile_def wp Request.simps
proof (rule dp.wp_Get, goal_cases)
  case (1 d w1)
  obtain z s where z: "onlyStatus dp z" "lookupKey DataPlaneObj (ns, nm) (st_DataPlanes (view w)) = Some z"
    "uniqueTypes (conditionsOf z)" "condMap (conditionsOf z) ''Provisioned'' \<noteq> None"
    "dataPlaneOnce dp s (view w)" "settled (updateMeta ServiceObj) (wantedService dp) s"
    using assms by (auto simp: dataPlaneSettled_def)
  let ?m = "snd (markedScheduled clk z)"
  have d: "d = z" using 1 z(2) by simp
  have "onlyStatus z ?m"
    using markedScheduled_frame by (simp add: onlyStatus_def sameWritten_def sameIdentity_def)
  then have onl: "onlyStatus dp ?m" using onlyStatus_trans [OF z(1)] by blast
  have id: "om_Namespace (dp_Meta ?m) = om_Namespace (dp_Meta dp)" "om_UID (dp_Meta ?m) = om_UID (dp_Meta dp)"
    using onl by (simp_all add: onlyStatus_def sameIdentity_def)
  have "unchangedBy view (ensureServiceForDataPlane c ?m) s w1"
    unfolding ensureServiceForDataPlane_def list_as_listOwned id wantedService_cong [OF onl]
    by (rule svc.ensureOwned_unchanged [OF _ z(6) svc.converging_updateMeta svc.creates_createOwned])
      (use z(5) 1(2) in \<open>simp add: dataPlaneOnce_def\<close>)
  then have "wpA (ensureServiceForDataPlane c ?m) (\<lambda>r w2. view w2 = view w \<and>
      (case r of Inl e \<Rightarrow> isAPIErr e | Inr p \<Rightarrow> p = (False, s))) w1"
    using 1(2) by (simp add: unchangedBy_def wpA_def)
  then have "wpA (ensureServiceForDataPlane c ?m) (\<lambda>r w2. case r of Inl e \<Rightarrow> ?Q (Inl e) w2
      | Inr p \<Rightarrow> wpA (case p of (createdOrUpdated, dataplaneService) \<Rightarrow>
          if createdOrUpdated
          then bindA (ensureDataPlaneServiceStatus c ?m (om_Name (svc_Meta dataplaneService))) (\<lambda>_. retA emptyResult)
          else retA emptyResult) ?Q w2) w1"
    by (rule wpA_mono) (auto simp: wp split: sum.splits)
  moreover have "DataPlane_ensureIsMarkedScheduled (clk 1) (InitReady DataPlaneConditions (clk 0) z) = (False, ?m)"
    using markedScheduled_conditions(1) [OF z(3), of clk] z(4)
    by (simp add: markedScheduled_def prod_eq_iff)
  ultimately show ?case
    unfolding d sum.case Let_def prod.case by (simp add: wp cong: sum.case_cong)
next
  case (2 e w1)
  then show ?case using assms by (auto simp: wp dataPlaneSettled_def)
qed

text \<open>Two passes without an error settle the data plane.\<close>

lemma DataPlane_two_passes:
  assumes "wellStored ServiceObj (st_Services (view w))"
    and stored: "lookupKey DataPlaneObj (ns, nm) (st_DataPlanes (view w)) = Some dp"
    and types: "uniqueTypes (conditionsOf dp)"
    and run1: "DataPlane_Reconcile c clk1 \<lparr>rq_Namespace = ns, rq_Name = nm\<rparr> w = (Inr r1, w1)"
    and run2: "DataPlane_Reconcile c clk2 \<lparr>rq_Namespace = ns, rq_Name = nm\<rparr> w1 = (Inr r2, w2)"
  shows "dataPlaneSettled ns nm dp (view w2)"
proof (cases "condMap (conditionsOf dp) ''Provisioned''")
  case None
  note o1 = wpA_E [OF wp_DataPlane_Reconcile [OF assms(1-3)] run1, unfolded passResult_def]
  from o1 None obtain y where y: "writtenStatus clk1 dp y"
    "view w1 = (view w)\<lparr>st_DataPlanes := replaceKey DataPlaneObj y (st_DataPlanes (view w))\<rparr>"
    by (auto simp: passOutcome_def)
  have key: "keyOf (dp_Meta y) = (ns, nm)"
    using y(1) lookupKey_Some [OF stored] by (simp add: writtenStatus_def onlyStatus_def sameIdentity_def keyOf_def)
  have st1: "lookupKey DataPlaneObj (ns, nm) (st_DataPlanes (view w1)) = Some y"
    using lookupKey_replaceKey [OF stored, of y] key by (simp add: y(2))
  have "wellStored ServiceObj (st_Services (view w1))" using assms(1) by (simp add: y(2))
  note o2 = wpA_E [OF wp_DataPlane_Reconcile [OF this st1] run2, unfolded passResult_def]
  show ?thesis
    using passOutcome_settles [of clk2 y "view w1" "view w2" dp ns nm] o2 y(1) st1
    by (simp add: writtenStatus_def)
next
  case (Some cnd)
  have "passOutcome clk1 dp (view w) (view w1)"
    using wpA_E [OF wp_DataPlane_Reconcile [OF assms(1-3)] run1, unfolded passResult_def] by simp
  then have "dataPlaneSettled ns nm dp (view w1)"
    using passOutcome_settles [OF _ onlyStatus_refl stored types] Some by blast
  with wpA_E [OF wp_DataPlane_idle [OF this] run2] show ?thesis by simp
qed

end

section \<open>Properties\<close>

lemma settled_dataplane_env:
  fixes d g :: Deployment
  assumes "settled (updateDataPlaneDeployment spec) g d"
    and "mainContainer DataPlaneProxyContainerName g \<noteq> None"
  shows "envSettled DataPlaneProxyContainerName (opt_Env spec) (opt_EnvFrom spec) d"
proof (cases "EnsureObjectMetaIsUpdated (dep_Meta d) (dep_Meta g)")
  case (Inl e)
  then show ?thesis using assms(1) by (simp add: settled_def updateDataPlaneDeployment_def updateMeta_Inl)
next
  case (Inr p)
  then obtain b m where m: "EnsureObjectMetaIsUpdated (dep_Meta d) (dep_Meta g) = Inr (b, m)" by (cases p) simp
  show ?thesis
    using updateDataPlaneDeployment_run [OF m assms(2), of spec] assms(1) by (auto simp: settled_def)
qed

lemma svcBody_parts:
  assumes "svcBody x = svcBody y"
  shows "svc_Type x = svc_Type y \<and> svc_Selector x = svc_Selector y \<and>
    map defaultedPort (svc_Ports x) = map defaultedPort (svc_Ports y)"
  using arg_cong [OF assms, of svc_Type] arg_cong [OF assms, of svc_Selector] arg_cong [OF assms, of svc_Ports]
  by (simp add: svcBody_def defaultedPorts_def)

lemma shownPorts:
  "map (\<lambda>p. (sp_Name p, sp_Port p, sp_TargetPort (defaultedPort p))) ps =
   map (\<lambda>p. (sp_Name p, sp_Port p, sp_TargetPort p)) (map defaultedPort ps)"
  by (simp add: defaultedPort_def)

lemma wantedService_parts:
  "svc_Type (wantedService dp) = ''LoadBalancer''"
  "svc_Selector (wantedService dp) = fmupd ''app'' (om_Name (dp_Meta dp)) fmempty"
  "map (\<lambda>p. (sp_Name p, sp_Port p, sp_TargetPort p)) (map defaultedPort (svc_Ports (wantedService dp))) =
    [(''http'', 80, 9000), (''https'', 443, 9443), (''admin'', 9444, 9444)]"
  by (simp_all add: wantedService_def SetOwnerForObject_def addLabelForDataplane_def Let_def defaultedPort_def
      generateNewServiceForDataplane_def appLabel_def DefaultHTTPPort_def DefaultHTTPSPort_def
      DefaultAPISIXHTTPPort_def DefaultAPISIXHTTPSPort_def DefaultAPISIXAdminPort_def)

text \<open>C13. A data plane gets one service. Against an API whose reads are up to date and whose keys are
  unique, a call that succeeds leaves the data plane with exactly one service that is labelled
  and owned, the one it returns. A new one is a load balancer for the data plane's pods with the
  ports of the proxy and the admin API (whose target port is the port, by the default of the API);
  one that existed keeps its name, type, selector and ports: only its metadata is brought up to
  date. The next call on the same objects changes nothing and returns the same service, unless the
  API fails.\<close>

theorem ensureServiceForDataPlane_once:
  assumes "cluster_api c view"
    and "wellStored ServiceObj (st_Services (view w))"
    and "ensureServiceForDataPlane c dp w = (Inr (changed, s), w1)"
    and "view w2 = view w1"
  shows "dataPlaneServices dp (view w1) = [s] \<and> wellStored ServiceObj (st_Services (view w1)) \<and>
    (case dataPlaneServices dp (view w) of
       [] \<Rightarrow> changed \<and> svc_Type s = ''LoadBalancer'' \<and>
         svc_Selector s = fmupd ''app'' (om_Name (dp_Meta dp)) fmempty \<and>
         map (\<lambda>p. (sp_Name p, sp_Port p, sp_TargetPort (defaultedPort p))) (svc_Ports s) =
           [(''http'', 80, 9000), (''https'', 443, 9443), (''admin'', 9444, 9444)]
     | old # _ \<Rightarrow> om_Name (svc_Meta s) = om_Name (svc_Meta old) \<and> svc_Type s = svc_Type old \<and>
         svc_Selector s = svc_Selector old \<and>
         map defaultedPort (svc_Ports s) = map defaultedPort (svc_Ports old)) \<and>
    unchangedBy view (ensureServiceForDataPlane c dp) s w2"
proof -
  note svc = cluster_api.axioms(4) [OF assms(1)]
  note owned_kind.converging_updateMeta [OF svc] owned_kind.creates_createOwned [OF svc]
  note conv = this
  note once = owned_kind.ensureOwned_once [OF svc
      assms(3) [unfolded ensureServiceForDataPlane_def list_as_listOwned] assms(2) conv]
  have o: "dataPlaneOnce dp s (view w1)" "settled (updateMeta ServiceObj) (wantedService dp) s"
    using once(1,2) by (simp_all add: wantedService_meta dataPlaneOnce_def)
  have new: "svc_Type s = ''LoadBalancer'' \<and> svc_Selector s = fmupd ''app'' (om_Name (dp_Meta dp)) fmempty \<and>
      map (\<lambda>p. (sp_Name p, sp_Port p, sp_TargetPort (defaultedPort p))) (svc_Ports s) =
        [(''http'', 80, 9000), (''https'', 443, 9443), (''admin'', 9444, 9444)]"
    if "svcBody s = svcBody (wantedService dp)"
    using svcBody_parts [OF that] wantedService_parts [of dp] unfolding shownPorts by simp
  have body: "case dataPlaneServices dp (view w) of [] \<Rightarrow> changed \<and> svcBody s = svcBody (wantedService dp)
    | old # _ \<Rightarrow> svcBody s = svcBody old \<and> om_Name (svc_Meta s) = om_Name (svc_Meta old)"
    using owned_kind.ensured_updateMeta [OF svc once(3)]
    by (simp add: wantedService_meta dataPlaneServices_def keyOf_def split: list.splits)
  moreover have "unchangedBy view (ensureServiceForDataPlane c dp) s w2"
    unfolding ensureServiceForDataPlane_def list_as_listOwned
    by (rule owned_kind.ensureOwned_unchanged [OF svc _ o(2) conv])
      (use o(1) assms(4) in \<open>simp add: dataPlaneOnce_def\<close>)
  ultimately show ?thesis
    using o(1) dataPlaneOnce_services [of dp s "view w1"] body new svcBody_parts [of s]
    by (cases "dataPlaneServices dp (view w)") (simp_all add: dataPlaneOnce_def ensuredOnce_def)
qed

definition exampleDataPlanes :: Sim where
  "exampleDataPlanes = quiet (emptyCluster\<lparr>st_DataPlanes := [exampleDataPlane ''dp'' ''u2'']\<rparr>)"

lemma exampleDataPlanes_stores:
  "wellStored ServiceObj (st_Services (sim_Cluster exampleDataPlanes))"
  "wellStored DeploymentObj (st_Deployments (sim_Cluster exampleDataPlanes))"
  "lookupKey DataPlaneObj (''default'', ''dp'') (st_DataPlanes (sim_Cluster exampleDataPlanes)) =
     Some (exampleDataPlane ''dp'' ''u2'')"
  "uniqueTypes (conditionsOf (exampleDataPlane ''dp'' ''u2''))"
  by (simp_all add: exampleDataPlanes_def quiet_def emptyCluster_def wellStored_def uniqueKeys_def
      lookupKey_def keyOf_def exampleDataPlane_def emptyMeta_def conditionsOf_status uniqueTypes_def)

theorem ensureServiceForDataPlane_once_witness:
  "\<exists>s w1. ensureServiceForDataPlane memClient (exampleDataPlane ''dp'' ''u2'') exampleDataPlanes = (Inr (True, s), w1) \<and>
     dataPlaneServices (exampleDataPlane ''dp'' ''u2'') (sim_Cluster w1) = [s] \<and>
     unchangedBy sim_Cluster (ensureServiceForDataPlane memClient (exampleDataPlane ''dp'' ''u2'')) s w1"
proof -
  let ?e = "ensureServiceForDataPlane memClient (exampleDataPlane ''dp'' ''u2'') exampleDataPlanes"
  have "(case fst ?e of Inl e \<Rightarrow> False | Inr p \<Rightarrow> fst p)" by code_simp
  then obtain s w1 where run: "?e = (Inr (True, s), w1)"
    by (cases ?e) (auto split: sum.splits)
  with ensureServiceForDataPlane_once [OF mem.cluster_api_axioms exampleDataPlanes_stores(1) run refl]
  show ?thesis by blast
qed

text \<open>C15. A data plane gets one deployment. Under the same conditions, a call that succeeds leaves the
  data plane with exactly one deployment that is labelled and owned, the one it returns, whose
  proxy container has the environment of the data plane's specification; the next call on the
  same objects changes nothing and returns the same deployment, unless the API fails.\<close>

theorem ensureDeploymentForDataPlane_once:
  assumes "cluster_api c view"
    and "wellStored DeploymentObj (st_Deployments (view w))"
    and "ensureDeploymentForDataPlane c dp certSecretName w = (Inr (changed, d), w1)"
    and "view w2 = view w1"
  shows "ownedObjects DeploymentObj (Some (om_Namespace (dp_Meta dp))) GatewayOperatorControlledLabel
      ''dataplane'' (om_UID (dp_Meta dp)) (st_Deployments (view w1)) = [d] \<and>
    wellStored DeploymentObj (st_Deployments (view w1)) \<and>
    envSettled ''proxy'' (opt_Env (dp_Spec dp)) (opt_EnvFrom (dp_Spec dp)) d \<and>
    unchangedBy view (ensureDeploymentForDataPlane c dp certSecretName) d w2"
proof -
  note dep = cluster_api.axioms(3) [OF assms(1)]
  note conv = converging_wantedDataPlane owned_kind.creates_createOwned [OF dep]
  note once = owned_kind.ensureOwned_once [OF dep
      assms(3) [unfolded ensureDeploymentForDataPlane_def list_as_listOwned] assms(2) conv]
  have o: "ensuredOnce DeploymentObj (Some (om_Namespace (dp_Meta dp))) GatewayOperatorControlledLabel
      DataPlaneManagedLabelValue (om_UID (dp_Meta dp)) d (st_Deployments (view w1))"
    "settled (updateDataPlaneDeployment (dp_Spec dp)) (wantedDataPlaneDeployment dp certSecretName) d"
    using once(1,2) by (simp_all add: wantedDataPlaneDeployment_meta)
  have "mainContainer DataPlaneProxyContainerName (wantedDataPlaneDeployment dp certSecretName) \<noteq> None"
    using wantedDataPlaneDeployment_spec [of dp certSecretName] by (auto simp: envSettled_def split: option.splits)
  note settled_dataplane_env [OF o(2) this]
  moreover have "unchangedBy view (ensureDeploymentForDataPlane c dp certSecretName) d w2"
    unfolding ensureDeploymentForDataPlane_def list_as_listOwned
    by (rule owned_kind.ensureOwned_unchanged [OF dep _ o(2) conv]) (use o(1) assms(4) in simp)
  ultimately show ?thesis
    using o(1) by (simp add: ensuredOnce_def DataPlaneProxyContainerName_def DataPlaneManagedLabelValue_def)
qed

theorem ensureDeploymentForDataPlane_once_witness:
  "\<exists>d w1. ensureDeploymentForDataPlane memClient (exampleDataPlane ''dp'' ''u2'') ''cert'' exampleDataPlanes =
       (Inr (True, d), w1) \<and>
     envSettled ''proxy'' (opt_Env exampleOptions) (opt_EnvFrom exampleOptions) d"
proof -
  let ?e = "ensureDeploymentForDataPlane memClient (exampleDataPlane ''dp'' ''u2'') ''cert'' exampleDataPlanes"
  have "(case fst ?e of Inl e \<Rightarrow> False | Inr p \<Rightarrow> fst p)" by code_simp
  then obtain d w1 where run: "?e = (Inr (True, d), w1)"
    by (cases ?e) (auto split: sum.splits)
  with ensureDeploymentForDataPlane_once [OF mem.cluster_api_axioms exampleDataPlanes_stores(2) run refl]
  show ?thesis by (auto simp: exampleDataPlane_def)
qed

text \<open>C9. One pass over a stored data plane. If it has no \<open>Provisioned\<close> condition, a pass without an
  error writes the status that says it is scheduled and not ready, and changes nothing else. If
  it has one, a pass without an error leaves the data plane with exactly one service; either
  nothing was changed, or the name of that service was written to the status. A status that is
  written is never ready and keeps \<open>Provisioned\<close> as it was. A pass that fails leaves the data
  planes as they were, and before the data plane is scheduled everything else too. No pass asks to
  be requeued.\<close>

theorem DataPlane_Reconcile_correct:
  assumes "cluster_api c view"
    and "wellStored ServiceObj (st_Services (view w))"
    and "lookupKey DataPlaneObj (ns, nm) (st_DataPlanes (view w)) = Some dp"
    and "uniqueTypes (dps_Conditions (dp_Status dp))"
  shows "case DataPlane_Reconcile c clk \<lparr>rq_Namespace = ns, rq_Name = nm\<rparr> w of (r, w1) \<Rightarrow>
    let v = view w; v1 = view w1; provisioned = condMap (dps_Conditions (dp_Status dp)) ''Provisioned'';
        written = (\<lambda>y cond. onlyStatus dp y \<and> \<not> IsReady DataPlaneConditions y \<and>
          condMap (dps_Conditions (dp_Status y)) ''Provisioned'' = Some cond)
    in case r of
         Inl e \<Rightarrow> st_DataPlanes v1 = st_DataPlanes v \<and> (provisioned = None \<longrightarrow> v1 = v)
       | Inr res \<Rightarrow> res = emptyResult \<and>
           (case provisioned of
              None \<Rightarrow> (\<exists>y. written y (scheduledCondition (clk 1)) \<and>
                  v1 = v\<lparr>st_DataPlanes := replaceKey DataPlaneObj y (st_DataPlanes v)\<rparr>)
            | Some cond \<Rightarrow> (\<exists>s. dataPlaneServices dp v1 = [s] \<and>
                (v1 = v \<or>
                 (\<exists>y. written y cond \<and> dps_Service (dp_Status y) = om_Name (svc_Meta s) \<and>
                    v1 = v\<lparr>st_Services := st_Services v1,
                           st_DataPlanes := replaceKey DataPlaneObj y (st_DataPlanes v)\<rparr>))))"
proof -
  have types: "uniqueTypes (conditionsOf dp)" using assms(4) by (simp add: conditionsOf_status)
  obtain r w1 where run: "DataPlane_Reconcile c clk \<lparr>rq_Namespace = ns, rq_Name = nm\<rparr> w = (r, w1)"
    by fastforce
  note out = wpA_E [OF cluster_api.wp_DataPlane_Reconcile [OF assms(1-3) types] run, unfolded passResult_def]
  show ?thesis
  proof (cases r)
    case (Inl e)
    then show ?thesis using out by (simp add: run conditionsOf_status)
  next
    case (Inr res)
    then have "passOutcome clk dp (view w) (view w1)" "res = emptyResult" using out by simp_all
    then show ?thesis
      unfolding run Inr prod.case sum.case Let_def passOutcome_def writtenStatus_def conditionsOf_status
      using dataPlaneOnce_services
      by (cases "condMap (dps_Conditions (dp_Status dp)) ''Provisioned''") (simp; blast)+
  qed
qed

theorem DataPlane_Reconcile_correct_witness:
  "case DataPlane_Reconcile memClient (\<lambda>_. 0) \<lparr>rq_Namespace = ''default'', rq_Name = ''dp''\<rparr> exampleDataPlanes
   of (r, w1) \<Rightarrow> (case r of
       Inl e \<Rightarrow> sim_Cluster w1 = sim_Cluster exampleDataPlanes
     | Inr res \<Rightarrow> st_Services (sim_Cluster w1) = [])"
  using DataPlane_Reconcile_correct [OF mem.cluster_api_axioms exampleDataPlanes_stores(1,3)
      exampleDataPlanes_stores(4) [unfolded conditionsOf_status], of "\<lambda>_. 0"]
  by (auto simp: Let_def exampleDataPlanes_def quiet_def emptyCluster_def exampleDataPlane_def
      split: prod.splits sum.splits)

text \<open>C10. Two passes without an error settle a data plane: it then has exactly one service, and every
  further pass changes nothing, whatever the clock says; it succeeds unless the API fails.\<close>

theorem DataPlane_Reconcile_settles:
  assumes "cluster_api c view"
    and "wellStored ServiceObj (st_Services (view w))"
    and "lookupKey DataPlaneObj (ns, nm) (st_DataPlanes (view w)) = Some dp"
    and "uniqueTypes (dps_Conditions (dp_Status dp))"
    and "DataPlane_Reconcile c clk1 \<lparr>rq_Namespace = ns, rq_Name = nm\<rparr> w = (Inr r1, w1)"
    and "DataPlane_Reconcile c clk2 \<lparr>rq_Namespace = ns, rq_Name = nm\<rparr> w1 = (Inr r2, w2)"
    and "view w3 = view w2"
  shows "length (dataPlaneServices dp (view w2)) = 1 \<and>
    (case DataPlane_Reconcile c clk3 \<lparr>rq_Namespace = ns, rq_Name = nm\<rparr> w3 of (r, w4) \<Rightarrow>
       view w4 = view w2 \<and> (case r of Inl e \<Rightarrow> isAPIErr e | Inr res \<Rightarrow> res = emptyResult))"
proof -
  have "uniqueTypes (conditionsOf dp)" using assms(4) by (simp add: conditionsOf_status)
  note settled = cluster_api.DataPlane_two_passes [OF assms(1-3) this assms(5,6)]
  then obtain s where "dataPlaneOnce dp s (view w2)" by (auto simp: dataPlaneSettled_def)
  moreover have "dataPlaneSettled ns nm dp (view w3)" using settled assms(7) by simp
  note cluster_api.wp_DataPlane_idle [OF assms(1) this, of clk3]
  ultimately show ?thesis
    using assms(7) dataPlaneOnce_services by (simp add: wpA_def)
qed

definition examplePass :: "(Result, Sim) action" where
  "examplePass = DataPlane_Reconcile memClient (\<lambda>_. 0) \<lparr>rq_Namespace = ''default'', rq_Name = ''dp''\<rparr>"

lemma not_isl_Inr: "\<not> isl r \<longleftrightarrow> (\<exists>x. r = Inr x)"
  by (cases r) auto

theorem DataPlane_Reconcile_settles_witness:
  "\<exists>r1 w1 r2 w2. examplePass exampleDataPlanes = (Inr r1, w1) \<and> examplePass w1 = (Inr r2, w2) \<and>
     length (dataPlaneServices (exampleDataPlane ''dp'' ''u2'') (sim_Cluster w2)) = 1 \<and>
     sim_Cluster (snd (examplePass w2)) = sim_Cluster w2"
proof -
  have "\<not> isl (fst (examplePass exampleDataPlanes)) \<and>
      \<not> isl (fst (examplePass (snd (examplePass exampleDataPlanes))))" by code_simp
  then obtain r1 w1 r2 w2 where run: "examplePass exampleDataPlanes = (Inr r1, w1)" "examplePass w1 = (Inr r2, w2)"
    by (cases "examplePass exampleDataPlanes"; cases "examplePass (snd (examplePass exampleDataPlanes))")
      (auto simp: not_isl_Inr)
  from DataPlane_Reconcile_settles [OF mem.cluster_api_axioms exampleDataPlanes_stores(1,3)
      exampleDataPlanes_stores(4) [unfolded conditionsOf_status] run [unfolded examplePass_def] refl, of "\<lambda>_. 0"]
  show ?thesis using run by (auto simp: examplePass_def split: prod.splits)
qed

section \<open>What modelling showed\<close>

text \<open>
  The name of the service is written to the status only by the pass that creates or updates the
  service. If that write fails, here by a conflict in the pass that creates the service, no later
  pass repeats it: the data plane is settled with a service and no name of it in its status.
\<close>

definition conflictAfterCreate :: Sim where
  "conflictAfterCreate =
     (snd (examplePass exampleDataPlanes))\<lparr>sim_Faults := [None, None, None, Some (FailConflict ''x'')]\<rparr>"

lemma service_name_lost:
  "case examplePass conflictAfterCreate of (r1, w1) \<Rightarrow> isl r1 \<and> length (st_Services (sim_Cluster w1)) = 1 \<and>
     (case examplePass w1 of (r2, w2) \<Rightarrow> r2 = Inr emptyResult \<and>
        length (st_Services (sim_Cluster w2)) = 1 \<and>
        map (\<lambda>d. dps_Service (dp_Status d)) (st_DataPlanes (sim_Cluster w2)) = [''''])"
  by code_simp

end
