(* ===== verification/ControlPlaneController.thy ===== *)
theory ControlPlaneController
  imports DataPlaneController
begin

text \<open>
  The control plane controller (\<open>controllers/controlplane_controller.go\<close>,
  \<open>controlplane_controller_reconciler_utils.go\<close>, its conditions and finalizers). As for the data
  plane controller, the methods take the client, and \<open>clk i\<close> is what the clock says at the
  \<open>i\<close>-th place of the pass that reads it. The record \<open>Library\<close> holds what the pass calls of
  other code: the cryptography, the comparison of versions, and
  \<open>controllerutil.SetOwnerReference\<close>, which writes an owner reference into the data plane the
  pass has read.

  \<open>ControlPlane_Reconcile\<close> is the whole pass, in the parts the code has: \<open>cleanup\<close> for a control
  plane that is being deleted, \<open>connect\<close> for the name of the data plane's service, \<open>configure\<close>
  for the specification, \<open>provision\<close> for the owned objects.
\<close>

section \<open>Constants and parameters\<close>

definition ControlPlaneConditionTypeProvisioned :: string where
  "ControlPlaneConditionTypeProvisioned = ''Provisioned''"
definition ControlPlaneConditionReasonPodsNotReady :: string where
  "ControlPlaneConditionReasonPodsNotReady = ''PodsNotReady''"
definition ControlPlaneConditionReasonPodsReady :: string where
  "ControlPlaneConditionReasonPodsReady = ''PodsReady''"
definition ControlPlaneConditionReasonNoDataplane :: string where
  "ControlPlaneConditionReasonNoDataplane = ''NoDataplane''"

definition ControlPlaneFinalizerCleanupClusterRole :: string where
  "ControlPlaneFinalizerCleanupClusterRole = ''apisix-operator.apisix.apache.org/cleanup-clusterrole''"
definition ControlPlaneFinalizerCleanupClusterRoleBinding :: string where
  "ControlPlaneFinalizerCleanupClusterRoleBinding =
     ''apisix-operator.apisix.apache.org/cleanup-clusterrolebinding''"

definition requeueWithoutBackoff :: int where
  "requeueWithoutBackoff = 200000000" \<comment> \<open>200 milliseconds\<close>

definition numReplicasWhenNoDataplane :: int where
  "numReplicasWhenNoDataplane = 0"

definition requeueResult :: Result where
  "requeueResult = \<lparr>rq_Requeue = True, rq_RequeueAfter = requeueWithoutBackoff\<rparr>"

record ControlPlaneReconciler =
  cpr_ClusterCASecretName :: string
  cpr_ClusterCASecretNamespace :: string

record ('key, 'cert, 'signer, 'v, 'c) Library =
  lib_Crypto :: "('key, 'cert, 'signer) Crypto"
  lib_Semver :: "('v, 'c) Semver"
  lib_SetOwnerReference :: "ControlPlane \<Rightarrow> DataPlane \<Rightarrow> go_error + DataPlane"

section \<open>Status management\<close>

definition ControlPlane_ensureIsMarkedScheduled :: "time \<Rightarrow> ControlPlane \<Rightarrow> bool \<times> ControlPlane" where
  "ControlPlane_ensureIsMarkedScheduled now controlplane =
     (let (_, present) = GetCondition ControlPlaneConditions ControlPlaneConditionTypeProvisioned controlplane
      in if \<not> present then
           (let condition = NewCondition ControlPlaneConditionTypeProvisioned ConditionFalse
                  ControlPlaneConditionReasonPodsNotReady
                  ''ControlPlane resource is scheduled for provisioning'' now
            in (True, SetCondition ControlPlaneConditions condition controlplane))
         else (False, controlplane))"

definition ControlPlane_ensureIsMarkedProvisioned :: "time \<Rightarrow> time \<Rightarrow> ControlPlane \<Rightarrow> ControlPlane" where
  "ControlPlane_ensureIsMarkedProvisioned now now2 controlplane =
     (let condition = NewCondition ControlPlaneConditionTypeProvisioned ConditionTrue
            ControlPlaneConditionReasonPodsReady ''pods for all Deployments are ready'' now;
          controlplane = SetCondition ControlPlaneConditions condition controlplane
      in SetReady ControlPlaneConditions now2 controlplane)"

definition ensureDataPlaneStatus :: "time \<Rightarrow> time \<Rightarrow> ControlPlane \<Rightarrow> bool \<times> ControlPlane" where
  "ensureDataPlaneStatus now now2 controlplane =
     (let isSet = dataPlaneIsSet (cp_Spec controlplane);
          (condition, present) =
            GetCondition ControlPlaneConditions ControlPlaneConditionTypeProvisioned controlplane;
          newCondition = NewCondition ControlPlaneConditionTypeProvisioned ConditionFalse
            ControlPlaneConditionReasonNoDataplane ''DataPlane is not set'' now;
          newCondition = (if isSet then
              NewCondition ControlPlaneConditionTypeProvisioned ConditionFalse
                ControlPlaneConditionReasonPodsNotReady
                ''DataPlane was set, ControlPlane resource is scheduled for provisioning'' now2
            else newCondition);
          controlplane = (if \<not> present \<or> c_Status condition \<noteq> c_Status newCondition \<or>
                             c_Reason condition \<noteq> c_Reason newCondition
                          then SetCondition ControlPlaneConditions newCondition controlplane
                          else controlplane)
      in (isSet, controlplane))"

definition emptyControlPlane :: ControlPlane where
  "emptyControlPlane = \<lparr>cp_TypeMeta = typed '''' '''' '''', cp_Meta = emptyMeta,
     cp_Spec = \<lparr>opt_ContainerImage = None, opt_Version = None, opt_Env = None, opt_EnvFrom = None,
       opt_DataPlane = None, spec_GatewayClass = None, spec_IngressClass = None\<rparr>,
     cp_Status = \<lparr>cps_Conditions = []\<rparr>\<rparr>"

definition ControlPlane_updateStatus :: "'w Client \<Rightarrow> ControlPlane \<Rightarrow> (unit, 'w) action" where
  "ControlPlane_updateStatus c updated =
     bindA (attemptA (cl_Get (cl_ControlPlanes c) (om_Namespace (cp_Meta updated)) (om_Name (cp_Meta updated))))
       (\<lambda>r. bindA (case r of
                     Inl err \<Rightarrow> (if \<not> IsNotFound err then failA err else retA emptyControlPlane)
                   | Inr current \<Rightarrow> retA current)
              (\<lambda>current.
                 if NeedsUpdate ControlPlaneConditions current updated
                 then bindA (cl_StatusUpdate (cl_ControlPlanes c) updated) (\<lambda>_. retA ())
                 else retA ()))"

section \<open>Specification management\<close>

text \<open>
  A successful \<open>Update\<close> overwrites the object it was handed with what the server stored, so the
  pass goes on with that.
\<close>

definition ensureDataPlaneConfiguration ::
  "'w Client \<Rightarrow> ControlPlane \<Rightarrow> string \<Rightarrow> (ControlPlane, 'w) action" where
  "ensureDataPlaneConfiguration c controlplane dataplaneServiceName =
     (let (changed, spec) = setControlPlaneEnvOnDataPlaneChange (cp_Spec controlplane)
            (om_Namespace (cp_Meta controlplane)) dataplaneServiceName;
          controlplane = controlplane\<lparr>cp_Spec := spec\<rparr>
      in if changed then cl_Update (cl_ControlPlanes c) controlplane else retA controlplane)"

section \<open>Owned resources\<close>

definition ensureDeploymentForControlPlane ::
  "'w Client \<Rightarrow> ControlPlane \<Rightarrow> string \<Rightarrow> string \<Rightarrow> (bool \<times> Deployment, 'w) action" where
  "ensureDeploymentForControlPlane c controlplane serviceAccountName certSecretName =
     (let isSet = dataPlaneIsSet (cp_Spec controlplane)
      in ensureOwned (cl_Deployments c)
           (ListDeploymentsForOwner c GatewayOperatorControlledLabel ControlPlaneManagedLabelValue
              (om_Namespace (cp_Meta controlplane)) (om_UID (cp_Meta controlplane)))
           (\<lambda>count. ''found '' @ count @
              '' deployments for ControlPlane currently unsupported: expected 1 or less'')
           (Inr (wantedControlPlaneDeployment controlplane serviceAccountName certSecretName))
           (updateControlPlaneDeployment (cp_Spec controlplane))
           (\<lambda>generated. createOwned (cl_Deployments c)
              (if \<not> isSet then setReplicas (Some numReplicasWhenNoDataplane) generated else generated)))"

definition wantedServiceAccount :: "ControlPlane \<Rightarrow> ServiceAccount" where
  "wantedServiceAccount controlplane =
     (let generated = GenerateNewServiceAccountForControlPlane (om_Namespace (cp_Meta controlplane))
            (om_Name (cp_Meta controlplane));
          generated = SetOwnerForObject ServiceAccountObj ControlPlaneObj generated controlplane
      in addLabelForControlPlane ServiceAccountObj generated)"

definition ensureServiceAccountForControlPlane ::
  "'w Client \<Rightarrow> ControlPlane \<Rightarrow> (bool \<times> ServiceAccount, 'w) action" where
  "ensureServiceAccountForControlPlane c controlplane =
     ensureOwned (cl_ServiceAccounts c)
       (ListServiceAccountsForOwner c GatewayOperatorControlledLabel ControlPlaneManagedLabelValue
          (om_Namespace (cp_Meta controlplane)) (om_UID (cp_Meta controlplane)))
       (\<lambda>count. ''found '' @ count @
          '' serviceAccounts for ControlPlane currently unsupported: expected 1 or less'')
       (Inr (wantedServiceAccount controlplane)) (updateMeta ServiceAccountObj)
       (createOwned (cl_ServiceAccounts c))"

definition wantedClusterRole :: "('v, 'c) Semver \<Rightarrow> ControlPlane \<Rightarrow> go_error + ClusterRole" where
  "wantedClusterRole sv controlplane =
     bindE (GenerateNewClusterRoleForControlPlane sv (om_Name (cp_Meta controlplane))
              (opt_ContainerImage (cp_Spec controlplane)))
       (\<lambda>generated.
          (let generated = SetOwnerForObject ClusterRoleObj ControlPlaneObj generated controlplane
           in Inr (addLabelForControlPlane ClusterRoleObj generated)))"

definition ensureClusterRoleForControlPlane ::
  "('v, 'c) Semver \<Rightarrow> 'w Client \<Rightarrow> ControlPlane \<Rightarrow> (bool \<times> ClusterRole, 'w) action" where
  "ensureClusterRoleForControlPlane sv c controlplane =
     ensureOwned (cl_ClusterRoles c)
       (ListClusterRolesForOwner c GatewayOperatorControlledLabel ControlPlaneManagedLabelValue
          (om_UID (cp_Meta controlplane)))
       (\<lambda>count. ''found '' @ count @
          '' deployments for ControlPlane currently unsupported: expected 1 or less'')
       (wantedClusterRole sv controlplane) (updateMeta ClusterRoleObj)
       (createOwned (cl_ClusterRoles c))"

definition wantedClusterRoleBinding :: "ControlPlane \<Rightarrow> string \<Rightarrow> string \<Rightarrow> ClusterRoleBinding" where
  "wantedClusterRoleBinding controlplane serviceAccountName clusterRoleName =
     (let generated = GenerateNewClusterRoleBindingForControlPlane (om_Namespace (cp_Meta controlplane))
            (om_Name (cp_Meta controlplane)) serviceAccountName clusterRoleName;
          generated = SetOwnerForObject ClusterRoleBindingObj ControlPlaneObj generated controlplane
      in addLabelForControlPlane ClusterRoleBindingObj generated)"

definition ensureClusterRoleBindingForControlPlane ::
  "'w Client \<Rightarrow> ControlPlane \<Rightarrow> string \<Rightarrow> string \<Rightarrow> (bool \<times> ClusterRoleBinding, 'w) action" where
  "ensureClusterRoleBindingForControlPlane c controlplane serviceAccountName clusterRoleName =
     ensureOwned (cl_ClusterRoleBindings c)
       (ListClusterRoleBindingsForOwner c GatewayOperatorControlledLabel ControlPlaneManagedLabelValue
          (om_UID (cp_Meta controlplane)))
       (\<lambda>count. ''found '' @ count @
          '' deployments for ControlPlane currently unsupported: expected 1 or less'')
       (Inr (wantedClusterRoleBinding controlplane serviceAccountName clusterRoleName))
       (updateMeta ClusterRoleBindingObj) (createOwned (cl_ClusterRoleBindings c))"

definition ControlPlane_ensureCertificate ::
  "ControlPlaneReconciler \<Rightarrow> ('key, 'cert, 'signer) Crypto \<Rightarrow> time \<Rightarrow> 'w Client \<Rightarrow> ControlPlane
    \<Rightarrow> (bool \<times> Secret, 'w) action" where
  "ControlPlane_ensureCertificate r cy now c controlplane =
     maybeCreateCertificateSecret cy now (OwnerControlPlane controlplane)
       (om_Name (cp_Meta controlplane) @ ''.'' @ om_Namespace (cp_Meta controlplane))
       (cpr_ClusterCASecretName r) (cpr_ClusterCASecretNamespace r)
       [''key encipherment'', ''digital signature'', ''client auth''] c"

section \<open>Cleanup\<close>

text \<open>
  The loop that deletes what the list returned and collects the errors that are not \<open>NotFound\<close>;
  \<open>multierror.ErrorOrNil\<close> is nil without an error.
\<close>

fun deleteAll :: "('o, 'w) resource \<Rightarrow> 'o list \<Rightarrow> go_error list \<Rightarrow> (go_error list, 'w) action" where
  "deleteAll res [] deletionErr = retA deletionErr"
| "deleteAll res (x # xs) deletionErr =
     bindA (attemptA (cl_Delete res x)) (\<lambda>r.
       case r of
         Inl err \<Rightarrow> deleteAll res xs (if \<not> IsNotFound err then deletionErr @ [err] else deletionErr)
       | Inr _ \<Rightarrow> deleteAll res xs deletionErr)"

definition ErrorOrNil :: "go_error list \<Rightarrow> (unit, 'w) action" where
  "ErrorOrNil errs = (if errs = [] then retA () else failA (MultiError errs))"

definition ensureOwnedClusterRolesDeleted :: "'w Client \<Rightarrow> ControlPlane \<Rightarrow> (unit, 'w) action" where
  "ensureOwnedClusterRolesDeleted c controlplane =
     bindA (ListClusterRolesForOwner c GatewayOperatorControlledLabel ControlPlaneManagedLabelValue
              (om_UID (cp_Meta controlplane)))
       (\<lambda>clusterRoles. bindA (deleteAll (cl_ClusterRoles c) clusterRoles []) ErrorOrNil)"

definition ensureOwnedClusterRoleBindingsDeleted :: "'w Client \<Rightarrow> ControlPlane \<Rightarrow> (unit, 'w) action" where
  "ensureOwnedClusterRoleBindingsDeleted c controlplane =
     bindA (ListClusterRoleBindingsForOwner c GatewayOperatorControlledLabel ControlPlaneManagedLabelValue
              (om_UID (cp_Meta controlplane)))
       (\<lambda>clusterRoleBindings.
          bindA (deleteAll (cl_ClusterRoleBindings c) clusterRoleBindings []) ErrorOrNil)"

definition cleanup ::
  "'w Client \<Rightarrow> (nat \<Rightarrow> time) \<Rightarrow> time \<Rightarrow> ControlPlane \<Rightarrow> (Result, 'w) action" where
  "cleanup c clk deletionTimestamp controlplane =
     (if deletionTimestamp > clk 0 then
        retA \<lparr>rq_Requeue = True, rq_RequeueAfter = timeSub deletionTimestamp (clk 1)\<rparr>
      else
        bindA (ensureOwnedClusterRoleBindingsDeleted c controlplane) (\<lambda>_.
          (let (removed, m) = RemoveFinalizerInMetadata (cp_Meta controlplane)
                 ControlPlaneFinalizerCleanupClusterRoleBinding;
               controlplane = controlplane\<lparr>cp_Meta := m\<rparr>
           in if removed then bindA (cl_Update (cl_ControlPlanes c) controlplane) (\<lambda>_. retA emptyResult)
              else
                bindA (ensureOwnedClusterRolesDeleted c controlplane) (\<lambda>_.
                  (let (removed, m) = RemoveFinalizerInMetadata (cp_Meta controlplane)
                         ControlPlaneFinalizerCleanupClusterRole;
                       controlplane = controlplane\<lparr>cp_Meta := m\<rparr>
                   in if removed
                      then bindA (cl_Update (cl_ControlPlanes c) controlplane) (\<lambda>_. retA emptyResult)
                      else retA emptyResult)))))"

section \<open>Reconcile\<close>

definition connect ::
  "('key, 'cert, 'signer, 'v, 'c) Library \<Rightarrow> 'w Client \<Rightarrow> ControlPlane \<Rightarrow> (string, 'w) action" where
  "connect lib c controlplane =
     bindA (attemptA (GetDataPlaneForControlPlane c controlplane)) (\<lambda>r.
       case r of
         Inl err \<Rightarrow> if \<not> isErrDataPlaneNotSet err then failA err else retA ''''
       | Inr dataplane \<Rightarrow>
           bindA (liftE (lib_SetOwnerReference lib controlplane dataplane)) (\<lambda>dataplane.
             GetDataplaneServiceName c dataplane))"

text \<open>The end of the pass: the deployment, and the status when it is ready.\<close>

definition provisionDeployment ::
  "'w Client \<Rightarrow> (nat \<Rightarrow> time) \<Rightarrow> ControlPlane \<Rightarrow> bool \<Rightarrow> string \<Rightarrow> string \<Rightarrow> (Result, 'w) action" where
  "provisionDeployment c clk controlplane isSet serviceAccountName certSecretName =
     bindA (ensureDeploymentForControlPlane c controlplane serviceAccountName certSecretName)
       (\<lambda>(createdOrUpdated, deployment).
          if createdOrUpdated then
            (if \<not> isSet then bindA (ControlPlane_updateStatus c controlplane) (\<lambda>_. retA emptyResult)
             else retA emptyResult)
          else if dep_StatusReplicas deployment = 0 \<or>
                  dep_StatusAvailableReplicas deployment < dep_StatusReplicas deployment
          then retA emptyResult
          else
            (let controlplane = ControlPlane_ensureIsMarkedProvisioned (clk 7) (clk 8) controlplane
             in bindA (attemptA (ControlPlane_updateStatus c controlplane)) (\<lambda>r.
                  case r of
                    Inl err \<Rightarrow> if IsConflict err then retA requeueResult else failA err
                  | Inr _ \<Rightarrow> retA emptyResult)))"

definition provision ::
  "ControlPlaneReconciler \<Rightarrow> ('key, 'cert, 'signer, 'v, 'c) Library \<Rightarrow> 'w Client \<Rightarrow> (nat \<Rightarrow> time)
    \<Rightarrow> ControlPlane \<Rightarrow> bool \<Rightarrow> (Result, 'w) action" where
  "provision rec lib c clk controlplane isSet =
     bindA (ensureServiceAccountForControlPlane c controlplane) (\<lambda>(createdOrUpdated, serviceAccount).
       if createdOrUpdated then retA emptyResult else
     bindA (ensureClusterRoleForControlPlane (lib_Semver lib) c controlplane) (\<lambda>(createdOrUpdated, clusterRole).
       if createdOrUpdated then retA emptyResult else
     bindA (ensureClusterRoleBindingForControlPlane c controlplane (om_Name (sa_Meta serviceAccount))
              (om_Name (cr_Meta clusterRole))) (\<lambda>(createdOrUpdated, _).
       if createdOrUpdated then retA emptyResult else
     bindA (ControlPlane_ensureCertificate rec (lib_Crypto lib) (clk 6) c controlplane) (\<lambda>(created, certSecret).
       if created then retA emptyResult else
     provisionDeployment c clk controlplane isSet (om_Name (sa_Meta serviceAccount))
       (om_Name (sec_Meta certSecret))))))"

definition configure ::
  "ControlPlaneReconciler \<Rightarrow> ('key, 'cert, 'signer, 'v, 'c) Library \<Rightarrow> 'w Client \<Rightarrow> (nat \<Rightarrow> time)
    \<Rightarrow> ControlPlane \<Rightarrow> string \<Rightarrow> (Result, 'w) action" where
  "configure rec lib c clk controlplane dataplaneServiceName =
     (let (changed, spec) = setControlPlaneDefaults (cp_Spec controlplane)
            (om_Namespace (cp_Meta controlplane)) dataplaneServiceName {};
          controlplane = controlplane\<lparr>cp_Spec := spec\<rparr>
      in if changed then
           bindA (attemptA (cl_Update (cl_ControlPlanes c) controlplane)) (\<lambda>r.
             case r of
               Inl err \<Rightarrow> if IsConflict err then retA requeueResult else failA err
             | Inr _ \<Rightarrow> retA emptyResult)
         else
           bindA (attemptA (ensureDataPlaneConfiguration c controlplane dataplaneServiceName)) (\<lambda>r.
             case r of
               Inl err \<Rightarrow> if IsConflict err then retA requeueResult else failA err
             | Inr controlplane \<Rightarrow>
                 (let (isSet, controlplane) = ensureDataPlaneStatus (clk 4) (clk 5) controlplane
                  in provision rec lib c clk controlplane isSet)))"

definition ControlPlane_Reconcile ::
  "ControlPlaneReconciler \<Rightarrow> ('key, 'cert, 'signer, 'v, 'c) Library \<Rightarrow> 'w Client \<Rightarrow> (nat \<Rightarrow> time)
    \<Rightarrow> Request \<Rightarrow> (Result, 'w) action" where
  "ControlPlane_Reconcile rec lib c clk req =
     bindA (attemptA (cl_Get (cl_ControlPlanes c) (rq_Namespace req) (rq_Name req))) (\<lambda>r.
       case r of
         Inl err \<Rightarrow> if IsNotFound err then retA emptyResult else failA err
       | Inr controlplane \<Rightarrow>
           (case om_DeletionTimestamp (cp_Meta controlplane) of
              Some t \<Rightarrow> cleanup c clk t controlplane
            | None \<Rightarrow>
                (let (finalizersChanged, m) = EnsureFinalizersInMetadata (cp_Meta controlplane)
                       [ControlPlaneFinalizerCleanupClusterRole,
                        ControlPlaneFinalizerCleanupClusterRoleBinding];
                     controlplane = controlplane\<lparr>cp_Meta := m\<rparr>
                 in if finalizersChanged
                    then bindA (cl_Update (cl_ControlPlanes c) controlplane) (\<lambda>_. retA emptyResult)
                    else
                      (let controlplane = InitReady ControlPlaneConditions (clk 2) controlplane;
                           (marked, controlplane) =
                             ControlPlane_ensureIsMarkedScheduled (clk 3) controlplane
                       in if marked
                          then bindA (ControlPlane_updateStatus c controlplane) (\<lambda>_. retA emptyResult)
                          else bindA (connect lib c controlplane)
                                 (configure rec lib c clk controlplane)))))"

section \<open>What the controller wants\<close>

context object_kind
begin

lemma labelled_owned_meta:
  fixes g owner ko
  defines "w \<equiv> addLabelForControlPlane k (SetOwnerForObject k ko g owner)"
  shows "om_Namespace (co_Meta k w) = om_Namespace (co_Meta k g)"
    and "fmlookup (labelMap (om_Labels (co_Meta k w))) GatewayOperatorControlledLabel =
      Some ControlPlaneManagedLabelValue"
    and "IsOwnedByRefUID (co_Meta k w) (om_UID (co_Meta ko owner))"
  using owned_SetOwner [of ko g owner]
  by (simp_all add: w_def addLabelForControlPlane_def meta_SetOwner IsOwnedByRefUID_def)

end

lemma wantedServiceAccount_meta:
  "om_Namespace (sa_Meta (wantedServiceAccount cp)) = om_Namespace (cp_Meta cp)"
  "fmlookup (labelMap (om_Labels (sa_Meta (wantedServiceAccount cp)))) GatewayOperatorControlledLabel =
     Some ControlPlaneManagedLabelValue"
  "IsOwnedByRefUID (sa_Meta (wantedServiceAccount cp)) (om_UID (cp_Meta cp))"
  using serviceaccount.labelled_owned_meta [of ControlPlaneObj _ cp]
  by (simp_all add: wantedServiceAccount_def Let_def GenerateNewServiceAccountForControlPlane_def)

lemma wantedClusterRole_meta:
  assumes "wantedClusterRole sv cp = Inr g"
  shows "fmlookup (labelMap (om_Labels (cr_Meta g))) GatewayOperatorControlledLabel =
      Some ControlPlaneManagedLabelValue"
    and "IsOwnedByRefUID (cr_Meta g) (om_UID (cp_Meta cp))"
  using assms clusterrole.labelled_owned_meta [of ControlPlaneObj _ cp]
  by (auto simp: wantedClusterRole_def bindE_Inr Let_def)

lemma wantedClusterRoleBinding_meta:
  "fmlookup (labelMap (om_Labels (crb_Meta (wantedClusterRoleBinding cp sa cr)))) GatewayOperatorControlledLabel =
     Some ControlPlaneManagedLabelValue"
  "IsOwnedByRefUID (crb_Meta (wantedClusterRoleBinding cp sa cr)) (om_UID (cp_Meta cp))"
  using clusterrolebinding.labelled_owned_meta [of ControlPlaneObj _ cp]
  by (simp_all add: wantedClusterRoleBinding_def Let_def)

text \<open>The rest of the wanted objects is what their generators say.\<close>

lemma wanted_bodies:
  "wantedClusterRole sv cp = Inr g \<Longrightarrow>
     (\<exists>r. GenerateNewClusterRoleForControlPlane sv (om_Name (cp_Meta cp)) (opt_ContainerImage (cp_Spec cp)) = Inr r \<and>
        g\<lparr>cr_Meta := emptyMeta\<rparr> = r\<lparr>cr_Meta := emptyMeta\<rparr>)"
  "(wantedClusterRoleBinding cp sa cr)\<lparr>crb_Meta := emptyMeta\<rparr> =
     (GenerateNewClusterRoleBindingForControlPlane (om_Namespace (cp_Meta cp)) (om_Name (cp_Meta cp)) sa cr)
       \<lparr>crb_Meta := emptyMeta\<rparr>"
  by (auto simp: wantedClusterRole_def wantedClusterRoleBinding_def bindE_Inr Let_def
      SetOwnerForObject_def addLabelForControlPlane_def)

text \<open>The wanted deployment, and the action that creates it.\<close>

definition dormantInit :: "ControlPlane \<Rightarrow> Deployment \<Rightarrow> Deployment" where
  "dormantInit cp g = (if dataPlaneIsSet (cp_Spec cp) then g else setReplicas (Some 0) g)"

lemma createDeployment_as_init:
  "(\<lambda>g. createOwned res (if \<not> dataPlaneIsSet (cp_Spec cp) then setReplicas (Some numReplicasWhenNoDataplane) g else g)) =
   (\<lambda>g. createOwned res (dormantInit cp g))"
  by (rule ext) (simp add: dormantInit_def numReplicasWhenNoDataplane_def)

lemma converging_dormant:
  "converging DeploymentObj depBody (dormantInit cp) (updateControlPlaneDeployment (cp_Spec cp))
     (wantedControlPlaneDeployment cp sa cert)"
  using converging_wantedControlPlane [of cp sa cert] by (simp add: dormantInit_def [abs_def])

lemma settled_controlplane_env:
  fixes d g :: Deployment
  assumes "settled (updateControlPlaneDeployment spec) g d"
    and "mainContainer ControlPlaneControllerContainerName g \<noteq> None"
  shows "envSettled ControlPlaneControllerContainerName (opt_Env spec) (opt_EnvFrom spec) d"
    and "scaleSettled (dataPlaneIsSet spec) d"
proof -
  have "envSettled ControlPlaneControllerContainerName (opt_Env spec) (opt_EnvFrom spec) d \<and>
      scaleSettled (dataPlaneIsSet spec) d"
  proof (cases "EnsureObjectMetaIsUpdated (dep_Meta d) (dep_Meta g)")
    case (Inl e)
    then show ?thesis using assms(1) by (simp add: settled_def updateControlPlaneDeployment_def updateMeta_Inl)
  next
    case (Inr p)
    then obtain b m where m: "EnsureObjectMetaIsUpdated (dep_Meta d) (dep_Meta g) = Inr (b, m)" by (cases p) simp
    show ?thesis
      using updateControlPlaneDeployment_run [OF m assms(2), of spec] assms(1) by (auto simp: settled_def)
  qed
  then show "envSettled ControlPlaneControllerContainerName (opt_Env spec) (opt_EnvFrom spec) d"
    "scaleSettled (dataPlaneIsSet spec) d" by simp_all
qed

section \<open>Properties of the owned objects\<close>

text \<open>A control plane gets one service account. Against an API whose reads are up to date and whose
  store is well formed, a call that succeeds leaves the control plane with exactly one labelled
  and owned service account in its namespace, the one it returns; the next call on the same
  objects changes nothing and returns the same one, unless the API fails.\<close>

lemma ensureServiceAccount_once:
  assumes "cluster_api c view"
    and "wellStored ServiceAccountObj (st_ServiceAccounts (view w))"
    and "ensureServiceAccountForControlPlane c cp w = (Inr (changed, sa), w1)"
    and "view w2 = view w1"
  shows "ensuredOnce ServiceAccountObj (Some (om_Namespace (cp_Meta cp))) GatewayOperatorControlledLabel
      ''controlplane'' (om_UID (cp_Meta cp)) sa (st_ServiceAccounts (view w1)) \<and>
    unchangedBy view (ensureServiceAccountForControlPlane c cp) sa w2"
proof -
  note sa = cluster_api.axioms(5) [OF assms(1)]
  note conv = owned_kind.converging_updateMeta [OF sa] owned_kind.creates_createOwned [OF sa]
  note once = owned_kind.ensureOwned_once [OF sa
      assms(3) [unfolded ensureServiceAccountForControlPlane_def list_as_listOwned] assms(2) conv]
  have o: "ensuredOnce ServiceAccountObj (Some (om_Namespace (cp_Meta cp))) GatewayOperatorControlledLabel
      ControlPlaneManagedLabelValue (om_UID (cp_Meta cp)) sa (st_ServiceAccounts (view w1))"
    "settled (updateMeta ServiceAccountObj) (wantedServiceAccount cp) sa"
    using once(1,2) by (simp_all add: wantedServiceAccount_meta)
  have "unchangedBy view (ensureServiceAccountForControlPlane c cp) sa w2"
    unfolding ensureServiceAccountForControlPlane_def list_as_listOwned
    by (rule owned_kind.ensureOwned_unchanged [OF sa _ o(2) conv]) (use o(1) assms(4) in simp)
  with o(1) show ?thesis by (simp add: ControlPlaneManagedLabelValue_def)
qed

definition versionedControlPlane :: "string option \<Rightarrow> ControlPlane" where
  "versionedControlPlane dp = (exampleControlPlane dp)\<lparr>cp_Spec :=
     (cp_Spec (exampleControlPlane dp))\<lparr>opt_ContainerImage := Some ''controller:2.3''\<rparr>\<rparr>"

definition exampleControlPlanes :: Sim where
  "exampleControlPlanes = quiet (emptyCluster\<lparr>st_ControlPlanes := [versionedControlPlane None]\<rparr>)"

lemma exampleControlPlanes_stores:
  "wellStored ServiceAccountObj (st_ServiceAccounts (sim_Cluster exampleControlPlanes))"
  "wellStored ClusterRoleObj (st_ClusterRoles (sim_Cluster exampleControlPlanes))"
  "wellStored ClusterRoleBindingObj (st_ClusterRoleBindings (sim_Cluster exampleControlPlanes))"
  "wellStored DeploymentObj (st_Deployments (sim_Cluster exampleControlPlanes))"
  by (simp_all add: exampleControlPlanes_def quiet_def emptyCluster_def wellStored_def uniqueKeys_def)

theorem ensureServiceAccount_once_witness:
  "\<exists>sa w1. ensureServiceAccountForControlPlane memClient (versionedControlPlane None) exampleControlPlanes = (Inr (True, sa), w1) \<and>
     unchangedBy sim_Cluster (ensureServiceAccountForControlPlane memClient (versionedControlPlane None)) sa w1"
proof -
  let ?e = "ensureServiceAccountForControlPlane memClient (versionedControlPlane None) exampleControlPlanes"
  have "(case fst ?e of Inl e \<Rightarrow> False | Inr p \<Rightarrow> fst p)" by code_simp
  then obtain sa w1 where run: "?e = (Inr (True, sa), w1)"
    by (cases ?e) (auto split: sum.splits)
  with ensureServiceAccount_once [OF mem.cluster_api_axioms exampleControlPlanes_stores(1) run refl]
  show ?thesis by blast
qed

text \<open>C20. A control plane gets one cluster role. Under the same conditions, a call that succeeds leaves
  the control plane with exactly one labelled and owned cluster role, the one it returns. A new
  one has the rules generated for the image of the control plane. One that existed keeps its name and
  its rules, also when the image of the control plane asks for others by now: only its metadata is
  brought up to date. The next call on the same objects changes nothing and returns the same one,
  unless the API fails.\<close>

theorem ensureClusterRole_once:
  assumes "cluster_api c view"
    and "wellStored ClusterRoleObj (st_ClusterRoles (view w))"
    and "ensureClusterRoleForControlPlane sv c cp w = (Inr (changed, cr), w1)"
    and "view w2 = view w1"
  shows "ensuredOnce ClusterRoleObj None GatewayOperatorControlledLabel ''controlplane''
      (om_UID (cp_Meta cp)) cr (st_ClusterRoles (view w1)) \<and>
    (case ownedObjects ClusterRoleObj None GatewayOperatorControlledLabel ''controlplane'' (om_UID (cp_Meta cp))
          (st_ClusterRoles (view w)) of
       [] \<Rightarrow> changed \<and> (\<exists>role. GenerateNewClusterRoleForControlPlane sv (om_Name (cp_Meta cp))
            (opt_ContainerImage (cp_Spec cp)) = Inr role \<and> cr_Rules cr = cr_Rules role)
     | old # _ \<Rightarrow> om_Name (cr_Meta cr) = om_Name (cr_Meta old) \<and> cr_Rules cr = cr_Rules old) \<and>
    unchangedBy view (ensureClusterRoleForControlPlane sv c cp) cr w2"
proof -
  note cr = cluster_api.axioms(6) [OF assms(1)]
  note conv = owned_kind.converging_updateMeta [OF cr] owned_kind.creates_createOwned [OF cr]
  have u: "uniqueKeys ClusterRoleObj (st_ClusterRoles (view w))" using assms(2) by (simp add: wellStored_def)
  note run = assms(3) [unfolded ensureClusterRoleForControlPlane_def list_as_listOwned]
  obtain g where g: "wantedClusterRole sv cp = Inr g"
    using wpA_E [OF owned_kind.wp_ensureOwned [OF cr u conv] run] by auto
  note once = owned_kind.ensureOwned_once [OF cr run [unfolded g] assms(2) conv]
  have o: "ensuredOnce ClusterRoleObj None GatewayOperatorControlledLabel ControlPlaneManagedLabelValue
      (om_UID (cp_Meta cp)) cr (st_ClusterRoles (view w1))"
    "settled (updateMeta ClusterRoleObj) g cr"
    using once(1,2) by (simp_all add: wantedClusterRole_meta [OF g])
  have "unchangedBy view (ensureClusterRoleForControlPlane sv c cp) cr w2"
    unfolding ensureClusterRoleForControlPlane_def list_as_listOwned g
    by (rule owned_kind.ensureOwned_unchanged [OF cr _ o(2) conv]) (use o(1) assms(4) in simp)
  moreover have rules: "cr_Rules x = cr_Rules y" if "x\<lparr>cr_Meta := emptyMeta\<rparr> = y\<lparr>cr_Meta := emptyMeta\<rparr>" for x y
    using arg_cong [OF that, of cr_Rules] by simp
  moreover note owned_kind.ensured_updateMeta [OF cr once(3)] wantedClusterRole_meta [OF g]
  moreover obtain role where "GenerateNewClusterRoleForControlPlane sv (om_Name (cp_Meta cp))
      (opt_ContainerImage (cp_Spec cp)) = Inr role" "cr_Rules g = cr_Rules role"
    using wanted_bodies(1) [OF g] by (metis ClusterRole.select_convs(2) ClusterRole.surjective ClusterRole.update_convs(1))
  ultimately show ?thesis
    using o(1) by (auto simp: ControlPlaneManagedLabelValue_def keyOf_def dest: rules split: list.splits)
qed

theorem ensureClusterRole_once_witness:
  "\<exists>cr w1. ensureClusterRoleForControlPlane numericSemver memClient (versionedControlPlane None) exampleControlPlanes = (Inr (True, cr), w1) \<and>
     unchangedBy sim_Cluster (ensureClusterRoleForControlPlane numericSemver memClient (versionedControlPlane None)) cr w1"
proof -
  let ?e = "ensureClusterRoleForControlPlane numericSemver memClient (versionedControlPlane None) exampleControlPlanes"
  have "(case fst ?e of Inl e \<Rightarrow> False | Inr p \<Rightarrow> fst p)" by code_simp
  then obtain cr w1 where run: "?e = (Inr (True, cr), w1)"
    by (cases ?e) (auto split: sum.splits)
  with ensureClusterRole_once [OF mem.cluster_api_axioms exampleControlPlanes_stores(2) run refl]
  show ?thesis by blast
qed

text \<open>C21. A control plane gets one cluster role binding. Under the same conditions, a call that succeeds
  leaves the control plane with exactly one labelled and owned binding, the one it returns. A
  new one binds the named cluster role to the named service account in the control plane's
  namespace and to nothing else. One that existed keeps its role and its subjects, whatever the call
  names: only its metadata is brought up to date. The next call on the same objects changes
  nothing and returns the same one, unless the API fails.\<close>

theorem ensureClusterRoleBinding_once:
  assumes "cluster_api c view"
    and "wellStored ClusterRoleBindingObj (st_ClusterRoleBindings (view w))"
    and "ensureClusterRoleBindingForControlPlane c cp saName crName w = (Inr (changed, crb), w1)"
    and "view w2 = view w1"
  shows "ensuredOnce ClusterRoleBindingObj None GatewayOperatorControlledLabel ''controlplane''
      (om_UID (cp_Meta cp)) crb (st_ClusterRoleBindings (view w1)) \<and>
    (case ownedObjects ClusterRoleBindingObj None GatewayOperatorControlledLabel ''controlplane''
          (om_UID (cp_Meta cp)) (st_ClusterRoleBindings (view w)) of
       [] \<Rightarrow> changed \<and> crb_RoleRef crb = \<lparr>rr_APIGroup = ''rbac.authorization.k8s.io'', rr_Kind = ''ClusterRole'',
            rr_Name = crName\<rparr> \<and>
          crb_Subjects crb = [\<lparr>sub_Kind = ''ServiceAccount'', sub_Name = saName,
            sub_Namespace = om_Namespace (cp_Meta cp)\<rparr>]
     | old # _ \<Rightarrow> crb_RoleRef crb = crb_RoleRef old \<and> crb_Subjects crb = crb_Subjects old) \<and>
    unchangedBy view (ensureClusterRoleBindingForControlPlane c cp saName crName) crb w2"
proof -
  note crb = cluster_api.axioms(7) [OF assms(1)]
  note conv = owned_kind.converging_updateMeta [OF crb] owned_kind.creates_createOwned [OF crb]
  note once = owned_kind.ensureOwned_once [OF crb
      assms(3) [unfolded ensureClusterRoleBindingForControlPlane_def list_as_listOwned] assms(2) conv]
  let ?g = "wantedClusterRoleBinding cp saName crName"
  have o: "ensuredOnce ClusterRoleBindingObj None GatewayOperatorControlledLabel ControlPlaneManagedLabelValue
      (om_UID (cp_Meta cp)) crb (st_ClusterRoleBindings (view w1))"
    "settled (updateMeta ClusterRoleBindingObj) ?g crb"
    using once(1,2) by (simp_all add: wantedClusterRoleBinding_meta)
  have "unchangedBy view (ensureClusterRoleBindingForControlPlane c cp saName crName) crb w2"
    unfolding ensureClusterRoleBindingForControlPlane_def list_as_listOwned
    by (rule owned_kind.ensureOwned_unchanged [OF crb _ o(2) conv]) (use o(1) assms(4) in simp)
  moreover have parts: "crb_RoleRef x = crb_RoleRef y \<and> crb_Subjects x = crb_Subjects y"
    if "x\<lparr>crb_Meta := emptyMeta\<rparr> = y\<lparr>crb_Meta := emptyMeta\<rparr>" for x y
    using arg_cong [OF that, of crb_RoleRef] arg_cong [OF that, of crb_Subjects] by simp
  moreover note owned_kind.ensured_updateMeta [OF crb once(3)] wantedClusterRoleBinding_meta
  moreover have "crb_RoleRef ?g = \<lparr>rr_APIGroup = ''rbac.authorization.k8s.io'', rr_Kind = ''ClusterRole'',
      rr_Name = crName\<rparr> \<and> crb_Subjects ?g = [\<lparr>sub_Kind = ''ServiceAccount'', sub_Name = saName,
      sub_Namespace = om_Namespace (cp_Meta cp)\<rparr>]"
    using parts [OF wanted_bodies(2)] by (simp add: GenerateNewClusterRoleBindingForControlPlane_def)
  ultimately show ?thesis
    using o(1) by (auto simp: ControlPlaneManagedLabelValue_def dest: parts split: list.splits)
qed

theorem ensureClusterRoleBinding_once_witness:
  "\<exists>crb w1. ensureClusterRoleBindingForControlPlane memClient (versionedControlPlane None) ''sa'' ''cr'' exampleControlPlanes = (Inr (True, crb), w1) \<and>
     unchangedBy sim_Cluster (ensureClusterRoleBindingForControlPlane memClient (versionedControlPlane None) ''sa'' ''cr'') crb w1"
proof -
  let ?e = "ensureClusterRoleBindingForControlPlane memClient (versionedControlPlane None) ''sa'' ''cr'' exampleControlPlanes"
  have "(case fst ?e of Inl e \<Rightarrow> False | Inr p \<Rightarrow> fst p)" by code_simp
  then obtain crb w1 where run: "?e = (Inr (True, crb), w1)"
    by (cases ?e) (auto split: sum.splits)
  with ensureClusterRoleBinding_once [OF mem.cluster_api_axioms exampleControlPlanes_stores(3) run refl]
  show ?thesis by blast
qed

text \<open>C16. A control plane gets one deployment, dormant without a data plane. Under the same conditions, a
  call that succeeds leaves the control plane with exactly one labelled and owned deployment,
  the one it returns; its controller container has the environment of the control plane's
  specification, and it has zero replicas exactly if no data plane is named. The next call on
  the same objects changes nothing and returns the same one, unless the API fails.\<close>

theorem ensureDeploymentForControlPlane_once:
  assumes "cluster_api c view"
    and "wellStored DeploymentObj (st_Deployments (view w))"
    and "ensureDeploymentForControlPlane c cp saName certSecretName w = (Inr (changed, d), w1)"
    and "view w2 = view w1"
  shows "ensuredOnce DeploymentObj (Some (om_Namespace (cp_Meta cp))) GatewayOperatorControlledLabel
      ''controlplane'' (om_UID (cp_Meta cp)) d (st_Deployments (view w1)) \<and>
    envSettled ''controller'' (opt_Env (cp_Spec cp)) (opt_EnvFrom (cp_Spec cp)) d \<and>
    (ds_Replicas (dep_Spec d) = Some 0 \<longleftrightarrow> \<not> dataPlaneIsSet (cp_Spec cp)) \<and>
    unchangedBy view (ensureDeploymentForControlPlane c cp saName certSecretName) d w2"
proof -
  note dep = cluster_api.axioms(3) [OF assms(1)]
  have "co_Meta DeploymentObj (dormantInit cp g) = co_Meta DeploymentObj g" for g
    by (simp add: dormantInit_def)
  note conv = converging_dormant owned_kind.creates_init [OF dep this]
  have as_pattern: "ensureDeploymentForControlPlane c cp saName certSecretName =
      ensureOwned (cl_Deployments c) (listOwned (cl_Deployments c) DeploymentObj (Some (om_Namespace (cp_Meta cp)))
        GatewayOperatorControlledLabel ControlPlaneManagedLabelValue (om_UID (cp_Meta cp)))
        (\<lambda>count. ''found '' @ count @ '' deployments for ControlPlane currently unsupported: expected 1 or less'')
        (Inr (wantedControlPlaneDeployment cp saName certSecretName)) (updateControlPlaneDeployment (cp_Spec cp))
        (\<lambda>g. createOwned (cl_Deployments c) (dormantInit cp g))"
    by (simp only: ensureDeploymentForControlPlane_def Let_def list_as_listOwned createDeployment_as_init)
  note once = owned_kind.ensureOwned_once [OF dep assms(3) [unfolded as_pattern] assms(2) conv]
  have o: "ensuredOnce DeploymentObj (Some (om_Namespace (cp_Meta cp))) GatewayOperatorControlledLabel
      ControlPlaneManagedLabelValue (om_UID (cp_Meta cp)) d (st_Deployments (view w1))"
    "settled (updateControlPlaneDeployment (cp_Spec cp)) (wantedControlPlaneDeployment cp saName certSecretName) d"
    using once(1,2) by (simp_all add: wantedControlPlaneDeployment_meta)
  have "mainContainer ControlPlaneControllerContainerName (wantedControlPlaneDeployment cp saName certSecretName) \<noteq> None"
    using wantedControlPlaneDeployment_spec(1) [of cp saName certSecretName]
    by (auto simp: envSettled_def split: option.splits)
  note settled_controlplane_env [OF o(2) this]
  moreover have "unchangedBy view (ensureDeploymentForControlPlane c cp saName certSecretName) d w2"
    unfolding as_pattern
    by (rule owned_kind.ensureOwned_unchanged [OF dep _ o(2) conv]) (use o(1) assms(4) in simp)
  ultimately show ?thesis
    using o(1) by (simp add: ControlPlaneControllerContainerName_def ControlPlaneManagedLabelValue_def
        scaleSettled_def)
qed

theorem ensureDeploymentForControlPlane_once_witness:
  "\<exists>d w1. ensureDeploymentForControlPlane memClient (versionedControlPlane None) ''sa'' ''cert'' exampleControlPlanes = (Inr (True, d), w1) \<and>
     unchangedBy sim_Cluster (ensureDeploymentForControlPlane memClient (versionedControlPlane None) ''sa'' ''cert'') d w1"
proof -
  let ?e = "ensureDeploymentForControlPlane memClient (versionedControlPlane None) ''sa'' ''cert'' exampleControlPlanes"
  have "(case fst ?e of Inl e \<Rightarrow> False | Inr p \<Rightarrow> fst p)" by code_simp
  then obtain d w1 where run: "?e = (Inr (True, d), w1)"
    by (cases ?e) (auto split: sum.splits)
  with ensureDeploymentForControlPlane_once [OF mem.cluster_api_axioms exampleControlPlanes_stores(4) run refl]
  show ?thesis by blast
qed

end
