(* ===== verification/ControlPlaneCleanup.thy ===== *)
theory ControlPlaneCleanup
  imports ControlPlaneController
begin

text \<open>
  The deletion of a control plane (the first half of \<open>Reconcile\<close> in
  \<open>controllers/controlplane_controller.go\<close>). The cluster-wide objects a control plane owns are
  not collected by the garbage collector, which is why it has two finalizers. Proved here: a
  finalizer goes only after all objects it stands for were deleted, errors included, and passes
  without an error come to the end.
\<close>

section \<open>Deleting what a list returned\<close>

text \<open>An object is live until its deletion was requested.\<close>

definition live :: "'o client_object \<Rightarrow> 'o \<Rightarrow> bool" where
  "live k x \<longleftrightarrow> om_DeletionTimestamp (co_Meta k x) = None"

text \<open>
  What a sequence of deletions does to the stored objects: nothing live appears, and nothing
  live is left under the given keys.
\<close>

definition swept :: "'o client_object \<Rightarrow> (string \<times> string) set \<Rightarrow> 'o list \<Rightarrow> 'o list \<Rightarrow> bool" where
  "swept k keys before after \<longleftrightarrow>
     (\<forall>y \<in> set after. live k y \<longrightarrow> y \<in> set before \<and> keyOf (co_Meta k y) \<notin> keys)"

lemma swept_refl [simp]: "swept k {} xs xs"
  by (simp add: swept_def)

lemma swept_trans: "swept k A xs ys \<Longrightarrow> swept k B ys zs \<Longrightarrow> swept k (A \<union> B) xs zs"
  by (auto simp: swept_def)

lemma swept_mono: "swept k A xs ys \<Longrightarrow> B \<subseteq> A \<Longrightarrow> swept k B xs ys"
  by (auto simp: swept_def)

lemma swept_owned:
  assumes "swept k ((\<lambda>x. keyOf (co_Meta k x)) ` set (ownedObjects k ns l v uid xs)) xs ys"
  shows "filter (live k) (ownedObjects k ns l v uid ys) = []"
  using assms by (auto simp: swept_def filter_empty_conv ownedObjects_def)

context api_kind
begin

lemma swept_deleteNow:
  assumes "object_kind k"
  shows "swept k {keyOf (co_Meta k old)} xs (deleteNow k old t xs)"
  using object_kind.meta_set [OF assms]
  by (auto simp: swept_def deleteNow_def removeKey_def replaceKey_def live_def keyOf_def split: if_splits)

lemma wellStored_deleteNow:
  assumes "object_kind k" and "wellStored k xs"
  shows "wellStored k (deleteNow k old t xs)"
proof (cases "om_Finalizers (co_Meta k old) = []")
  case True
  then show ?thesis
    using assms(2) by (auto simp: deleteNow_def wellStored_def uniqueKeys_def removeKey_def
        distinct_map_filter list_all_iff)
next
  case False
  then show ?thesis
    using wellStored_replaceKey [OF assms(2)] object_kind.meta_set [OF assms(1)]
    by (simp add: deleteNow_def gone_def)
qed

lemma wp_deleteOne:
  assumes obj: "object_kind k" and put_sel: "\<And>v. put (sel v) v = v" and st: "wellStored k (sel (view w))"
  shows "wpA (attemptA (cl_Delete res x)) (\<lambda>r w1. view w1 = put (sel (view w1)) (view w) \<and>
      wellStored k (sel (view w1)) \<and> swept k {} (sel (view w)) (sel (view w1)) \<and>
      (case r of Inl e \<Rightarrow> False
       | Inr d \<Rightarrow> (case d of Inl e \<Rightarrow> IsNotFound e | Inr u \<Rightarrow> True) \<longrightarrow>
           swept k {keyOf (co_Meta k x)} (sel (view w)) (sel (view w1)))) w"
proof (cases "cl_Delete res x w")
  case (Pair r w0)
  show ?thesis
  proof (cases r)
    case (Inl e)
    note err = delete_err [OF Pair [unfolded Inl]]
    have "swept k {keyOf (co_Meta k x)} (sel (view w)) (sel (view w0))" if "IsNotFound e"
      using err that by (auto simp: swept_def lookupKey_None)
    then show ?thesis
      using err Pair Inl st by (simp add: wpA_attemptA) (simp add: wpA_def put_sel)
  next
    case (Inr u)
    obtain old t where "lookupKey k (keyOf (co_Meta k x)) (sel (view w)) = Some old"
      "view w0 = put (deleteNow k old t (sel (view w))) (view w)"
      using delete_ok [OF Pair [unfolded Inr]] by blast
    then have "view w0 = put (sel (view w0)) (view w)" "wellStored k (sel (view w0))"
      "swept k {keyOf (co_Meta k x)} (sel (view w)) (sel (view w0))" "swept k {} (sel (view w)) (sel (view w0))"
      using swept_mono [of k "{keyOf (co_Meta k old)}" _ _ "{}"] swept_deleteNow [OF obj, of old "sel (view w)" t]
        lookupKey_Some [of k "keyOf (co_Meta k x)" _ old] wellStored_deleteNow [OF obj st]
      by (auto simp: sel_put)
    then show ?thesis using Pair Inr by (simp add: wpA_attemptA) (simp add: wpA_def)
  qed
qed

lemma wp_deleteAll:
  assumes obj: "object_kind k" and put_put: "\<And>xs ys v. put xs (put ys v) = put xs v"
    and put_sel: "\<And>v. put (sel v) v = v"
  shows "wellStored k (sel (view w)) \<Longrightarrow> wpA (deleteAll res xs errs) (\<lambda>r w1. case r of
      Inl e \<Rightarrow> False
    | Inr errs1 \<Rightarrow> view w1 = put (sel (view w1)) (view w) \<and> wellStored k (sel (view w1)) \<and>
        swept k {} (sel (view w)) (sel (view w1)) \<and>
        (errs1 = [] \<longrightarrow> errs = [] \<and> swept k ((\<lambda>x. keyOf (co_Meta k x)) ` set xs) (sel (view w)) (sel (view w1)))) w"
    (is "_ \<Longrightarrow> wpA _ (?Q xs errs w) w")
proof (induction xs arbitrary: errs w)
  case Nil
  then show ?case by (simp add: wp put_sel swept_refl)
next
  case (Cons x xs)
  have rest: "wpA (deleteAll res xs errs0) (?Q (x # xs) errs w) w0"
    if w0: "view w0 = put (sel (view w0)) (view w)" "wellStored k (sel (view w0))" "swept k {} (sel (view w)) (sel (view w0))"
      and e: "errs0 = [] \<longrightarrow> errs = [] \<and> swept k {keyOf (co_Meta k x)} (sel (view w)) (sel (view w0))" for errs0 w0
  proof (rule wpA_mono [OF Cons.IH [OF w0(2)]], goal_cases)
    case (1 r w1)
    have "view w1 = put (sel (view w1)) (view w)" if "view w1 = put (sel (view w1)) (view w0)"
      using that w0(1) by (metis put_put)
    then show ?case
      using 1 w0 e swept_trans [of k "{keyOf (co_Meta k x)}" "sel (view w)" "sel (view w0)"]
        swept_trans [of k "{}" "sel (view w)" "sel (view w0)" "{}" "sel (view w1)"]
      by (auto split: sum.splits)
  qed
  show ?case
    unfolding deleteAll.simps wpA_bindA [of "attemptA _"]
  proof (rule wpA_mono [OF wp_deleteOne [OF obj put_sel Cons.prems, of x]], goal_cases)
    case (1 r w0)
    then obtain d where d: "r = Inr d" by (cases r) auto
    with 1 have "wpA (deleteAll res xs (case d of Inl err \<Rightarrow> if \<not> IsNotFound err then errs @ [err] else errs
        | Inr u \<Rightarrow> errs)) (?Q (x # xs) errs w) w0"
      by (intro rest) (auto split: sum.splits)
    then show ?case by (cases d) (simp_all add: d)
  qed
qed

end

section \<open>The pass over a control plane that is being deleted\<close>

text \<open>What a control plane owns of the cluster-wide kinds and what is still to be deleted of it.\<close>

definition liveBindings :: "ControlPlane \<Rightarrow> Cluster \<Rightarrow> ClusterRoleBinding list" where
  "liveBindings cp v = filter (live ClusterRoleBindingObj)
     (ownedObjects ClusterRoleBindingObj None GatewayOperatorControlledLabel ControlPlaneManagedLabelValue
        (om_UID (cp_Meta cp)) (st_ClusterRoleBindings v))"

definition liveRoles :: "ControlPlane \<Rightarrow> Cluster \<Rightarrow> ClusterRole list" where
  "liveRoles cp v = filter (live ClusterRoleObj)
     (ownedObjects ClusterRoleObj None GatewayOperatorControlledLabel ControlPlaneManagedLabelValue
        (om_UID (cp_Meta cp)) (st_ClusterRoles v))"

definition bindingFinalizer :: string where
  "bindingFinalizer = ControlPlaneFinalizerCleanupClusterRoleBinding"

definition roleFinalizer :: string where
  "roleFinalizer = ControlPlaneFinalizerCleanupClusterRole"

text \<open>The control planes after the finalizer \<open>f\<close> of \<open>cp\<close> was removed.\<close>

definition finalizerRemoved :: "string \<Rightarrow> ControlPlane \<Rightarrow> Cluster \<Rightarrow> Cluster \<Rightarrow> bool" where
  "finalizerRemoved f cp v v1 \<longleftrightarrow> (\<exists>y. st_ControlPlanes v1 = settle ControlPlaneObj y (st_ControlPlanes v) \<and>
     om_Finalizers (cp_Meta y) = filter (\<lambda>x. x \<noteq> f) (om_Finalizers (cp_Meta cp)) \<and>
     keyOf (cp_Meta y) = keyOf (cp_Meta cp) \<and> om_UID (cp_Meta y) = om_UID (cp_Meta cp) \<and>
     om_DeletionTimestamp (cp_Meta y) = om_DeletionTimestamp (cp_Meta cp) \<and> cp_Status y = cp_Status cp)"

text \<open>
  A pass touches the cluster-wide objects and the control planes only, and adds no live
  cluster-wide object.
\<close>

definition cleanupFrame :: "Cluster \<Rightarrow> Cluster \<Rightarrow> bool" where
  "cleanupFrame v v1 \<longleftrightarrow> v1 = v\<lparr>st_ControlPlanes := st_ControlPlanes v1, st_ClusterRoles := st_ClusterRoles v1,
     st_ClusterRoleBindings := st_ClusterRoleBindings v1\<rparr> \<and>
     swept ClusterRoleObj {} (st_ClusterRoles v) (st_ClusterRoles v1) \<and>
     swept ClusterRoleBindingObj {} (st_ClusterRoleBindings v) (st_ClusterRoleBindings v1) \<and>
     (wellStored ClusterRoleObj (st_ClusterRoles v) \<longrightarrow> wellStored ClusterRoleObj (st_ClusterRoles v1)) \<and>
     (wellStored ClusterRoleBindingObj (st_ClusterRoleBindings v) \<longrightarrow>
        wellStored ClusterRoleBindingObj (st_ClusterRoleBindings v1))"

definition cleanupOutcome :: "ControlPlane \<Rightarrow> Cluster \<Rightarrow> Cluster \<Rightarrow> bool" where
  "cleanupOutcome cp v v1 \<longleftrightarrow> liveBindings cp v1 = [] \<and>
     (if bindingFinalizer \<in> set (om_Finalizers (cp_Meta cp)) then finalizerRemoved bindingFinalizer cp v v1
      else liveRoles cp v1 = [] \<and>
        (if roleFinalizer \<in> set (om_Finalizers (cp_Meta cp)) then finalizerRemoved roleFinalizer cp v v1
         else st_ControlPlanes v1 = st_ControlPlanes v))"

text \<open>What a pass past the grace period answers and leaves.\<close>

definition cleanupResult :: "ControlPlane \<Rightarrow> Cluster \<Rightarrow> go_error + Result \<Rightarrow> Cluster \<Rightarrow> bool" where
  "cleanupResult cp v r v1 \<longleftrightarrow> cleanupFrame v v1 \<and> (case r of
     Inl e \<Rightarrow> st_ControlPlanes v1 = st_ControlPlanes v
   | Inr res \<Rightarrow> res = emptyResult \<and> cleanupOutcome cp v v1)"

text \<open>The update that removes a finalizer, and the pass past the grace period in terms of it.\<close>

abbreviation dropFinalizer :: "'w Client \<Rightarrow> ControlPlane \<Rightarrow> string \<Rightarrow> (Result, 'w) action" where
  "dropFinalizer c cp f \<equiv> bindA (cl_Update (cl_ControlPlanes c)
     (cp\<lparr>cp_Meta := (cp_Meta cp)\<lparr>om_Finalizers := filter (\<lambda>x. x \<noteq> f) (om_Finalizers (cp_Meta cp))\<rparr>\<rparr>))
     (\<lambda>_. retA emptyResult)"

lemma cleanup_due:
  assumes "\<not> clk 0 < t"
  shows "cleanup c clk t cp = bindA (ensureOwnedClusterRoleBindingsDeleted c cp) (\<lambda>_.
    if bindingFinalizer \<in> set (om_Finalizers (cp_Meta cp)) then dropFinalizer c cp bindingFinalizer
    else bindA (ensureOwnedClusterRolesDeleted c cp) (\<lambda>_.
      if roleFinalizer \<in> set (om_Finalizers (cp_Meta cp)) then dropFinalizer c cp roleFinalizer else retA emptyResult))"
proof -
  have "filter (\<lambda>x. x \<noteq> bindingFinalizer) (om_Finalizers (cp_Meta cp)) = om_Finalizers (cp_Meta cp)"
    if "bindingFinalizer \<notin> set (om_Finalizers (cp_Meta cp))"
    using that by (auto intro: filter_True)
  then show ?thesis
    using assms(1) by (cases "bindingFinalizer \<in> set (om_Finalizers (cp_Meta cp))")
      (simp_all add: cleanup_def RemoveFinalizer_eq flip: bindingFinalizer_def roleFinalizer_def)
qed

lemma cleanupFrame_refl: "cleanupFrame v v"
  by (simp add: cleanupFrame_def swept_refl)

lemma cleanupFrame_trans: "cleanupFrame u v \<Longrightarrow> cleanupFrame v w \<Longrightarrow> cleanupFrame u w"
  by (cases u; cases v; cases w) (auto simp: cleanupFrame_def intro: swept_trans [of _ "{}" _ _ "{}", simplified])

lemma cleanupFrame_updates:
  "v1 = v\<lparr>st_ControlPlanes := ps\<rparr> \<Longrightarrow> cleanupFrame v v1"
  "v1 = v\<lparr>st_ClusterRoles := rs\<rparr> \<Longrightarrow> wellStored ClusterRoleObj rs \<Longrightarrow>
     swept ClusterRoleObj {} (st_ClusterRoles v) rs \<Longrightarrow> cleanupFrame v v1"
  "v1 = v\<lparr>st_ClusterRoleBindings := bs\<rparr> \<Longrightarrow> wellStored ClusterRoleBindingObj bs \<Longrightarrow>
     swept ClusterRoleBindingObj {} (st_ClusterRoleBindings v) bs \<Longrightarrow> cleanupFrame v v1"
  by (simp_all add: cleanupFrame_def swept_refl)

context cluster_api
begin

lemma wp_bindingsDeleted:
  assumes "wellStored ClusterRoleBindingObj (st_ClusterRoleBindings (view w))"
  shows "wpA (ensureOwnedClusterRoleBindingsDeleted c cp) (\<lambda>r w1. cleanupFrame (view w) (view w1) \<and>
      st_ControlPlanes (view w1) = st_ControlPlanes (view w) \<and> st_ClusterRoles (view w1) = st_ClusterRoles (view w) \<and>
      (case r of Inl e \<Rightarrow> True | Inr u \<Rightarrow> liveBindings cp (view w1) = [])) w" (is "wpA _ ?Q w")
  unfolding ensureOwnedClusterRoleBindingsDeleted_def list_as_listOwned wp
proof (rule crb.wp_listOwned, goal_cases)
  case (1 w1)
  let ?xs = "ownedObjects ClusterRoleBindingObj None GatewayOperatorControlledLabel
    ControlPlaneManagedLabelValue (om_UID (cp_Meta cp)) (st_ClusterRoleBindings (view w))"
  have "wpA (deleteAll (cl_ClusterRoleBindings c) ?xs [])
      (\<lambda>r w2. case r of Inl e \<Rightarrow> ?Q (Inl e) w2 | Inr errs \<Rightarrow> wpA (ErrorOrNil errs) ?Q w2) w1"
  proof (rule wpA_mono [OF crb.wp_deleteAll [OF crb.object_kind_axioms]], goal_cases)
    case (4 r w2)
    then obtain errs where errs: "r = Inr errs"
      "view w2 = (view w)\<lparr>st_ClusterRoleBindings := st_ClusterRoleBindings (view w2)\<rparr>"
      "wellStored ClusterRoleBindingObj (st_ClusterRoleBindings (view w2))"
      "swept ClusterRoleBindingObj {} (st_ClusterRoleBindings (view w)) (st_ClusterRoleBindings (view w2))"
      "errs = [] \<Longrightarrow> liveBindings cp (view w2) = []"
      using 1 by (auto simp: liveBindings_def swept_owned split: sum.splits)
    note v = arg_cong [OF errs(2), of st_ControlPlanes] arg_cong [OF errs(2), of st_ClusterRoles]
    show ?case
      using errs(1,5) v cleanupFrame_updates(3) [OF errs(2-4)] by (simp add: ErrorOrNil_def wp)
  qed (use assms 1 in auto)
  then show ?case by (simp add: wp)
qed (use assms cleanupFrame_refl in auto)

lemma wp_rolesDeleted:
  assumes "wellStored ClusterRoleObj (st_ClusterRoles (view w))"
  shows "wpA (ensureOwnedClusterRolesDeleted c cp) (\<lambda>r w1. cleanupFrame (view w) (view w1) \<and>
      st_ControlPlanes (view w1) = st_ControlPlanes (view w) \<and> st_ClusterRoleBindings (view w1) = st_ClusterRoleBindings (view w) \<and>
      (case r of Inl e \<Rightarrow> True | Inr u \<Rightarrow> liveRoles cp (view w1) = [])) w" (is "wpA _ ?Q w")
  unfolding ensureOwnedClusterRolesDeleted_def list_as_listOwned wp
proof (rule cr.wp_listOwned, goal_cases)
  case (1 w1)
  let ?xs = "ownedObjects ClusterRoleObj None GatewayOperatorControlledLabel
    ControlPlaneManagedLabelValue (om_UID (cp_Meta cp)) (st_ClusterRoles (view w))"
  have "wpA (deleteAll (cl_ClusterRoles c) ?xs [])
      (\<lambda>r w2. case r of Inl e \<Rightarrow> ?Q (Inl e) w2 | Inr errs \<Rightarrow> wpA (ErrorOrNil errs) ?Q w2) w1"
  proof (rule wpA_mono [OF cr.wp_deleteAll [OF cr.object_kind_axioms]], goal_cases)
    case (4 r w2)
    then obtain errs where errs: "r = Inr errs"
      "view w2 = (view w)\<lparr>st_ClusterRoles := st_ClusterRoles (view w2)\<rparr>"
      "wellStored ClusterRoleObj (st_ClusterRoles (view w2))"
      "swept ClusterRoleObj {} (st_ClusterRoles (view w)) (st_ClusterRoles (view w2))"
      "errs = [] \<Longrightarrow> liveRoles cp (view w2) = []"
      using 1 by (auto simp: liveRoles_def swept_owned split: sum.splits)
    note v = arg_cong [OF errs(2), of st_ControlPlanes] arg_cong [OF errs(2), of st_ClusterRoleBindings]
    show ?case
      using errs(1,5) v cleanupFrame_updates(2) [OF errs(2-4)] by (simp add: ErrorOrNil_def wp)
  qed (use assms 1 in auto)
  then show ?case by (simp add: wp)
qed (use assms cleanupFrame_refl in auto)

lemma wp_removeFinalizer:
  assumes "lookupKey ControlPlaneObj (keyOf (cp_Meta cp)) (st_ControlPlanes (view w)) = Some cp"
    and "\<And>w1. view w1 = (view w)\<lparr>st_ControlPlanes := st_ControlPlanes (view w1)\<rparr> \<Longrightarrow>
      finalizerRemoved f cp (view w) (view w1) \<Longrightarrow> Q (Inr emptyResult) w1"
    and "\<And>e w1. view w1 = view w \<Longrightarrow> Q (Inl e) w1"
  shows "wpA (dropFinalizer c cp f) Q w"
  unfolding wp
proof (rule cp.wp_Update, goal_cases)
  case (1 y old w1)
  then have "old = cp" using assms(1) by (simp add: keyOf_def)
  then have "finalizerRemoved f cp (view w) (view w1)"
    unfolding finalizerRemoved_def
    by (intro exI [of _ y]) (use 1 in \<open>simp add: keyOf_def sameWritten_def\<close>)
  moreover have "view w1 = (view w)\<lparr>st_ControlPlanes := st_ControlPlanes (view w1)\<rparr>"
    using 1(2) by simp
  ultimately show ?case using assms(2) by (simp add: wp)
next
  case (2 e w1)
  then show ?case using assms(3) by simp
qed

lemma wp_dropFinalizer:
  assumes cp: "lookupKey ControlPlaneObj (keyOf (cp_Meta cp)) (st_ControlPlanes v) = Some cp"
    and w: "st_ControlPlanes (view w) = st_ControlPlanes v" "cleanupFrame v (view w)"
    and out: "\<And>v1. finalizerRemoved f cp v v1 \<Longrightarrow> liveBindings cp v1 = liveBindings cp (view w) \<Longrightarrow>
      liveRoles cp v1 = liveRoles cp (view w) \<Longrightarrow> cleanupOutcome cp v v1"
  shows "wpA (dropFinalizer c cp f) (\<lambda>r w1. cleanupResult cp v r (view w1)) w"
proof (rule wp_removeFinalizer, goal_cases)
  case (2 w1)
  note v = arg_cong [OF 2(1), of st_ClusterRoles] arg_cong [OF 2(1), of st_ClusterRoleBindings]
  have "cleanupFrame (view w) (view w1)" using 2(1) by (rule cleanupFrame_updates)
  moreover have "cleanupOutcome cp v (view w1)"
    using 2(2) v w(1) by (intro out) (simp_all add: finalizerRemoved_def liveBindings_def liveRoles_def)
  ultimately show ?case using cleanupFrame_trans [OF w(2)] by (simp add: cleanupResult_def)
qed (use cp w in \<open>auto simp: cleanupResult_def\<close>)

text \<open>The second half of the pass, once no binding is left and its finalizer is gone.\<close>

lemma wp_cleanup_roles:
  assumes cp: "lookupKey ControlPlaneObj (keyOf (cp_Meta cp)) (st_ControlPlanes v) = Some cp"
    and roles: "wellStored ClusterRoleObj (st_ClusterRoles (view w))"
    and b: "bindingFinalizer \<notin> set (om_Finalizers (cp_Meta cp))" "liveBindings cp (view w) = []"
    and w: "st_ControlPlanes (view w) = st_ControlPlanes v" "cleanupFrame v (view w)"
  shows "wpA (bindA (ensureOwnedClusterRolesDeleted c cp) (\<lambda>_.
      if roleFinalizer \<in> set (om_Finalizers (cp_Meta cp)) then dropFinalizer c cp roleFinalizer
      else retA emptyResult)) (\<lambda>r w1. cleanupResult cp v r (view w1)) w"
  unfolding wpA_bindA [of "ensureOwnedClusterRolesDeleted c cp"]
proof (rule wpA_mono [OF wp_rolesDeleted [OF roles]], goal_cases)
  case (1 r w1)
  then have f: "cleanupFrame v (view w1)" "st_ControlPlanes (view w1) = st_ControlPlanes v"
    "liveBindings cp (view w1) = []"
    using cleanupFrame_trans [OF w(2)] w(1) b(2) by (simp_all add: liveBindings_def)
  show ?case
  proof (cases r)
    case (Inr x)
    then have "liveRoles cp (view w1) = []" using 1 by simp
    then have "cleanupResult cp v (Inr emptyResult) (view w1)"
      if "roleFinalizer \<notin> set (om_Finalizers (cp_Meta cp))"
      using that f b by (simp add: cleanupResult_def cleanupOutcome_def)
    moreover have "wpA (dropFinalizer c cp roleFinalizer) (\<lambda>r w2. cleanupResult cp v r (view w2)) w1"
      if "roleFinalizer \<in> set (om_Finalizers (cp_Meta cp))"
      using that \<open>liveRoles cp (view w1) = []\<close> f b
      by (intro wp_dropFinalizer [OF cp f(2,1)]) (simp add: cleanupOutcome_def)
    ultimately show ?thesis using Inr by (simp add: wpA_retA)
  qed (use f in \<open>simp add: cleanupResult_def\<close>)
qed

lemma wp_cleanup:
  assumes cp: "lookupKey ControlPlaneObj (keyOf (cp_Meta cp)) (st_ControlPlanes (view w)) = Some cp"
    and roles: "wellStored ClusterRoleObj (st_ClusterRoles (view w))"
    and bindings: "wellStored ClusterRoleBindingObj (st_ClusterRoleBindings (view w))"
    and due: "\<not> clk 0 < t"
  shows "wpA (cleanup c clk t cp) (\<lambda>r w1. cleanupResult cp (view w) r (view w1)) w"
  unfolding cleanup_due [of clk t, OF due] wpA_bindA [of "ensureOwnedClusterRoleBindingsDeleted c cp"]
proof (rule wpA_mono [OF wp_bindingsDeleted [OF bindings]], goal_cases)
  case (1 r w1)
  then have f: "cleanupFrame (view w) (view w1)" "st_ControlPlanes (view w1) = st_ControlPlanes (view w)"
    "st_ClusterRoles (view w1) = st_ClusterRoles (view w)" by simp_all
  show ?case
  proof (cases r)
    case (Inr x)
    then have lb: "liveBindings cp (view w1) = []" using 1 by simp
    show ?thesis
    proof (cases "bindingFinalizer \<in> set (om_Finalizers (cp_Meta cp))")
      case True
      then have "wpA (dropFinalizer c cp bindingFinalizer) (\<lambda>r w2. cleanupResult cp (view w) r (view w2)) w1"
        using lb by (intro wp_dropFinalizer [OF cp f(2,1)]) (simp add: cleanupOutcome_def)
      then show ?thesis using Inr True by simp
    next
      case False
      have "wellStored ClusterRoleObj (st_ClusterRoles (view w1))" using roles f(3) by simp
      note wp_cleanup_roles [OF cp this False lb f(2,1)]
      then show ?thesis using Inr False by simp
    qed
  qed (use f in \<open>simp add: cleanupResult_def\<close>)
qed

lemma wp_Reconcile_deleting:
  assumes cp: "lookupKey ControlPlaneObj (rq_Namespace req, rq_Name req) (st_ControlPlanes (view w)) = Some cp"
    and t: "om_DeletionTimestamp (cp_Meta cp) = Some t"
    and roles: "wellStored ClusterRoleObj (st_ClusterRoles (view w))"
    and bindings: "wellStored ClusterRoleBindingObj (st_ClusterRoleBindings (view w))"
  shows "wpA (ControlPlane_Reconcile rec lib c clk req) (\<lambda>r w1. cleanupFrame (view w) (view w1) \<and>
      (if clk 0 < t then view w1 = view w \<and> (case r of Inl e \<Rightarrow> isAPIErr e
         | Inr res \<Rightarrow> res = \<lparr>rq_Requeue = True, rq_RequeueAfter = timeSub t (clk 1)\<rparr>)
       else case r of
         Inl e \<Rightarrow> st_ControlPlanes (view w1) = st_ControlPlanes (view w)
       | Inr res \<Rightarrow> res = emptyResult \<and> cleanupOutcome cp (view w) (view w1))) w" (is "wpA _ ?Q w")
  unfolding ControlPlane_Reconcile_def wpA_bindA [of "attemptA _"] wpA_attemptA
proof (rule cp.wp_Get, goal_cases)
  case (1 x w1)
  then have x: "x = cp" using cp by simp
  have key: "keyOf (cp_Meta cp) = (rq_Namespace req, rq_Name req)"
    using lookupKey_Some [OF cp] by simp
  have "wpA (cleanup c clk t cp) ?Q w1"
  proof (cases "clk 0 < t")
    case True
    then show ?thesis
      using 1(2) cleanupFrame_refl
      by (simp add: cleanup_def wp)
  next
    case False
    show ?thesis
      by (rule wpA_mono [OF wp_cleanup [of cp w1 clk t]])
        (use False cp key roles bindings 1(2) in \<open>auto simp: cleanupResult_def split: sum.splits\<close>)
  qed
  then show ?case by (simp add: x t)
next
  case (2 e w1)
  then show ?case
    using cp cleanupFrame_refl by (auto simp: wp)
qed

end

section \<open>Two passes\<close>

text \<open>Nothing that the finalizers of a control plane stand for is left, nor are they.\<close>

definition cleanedUp :: "ControlPlane \<Rightarrow> Cluster \<Rightarrow> bool" where
  "cleanedUp cp v \<longleftrightarrow> liveBindings cp v = [] \<and>
     (roleFinalizer \<in> set (om_Finalizers (cp_Meta cp)) \<longrightarrow> liveRoles cp v = []) \<and>
     (case lookupKey ControlPlaneObj (keyOf (cp_Meta cp)) (st_ControlPlanes v) of
        None \<Rightarrow> True
      | Some y \<Rightarrow> bindingFinalizer \<notin> set (om_Finalizers (cp_Meta y)) \<and>
          roleFinalizer \<notin> set (om_Finalizers (cp_Meta y)))"

lemma lookup_finalizerRemoved:
  assumes "lookupKey ControlPlaneObj (keyOf (cp_Meta cp)) (st_ControlPlanes v) = Some cp"
    and "finalizerRemoved f cp v v1"
  shows "case lookupKey ControlPlaneObj (keyOf (cp_Meta cp)) (st_ControlPlanes v1) of
      None \<Rightarrow> set (om_Finalizers (cp_Meta cp)) \<subseteq> {f}
    | Some y \<Rightarrow> om_Finalizers (cp_Meta y) = filter (\<lambda>x. x \<noteq> f) (om_Finalizers (cp_Meta cp)) \<and>
        keyOf (cp_Meta y) = keyOf (cp_Meta cp) \<and> om_UID (cp_Meta y) = om_UID (cp_Meta cp) \<and>
        om_DeletionTimestamp (cp_Meta y) = om_DeletionTimestamp (cp_Meta cp)"
proof -
  obtain y where y: "st_ControlPlanes v1 = settle ControlPlaneObj y (st_ControlPlanes v)"
    "om_Finalizers (cp_Meta y) = filter (\<lambda>x. x \<noteq> f) (om_Finalizers (cp_Meta cp))"
    "keyOf (cp_Meta y) = keyOf (cp_Meta cp)" "om_UID (cp_Meta y) = om_UID (cp_Meta cp)"
    "om_DeletionTimestamp (cp_Meta y) = om_DeletionTimestamp (cp_Meta cp)"
    using assms(2) unfolding finalizerRemoved_def by blast
  show ?thesis
  proof (cases "gone (cp_Meta y)")
    case True
    then have "lookupKey ControlPlaneObj (keyOf (cp_Meta cp)) (st_ControlPlanes v1) = None"
      using y(1,3) by (simp add: lookupKey_None settle_def set_removeKey)
    moreover have "filter (\<lambda>x. x \<noteq> f) (om_Finalizers (cp_Meta cp)) = []"
      using True y(2) by (simp add: gone_def)
    ultimately show ?thesis by (auto simp: filter_empty_conv)
  next
    case False
    then have "lookupKey ControlPlaneObj (keyOf (cp_Meta cp)) (st_ControlPlanes v1) = Some y"
      using y(1,3) lookupKey_replaceKey [OF assms(1), of y] by (simp add: settle_def)
    then show ?thesis using y by simp
  qed
qed

lemma cleanupOutcome_last:
  assumes "lookupKey ControlPlaneObj (keyOf (cp_Meta y)) (st_ControlPlanes v) = Some y"
    and "bindingFinalizer \<notin> set (om_Finalizers (cp_Meta y))" and "cleanupOutcome y v v1"
    and "om_UID (cp_Meta y) = om_UID (cp_Meta cp)" and "keyOf (cp_Meta y) = keyOf (cp_Meta cp)"
  shows "cleanedUp cp v1"
proof -
  have "liveBindings cp v1 = []" "liveRoles cp v1 = []"
    using assms(2-4) by (simp_all add: cleanupOutcome_def liveBindings_def liveRoles_def)
  moreover have "case lookupKey ControlPlaneObj (keyOf (cp_Meta y)) (st_ControlPlanes v1) of None \<Rightarrow> True
    | Some z \<Rightarrow> bindingFinalizer \<notin> set (om_Finalizers (cp_Meta z)) \<and> roleFinalizer \<notin> set (om_Finalizers (cp_Meta z))"
  proof (cases "roleFinalizer \<in> set (om_Finalizers (cp_Meta y))")
    case True
    then have "finalizerRemoved roleFinalizer y v v1" using assms(2,3) by (simp add: cleanupOutcome_def)
    from lookup_finalizerRemoved [OF assms(1) this] show ?thesis
      using assms(2) by (auto split: option.splits)
  next
    case False
    then show ?thesis using assms(1-3) by (simp add: cleanupOutcome_def)
  qed
  ultimately show ?thesis using assms(5) by (simp add: cleanedUp_def)
qed

lemma finalizers_differ: "bindingFinalizer \<noteq> roleFinalizer"
  by (simp add: bindingFinalizer_def roleFinalizer_def ControlPlaneFinalizerCleanupClusterRole_def
      ControlPlaneFinalizerCleanupClusterRoleBinding_def)

text \<open>After the first pass the control plane is gone, or only the finalizer for roles is left.\<close>

lemma cleanupOutcome_first:
  assumes "lookupKey ControlPlaneObj (keyOf (cp_Meta cp)) (st_ControlPlanes v) = Some cp"
    and "cleanupOutcome cp v v1"
  shows "case lookupKey ControlPlaneObj (keyOf (cp_Meta cp)) (st_ControlPlanes v1) of
      None \<Rightarrow> cleanedUp cp v1
    | Some y \<Rightarrow> bindingFinalizer \<notin> set (om_Finalizers (cp_Meta y)) \<and>
        keyOf (cp_Meta y) = keyOf (cp_Meta cp) \<and> om_UID (cp_Meta y) = om_UID (cp_Meta cp) \<and>
        om_DeletionTimestamp (cp_Meta y) = om_DeletionTimestamp (cp_Meta cp)"
proof (cases "bindingFinalizer \<in> set (om_Finalizers (cp_Meta cp))")
  case True
  then have f: "finalizerRemoved bindingFinalizer cp v v1" "liveBindings cp v1 = []"
    using assms(2) by (simp_all add: cleanupOutcome_def)
  from lookup_finalizerRemoved [OF assms(1) f(1)] show ?thesis
    using f(2) finalizers_differ by (auto simp: cleanedUp_def split: option.splits)
next
  case False
  note last = cleanupOutcome_last [OF assms(1) False assms(2) refl refl]
  show ?thesis
  proof (cases "roleFinalizer \<in> set (om_Finalizers (cp_Meta cp))")
    case True
    then have "finalizerRemoved roleFinalizer cp v v1" using False assms(2) by (simp add: cleanupOutcome_def)
    from lookup_finalizerRemoved [OF assms(1) this] show ?thesis
      using last False by (auto split: option.splits)
  next
    case role: False
    then show ?thesis using assms False by (simp add: cleanupOutcome_def)
  qed
qed

lemma cleanup_two_passes:
  assumes api: "cluster_api c view"
    and cp: "lookupKey ControlPlaneObj (rq_Namespace req, rq_Name req) (st_ControlPlanes (view w)) = Some cp"
    and t: "om_DeletionTimestamp (cp_Meta cp) = Some t" "t \<le> clk 0" "t \<le> clk' 0"
    and stored: "wellStored ClusterRoleObj (st_ClusterRoles (view w))"
      "wellStored ClusterRoleBindingObj (st_ClusterRoleBindings (view w))"
    and run: "ControlPlane_Reconcile rec lib c clk req w = (Inr res, w1)"
    and w2: "view w2 = view w1"
    and run2: "ControlPlane_Reconcile rec lib c clk' req w2 = (Inr res', w3)"
  shows "cleanedUp cp (view w3)"
proof -
  note pass = cluster_api.wp_Reconcile_deleting [OF api]
  have key: "keyOf (cp_Meta cp) = (rq_Namespace req, rq_Name req)"
    using lookupKey_Some [OF cp] by simp
  have out: "cleanupOutcome cp (view w) (view w1)" and fr: "cleanupFrame (view w) (view w1)"
    using wpA_E [OF pass [OF cp t(1) stored] run] t(2) by simp_all
  have first: "case lookupKey ControlPlaneObj (keyOf (cp_Meta cp)) (st_ControlPlanes (view w1)) of
      None \<Rightarrow> cleanedUp cp (view w1)
    | Some y \<Rightarrow> bindingFinalizer \<notin> set (om_Finalizers (cp_Meta y)) \<and>
        keyOf (cp_Meta y) = keyOf (cp_Meta cp) \<and> om_UID (cp_Meta y) = om_UID (cp_Meta cp) \<and>
        om_DeletionTimestamp (cp_Meta y) = om_DeletionTimestamp (cp_Meta cp)"
    using cp out key by (intro cleanupOutcome_first) simp_all
  have stored2: "wellStored ClusterRoleObj (st_ClusterRoles (view w2))"
    "wellStored ClusterRoleBindingObj (st_ClusterRoleBindings (view w2))"
    using fr stored w2 by (simp_all add: cleanupFrame_def)
  show ?thesis
  proof (cases "lookupKey ControlPlaneObj (rq_Namespace req, rq_Name req) (st_ControlPlanes (view w2))")
    case None
    have "wpA (ControlPlane_Reconcile rec lib c clk' req) (\<lambda>r w3. view w3 = view w2) w2"
      unfolding ControlPlane_Reconcile_def wpA_bindA [of "attemptA _"] wpA_attemptA
      by (rule api_kind.wp_Get [OF owned_kind.axioms(1) [OF cluster_api.axioms(1) [OF api]]])
        (use None in \<open>auto simp: wp\<close>)
    then have v3: "view w3 = view w1" using run2 w2 by (simp add: wpA_def)
    then show ?thesis
      using first None key w2 by simp
  next
    case (Some y)
    then have y: "lookupKey ControlPlaneObj (rq_Namespace req, rq_Name req) (st_ControlPlanes (view w2)) = Some y"
      "bindingFinalizer \<notin> set (om_Finalizers (cp_Meta y))" "keyOf (cp_Meta y) = keyOf (cp_Meta cp)"
      "om_UID (cp_Meta y) = om_UID (cp_Meta cp)" "om_DeletionTimestamp (cp_Meta y) = Some t"
      using first key w2 t(1) by simp_all
    have "cleanupOutcome y (view w2) (view w3)"
      using wpA_E [OF pass [OF y(1,5) stored2] run2] t(3) by simp
    with y show ?thesis by (intro cleanupOutcome_last [of y "view w2"]) (simp_all add: key)
  qed
qed

section \<open>Properties of the deletion\<close>

text \<open>
  An example: a control plane with both finalizers, a binding and a role, in the in-memory
  server. The example of \<open>SetOwnerReference\<close> adds a reference that is not the controller's.
\<close>

definition exampleLibrary :: "(unit, unit, unit, nat \<times> nat \<times> nat, Bound list) Library" where
  "exampleLibrary = \<lparr>lib_Crypto = exampleCrypto, lib_Semver = numericSemver,
     lib_SetOwnerReference = (\<lambda>cp dp. Inr (dp\<lparr>dp_Meta := (dp_Meta dp)\<lparr>om_OwnerReferences :=
       appendS (om_OwnerReferences (dp_Meta dp))
         ((GenerateOwnerReferenceForObject ControlPlaneObj cp)\<lparr>or_Controller := None\<rparr>)\<rparr>\<rparr>))\<rparr>"

definition exampleReconciler :: ControlPlaneReconciler where
  "exampleReconciler = \<lparr>cpr_ClusterCASecretName = ''ca'', cpr_ClusterCASecretNamespace = ''kube-system''\<rparr>"

definition deletingControlPlane :: ControlPlane where
  "deletingControlPlane = (versionedControlPlane None)\<lparr>cp_Meta := (cp_Meta (versionedControlPlane None))
     \<lparr>om_DeletionTimestamp := Some 5, om_Finalizers := [roleFinalizer, bindingFinalizer]\<rparr>\<rparr>"

definition deletingCluster :: Sim where
  "deletingCluster = quiet (emptyCluster\<lparr>st_ControlPlanes := [deletingControlPlane],
     st_ClusterRoles := (case wantedClusterRole numericSemver deletingControlPlane of Inl e \<Rightarrow> [] | Inr r \<Rightarrow> [r]),
     st_ClusterRoleBindings := [wantedClusterRoleBinding deletingControlPlane ''sa'' ''cr'']\<rparr>)"

definition exampleRequest :: Request where
  "exampleRequest = \<lparr>rq_Namespace = om_Namespace (cp_Meta deletingControlPlane),
     rq_Name = om_Name (cp_Meta deletingControlPlane)\<rparr>"

definition cleanupPass :: "(Result, Sim) action" where
  "cleanupPass = ControlPlane_Reconcile exampleReconciler exampleLibrary memClient (\<lambda>_. 9) exampleRequest"

lemma deletingCluster_facts:
  "lookupKey ControlPlaneObj (rq_Namespace exampleRequest, rq_Name exampleRequest)
     (st_ControlPlanes (sim_Cluster deletingCluster)) = Some deletingControlPlane"
  "om_DeletionTimestamp (cp_Meta deletingControlPlane) = Some 5"
  "wellStored ClusterRoleObj (st_ClusterRoles (sim_Cluster deletingCluster))"
  "wellStored ClusterRoleBindingObj (st_ClusterRoleBindings (sim_Cluster deletingCluster))"
  "length (liveBindings deletingControlPlane (sim_Cluster deletingCluster)) = 1"
  "length (liveRoles deletingControlPlane (sim_Cluster deletingCluster)) = 1"
  "fst (cleanupPass deletingCluster) = Inr emptyResult"
  "fst (cleanupPass (snd (cleanupPass deletingCluster))) = Inr emptyResult"
  by code_simp+

text \<open>C5. Finalizers go last. A pass over a control plane that is being deleted does nothing before
  the end of the grace period but ask to be called again after the rest of it. Later, unless it
  ends in an error, no live cluster role binding of the control plane is left; and either
  the pass removed the finalizer for bindings, or no live cluster role is left either, and the
  finalizer for roles was removed if it was there. A pass that ends in an error (of a list, of
  any of the deletions or of the update) leaves the control planes as they were. In every case
  nothing but control planes, cluster roles and cluster role bindings is touched.\<close>

theorem cleanup_safe:
  assumes "cluster_api c view"
    and "lookupKey ControlPlaneObj (rq_Namespace req, rq_Name req) (st_ControlPlanes (view w)) = Some cp"
    and "om_DeletionTimestamp (cp_Meta cp) = Some t"
    and "wellStored ClusterRoleObj (st_ClusterRoles (view w))"
    and "wellStored ClusterRoleBindingObj (st_ClusterRoleBindings (view w))"
    and "ControlPlane_Reconcile rec lib c clk req w = (r, w1)"
  shows "cleanupFrame (view w) (view w1) \<and>
    (if clk 0 < t then view w1 = view w \<and> (case r of Inl e \<Rightarrow> isAPIErr e
       | Inr res \<Rightarrow> res = \<lparr>rq_Requeue = True, rq_RequeueAfter = timeSub t (clk 1)\<rparr>)
     else case r of
       Inl e \<Rightarrow> st_ControlPlanes (view w1) = st_ControlPlanes (view w)
     | Inr res \<Rightarrow> res = emptyResult \<and> cleanupOutcome cp (view w) (view w1))"
  by (rule wpA_E [OF cluster_api.wp_Reconcile_deleting [OF assms(1-5)] assms(6)])

theorem cleanup_safe_witness:
  "cleanupFrame (sim_Cluster deletingCluster) (sim_Cluster (snd (cleanupPass deletingCluster))) \<and>
   cleanupOutcome deletingControlPlane (sim_Cluster deletingCluster)
     (sim_Cluster (snd (cleanupPass deletingCluster)))"
proof -
  have run: "ControlPlane_Reconcile exampleReconciler exampleLibrary memClient (\<lambda>_. 9) exampleRequest deletingCluster =
      (Inr emptyResult, snd (cleanupPass deletingCluster))"
    using deletingCluster_facts(7) by (simp add: cleanupPass_def prod_eq_iff)
  show ?thesis
    using cleanup_safe [OF mem.cluster_api_axioms deletingCluster_facts(1-4) run] by simp
qed

text \<open>C6. The deletion comes to its end. Two passes past the grace period that end without an error,
  with nothing else in between, leave no live cluster role binding of the control plane, no
  live cluster role if the control plane had the finalizer for roles, and neither finalizer: the
  control plane is gone, or only finalizers of others keep it.\<close>

theorem cleanup_completes:
  assumes "cluster_api c view"
    and "lookupKey ControlPlaneObj (rq_Namespace req, rq_Name req) (st_ControlPlanes (view w)) = Some cp"
    and "om_DeletionTimestamp (cp_Meta cp) = Some t" and "t \<le> clk 0" and "t \<le> clk' 0"
    and "wellStored ClusterRoleObj (st_ClusterRoles (view w))"
    and "wellStored ClusterRoleBindingObj (st_ClusterRoleBindings (view w))"
    and "ControlPlane_Reconcile rec lib c clk req w = (Inr res, w1)"
    and "view w2 = view w1"
    and "ControlPlane_Reconcile rec lib c clk' req w2 = (Inr res', w3)"
  shows "cleanedUp cp (view w3)"
  by (rule cleanup_two_passes [OF assms])

theorem cleanup_completes_witness:
  "cleanedUp deletingControlPlane (sim_Cluster (snd (cleanupPass (snd (cleanupPass deletingCluster)))))"
proof -
  have run: "ControlPlane_Reconcile exampleReconciler exampleLibrary memClient (\<lambda>_. 9) exampleRequest deletingCluster =
      (Inr emptyResult, snd (cleanupPass deletingCluster))"
    using deletingCluster_facts(7) by (simp add: cleanupPass_def prod_eq_iff)
  have run2: "ControlPlane_Reconcile exampleReconciler exampleLibrary memClient (\<lambda>_. 9) exampleRequest
      (snd (cleanupPass deletingCluster)) = (Inr emptyResult, snd (cleanupPass (snd (cleanupPass deletingCluster))))"
    using deletingCluster_facts(8) by (simp add: cleanupPass_def prod_eq_iff)
  show ?thesis
    by (rule cleanup_completes [OF mem.cluster_api_axioms deletingCluster_facts(1,2) _ _
          deletingCluster_facts(3,4) run refl run2]) simp_all
qed

end
