(* ===== verification/ControlPlaneProgress.thy ===== *)
theory ControlPlaneProgress
  imports ControlPlaneCleanup
begin

text \<open>
  The provisioning of a control plane (the second half of \<open>Reconcile\<close> in
  \<open>controllers/controlplane_controller.go\<close>) as a refinement: the relation \<open>cpWrite\<close> lists the
  writes a pass may do and what must hold when it does them, in the order the code provisions
  (finalizers, service account, cluster role, binding, certificate, deployment, status). A pass
  is a sequence of such writes; what they preserve, every pass preserves.
\<close>

section \<open>What the writes are about\<close>

definition hasFinalizers :: "ControlPlane \<Rightarrow> bool" where
  "hasFinalizers cp \<longleftrightarrow> roleFinalizer \<in> set (om_Finalizers (cp_Meta cp)) \<and>
     bindingFinalizer \<in> set (om_Finalizers (cp_Meta cp))"

text \<open>The stored control plane with the name of \<open>cp\<close> is \<open>x\<close>, the same one, and it is not deleted.\<close>

definition storedAs :: "ControlPlane \<Rightarrow> ControlPlane \<Rightarrow> Cluster \<Rightarrow> bool" where
  "storedAs cp x v \<longleftrightarrow> lookupKey ControlPlaneObj (keyOf (cp_Meta cp)) (st_ControlPlanes v) = Some x \<and>
     om_UID (cp_Meta x) = om_UID (cp_Meta cp) \<and> om_DeletionTimestamp (cp_Meta x) = None"

lemma storedAs_key: "storedAs cp x v \<Longrightarrow> keyOf (cp_Meta x) = keyOf (cp_Meta cp)"
  using lookupKey_Some [of ControlPlaneObj "keyOf (cp_Meta cp)" "st_ControlPlanes v" x]
  by (simp add: storedAs_def)

definition withControlPlane :: "ControlPlane \<Rightarrow> Cluster \<Rightarrow> Cluster" where
  "withControlPlane y v = v\<lparr>st_ControlPlanes := replaceKey ControlPlaneObj y (st_ControlPlanes v)\<rparr>"

definition markedProvisioned :: "ControlPlane \<Rightarrow> bool" where
  "markedProvisioned cp \<longleftrightarrow> IsValidCondition ControlPlaneConditions ''Provisioned'' cp"

abbreviation (input) ownedIn ::
  "'o client_object \<Rightarrow> string option \<Rightarrow> ControlPlane \<Rightarrow> 'o list \<Rightarrow> 'o list" where
  "ownedIn k ns cp xs \<equiv> ownedObjects k ns GatewayOperatorControlledLabel ControlPlaneManagedLabelValue
     (om_UID (cp_Meta cp)) xs"

definition ownedServiceAccounts :: "ControlPlane \<Rightarrow> Cluster \<Rightarrow> ServiceAccount list" where
  "ownedServiceAccounts cp v = ownedIn ServiceAccountObj (Some (om_Namespace (cp_Meta cp))) cp (st_ServiceAccounts v)"
definition ownedClusterRoles :: "ControlPlane \<Rightarrow> Cluster \<Rightarrow> ClusterRole list" where
  "ownedClusterRoles cp v = ownedIn ClusterRoleObj None cp (st_ClusterRoles v)"
definition ownedClusterRoleBindings :: "ControlPlane \<Rightarrow> Cluster \<Rightarrow> ClusterRoleBinding list" where
  "ownedClusterRoleBindings cp v = ownedIn ClusterRoleBindingObj None cp (st_ClusterRoleBindings v)"
definition ownedDeployments :: "ControlPlane \<Rightarrow> Cluster \<Rightarrow> Deployment list" where
  "ownedDeployments cp v = ownedIn DeploymentObj (Some (om_Namespace (cp_Meta cp))) cp (st_Deployments v)"

definition ownedSecrets :: "ControlPlane \<Rightarrow> Cluster \<Rightarrow> Secret list" where
  "ownedSecrets cp v = ownerSecrets (OwnerControlPlane cp) v"

text \<open>What each stage of the provisioning has behind it.\<close>

definition hasAccount :: "ControlPlane \<Rightarrow> ServiceAccount \<Rightarrow> Cluster \<Rightarrow> bool" where
  "hasAccount cp a v \<longleftrightarrow> (\<exists>x. storedAs cp x v \<and> hasFinalizers x) \<and> ownedServiceAccounts cp v = [a]"
definition hasRole :: "ControlPlane \<Rightarrow> ServiceAccount \<Rightarrow> ClusterRole \<Rightarrow> Cluster \<Rightarrow> bool" where
  "hasRole cp a r v \<longleftrightarrow> hasAccount cp a v \<and> ownedClusterRoles cp v = [r]"
definition hasBinding :: "ControlPlane \<Rightarrow> ServiceAccount \<Rightarrow> Cluster \<Rightarrow> bool" where
  "hasBinding cp a v \<longleftrightarrow> (\<exists>r b. hasRole cp a r v \<and> ownedClusterRoleBindings cp v = [b])"
definition hasCertificate :: "ControlPlane \<Rightarrow> ServiceAccount \<Rightarrow> Secret \<Rightarrow> Cluster \<Rightarrow> bool" where
  "hasCertificate cp a s v \<longleftrightarrow> hasBinding cp a v \<and> ownedSecrets cp v = [s]"
definition hasReadyPods :: "ControlPlane \<Rightarrow> Cluster \<Rightarrow> bool" where
  "hasReadyPods cp v \<longleftrightarrow> (\<exists>a s d. hasCertificate cp a s v \<and> ownedDeployments cp v = [d] \<and>
     dep_StatusReplicas d \<noteq> 0 \<and> dep_StatusReplicas d \<le> dep_StatusAvailableReplicas d)"

section \<open>The writes of a pass\<close>

text \<open>
  \<open>y\<close> is the control plane as it is in memory when an object is generated: the specification may
  have got defaults, the identity is that of \<open>cp\<close>.
\<close>

inductive cpWrite :: "('v, 'c) Semver \<Rightarrow> ControlPlane \<Rightarrow> Cluster \<Rightarrow> Cluster \<Rightarrow> bool"
  for sv :: "('v, 'c) Semver" and cp :: ControlPlane where
  write_finalizers: "cpWrite sv cp v (withControlPlane y v)"
    if "storedAs cp x v" "\<not> hasFinalizers x" "hasFinalizers y" "keyOf (cp_Meta y) = keyOf (cp_Meta x)"
      "om_UID (cp_Meta y) = om_UID (cp_Meta x)" "om_DeletionTimestamp (cp_Meta y) = None"
      "cpBody y = cpBody x" "cp_Status y = cp_Status x"
| write_specification: "cpWrite sv cp v (withControlPlane y v)"
    if "storedAs cp x v" "hasFinalizers x" "sameIdentity (cp_Meta x) (cp_Meta y)" "cp_Status y = cp_Status x"
| write_status: "cpWrite sv cp v (withControlPlane y v)"
    if "storedAs cp x v" "hasFinalizers x" "sameIdentity (cp_Meta x) (cp_Meta y)" "cpBody y = cpBody x"
      "if markedProvisioned y then hasReadyPods cp v else True"
| write_account: "cpWrite sv cp v v1"
    if "storedAs cp x v" "hasFinalizers x" "sameIdentity (cp_Meta cp) (cp_Meta y)"
      "ensured ServiceAccountObj st_ServiceAccounts (\<lambda>xs v. v\<lparr>st_ServiceAccounts := xs\<rparr>)
         (\<lambda>s. s\<lparr>sa_Meta := emptyMeta\<rparr>) id (updateMeta ServiceAccountObj) (ownedServiceAccounts cp v)
         (wantedServiceAccount y) v (True, a) v1"
| write_role: "cpWrite sv cp v v1"
    if "hasAccount cp a v" "sameIdentity (cp_Meta cp) (cp_Meta y)" "wantedClusterRole sv y = Inr g"
      "ensured ClusterRoleObj st_ClusterRoles (\<lambda>xs v. v\<lparr>st_ClusterRoles := xs\<rparr>)
         (\<lambda>s. s\<lparr>cr_Meta := emptyMeta\<rparr>) id (updateMeta ClusterRoleObj) (ownedClusterRoles cp v)
         g v (True, r) v1"
| write_binding: "cpWrite sv cp v v1"
    if "hasRole cp a r v" "sameIdentity (cp_Meta cp) (cp_Meta y)"
      "ensured ClusterRoleBindingObj st_ClusterRoleBindings (\<lambda>xs v. v\<lparr>st_ClusterRoleBindings := xs\<rparr>)
         (\<lambda>s. s\<lparr>crb_Meta := emptyMeta\<rparr>) id (updateMeta ClusterRoleBindingObj) (ownedClusterRoleBindings cp v)
         (wantedClusterRoleBinding y (om_Name (sa_Meta a)) (om_Name (cr_Meta r))) v (True, b) v1"
| write_certificate: "cpWrite sv cp v v1"
    if "hasBinding cp a v" "sameIdentity (cp_Meta cp) (cp_Meta y)"
      "ensured SecretObj st_Secrets (\<lambda>xs v. v\<lparr>st_Secrets := xs\<rparr>) sec_Type id (updateMeta SecretObj)
         (ownedSecrets cp v) (generateCertificateSecret (OwnerControlPlane y)) v (True, s) v1"
| write_deployment: "cpWrite sv cp v v1"
    if "hasCertificate cp a s v" "sameIdentity (cp_Meta cp) (cp_Meta y)"
      "ensured DeploymentObj st_Deployments (\<lambda>xs v. v\<lparr>st_Deployments := xs\<rparr>) depBody (dormantInit y)
         (updateControlPlaneDeployment (cp_Spec y)) (ownedDeployments cp v)
         (wantedControlPlaneDeployment y (om_Name (sa_Meta a)) (om_Name (sec_Meta s))) v (True, d) v1"

section \<open>The stages\<close>

context owned_kind
begin

text \<open>A stage that ensures an object ends the pass when it had to write; otherwise the pass goes on.\<close>

lemma wp_stage:
  assumes "uniqueKeys k (sel (view w))" and "\<And>g. gen = Inr g \<Longrightarrow> converging k body init upd g"
    and "creates init allowed create"
    and err: "\<And>e w1. view w1 = view w \<Longrightarrow> Q (Inl e) w1"
    and wrote: "\<And>g y w1. gen = Inr g \<Longrightarrow>
      ensured k sel put body init upd (ownedObjects k ns l v uid (sel (view w))) g (view w) (True, y) (view w1) \<Longrightarrow>
      wpA (done y) Q w1"
    and go: "\<And>y w1. view w1 = view w \<Longrightarrow> ownedObjects k ns l v uid (sel (view w)) = [y] \<Longrightarrow> wpA (rest y) Q w1"
  shows "wpA (bindA (ensureOwned res (listOwned res k ns l v uid) msg gen upd create)
    (\<lambda>(b, y). if b then done y else rest y)) Q w"
  unfolding wpA_bindA
proof (rule wpA_mono [OF wp_ensureOwned [OF assms(1-3)]], goal_cases)
  case (2 r w1)
  show ?case
  proof (cases r)
    case (Inr p)
    then obtain g where g: "gen = Inr g"
      "ensured k sel put body init upd (ownedObjects k ns l v uid (sel (view w))) g (view w) p (view w1)"
      using 2 by auto
    show ?thesis
    proof (cases p)
      case (Pair b y)
      then show ?thesis
        using g wrote [of g y w1] go [of w1 y] Inr by (cases b) (auto simp: ensured_def)
    qed
  qed (use 2 err in auto)
qed

end


section \<open>The status\<close>

lemma frame_SetCondition [simp]:
  "cp_Meta (SetCondition ControlPlaneConditions cnd d) = cp_Meta d"
  "cp_Spec (SetCondition ControlPlaneConditions cnd d) = cp_Spec d"
  "cp_TypeMeta (SetCondition ControlPlaneConditions cnd d) = cp_TypeMeta d"
  by (simp_all add: SetCondition_def Let_def)

lemma markedProvisioned_SetCondition:
  "markedProvisioned (SetCondition ControlPlaneConditions cnd d) \<longleftrightarrow>
   (if c_Type cnd = ''Provisioned'' then c_Status cnd = ConditionTrue else markedProvisioned d)"
  by (auto simp: markedProvisioned_def IsValidCondition_def validIn_condMap cpc.condMap_SetCondition)

lemma markedProvisioned_status: "cp_Status y = cp_Status d \<Longrightarrow> markedProvisioned y = markedProvisioned d"
  by (simp add: markedProvisioned_def IsValidCondition_def ControlPlaneConditions_def)

text \<open>In memory, \<open>d\<close> is \<open>x\<close> with another status.\<close>

definition inMemory :: "ControlPlane \<Rightarrow> ControlPlane \<Rightarrow> bool" where
  "inMemory x d \<longleftrightarrow> cp_Meta d = cp_Meta x \<and> cpBody d = cpBody x"

lemma scheduled_marking:
  assumes "ControlPlane_ensureIsMarkedScheduled now (InitReady ControlPlaneConditions now' x) = (marked, d)"
  shows "inMemory x d" and "marked \<Longrightarrow> \<not> markedProvisioned d"
  using assms
  by (auto simp: ControlPlane_ensureIsMarkedScheduled_def InitReady_def inMemory_def cpBody_def
      markedProvisioned_SetCondition NewCondition_def ConditionTrue_def ConditionFalse_def
      ControlPlaneConditionTypeProvisioned_def split: prod.splits if_splits)

lemma dataplane_marking:
  assumes "ensureDataPlaneStatus now now' x = (isSet, d)"
  shows "inMemory x d" and "\<not> markedProvisioned d" and "isSet = dataPlaneIsSet (cp_Spec x)"
proof -
  have off: "\<not> markedProvisioned x"
    if "GetCondition ControlPlaneConditions ''Provisioned'' x = (cnd, True)" "c_Status cnd = ConditionFalse" for cnd
    using that by (auto simp: markedProvisioned_def IsValidCondition_def GetCondition_def validIn_condMap
        findCondition_condMap ConditionTrue_def ConditionFalse_def split: option.splits)
  show "inMemory x d" "isSet = dataPlaneIsSet (cp_Spec x)"
    using assms by (auto simp: ensureDataPlaneStatus_def inMemory_def cpBody_def Let_def split: prod.splits if_splits)
  show "\<not> markedProvisioned d"
    using assms off
    by (auto simp: ensureDataPlaneStatus_def NewCondition_def markedProvisioned_SetCondition Let_def
        ControlPlaneConditionTypeProvisioned_def ConditionTrue_def ConditionFalse_def
        split: prod.splits if_splits)
qed

lemma provisioned_marking:
  "inMemory x (ControlPlane_ensureIsMarkedProvisioned now now' x)"
  by (simp add: ControlPlane_ensureIsMarkedProvisioned_def SetReady_def inMemory_def cpBody_def Let_def)


section \<open>A pass is a sequence of writes\<close>

abbreviation cpWrites :: "('v, 'c) Semver \<Rightarrow> ControlPlane \<Rightarrow> Cluster \<Rightarrow> Cluster \<Rightarrow> bool" where
  "cpWrites sv cp \<equiv> (cpWrite sv cp)\<^sup>*\<^sup>*"

definition storesUnique :: "Cluster \<Rightarrow> bool" where
  "storesUnique v \<longleftrightarrow> uniqueKeys ServiceAccountObj (st_ServiceAccounts v) \<and>
     uniqueKeys ClusterRoleObj (st_ClusterRoles v) \<and>
     uniqueKeys ClusterRoleBindingObj (st_ClusterRoleBindings v) \<and>
     uniqueKeys SecretObj (st_Secrets v) \<and> uniqueKeys DeploymentObj (st_Deployments v)"

lemma sameIdentity_parts:
  "sameIdentity m n \<Longrightarrow> om_Namespace n = om_Namespace m"
  "sameIdentity m n \<Longrightarrow> om_UID n = om_UID m"
  "sameIdentity m n \<Longrightarrow> keyOf n = keyOf m"
  by (simp_all add: sameIdentity_def keyOf_def)

text \<open>The parts of \<open>provision\<close> after the service account \<open>a\<close> and the role \<open>r\<close>.\<close>

abbreviation (input) fromCertificate where
  "fromCertificate rec lib c clk y isSet a \<equiv>
     bindA (ControlPlane_ensureCertificate rec (lib_Crypto lib) (clk 6) c y) (\<lambda>(created, certSecret).
       if created then retA emptyResult else
     provisionDeployment c clk y isSet (om_Name (sa_Meta a)) (om_Name (sec_Meta certSecret)))"

abbreviation (input) fromBinding where
  "fromBinding rec lib c clk y isSet a r \<equiv>
     bindA (ensureClusterRoleBindingForControlPlane c y (om_Name (sa_Meta a)) (om_Name (cr_Meta r)))
       (\<lambda>(createdOrUpdated, _). if createdOrUpdated then retA emptyResult else
     fromCertificate rec lib c clk y isSet a)"

abbreviation (input) fromRole where
  "fromRole rec lib c clk y isSet a \<equiv>
     bindA (ensureClusterRoleForControlPlane (lib_Semver lib) c y)
       (\<lambda>(createdOrUpdated, r). if createdOrUpdated then retA emptyResult else
     fromBinding rec lib c clk y isSet a r)"

text \<open>What holds at every stage: the control plane in memory is \<open>y\<close>.\<close>

definition underWay :: "('v, 'c) Semver \<Rightarrow> ControlPlane \<Rightarrow> Cluster \<Rightarrow> ControlPlane \<Rightarrow> Cluster \<Rightarrow> bool" where
  "underWay sv cp v0 y v \<longleftrightarrow> cpWrites sv cp v0 v \<and> sameIdentity (cp_Meta cp) (cp_Meta y) \<and>
     \<not> markedProvisioned y \<and> storesUnique v"

lemma underWayD:
  assumes "underWay sv cp v0 y v"
  shows "cpWrites sv cp v0 v" "sameIdentity (cp_Meta cp) (cp_Meta y)" "\<not> markedProvisioned y"
    "uniqueKeys ServiceAccountObj (st_ServiceAccounts v)" "uniqueKeys ClusterRoleObj (st_ClusterRoles v)"
    "uniqueKeys ClusterRoleBindingObj (st_ClusterRoleBindings v)"
    "uniqueKeys SecretObj (st_Secrets v)" "uniqueKeys DeploymentObj (st_Deployments v)"
  using assms by (simp_all add: underWay_def storesUnique_def)

lemma EnsureFinalizers_missing:
  assumes "\<not> hasFinalizers cp"
  defines "r \<equiv> EnsureFinalizersInMetadata (cp_Meta cp)
    [ControlPlaneFinalizerCleanupClusterRole, ControlPlaneFinalizerCleanupClusterRoleBinding]"
  shows "fst r" and "roleFinalizer \<in> set (om_Finalizers (snd r))" "bindingFinalizer \<in> set (om_Finalizers (snd r))"
    "keyOf (snd r) = keyOf (cp_Meta cp)" "om_DeletionTimestamp (snd r) = om_DeletionTimestamp (cp_Meta cp)"
  using assms(1) by (auto simp: r_def EnsureFinalizers_eq missingFinalizers_set hasFinalizers_def
      roleFinalizer_def bindingFinalizer_def keyOf_def)

lemmas stage_defs = hasAccount_def hasRole_def hasBinding_def hasCertificate_def hasReadyPods_def

context cluster_api
begin

lemma wp_cpUpdateStatus:
  assumes "storedAs cp x (view w)" and "keyOf (cp_Meta d) = keyOf (cp_Meta cp)"
    and wrote: "\<And>y w1. view w1 = withControlPlane y (view w) \<Longrightarrow> cpBody y = cpBody x \<Longrightarrow>
      sameIdentity (cp_Meta x) (cp_Meta y) \<Longrightarrow> cp_Status y = cp_Status d \<Longrightarrow> Q (Inr ()) w1"
    and same: "\<And>r w1. view w1 = view w \<Longrightarrow> Q r w1"
  shows "wpA (ControlPlane_updateStatus c d) Q w"
  unfolding ControlPlane_updateStatus_def wp
proof (rule cp.wp_Get, goal_cases)
  case (1 cur w1)
  have "cur = x" using 1(1) assms(1,2) by (simp add: keyOf_def storedAs_def)
  have "wpA (cl_StatusUpdate (cl_ControlPlanes c) d)
      (\<lambda>r w1. case r of Inl e \<Rightarrow> Q (Inl e) w1 | Inr x \<Rightarrow> wpA (retA ()) Q w1) w1"
  proof (rule cp.wp_StatusUpdate, goal_cases)
    case (1 y old w2)
    then have "old = x" using assms(1,2) \<open>view w1 = view w\<close> by (simp add: storedAs_def)
    then show ?case
      using 1 \<open>view w1 = view w\<close> wrote [of w2 y] by (simp add: wp withControlPlane_def)
  qed (use same \<open>view w1 = view w\<close> in simp)
  then show ?case using same 1(2) \<open>cur = x\<close> by (simp add: wp)
next
  case (2 e w1)
  then show ?case using assms(1,2) same by (auto simp: wp keyOf_def storedAs_def)
qed

text \<open>Writing a status that is not \<open>Provisioned\<close>, or with ready pods, is one of the writes.\<close>

lemma wp_status_write:
  assumes "storedAs cp x (view w)" and "hasFinalizers x" and "keyOf (cp_Meta d) = keyOf (cp_Meta cp)"
    and "cpWrites sv cp v0 (view w)" and "if markedProvisioned d then hasReadyPods cp (view w) else True"
  shows "wpA (ControlPlane_updateStatus c d) (\<lambda>r w1. cpWrites sv cp v0 (view w1)) w"
proof (rule wp_cpUpdateStatus [OF assms(1,3)], goal_cases)
  case (1 y w1)
  have "cpWrite sv cp (view w) (withControlPlane y (view w))"
    using 1 assms(5) markedProvisioned_status [OF 1(4)] by (intro write_status [OF assms(1,2)]) simp_all
  then show ?case using 1(1) assms(4) by simp
qed (use assms in simp)

lemma wp_provisionDeployment:
  assumes "cpWrites sv cp v0 (view w)" and cert: "hasCertificate cp a s (view w)"
    and y: "sameIdentity (cp_Meta cp) (cp_Meta y)" "\<not> markedProvisioned y"
    and u: "uniqueKeys DeploymentObj (st_Deployments (view w))"
  shows "wpA (provisionDeployment c clk y isSet (om_Name (sa_Meta a)) (om_Name (sec_Meta s)))
    (\<lambda>r w1. cpWrites sv cp v0 (view w1)) w" (is "wpA _ ?Q w")
proof -
  note same = sameIdentity_parts [OF y(1)]
  have "co_Meta DeploymentObj (dormantInit y g) = co_Meta DeploymentObj g" for g
    by (simp add: dormantInit_def)
  note conv = converging_dormant dep.creates_init [OF this]
  obtain x where x: "storedAs cp x (view w)" "hasFinalizers x"
    using cert by (auto simp: stage_defs)
  show ?thesis
    unfolding provisionDeployment_def ensureDeploymentForControlPlane_def Let_def list_as_listOwned
      createDeployment_as_init same
  proof (rule dep.wp_stage [OF u _ conv(2)], goal_cases)
    case (3 g d w1)
    have "cpWrite sv cp (view w) (view w1)"
      using 3 by (intro write_deployment [OF cert y(1)]) (simp_all add: ownedDeployments_def)
    then have R: "cpWrites sv cp v0 (view w1)" using assms(1) by simp
    have "storedAs cp x (view w1)"
      using x(1) 3(2) by (auto simp: storedAs_def ensured_def)
    note wp_status_write [OF this x(2) same(3) R]
    then show ?case using R y(2) by (auto simp: wp split: sum.splits elim!: wpA_mono)
  next
    case (4 d w1)
    have R: "cpWrites sv cp v0 (view w1)" and x1: "storedAs cp x (view w1)" and c1: "hasCertificate cp a s (view w1)"
      using 4(1) assms(1) x cert by simp_all
    show ?case
    proof (cases "dep_StatusReplicas d = 0 \<or> dep_StatusAvailableReplicas d < dep_StatusReplicas d")
      case False
      then have "hasReadyPods cp (view w1)"
        using 4 c1 unfolding hasReadyPods_def ownedDeployments_def by auto
      then have "wpA (ControlPlane_updateStatus c (ControlPlane_ensureIsMarkedProvisioned (clk 7) (clk 8) y))
          (\<lambda>r w2. cpWrites sv cp v0 (view w2)) w1"
        using provisioned_marking [of y] same(3)
        by (intro wp_status_write [OF x1 x(2) _ R]) (simp_all add: inMemory_def)
      with False show ?thesis by (auto simp: wp split: sum.splits elim!: wpA_mono)
    qed (use R in \<open>auto simp: wp\<close>)
  qed (use conv(1) assms(1) in auto)
qed


lemma wp_fromCertificate:
  assumes pre: "underWay sv cp v0 y (view w)" and "hasBinding cp a (view w)"
  shows "wpA (fromCertificate rec lib c clk y isSet a) (\<lambda>r w1. cpWrites sv cp v0 (view w1)) w"
  unfolding ControlPlane_ensureCertificate_def maybeCreate_as_pattern ownerMeta.simps
    sameIdentity_parts [OF underWayD(2) [OF pre]]
proof (rule sec.wp_stage [OF underWayD(7) [OF pre] sec.converging_updateMeta
      creates_certificate [OF sec.owned_kind_axioms]], goal_cases)
  case (1 e w1)
  then show ?case using underWayD(1) [OF pre] by simp
next
  case (2 g s w1)
  have "cpWrite sv cp (view w) (view w1)"
    using 2 by (intro write_certificate [OF assms(2) underWayD(2) [OF pre]])
      (simp_all add: ownedSecrets_def ownerSecrets_def)
  then show ?case using underWayD(1) [OF pre] by (simp add: wp)
next
  case (3 s w1)
  then have "hasCertificate cp a s (view w1)" "underWay sv cp v0 y (view w1)"
    using assms by (simp_all add: hasCertificate_def ownedSecrets_def ownerSecrets_def)
  then show ?case
    using underWayD by (intro wp_provisionDeployment) blast+
qed

lemma wp_fromBinding:
  assumes pre: "underWay sv cp v0 y (view w)" and "hasRole cp a r (view w)"
  shows "wpA (fromBinding rec lib c clk y isSet a r) (\<lambda>r w1. cpWrites sv cp v0 (view w1)) w"
  unfolding ensureClusterRoleBindingForControlPlane_def list_as_listOwned
    sameIdentity_parts [OF underWayD(2) [OF pre]]
proof (rule crb.wp_stage [OF underWayD(6) [OF pre] crb.converging_updateMeta crb.creates_createOwned], goal_cases)
  case (1 e w1)
  then show ?case using underWayD(1) [OF pre] by simp
next
  case (2 g b w1)
  have "cpWrite sv cp (view w) (view w1)"
    using 2 by (intro write_binding [OF assms(2) underWayD(2) [OF pre]])
      (simp_all add: ownedClusterRoleBindings_def)
  then show ?case using underWayD(1) [OF pre] by (simp add: wp)
next
  case (3 b w1)
  then show ?case
    using assms by (intro wp_fromCertificate) (auto simp: hasBinding_def ownedClusterRoleBindings_def)
qed

lemma wp_fromRole:
  assumes pre: "underWay (lib_Semver lib) cp v0 y (view w)" and "hasAccount cp a (view w)"
  shows "wpA (fromRole rec lib c clk y isSet a) (\<lambda>r w1. cpWrites (lib_Semver lib) cp v0 (view w1)) w"
  unfolding ensureClusterRoleForControlPlane_def list_as_listOwned
    sameIdentity_parts [OF underWayD(2) [OF pre]]
proof (rule cr.wp_stage [OF underWayD(5) [OF pre] cr.converging_updateMeta cr.creates_createOwned], goal_cases)
  case (1 e w1)
  then show ?case using underWayD(1) [OF pre] by simp
next
  case (2 g r w1)
  have "cpWrite (lib_Semver lib) cp (view w) (view w1)"
    using 2 by (intro write_role [OF assms(2) underWayD(2) [OF pre] 2(1)])
      (simp_all add: ownedClusterRoles_def)
  then show ?case using underWayD(1) [OF pre] by (simp add: wp)
next
  case (3 r w1)
  then show ?case
    using assms by (intro wp_fromBinding) (auto simp: hasRole_def ownedClusterRoles_def)
qed

lemma wp_provision:
  assumes pre: "underWay (lib_Semver lib) cp v0 y (view w)" and x: "storedAs cp x (view w)" "hasFinalizers x"
  shows "wpA (provision rec lib c clk y isSet) (\<lambda>r w1. cpWrites (lib_Semver lib) cp v0 (view w1)) w"
  unfolding provision_def ensureServiceAccountForControlPlane_def list_as_listOwned
    sameIdentity_parts [OF underWayD(2) [OF pre]]
proof (rule sa.wp_stage [OF underWayD(4) [OF pre] sa.converging_updateMeta sa.creates_createOwned], goal_cases)
  case (1 e w1)
  then show ?case using underWayD(1) [OF pre] by simp
next
  case (2 g a w1)
  have "cpWrite (lib_Semver lib) cp (view w) (view w1)"
    using 2 by (intro write_account [OF x underWayD(2) [OF pre]]) (simp_all add: ownedServiceAccounts_def)
  then show ?case using underWayD(1) [OF pre] by (simp add: wp)
next
  case (3 a w1)
  then show ?case
    using pre x by (intro wp_fromRole) (auto simp: hasAccount_def ownedServiceAccounts_def)
qed


lemma wp_connect:
  assumes "\<And>r w1. view w1 = view w \<Longrightarrow> Q r w1"
  shows "wpA (connect lib c d) Q w"
proof -
  have name: "wpA (GetDataplaneServiceName c dp) Q w1" if "view w1 = view w" for dp w1
    unfolding GetDataplaneServiceName_def list_as_listOwned wp
    by (rule svc.wp_listOwned) (use assms that in \<open>auto simp: wp Let_def\<close>)
  have get: "wpA (GetDataPlaneForControlPlane c d) P w"
    if "\<And>r w1. view w1 = view w \<Longrightarrow> P r w1" for P
  proof (cases "opt_DataPlane (cp_Spec d)")
    case (Some n)
    then show ?thesis
      using that by (auto simp: GetDataPlaneForControlPlane_def wp intro!: dp.wp_Get)
  qed (use that in \<open>simp add: GetDataPlaneForControlPlane_def wp\<close>)
  show ?thesis
    unfolding connect_def wp
    by (rule get) (use assms name in \<open>auto simp: wp split: sum.split\<close>)
qed

lemma wp_specification_write:
  assumes x: "storedAs cp x (view w)" "hasFinalizers x" and d: "cp_Meta d = cp_Meta x"
    and R: "cpWrites sv cp v0 (view w)"
  shows "wpA (cl_Update (cl_ControlPlanes c) d) (\<lambda>r w1. cpWrites sv cp v0 (view w1) \<and> (case r of
      Inl e \<Rightarrow> True
    | Inr y \<Rightarrow> storedAs cp y (view w1) \<and> sameIdentity (cp_Meta x) (cp_Meta y) \<and>
        (\<exists>v. storesUnique (view w) = storesUnique v \<and> v = view w1))) w"
proof (rule cp.wp_Update, goal_cases)
  case (1 y old w1)
  have key: "keyOf (cp_Meta x) = keyOf (cp_Meta cp)"
    using x(1) by (rule storedAs_key)
  have "old = x" using 1(1) x(1) key by (simp add: d storedAs_def)
  then have id: "sameIdentity (cp_Meta x) (cp_Meta y)" "cp_Status y = cp_Status x"
    using 1 by (simp_all add: d sameIdentity_def sameWritten_def)
  have "\<not> gone (cp_Meta y)" using id(1) x(1) by (simp add: gone_def sameIdentity_def storedAs_def)
  then have v1: "view w1 = withControlPlane y (view w)"
    using 1(2) by (simp add: settle_def withControlPlane_def)
  have "storedAs cp y (view w1)"
    using x(1) id(1) key sameIdentity_parts(3) [OF id(1)] lookupKey_replaceKey [of ControlPlaneObj _ _ x y]
    by (simp add: v1 storedAs_def withControlPlane_def sameIdentity_def)
  moreover have "storesUnique (view w) = storesUnique (view w1)"
    by (simp add: v1 storesUnique_def withControlPlane_def)
  moreover have "cpWrite sv cp (view w) (view w1)"
    unfolding v1 by (rule write_specification [OF x id])
  ultimately show ?case using id(1) R by simp
qed (use R in simp)


text \<open>Ready to provision: \<open>y\<close> is stored, up to its status, with the finalizers.\<close>

definition configured :: "ControlPlane \<Rightarrow> ControlPlane \<Rightarrow> Cluster \<Rightarrow> bool" where
  "configured cp y v \<longleftrightarrow> (\<exists>z. storedAs cp z v \<and> hasFinalizers z \<and> cp_Meta y = cp_Meta z) \<and>
     sameIdentity (cp_Meta cp) (cp_Meta y) \<and> storesUnique v"

lemma wp_ensureConfiguration:
  assumes x: "storedAs cp x (view w)" "hasFinalizers x" and d: "cp_Meta d = cp_Meta x"
    and id: "sameIdentity (cp_Meta cp) (cp_Meta x)"
    and R: "cpWrites sv cp v0 (view w)" and u: "storesUnique (view w)"
  shows "wpA (ensureDataPlaneConfiguration c d sn) (\<lambda>r w1. cpWrites sv cp v0 (view w1) \<and>
      (case r of Inl e \<Rightarrow> True | Inr y \<Rightarrow> configured cp y (view w1))) w"
proof (cases "setControlPlaneEnvOnDataPlaneChange (cp_Spec d) (om_Namespace (cp_Meta d)) sn")
  case (Pair changed spec)
  show ?thesis
  proof (cases changed)
    case True
    have "wpA (cl_Update (cl_ControlPlanes c) (d\<lparr>cp_Spec := spec\<rparr>)) (\<lambda>r w1. cpWrites sv cp v0 (view w1) \<and>
        (case r of Inl e \<Rightarrow> True | Inr y \<Rightarrow> configured cp y (view w1))) w"
      by (rule wpA_mono [OF wp_specification_write [OF x _ R]])
        (use x(2) d id u in \<open>auto simp: configured_def hasFinalizers_def sameIdentity_def split: sum.splits\<close>)
    then show ?thesis using True Pair by (simp add: ensureDataPlaneConfiguration_def Let_def)
  next
    case False
    then show ?thesis
      using Pair x d id R u by (auto simp: ensureDataPlaneConfiguration_def Let_def wp configured_def)
  qed
qed

lemma wp_configured:
  assumes "cpWrites (lib_Semver lib) cp v0 (view w)" and y: "configured cp y (view w)"
  shows "wpA (case ensureDataPlaneStatus t t' y of (isSet, y) \<Rightarrow> provision rec lib c clk y isSet)
    (\<lambda>r w1. cpWrites (lib_Semver lib) cp v0 (view w1)) w"
proof (cases "ensureDataPlaneStatus t t' y")
  case (Pair isSet y')
  note mark = dataplane_marking [OF Pair]
  have "underWay (lib_Semver lib) cp v0 y' (view w)"
    using mark assms by (simp add: underWay_def inMemory_def configured_def)
  with y show ?thesis by (auto simp: Pair configured_def intro: wp_provision)
qed

lemma wp_configure:
  assumes x: "storedAs cp x (view w)" "hasFinalizers x" and d: "cp_Meta d = cp_Meta x"
    and id: "sameIdentity (cp_Meta cp) (cp_Meta x)"
    and R: "cpWrites (lib_Semver lib) cp v0 (view w)" and u: "storesUnique (view w)"
  shows "wpA (configure rec lib c clk d sn) (\<lambda>r w1. cpWrites (lib_Semver lib) cp v0 (view w1)) w"
    (is "wpA _ ?Q w")
proof (cases "setControlPlaneDefaults (cp_Spec d) (om_Namespace (cp_Meta d)) sn {}")
  case (Pair changed spec)
  have conflict: "wpA (if IsConflict e then retA requeueResult else failA e) ?Q w1"
    if "cpWrites (lib_Semver lib) cp v0 (view w1)" for e w1
    using that by (simp add: wp)
  have update: "wpA (cl_Update (cl_ControlPlanes c) (d\<lparr>cp_Spec := spec\<rparr>))
      (\<lambda>r w1. cpWrites (lib_Semver lib) cp v0 (view w1)) w"
    by (rule wpA_mono [OF wp_specification_write [OF x _ R]]) (simp_all add: d)
  have "wpA (ensureDataPlaneConfiguration c (d\<lparr>cp_Spec := spec\<rparr>) sn)
      (\<lambda>r w1. cpWrites (lib_Semver lib) cp v0 (view w1) \<and>
        (case r of Inl e \<Rightarrow> True | Inr y \<Rightarrow> configured cp y (view w1))) w"
    by (rule wp_ensureConfiguration [OF x _ id R u]) (simp add: d)
  then have ensure: "wpA (bindA (attemptA (ensureDataPlaneConfiguration c (d\<lparr>cp_Spec := spec\<rparr>) sn)) (\<lambda>r. case r of
        Inl err \<Rightarrow> if IsConflict err then retA requeueResult else failA err
      | Inr y \<Rightarrow> case ensureDataPlaneStatus (clk 4) (clk 5) y of (isSet, y) \<Rightarrow> provision rec lib c clk y isSet)) ?Q w"
    unfolding wpA_bindA wpA_attemptA
    by (rule wpA_mono) (auto simp: conflict wp_configured split: sum.splits)
  show ?thesis
  proof (cases changed)
    case True
    have "wpA (bindA (attemptA (cl_Update (cl_ControlPlanes c) (d\<lparr>cp_Spec := spec\<rparr>))) (\<lambda>r. case r of
        Inl err \<Rightarrow> if IsConflict err then retA requeueResult else failA err
      | Inr _ \<Rightarrow> retA emptyResult)) ?Q w"
      unfolding wpA_bindA wpA_attemptA
      by (rule wpA_mono [OF update]) (auto simp: wp split: sum.splits)
    then show ?thesis using True by (simp add: configure_def Pair)
  next
    case False
    then show ?thesis using ensure by (simp add: configure_def Pair)
  qed
qed

lemma wp_finalizers_write:
  assumes cp: "storedAs cp cp (view w)" "\<not> hasFinalizers cp"
    and m: "roleFinalizer \<in> set (om_Finalizers m)" "bindingFinalizer \<in> set (om_Finalizers m)"
      "keyOf m = keyOf (cp_Meta cp)" "om_DeletionTimestamp m = om_DeletionTimestamp (cp_Meta cp)"
    and v: "v0 = view w"
  shows "wpA (cl_Update (cl_ControlPlanes c) (cp\<lparr>cp_Meta := m\<rparr>)) (\<lambda>r w1. cpWrites sv cp v0 (view w1)) w"
proof (rule cp.wp_Update, goal_cases)
  case (1 y old w1)
  then have "old = cp" using cp(1) m(3) by (simp add: storedAs_def)
  then have y: "om_UID (cp_Meta y) = om_UID (cp_Meta cp)" "om_DeletionTimestamp (cp_Meta y) = None"
    "cpBody y = cpBody cp" "cp_Status y = cp_Status cp" "hasFinalizers y" "keyOf (cp_Meta y) = keyOf (cp_Meta cp)"
    using 1 cp(1) m by (simp_all add: storedAs_def sameWritten_def hasFinalizers_def cpBody_def keyOf_def)
  then have "view w1 = withControlPlane y (view w)"
    using 1(2) by (simp add: settle_def withControlPlane_def gone_def)
  moreover have "cpWrite sv cp (view w) (withControlPlane y (view w))"
    by (rule write_finalizers [OF cp]) (use y in simp_all)
  ultimately show ?case by (simp add: v)
qed (simp add: v)

lemma wp_Reconcile_live:
  assumes cp: "storedAs cp cp (view w)" "keyOf (cp_Meta cp) = (rq_Namespace req, rq_Name req)"
    and u: "storesUnique (view w)"
  shows "wpA (ControlPlane_Reconcile rec lib c clk req)
    (\<lambda>r w1. cpWrites (lib_Semver lib) cp (view w) (view w1)) w" (is "wpA _ ?Q w")
  unfolding ControlPlane_Reconcile_def wpA_bindA [of "attemptA _"] wpA_attemptA
proof (rule cp.wp_Get, goal_cases)
  case (1 x w1)
  then have x: "x = cp" "view w1 = view w" "om_DeletionTimestamp (cp_Meta cp) = None"
    using cp by (simp_all add: storedAs_def)
  show ?case
  proof (cases "hasFinalizers cp")
    case True
    then have fin: "EnsureFinalizersInMetadata (cp_Meta cp) [ControlPlaneFinalizerCleanupClusterRole,
        ControlPlaneFinalizerCleanupClusterRoleBinding] = (False, cp_Meta cp)"
      by (simp add: EnsureFinalizers_eq missingFinalizers_Nil hasFinalizers_def roleFinalizer_def bindingFinalizer_def)
    obtain marked d where mark: "ControlPlane_ensureIsMarkedScheduled (clk 3)
        (InitReady ControlPlaneConditions (clk 2) cp) = (marked, d)" by fastforce
    note d = scheduled_marking [OF mark]
    have s1: "storedAs cp cp (view w1)" "cpWrites (lib_Semver lib) cp (view w) (view w1)" "storesUnique (view w1)"
      using cp u x(2) by simp_all
    have "wpA (ControlPlane_updateStatus c d) (\<lambda>r w2. cpWrites (lib_Semver lib) cp (view w) (view w2)) w1" if marked
      by (rule wp_status_write [OF s1(1) True _ s1(2)]) (use d that in \<open>simp_all add: inMemory_def\<close>)
    moreover have "wpA (configure rec lib c clk d sn) ?Q w2" if "view w2 = view w1" for sn w2
      using that s1 True d(1) by (intro wp_configure) (simp_all add: inMemory_def sameIdentity_def)
    ultimately show ?thesis
      using s1(2) x(3) fin unfolding x(1)
      by (auto simp: mark wpA_bindA wpA_retA split: sum.splits intro!: wp_connect elim!: wpA_mono)
  next
    case False
    note m = EnsureFinalizers_missing [OF this]
    have "wpA (cl_Update (cl_ControlPlanes c) (cp\<lparr>cp_Meta := snd (EnsureFinalizersInMetadata (cp_Meta cp)
        [ControlPlaneFinalizerCleanupClusterRole, ControlPlaneFinalizerCleanupClusterRoleBinding])\<rparr>))
        (\<lambda>r w2. cpWrites (lib_Semver lib) cp (view w) (view w2)) w1"
      by (rule wp_finalizers_write) (use cp(1) x(2) False m in simp_all)
    then show ?thesis
      using m(1) x(3) unfolding x(1) by (auto simp: wpA_bindA wpA_retA split_beta split: sum.splits elim!: wpA_mono)
  qed
next
  case (2 e w1)
  then show ?case by (auto simp: wp)
qed

end


section \<open>What every write keeps\<close>

text \<open>The control planes whose stored status says they are provisioned.\<close>

definition provisionedKeys :: "Cluster \<Rightarrow> (string \<times> string) set" where
  "provisionedKeys v = (\<lambda>y. keyOf (cp_Meta y)) ` {y \<in> set (st_ControlPlanes v). markedProvisioned y}"

lemma set_replaceKey:
  "z \<in> set (replaceKey k y xs) \<Longrightarrow> z = y \<or> z \<in> set xs \<and> keyOf (co_Meta k z) \<noteq> keyOf (co_Meta k y)"
  by (auto simp: replaceKey_def split: if_splits)

lemma storedAs_set: "storedAs cp x v \<Longrightarrow> x \<in> set (st_ControlPlanes v)"
  using lookupKey_Some [of ControlPlaneObj "keyOf (cp_Meta cp)" "st_ControlPlanes v" x]
  by (simp add: storedAs_def)

lemma provisionedKeys_same:
  assumes "x \<in> set (st_ControlPlanes v)" and "keyOf (cp_Meta y) = keyOf (cp_Meta x)"
    and "markedProvisioned y \<Longrightarrow> markedProvisioned x"
  shows "provisionedKeys (withControlPlane y v) \<subseteq> provisionedKeys v"
proof
  fix key assume "key \<in> provisionedKeys (withControlPlane y v)"
  then obtain z where z: "z \<in> set (replaceKey ControlPlaneObj y (st_ControlPlanes v))"
    "markedProvisioned z" "key = keyOf (cp_Meta z)"
    by (auto simp: provisionedKeys_def withControlPlane_def)
  from set_replaceKey [OF z(1)] show "key \<in> provisionedKeys v"
    using z assms by (auto simp: provisionedKeys_def)
qed

lemma ensured_sel:
  assumes "ensured k sel put body init upd owned g v (True, y) v1"
  shows "\<exists>xs. v1 = put xs v"
  using assms by (auto simp: ensured_def)

text \<open>
  A control plane that has no labelled certificate never gets one, so that no deployment of it is
  written, nor that it is provisioned.
\<close>

lemma cpWrite_undeployed:
  assumes "cpWrite sv cp v v1" and none: "ownedSecrets cp v = []"
  shows "st_Deployments v1 = st_Deployments v \<and> ownedSecrets cp v1 = [] \<and>
    provisionedKeys v1 \<subseteq> provisionedKeys v"
  using assms(1)
proof cases
  case (write_finalizers x y)
  then show ?thesis
    using none provisionedKeys_same [OF storedAs_set [OF write_finalizers(2)], of y] markedProvisioned_status [of y x]
    by (simp add: withControlPlane_def ownedSecrets_def ownerSecrets_def)
next
  case (write_specification x y)
  then show ?thesis
    using none provisionedKeys_same [OF storedAs_set [OF write_specification(2)], of y] markedProvisioned_status [of y x]
      sameIdentity_parts(3)
    by (simp add: withControlPlane_def ownedSecrets_def ownerSecrets_def)
next
  case (write_status x y)
  then have "\<not> markedProvisioned y" using none by (auto simp: stage_defs split: if_splits)
  then show ?thesis
    using write_status none provisionedKeys_same [OF storedAs_set [OF write_status(2)], of y] sameIdentity_parts(3)
    by (simp add: withControlPlane_def ownedSecrets_def ownerSecrets_def)
next
  case (write_certificate a y s)
  have s: "v1 = v\<lparr>st_Secrets := st_Secrets v @ [s]\<rparr>"
    "sameWritten (sec_Meta (generateCertificateSecret (OwnerControlPlane y))) (sec_Meta s)"
    using write_certificate(3) none by (auto simp: ensured_def)
  then have "om_Labels (sec_Meta s) = None"
    using generateCertificateSecret_labels(1) by (simp add: sameWritten_def)
  then show ?thesis
    using none s(1) by (auto simp: ownedSecrets_def ownerSecrets_def ownedObjects_def selects_def provisionedKeys_def)
next
  case (write_deployment a s y d)
  then show ?thesis using none by (simp add: hasCertificate_def)
qed (use none in \<open>auto dest!: ensured_sel simp: ownedSecrets_def ownerSecrets_def provisionedKeys_def\<close>)


lemma cpWrite_marks:
  assumes "cpWrite sv cp v v1" and "key \<in> provisionedKeys v1"
  shows "key \<in> provisionedKeys v \<or> hasReadyPods cp v"
  using assms(1)
proof cases
  case (write_status x y)
  show ?thesis
  proof (cases "markedProvisioned y")
    case False
    then have "provisionedKeys v1 \<subseteq> provisionedKeys v"
      unfolding write_status(1) using sameIdentity_parts(3) [OF write_status(4)]
      by (intro provisionedKeys_same [OF storedAs_set [OF write_status(2)]]) simp_all
    then show ?thesis using assms(2) by blast
  qed (use write_status in simp)
next
  case (write_finalizers x y)
  then have "provisionedKeys v1 \<subseteq> provisionedKeys v"
    using provisionedKeys_same [OF storedAs_set [OF write_finalizers(2)], of y] markedProvisioned_status [of y x]
    by simp
  then show ?thesis using assms(2) by blast
next
  case (write_specification x y)
  then have "provisionedKeys v1 \<subseteq> provisionedKeys v"
    using provisionedKeys_same [OF storedAs_set [OF write_specification(2)], of y] markedProvisioned_status [of y x]
      sameIdentity_parts(3) by simp
  then show ?thesis using assms(2) by blast
qed (use assms(2) in \<open>auto dest!: ensured_sel simp: provisionedKeys_def\<close>)

lemma cpWrites_marks:
  assumes "cpWrites sv cp v v1" and "key \<in> provisionedKeys v1"
  shows "key \<in> provisionedKeys v \<or> (\<exists>u. cpWrites sv cp v u \<and> hasReadyPods cp u \<and> cpWrites sv cp u v1)"
  using assms
proof (induction rule: rtranclp_induct)
  case (step u v2)
  from cpWrite_marks [OF step(2,4)] show ?case
    using step(1-3) by (meson rtranclp.rtrancl_into_rtrancl rtranclp.rtrancl_refl)
qed simp

section \<open>Properties of the provisioning\<close>

text \<open>C4. The order of provisioning. A pass over a stored control plane that is not being deleted, in
  an API whose reads are up to date, does nothing but a sequence of the writes of \<open>cpWrite\<close>,
  whatever calls fail: the finalizers before anything else; a service account only for a control
  plane with both finalizers; a cluster role only once there is exactly one service account; a
  binding only of that account and the one role; a certificate only after the binding; a
  deployment only with the one account and the one labelled certificate; and a status that says
  provisioned only when the one deployment has replicas and all are available.\<close>

theorem ControlPlane_Reconcile_refines:
  assumes "cluster_api c view"
    and "storedAs cp cp (view w)" and "keyOf (cp_Meta cp) = (rq_Namespace req, rq_Name req)"
    and "storesUnique (view w)"
    and "ControlPlane_Reconcile rec lib c clk req w = (r, w1)"
  shows "cpWrites (lib_Semver lib) cp (view w) (view w1)"
  using wpA_E [OF cluster_api.wp_Reconcile_live [OF assms(1-4)] assms(5)] .

text \<open>
  Two examples: a control plane that a pass finds without finalizers, and one with a data plane
  and everything in place, the certificate labelled by hand, whose pods are ready.
\<close>

definition freshCluster :: Sim where
  "freshCluster = quiet (emptyCluster\<lparr>st_ControlPlanes := [versionedControlPlane None]\<rparr>)"

definition readySpec :: ControlPlaneSpec where
  "readySpec = snd (setControlPlaneDefaults (cp_Spec (versionedControlPlane (Some ''dp''))) ''default'' ''s2'' {})"

definition readyControlPlane :: ControlPlane where
  "readyControlPlane = (let cp = versionedControlPlane (Some ''dp'') in
     cp\<lparr>cp_Meta := (cp_Meta cp)\<lparr>om_Finalizers := [roleFinalizer, bindingFinalizer]\<rparr>, cp_Spec := readySpec,
       cp_Status := \<lparr>cps_Conditions = [NewCondition ''Provisioned'' ConditionFalse ''PodsNotReady'' '''' 0]\<rparr>\<rparr>)"

definition readyCluster :: Sim where
  "readyCluster = (let cp = readyControlPlane; a = (wantedServiceAccount cp)\<lparr>sa_Meta := (sa_Meta (wantedServiceAccount cp))\<lparr>om_Name := ''sa''\<rparr>\<rparr>
   in quiet (emptyCluster\<lparr>st_ControlPlanes := [cp], st_DataPlanes := [exampleDataPlane ''dp'' ''u2''],
     st_Services := [exampleService ''s2'' ''u2''], st_ServiceAccounts := [a],
     st_ClusterRoles := (case wantedClusterRole numericSemver cp of Inl e \<Rightarrow> [] | Inr r \<Rightarrow> [r]),
     st_ClusterRoleBindings := [wantedClusterRoleBinding cp ''sa'' ''''],
     st_Secrets := [addLabelForControlPlane SecretObj (generateCertificateSecret (OwnerControlPlane cp))],
     st_Deployments := [(wantedControlPlaneDeployment cp ''sa'' '''')\<lparr>dep_StatusReplicas := 1,
       dep_StatusAvailableReplicas := 1\<rparr>]\<rparr>))"

definition readyPass :: "(Result, Sim) action" where
  "readyPass = ControlPlane_Reconcile exampleReconciler exampleLibrary memClient (\<lambda>_. 9) exampleRequest"

lemma freshCluster_facts:
  "storedAs (versionedControlPlane None) (versionedControlPlane None) (sim_Cluster freshCluster)"
  "keyOf (cp_Meta (versionedControlPlane None)) = (rq_Namespace exampleRequest, rq_Name exampleRequest)"
  "storesUnique (sim_Cluster freshCluster)"
  by code_simp+

lemma readyCluster_facts:
  "storedAs readyControlPlane readyControlPlane (sim_Cluster readyCluster)"
  "keyOf (cp_Meta readyControlPlane) = (rq_Namespace exampleRequest, rq_Name exampleRequest)"
  "storesUnique (sim_Cluster readyCluster)"
  "(''default'', ''cp'') \<in> provisionedKeys (sim_Cluster (snd (readyPass readyCluster)))"
  "(''default'', ''cp'') \<notin> provisionedKeys (sim_Cluster readyCluster)"
  by code_simp+

theorem ControlPlane_Reconcile_refines_witness:
  "cpWrites numericSemver (versionedControlPlane None) (sim_Cluster freshCluster)
     (sim_Cluster (snd (readyPass freshCluster)))"
  using ControlPlane_Reconcile_refines [OF mem.cluster_api_axioms freshCluster_facts,
      of exampleReconciler exampleLibrary "\<lambda>_. 9" "fst (readyPass freshCluster)" "snd (readyPass freshCluster)"]
  by (simp add: readyPass_def exampleLibrary_def)

text \<open>C8. Provisioned means ready. If a control plane (any) is marked as provisioned after a pass and was
  not before, then at a moment of the pass the control plane of the pass had one service account,
  one role, one binding, one certificate and one deployment, and that deployment had replicas,
  all of them available.\<close>

theorem provisioned_sound:
  assumes "cluster_api c view"
    and "storedAs cp cp (view w)" and "keyOf (cp_Meta cp) = (rq_Namespace req, rq_Name req)"
    and "storesUnique (view w)"
    and "ControlPlane_Reconcile rec lib c clk req w = (r, w1)"
    and "key \<in> provisionedKeys (view w1)" and "key \<notin> provisionedKeys (view w)"
  shows "\<exists>u. cpWrites (lib_Semver lib) cp (view w) u \<and> hasReadyPods cp u \<and>
    cpWrites (lib_Semver lib) cp u (view w1)"
  using cpWrites_marks [OF wpA_E [OF cluster_api.wp_Reconcile_live [OF assms(1-4)] assms(5)] assms(6)] assms(7)
  by blast

theorem provisioned_sound_witness:
  "\<exists>u. cpWrites numericSemver readyControlPlane (sim_Cluster readyCluster) u \<and> hasReadyPods readyControlPlane u"
  using provisioned_sound [OF mem.cluster_api_axioms readyCluster_facts(1-3), of exampleReconciler exampleLibrary
      "\<lambda>_. 9" "fst (readyPass readyCluster)" "snd (readyPass readyCluster)", OF _ readyCluster_facts(4,5)]
  by (auto simp: readyPass_def exampleLibrary_def)

text \<open>C22. Pods that are not ready are not reported. When the one deployment of a control plane needs no
  update and has no replicas or not all of them available, the last stage of the pass changes
  nothing, whatever is stored: a status that says provisioned since earlier is not withdrawn,
  although the control plane in memory is marked as not provisioned by then.\<close>

theorem unready_pods_not_reported:
  assumes "cluster_api c view"
    and "ensuredOnce DeploymentObj (Some (om_Namespace (cp_Meta cp))) GatewayOperatorControlledLabel
      ''controlplane'' (om_UID (cp_Meta cp)) d (st_Deployments (view w))"
    and "settled (updateControlPlaneDeployment (cp_Spec cp)) (wantedControlPlaneDeployment cp saName certName) d"
    and "dep_StatusReplicas d = 0 \<or> dep_StatusAvailableReplicas d < dep_StatusReplicas d"
    and "provisionDeployment c clk cp isSet saName certName w = (r, w1)"
  shows "view w1 = view w \<and> (case r of Inl e \<Rightarrow> isAPIErr e | Inr res \<Rightarrow> res = emptyResult)"
proof -
  note dep = cluster_api.axioms(3) [OF assms(1)]
  have "co_Meta DeploymentObj (dormantInit cp g) = co_Meta DeploymentObj g" for g
    by (simp add: dormantInit_def)
  note conv = converging_dormant owned_kind.creates_init [OF dep this]
  have "unchangedBy view (ensureDeploymentForControlPlane c cp saName certName) d w"
    unfolding ensureDeploymentForControlPlane_def Let_def list_as_listOwned createDeployment_as_init
    by (rule owned_kind.ensureOwned_unchanged [OF dep _ assms(3) conv])
      (use assms(2) in \<open>simp add: ControlPlaneManagedLabelValue_def\<close>)
  then show ?thesis
    using assms(4,5) by (auto simp: provisionDeployment_def bindA_def unchangedBy_def retA_def
        split: prod.splits sum.splits)
qed

definition unreadyDeployment :: Deployment where
  "unreadyDeployment = (wantedControlPlaneDeployment readyControlPlane ''sa'' '''')\<lparr>dep_StatusReplicas := 1,
     dep_StatusAvailableReplicas := 0\<rparr>"

definition unreadyCluster :: Sim where
  "unreadyCluster = quiet (emptyCluster\<lparr>st_ControlPlanes := [readyControlPlane], st_Deployments := [unreadyDeployment]\<rparr>)"

lemma unreadyCluster_facts:
  "ensuredOnce DeploymentObj (Some (om_Namespace (cp_Meta readyControlPlane))) GatewayOperatorControlledLabel
     ''controlplane'' (om_UID (cp_Meta readyControlPlane)) unreadyDeployment (st_Deployments (sim_Cluster unreadyCluster))"
  "settled (updateControlPlaneDeployment (cp_Spec readyControlPlane))
     (wantedControlPlaneDeployment readyControlPlane ''sa'' '''') unreadyDeployment"
  "dep_StatusReplicas unreadyDeployment = 0 \<or> dep_StatusAvailableReplicas unreadyDeployment < dep_StatusReplicas unreadyDeployment"
  by code_simp+

theorem unready_pods_not_reported_witness:
  "sim_Cluster (snd (provisionDeployment memClient (\<lambda>_. 9) readyControlPlane True ''sa'' '''' unreadyCluster)) =
   sim_Cluster unreadyCluster"
  using unready_pods_not_reported [OF mem.cluster_api_axioms unreadyCluster_facts, of "\<lambda>_. 9" True
      "fst (provisionDeployment memClient (\<lambda>_. 9) readyControlPlane True ''sa'' '''' unreadyCluster)"
      "snd (provisionDeployment memClient (\<lambda>_. 9) readyControlPlane True ''sa'' '''' unreadyCluster)"]
  by simp

end
