(* ===== verification/Operator.thy ===== *)
theory Operator
  imports ControlPlaneProgress
begin

text \<open>
  The operator as a whole: passes of both controllers, for any requests and in any order,
  interleaved with whatever else happens to the cluster (\<open>main.go\<close> registers the controllers
  with one manager). Here each pass is one step, from its first call to its last; Concurrency
  takes it apart. \<open>reachable\<close> is the relation of these steps; the properties are invariants
  of it.
\<close>

section \<open>What a pass of the data plane controller touches\<close>

definition dataPlaneFrame :: "Cluster \<Rightarrow> Cluster \<Rightarrow> bool" where
  "dataPlaneFrame v v1 \<longleftrightarrow>
     (\<exists>ds ss. v1 = v\<lparr>st_DataPlanes := ds, st_Services := ss\<rparr> \<and> wellStored ServiceObj ss)"

lemma dataPlaneFrame_step:
  assumes "dataPlaneFrame v v1"
  shows "dataPlaneFrame v (v1\<lparr>st_DataPlanes := ds\<rparr>)"
proof -
  obtain ds1 ss where "v1 = v\<lparr>st_DataPlanes := ds1, st_Services := ss\<rparr>" "wellStored ServiceObj ss"
    using assms by (auto simp: dataPlaneFrame_def)
  then show ?thesis
    unfolding dataPlaneFrame_def by (intro exI [of _ ds] exI [of _ ss]) simp
qed

lemma sum_case_same: "(case r of Inl _ \<Rightarrow> P | Inr _ \<Rightarrow> P) = P"
  by (cases r) simp_all

context cluster_api
begin

lemma dataPlaneFrame_same:
  assumes "wellStored ServiceObj (st_Services v)"
  shows "dataPlaneFrame v v"
  unfolding dataPlaneFrame_def using assms
  by (intro exI [of _ "st_DataPlanes v"] exI [of _ "st_Services v"]) simp

lemma wp_status_frame:
  assumes "dataPlaneFrame v (view w)"
  shows "wpA (cl_StatusUpdate (cl_DataPlanes c) d) (\<lambda>r w1. dataPlaneFrame v (view w1)) w"
  by (rule dp.wp_StatusUpdate) (use assms dataPlaneFrame_step in auto)

lemma wp_updateStatus_frame:
  assumes "wellStored ServiceObj (st_Services (view w))"
  shows "wpA (DataPlane_updateStatus c d) (\<lambda>r w1. dataPlaneFrame (view w) (view w1)) w"
  unfolding DataPlane_updateStatus_def wp
  by (rule dp.wp_Get)
    (use dataPlaneFrame_same [OF assms] wp_status_frame [of "view w"] in
      \<open>auto simp: wp sum_case_same cong: sum.case_cong\<close>)

lemma wp_serviceStatus_frame:
  "dataPlaneFrame v (view w) \<Longrightarrow>
   wpA (ensureDataPlaneServiceStatus c d nm) (\<lambda>r w1. dataPlaneFrame v (view w1)) w"
  using wp_status_frame by (simp add: ensureDataPlaneServiceStatus_def Let_def wpA_bindA)

lemma wp_service_frame:
  assumes svc: "wellStored ServiceObj (st_Services (view w))"
  shows "wpA (ensureServiceForDataPlane c d) (\<lambda>r w1. dataPlaneFrame (view w) (view w1)) w"
proof (rule wpA_mono [OF wp_ensureService [OF _ onlyStatus_refl]], goal_cases)
  case (2 r w2)
  show ?case
  proof (cases "view w2 = view w")
    case False
    then obtain b s where "r = Inr (b, s)" "dataPlaneOnce d s (view w2)"
      "view w2 = (view w)\<lparr>st_Services := st_Services (view w2)\<rparr>"
      using 2(2) by (auto split: sum.splits if_splits)
    then show ?thesis
      unfolding dataPlaneFrame_def
      by (intro exI [of _ "st_DataPlanes (view w)"] exI [of _ "st_Services (view w2)"])
        (simp add: dataPlaneOnce_def ensuredOnce_def)
  qed (simp add: dataPlaneFrame_same [OF svc])
qed (use svc in simp)

lemma wp_DataPlane_frame:
  assumes svc: "wellStored ServiceObj (st_Services (view w))"
  shows "wpA (DataPlane_Reconcile c clk req) (\<lambda>r w1. dataPlaneFrame (view w) (view w1)) w"
  unfolding DataPlane_Reconcile_def wpA_bindA [of "attemptA _"] wpA_attemptA
proof (rule dp.wp_Get, goal_cases)
  case (1 x w1)
  then have svc1: "wellStored ServiceObj (st_Services (view w1))" and v1: "view w1 = view w" using svc by simp_all
  show ?case
  proof (cases "DataPlane_ensureIsMarkedScheduled (clk 1) (InitReady DataPlaneConditions (clk 0) x)")
    case (Pair marked d)
    show ?thesis
      unfolding sum.case Let_def Pair prod.case wpA_bindA [of "DataPlane_updateStatus c d"]
      using wp_updateStatus_frame [OF svc1, of d] wp_service_frame [OF svc1, of d] wp_serviceStatus_frame [of "view w"]
      by (cases marked)
        (auto simp: v1 wpA_bindA wpA_retA sum_case_same split: sum.splits cong: sum.case_cong elim!: wpA_mono)
  qed
next
  case (2 e w1)
  then show ?case using dataPlaneFrame_same [OF svc] by (auto simp: wp)
qed

end


section \<open>What a pass of the control plane controller does\<close>

definition operatorStores :: "Cluster \<Rightarrow> bool" where
  "operatorStores v \<longleftrightarrow> wellStored ControlPlaneObj (st_ControlPlanes v) \<and>
     wellStored ServiceAccountObj (st_ServiceAccounts v) \<and> wellStored ClusterRoleObj (st_ClusterRoles v) \<and>
     wellStored ClusterRoleBindingObj (st_ClusterRoleBindings v) \<and> wellStored SecretObj (st_Secrets v) \<and>
     wellStored DeploymentObj (st_Deployments v) \<and> wellStored ServiceObj (st_Services v)"

text \<open>The effect of a pass over the control plane \<open>cp\<close> that is being deleted.\<close>

definition cleanupEffect :: "ControlPlane \<Rightarrow> Cluster \<Rightarrow> Cluster \<Rightarrow> bool" where
  "cleanupEffect cp v v1 \<longleftrightarrow>
     lookupKey ControlPlaneObj (keyOf (cp_Meta cp)) (st_ControlPlanes v) = Some cp \<and>
     om_DeletionTimestamp (cp_Meta cp) \<noteq> None \<and> cleanupFrame v v1 \<and>
     (st_ControlPlanes v1 = st_ControlPlanes v \<or> cleanupOutcome cp v v1)"

definition passEffect :: "('v, 'c) Semver \<Rightarrow> Cluster \<Rightarrow> Cluster \<Rightarrow> bool" where
  "passEffect sv v v1 \<longleftrightarrow> v1 = v \<or> (\<exists>cp. storedAs cp cp v \<and> cpWrites sv cp v v1) \<or>
     (\<exists>cp. cleanupEffect cp v v1)"

lemma operatorStores_unique: "operatorStores v \<Longrightarrow> storesUnique v"
  by (simp add: operatorStores_def storesUnique_def wellStored_def)

context cluster_api
begin

lemma wp_ControlPlane_pass:
  assumes st: "operatorStores (view w)"
  shows "wpA (ControlPlane_Reconcile rec lib c clk req)
    (\<lambda>r w1. passEffect (lib_Semver lib) (view w) (view w1)) w"
proof (cases "lookupKey ControlPlaneObj (rq_Namespace req, rq_Name req) (st_ControlPlanes (view w))")
  case None
  show ?thesis
    unfolding ControlPlane_Reconcile_def wpA_bindA [of "attemptA _"] wpA_attemptA
    by (rule cp.wp_Get) (use None in \<open>auto simp: wp passEffect_def\<close>)
next
  case (Some cp)
  then have key: "keyOf (cp_Meta cp) = (rq_Namespace req, rq_Name req)"
    using lookupKey_Some [OF Some] by simp
  show ?thesis
  proof (cases "om_DeletionTimestamp (cp_Meta cp)")
    case None
    then have "storedAs cp cp (view w)" using Some key by (simp add: storedAs_def)
    from wp_Reconcile_live [OF this key operatorStores_unique [OF st]] show ?thesis
      by (rule wpA_mono) (use \<open>storedAs cp cp (view w)\<close> in \<open>auto simp: passEffect_def\<close>)
  next
    case t: (Some t)
    show ?thesis
    proof (rule wpA_mono [OF wp_Reconcile_deleting [OF Some t]], goal_cases)
      case (3 r w1)
      then have "cleanupEffect cp (view w) (view w1)"
        using Some t key by (auto simp: cleanupEffect_def split: sum.splits if_splits)
      then show ?case by (auto simp: passEffect_def)
    qed (use st in \<open>simp_all add: operatorStores_def\<close>)
  qed
qed

end

section \<open>The stores stay well formed\<close>

lemma wellStored_withControlPlane:
  assumes "wellStored ControlPlaneObj (st_ControlPlanes v)" and "om_DeletionTimestamp (cp_Meta y) = None"
  shows "wellStored ControlPlaneObj (st_ControlPlanes (withControlPlane y v))"
  using wellStored_replaceKey [OF assms(1), of y] assms(2) by (simp add: withControlPlane_def gone_def)

lemma operatorStores_write:
  assumes "cpWrite sv cp v v1" and st: "operatorStores v"
  shows "operatorStores v1"
proof -
  note st = st [unfolded operatorStores_def]
  have cp: "operatorStores (withControlPlane y v)" if "om_DeletionTimestamp (cp_Meta y) = None" for y
    using st wellStored_withControlPlane [OF _ that, of v] by (simp add: operatorStores_def withControlPlane_def)
  from assms(1) show ?thesis
  proof cases
    case (write_account x y a)
    then have "wellStored ServiceAccountObj (st_ServiceAccounts v1)"
      using st unfolding ownedServiceAccounts_def by (blast intro: own_sa.wellStored_ensured)
    then show ?thesis
      using st ensured_sel [OF write_account(4)] by (auto simp: operatorStores_def)
  next
    case (write_role a y g r)
    then have "wellStored ClusterRoleObj (st_ClusterRoles v1)"
      using st unfolding ownedClusterRoles_def by (blast intro: own_cr.wellStored_ensured)
    then show ?thesis
      using st ensured_sel [OF write_role(4)] by (auto simp: operatorStores_def)
  next
    case (write_binding a r y b)
    then have "wellStored ClusterRoleBindingObj (st_ClusterRoleBindings v1)"
      using st unfolding ownedClusterRoleBindings_def by (blast intro: own_crb.wellStored_ensured)
    then show ?thesis
      using st ensured_sel [OF write_binding(3)] by (auto simp: operatorStores_def)
  next
    case (write_certificate a y s)
    then have "wellStored SecretObj (st_Secrets v1)"
      using st unfolding ownedSecrets_def ownerSecrets_def by (blast intro: own_sec.wellStored_ensured)
    then show ?thesis
      using st ensured_sel [OF write_certificate(3)] by (auto simp: operatorStores_def)
  next
    case (write_deployment a s y d)
    then have "wellStored DeploymentObj (st_Deployments v1)"
      using st unfolding ownedDeployments_def by (blast intro: own_dep.wellStored_ensured)
    then show ?thesis
      using st ensured_sel [OF write_deployment(3)] by (auto simp: operatorStores_def)
  qed (use cp in \<open>auto simp: sameIdentity_def storedAs_def\<close>)
qed

lemma wellStored_settle:
  assumes "wellStored k xs"
  shows "wellStored k (settle k y xs)"
proof (cases "gone (co_Meta k y)")
  case True
  then show ?thesis
    using assms by (auto simp: settle_def wellStored_def uniqueKeys_def removeKey_def distinct_map_filter list_all_iff)
qed (use wellStored_replaceKey [OF assms] in \<open>simp add: settle_def\<close>)

lemma operatorStores_cleanup:
  assumes "cleanupEffect cp v v1" and "operatorStores v"
  shows "operatorStores v1"
proof -
  have fr: "cleanupFrame v v1" using assms(1) by (simp add: cleanupEffect_def)
  obtain cps rs bs where v1: "v1 = v\<lparr>st_ControlPlanes := cps, st_ClusterRoles := rs, st_ClusterRoleBindings := bs\<rparr>"
    "wellStored ClusterRoleObj rs" "wellStored ClusterRoleBindingObj bs"
    using fr assms(2) unfolding cleanupFrame_def operatorStores_def by metis
  have "wellStored ControlPlaneObj (st_ControlPlanes v)" using assms(2) by (simp add: operatorStores_def)
  moreover have "st_ControlPlanes v1 = st_ControlPlanes v \<or>
      (\<exists>y. st_ControlPlanes v1 = settle ControlPlaneObj y (st_ControlPlanes v))"
    using assms(1) unfolding cleanupEffect_def cleanupOutcome_def finalizerRemoved_def by (metis (full_types))
  ultimately have "wellStored ControlPlaneObj cps"
    using v1(1) wellStored_settle by auto
  then show ?thesis using v1 assms(2) by (simp add: operatorStores_def)
qed


lemma operatorStores_dataplane: "dataPlaneFrame v v1 \<Longrightarrow> operatorStores v \<Longrightarrow> operatorStores v1"
  by (auto simp: dataPlaneFrame_def operatorStores_def)

section \<open>Runs of the operator\<close>

text \<open>
  \<open>others\<close> is what may happen to the cluster between the passes: users, the kubelets, other
  controllers.
\<close>

inductive reachable ::
  "ControlPlaneReconciler \<Rightarrow> ('key, 'cert, 'signer, 'v, 'c) Library \<Rightarrow> 'w Client \<Rightarrow> ('w \<Rightarrow> Cluster)
    \<Rightarrow> (Cluster \<Rightarrow> Cluster \<Rightarrow> bool) \<Rightarrow> Cluster \<Rightarrow> Cluster \<Rightarrow> bool"
  for rec lib c view others v0 where
  reach_start: "reachable rec lib c view others v0 v0"
| reach_controlplane: "reachable rec lib c view others v0 (view w1)"
    if "reachable rec lib c view others v0 (view w)" "ControlPlane_Reconcile rec lib c clk req w = (r, w1)"
| reach_dataplane: "reachable rec lib c view others v0 (view w1)"
    if "reachable rec lib c view others v0 (view w)" "DataPlane_Reconcile c clk req w = (r', w1)"
| reach_others: "reachable rec lib c view others v0 v1"
    if "reachable rec lib c view others v0 v" "others v v1"

text \<open>A property of clusters that every kind of step keeps, seen through the effects of passes.\<close>

locale operator_invariant =
  fixes sv :: "('v, 'c) Semver" and I :: "Cluster \<Rightarrow> bool"
  assumes on_write: "operatorStores v \<Longrightarrow> I v \<Longrightarrow> cpWrite sv cp v v1 \<Longrightarrow> I v1"
    and on_cleanup: "operatorStores v \<Longrightarrow> I v \<Longrightarrow> cleanupEffect cp v v1 \<Longrightarrow> I v1"
    and on_dataplane: "I v \<Longrightarrow> dataPlaneFrame v v1 \<Longrightarrow> I v1"
begin

lemma keeps_writes:
  assumes "cpWrites sv cp v v1" and "operatorStores v" and "I v"
  shows "operatorStores v1 \<and> I v1"
  using assms by (induction rule: rtranclp_induct) (auto intro: on_write operatorStores_write)

lemma keeps_pass:
  assumes "passEffect sv v v1" and "operatorStores v" and "I v"
  shows "operatorStores v1 \<and> I v1"
  using assms keeps_writes on_cleanup operatorStores_cleanup unfolding passEffect_def by metis

lemma keeps_reachable:
  assumes "reachable rec lib c view others v0 v" and "cluster_api c view" and "lib_Semver lib = sv"
    and "operatorStores v0" and "I v0"
    and others: "\<And>v v1. others v v1 \<Longrightarrow> operatorStores v \<Longrightarrow> I v \<Longrightarrow> operatorStores v1 \<and> I v1"
  shows "operatorStores v \<and> I v"
  using assms(1)
proof (induction rule: reachable.induct)
  case (reach_controlplane w clk req r w1)
  then have "passEffect sv (view w) (view w1)"
    using wpA_E [OF cluster_api.wp_ControlPlane_pass [OF assms(2)] reach_controlplane(2)] assms(3) by simp
  then show ?case using keeps_pass reach_controlplane.IH by blast
next
  case (reach_dataplane w clk req r w1)
  then have "dataPlaneFrame (view w) (view w1)"
    using wpA_E [OF cluster_api.wp_DataPlane_frame [OF assms(2)] reach_dataplane(2)]
    by (simp add: operatorStores_def)
  then show ?case using on_dataplane operatorStores_dataplane reach_dataplane.IH by blast
qed (use assms in auto)

end

section \<open>Nothing is left behind\<close>

text \<open>The finalizer \<open>f\<close> is on a stored control plane with the identity of \<open>cp\<close>.\<close>

definition protects :: "string \<Rightarrow> ControlPlane \<Rightarrow> Cluster \<Rightarrow> bool" where
  "protects f cp v \<longleftrightarrow> (\<exists>x \<in> set (st_ControlPlanes v).
     om_UID (cp_Meta x) = om_UID (cp_Meta cp) \<and> f \<in> set (om_Finalizers (cp_Meta x)))"

definition guarded :: "ControlPlane \<Rightarrow> Cluster \<Rightarrow> bool" where
  "guarded cp v \<longleftrightarrow> (liveBindings cp v = [] \<or> protects bindingFinalizer cp v) \<and>
     (liveRoles cp v = [] \<or> protects roleFinalizer cp v)"

lemma protects_with:
  assumes "protects f cp v" and st: "wellStored ControlPlaneObj (st_ControlPlanes v)"
    and x: "x \<in> set (st_ControlPlanes v)" and y: "keyOf (cp_Meta y) = keyOf (cp_Meta x)"
      "om_UID (cp_Meta y) = om_UID (cp_Meta x)"
    and f: "f \<in> set (om_Finalizers (cp_Meta x)) \<Longrightarrow> f \<in> set (om_Finalizers (cp_Meta y))"
  shows "protects f cp (withControlPlane y v)"
proof -
  obtain z where z: "z \<in> set (st_ControlPlanes v)" "om_UID (cp_Meta z) = om_UID (cp_Meta cp)"
    "f \<in> set (om_Finalizers (cp_Meta z))"
    using assms(1) by (auto simp: protects_def)
  show ?thesis
  proof (cases "keyOf (cp_Meta z) = keyOf (cp_Meta y)")
    case True
    then have "z = x" using uniqueKeys_same [of ControlPlaneObj, OF _ z(1) x] st y by (simp add: wellStored_def)
    then have "y \<in> set (replaceKey ControlPlaneObj y (st_ControlPlanes v))"
      using x y by (auto simp: replaceKey_def image_iff)
    then show ?thesis using z f \<open>z = x\<close> y by (auto simp: protects_def withControlPlane_def)
  next
    case False
    then have "z \<in> set (replaceKey ControlPlaneObj y (st_ControlPlanes v))"
      using z(1) by (auto simp: replaceKey_def image_iff)
    then show ?thesis using z by (auto simp: protects_def withControlPlane_def)
  qed
qed

lemma protects_stored:
  assumes "storedAs cp x v" and "f \<in> set (om_Finalizers (cp_Meta x))" and "om_UID (cp_Meta cp) = om_UID (cp_Meta p)"
  shows "protects f p v"
  using assms storedAs_set [OF assms(1)] by (auto simp: protects_def storedAs_def)


lemma protects_settle:
  assumes "protects f p v" and st: "wellStored ControlPlaneObj (st_ControlPlanes v)"
    and v1: "st_ControlPlanes v1 = settle ControlPlaneObj y (st_ControlPlanes v)"
    and cp: "lookupKey ControlPlaneObj (keyOf (cp_Meta cp)) (st_ControlPlanes v) = Some cp"
      "keyOf (cp_Meta y) = keyOf (cp_Meta cp)" "om_UID (cp_Meta y) = om_UID (cp_Meta cp)"
    and f: "om_UID (cp_Meta cp) = om_UID (cp_Meta p) \<Longrightarrow> f \<in> set (om_Finalizers (cp_Meta cp)) \<Longrightarrow>
      f \<in> set (om_Finalizers (cp_Meta y))"
  shows "protects f p v1"
proof -
  obtain z where z: "z \<in> set (st_ControlPlanes v)" "om_UID (cp_Meta z) = om_UID (cp_Meta p)"
    "f \<in> set (om_Finalizers (cp_Meta z))"
    using assms(1) by (auto simp: protects_def)
  have cps: "cp \<in> set (st_ControlPlanes v)" using lookupKey_Some [OF cp(1)] by simp
  show ?thesis
  proof (cases "keyOf (cp_Meta z) = keyOf (cp_Meta y)")
    case True
    then have "z = cp" using uniqueKeys_same [of ControlPlaneObj, OF _ z(1) cps] st cp by (simp add: wellStored_def)
    then have "f \<in> set (om_Finalizers (cp_Meta y))" using f z by simp
    moreover from this have "y \<in> set (st_ControlPlanes v1)"
      using cps cp(2) by (auto simp: v1 settle_def gone_def replaceKey_def image_iff)
    ultimately show ?thesis using z(2) cp(3) \<open>z = cp\<close> by (auto simp: protects_def)
  next
    case False
    then have "z \<in> set (st_ControlPlanes v1)"
      using z(1) by (auto simp: v1 settle_def set_removeKey replaceKey_def image_iff)
    then show ?thesis using z by (auto simp: protects_def)
  qed
qed

lemma wanted_owner:
  "wantedClusterRole sv y = Inr g \<Longrightarrow> IsOwnedByRefUID (cr_Meta g) uid \<longleftrightarrow> uid = om_UID (cp_Meta y)"
  "IsOwnedByRefUID (crb_Meta (wantedClusterRoleBinding y a r)) uid \<longleftrightarrow> uid = om_UID (cp_Meta y)"
proof -
  show "IsOwnedByRefUID (cr_Meta g) uid \<longleftrightarrow> uid = om_UID (cp_Meta y)" if g: "wantedClusterRole sv y = Inr g"
  proof -
    obtain role where role: "GenerateNewClusterRoleForControlPlane sv (om_Name (cp_Meta y))
        (opt_ContainerImage (cp_Spec y)) = Inr role"
      "g = addLabelForControlPlane ClusterRoleObj (SetOwnerForObject ClusterRoleObj ControlPlaneObj role y)"
      using g by (auto simp: wantedClusterRole_def bindE_Inr Let_def)
    moreover have "om_OwnerReferences (cr_Meta role) = None"
      using generatedRoles_restrained [OF generated_role [OF role(1)]] by (simp add: clusterRoleMeta_def emptyMeta_def)
    ultimately show ?thesis
      by (auto simp: addLabelForControlPlane_def clusterrole.meta_SetOwner [simplified] IsOwnedByRefUID_def
          GenerateOwnerReferenceForObject_def setLabel_def)
  qed
  show "IsOwnedByRefUID (crb_Meta (wantedClusterRoleBinding y a r)) uid \<longleftrightarrow> uid = om_UID (cp_Meta y)"
    by (auto simp: wantedClusterRoleBinding_def Let_def GenerateNewClusterRoleBindingForControlPlane_def
        addLabelForControlPlane_def clusterrolebinding.meta_SetOwner [simplified] IsOwnedByRefUID_def
        emptyMeta_def GenerateOwnerReferenceForObject_def setLabel_def)
qed

context owned_kind
begin

lemma ensured_unowned:
  assumes "ensured k sel put body id (updateMeta k) owned g v (True, y) v1"
    and "\<not> IsOwnedByRefUID (co_Meta k g) uid"
  shows "set (ownedObjects k ns l val uid (sel v1)) \<subseteq> set (ownedObjects k ns l val uid (sel v))"
proof -
  have "upToDate k g y"
    using assms(1) converging_updateMeta [of g] by (simp add: ensured_def converging_def)
  then have "\<not> IsOwnedByRefUID (co_Meta k y) uid"
    using assms(2) by (simp add: upToDate_iff IsOwnedByRefUID_def)
  moreover have "set (sel v1) \<subseteq> insert y (set (sel v))"
    using assms(1) by (auto simp: ensured_def sel_put settle_def set_removeKey replaceKey_def split: if_splits)
  ultimately show ?thesis by (auto simp: ownedObjects_def)
qed

end


lemma swept_live:
  assumes "swept k {} xs ys" and "filter (live k) (ownedObjects k ns l v uid xs) = []"
  shows "filter (live k) (ownedObjects k ns l v uid ys) = []"
  using assms by (auto simp: swept_def filter_empty_conv ownedObjects_def)

lemma guarded_cong:
  assumes "guarded p v" and "st_ControlPlanes v1 = st_ControlPlanes v"
    and "liveBindings p v = [] \<Longrightarrow> liveBindings p v1 = []" and "liveRoles p v = [] \<Longrightarrow> liveRoles p v1 = []"
  shows "guarded p v1"
  using assms by (auto simp: guarded_def protects_def)

lemma guarded_stored:
  assumes "storedAs cp x v" and "hasFinalizers x" and "om_UID (cp_Meta cp) = om_UID (cp_Meta p)"
    and "st_ControlPlanes v1 = st_ControlPlanes v"
  shows "guarded p v1"
  using protects_stored [OF assms(1) _ assms(3)] assms(2,4)
  by (simp add: hasFinalizers_def guarded_def protects_def)

lemma guarded_with:
  assumes "guarded p v" and "operatorStores v" and x: "storedAs cp x v" and y: "keyOf (cp_Meta y) = keyOf (cp_Meta x)"
    "om_UID (cp_Meta y) = om_UID (cp_Meta x)"
    and f: "hasFinalizers y \<or> om_Finalizers (cp_Meta y) = om_Finalizers (cp_Meta x)"
  shows "guarded p (withControlPlane y v)"
proof -
  have "protects f p (withControlPlane y v)" if "protects f p v" "f = bindingFinalizer \<or> f = roleFinalizer" for f
    by (rule protects_with [OF that(1) _ storedAs_set [OF x] y])
      (use assms(2) f that(2) in \<open>auto simp: operatorStores_def hasFinalizers_def\<close>)
  then show ?thesis
    using assms(1) by (auto simp: guarded_def liveBindings_def liveRoles_def withControlPlane_def)
qed

lemma guarded_write_role:
  assumes g: "guarded p v" and a: "hasAccount cp a v" and y: "sameIdentity (cp_Meta cp) (cp_Meta y)"
    and w: "wantedClusterRole sv y = Inr g"
    and ens: "ensured ClusterRoleObj st_ClusterRoles (\<lambda>xs v. v\<lparr>st_ClusterRoles := xs\<rparr>)
      (\<lambda>s. s\<lparr>cr_Meta := emptyMeta\<rparr>) id (updateMeta ClusterRoleObj) owned g v (True, r) v1"
  shows "guarded p v1"
proof -
  have v1: "st_ControlPlanes v1 = st_ControlPlanes v" "st_ClusterRoleBindings v1 = st_ClusterRoleBindings v"
    using ensured_sel [OF ens] by auto
  obtain x where x: "storedAs cp x v" "hasFinalizers x" using a by (auto simp: hasAccount_def)
  show ?thesis
  proof (cases "om_UID (cp_Meta cp) = om_UID (cp_Meta p)")
    case False
    then have "\<not> IsOwnedByRefUID (cr_Meta g) (om_UID (cp_Meta p))"
      using wanted_owner(1) [OF w] sameIdentity_parts(2) [OF y] by simp
    then have "liveRoles p v1 = []" if "liveRoles p v = []"
      using own_cr.ensured_unowned [OF ens] that by (fastforce simp: liveRoles_def filter_empty_conv)
    then show ?thesis
      using v1 by (intro guarded_cong [OF g]) (simp_all add: liveBindings_def)
  qed (use guarded_stored [OF x _ v1(1)] in simp)
qed

lemma guarded_write_binding:
  assumes g: "guarded p v" and a: "hasRole cp a r v" and y: "sameIdentity (cp_Meta cp) (cp_Meta y)"
    and ens: "ensured ClusterRoleBindingObj st_ClusterRoleBindings (\<lambda>xs v. v\<lparr>st_ClusterRoleBindings := xs\<rparr>)
      (\<lambda>s. s\<lparr>crb_Meta := emptyMeta\<rparr>) id (updateMeta ClusterRoleBindingObj) owned
      (wantedClusterRoleBinding y an rn) v (True, b) v1"
  shows "guarded p v1"
proof -
  have v1: "st_ControlPlanes v1 = st_ControlPlanes v" "st_ClusterRoles v1 = st_ClusterRoles v"
    using ensured_sel [OF ens] by auto
  obtain x where x: "storedAs cp x v" "hasFinalizers x" using a by (auto simp: hasRole_def hasAccount_def)
  show ?thesis
  proof (cases "om_UID (cp_Meta cp) = om_UID (cp_Meta p)")
    case False
    then have "\<not> IsOwnedByRefUID (crb_Meta (wantedClusterRoleBinding y an rn)) (om_UID (cp_Meta p))"
      using wanted_owner(2) sameIdentity_parts(2) [OF y] by simp
    then have "liveBindings p v1 = []" if "liveBindings p v = []"
      using own_crb.ensured_unowned [OF ens] that by (fastforce simp: liveBindings_def filter_empty_conv)
    then show ?thesis
      using v1 by (intro guarded_cong [OF g]) (simp_all add: liveRoles_def)
  qed (use guarded_stored [OF x _ v1(1)] in simp)
qed

lemma guarded_write:
  assumes "operatorStores v" and "guarded p v" and "cpWrite sv cp v v1"
  shows "guarded p v1"
  using assms(3)
proof cases
  case (write_role a y g r)
  then show ?thesis using guarded_write_role [OF assms(2)] by blast
next
  case (write_binding a r y b)
  then show ?thesis using guarded_write_binding [OF assms(2)] by blast
next
  case (write_finalizers x y)
  then show ?thesis using guarded_with [OF assms(2,1)] by simp
next
  case (write_specification x y)
  then show ?thesis using guarded_with [OF assms(2,1)] by (simp add: sameIdentity_def keyOf_def)
next
  case (write_status x y)
  then show ?thesis using guarded_with [OF assms(2,1)] by (simp add: sameIdentity_def keyOf_def)
qed (auto dest!: ensured_sel intro!: guarded_cong [OF assms(2)] simp: liveBindings_def liveRoles_def)


lemma guarded_cleanup:
  assumes st: "operatorStores v" and g: "guarded p v" and eff: "cleanupEffect cp v v1"
  shows "guarded p v1"
proof -
  have cp: "lookupKey ControlPlaneObj (keyOf (cp_Meta cp)) (st_ControlPlanes v) = Some cp"
    and fr: "cleanupFrame v v1"
    using eff by (simp_all add: cleanupEffect_def)
  have live: "liveBindings p v = [] \<Longrightarrow> liveBindings p v1 = []" "liveRoles p v = [] \<Longrightarrow> liveRoles p v1 = []"
    using fr by (auto simp: cleanupFrame_def liveBindings_def liveRoles_def intro: swept_live)
  have kept: "protects f p v1"
    if pf: "protects f p v" and rm: "finalizerRemoved f' cp v v1"
      and other: "om_UID (cp_Meta cp) = om_UID (cp_Meta p) \<Longrightarrow> f \<noteq> f'" for f f'
  proof -
    obtain y where y: "st_ControlPlanes v1 = settle ControlPlaneObj y (st_ControlPlanes v)"
      "om_Finalizers (cp_Meta y) = filter (\<lambda>x. x \<noteq> f') (om_Finalizers (cp_Meta cp))"
      "keyOf (cp_Meta y) = keyOf (cp_Meta cp)" "om_UID (cp_Meta y) = om_UID (cp_Meta cp)"
      using rm unfolding finalizerRemoved_def by blast
    then show ?thesis
      using other st by (intro protects_settle [OF pf _ y(1) cp]) (auto simp: operatorStores_def)
  qed
  have same: "liveBindings p v1 = liveBindings cp v1" "liveRoles p v1 = liveRoles cp v1"
    if "om_UID (cp_Meta cp) = om_UID (cp_Meta p)"
    using that by (simp_all add: liveBindings_def liveRoles_def)
  consider "st_ControlPlanes v1 = st_ControlPlanes v"
    | "finalizerRemoved bindingFinalizer cp v v1" "liveBindings cp v1 = []"
    | "finalizerRemoved roleFinalizer cp v v1" "liveBindings cp v1 = []" "liveRoles cp v1 = []"
    using eff by (auto simp: cleanupEffect_def cleanupOutcome_def split: if_splits)
  then show ?thesis
  proof cases
    case 1
    then show ?thesis using guarded_cong [OF g] live by simp
  next
    case 2
    then show ?thesis
      using g live same kept [OF _ 2(1)] finalizers_differ
      by (cases "om_UID (cp_Meta cp) = om_UID (cp_Meta p)") (auto simp: guarded_def)
  next
    case 3
    then show ?thesis
      using g live same kept [OF _ 3(1)]
      by (cases "om_UID (cp_Meta cp) = om_UID (cp_Meta p)") (auto simp: guarded_def)
  qed
qed

lemma guarded_dataplane: "guarded p v \<Longrightarrow> dataPlaneFrame v v1 \<Longrightarrow> guarded p v1"
  by (auto simp: dataPlaneFrame_def guarded_def protects_def liveBindings_def liveRoles_def)

interpretation guard: operator_invariant sv "guarded p" for sv :: "('v, 'c) Semver" and p
  by unfold_locales (rule guarded_write guarded_cleanup guarded_dataplane; assumption)+

section \<open>Never provisioned\<close>

text \<open>
  No certificate carries the label of control planes, no deployment either, and no control plane
  is marked as provisioned.
\<close>

definition labelledForControlPlane :: "ObjectMeta \<Rightarrow> bool" where
  "labelledForControlPlane m \<longleftrightarrow>
     fmlookup (labelMap (om_Labels m)) GatewayOperatorControlledLabel = Some ControlPlaneManagedLabelValue"

definition undeployed :: "Cluster \<Rightarrow> bool" where
  "undeployed v \<longleftrightarrow> list_all (\<lambda>s. \<not> labelledForControlPlane (sec_Meta s)) (st_Secrets v) \<and>
     list_all (\<lambda>d. \<not> labelledForControlPlane (dep_Meta d)) (st_Deployments v) \<and> provisionedKeys v = {}"

lemma undeployed_secrets: "undeployed v \<Longrightarrow> ownedSecrets cp v = []"
  by (auto simp: undeployed_def ownedSecrets_def ownerSecrets_def ownedObjects_def selects_def
      labelledForControlPlane_def list_all_iff filter_empty_conv)


lemma secrets_write:
  assumes "cpWrite sv cp v v1" and "ownedSecrets cp v = []" and "s \<in> set (st_Secrets v1)"
  shows "s \<in> set (st_Secrets v) \<or> om_Labels (sec_Meta s) = None"
  using assms(1)
proof cases
  case (write_certificate a y s')
  then have "v1 = v\<lparr>st_Secrets := st_Secrets v @ [s']\<rparr>"
    "sameWritten (sec_Meta (generateCertificateSecret (OwnerControlPlane y))) (sec_Meta s')"
    using assms(2) by (auto simp: ensured_def)
  then show ?thesis
    using assms(3) generateCertificateSecret_labels(1) by (auto simp: sameWritten_def)
qed (use assms(3) in \<open>auto dest!: ensured_sel simp: withControlPlane_def\<close>)

lemma undeployed_write:
  assumes "undeployed v" and "cpWrite sv cp v v1"
  shows "undeployed v1"
proof -
  note none = undeployed_secrets [OF assms(1), of cp]
  have "\<not> labelledForControlPlane (sec_Meta s)" if "s \<in> set (st_Secrets v1)" for s
    using secrets_write [OF assms(2) none that] assms(1)
    by (auto simp: undeployed_def list_all_iff labelledForControlPlane_def)
  then show ?thesis
    using cpWrite_undeployed [OF assms(2) none] assms(1) by (simp add: undeployed_def list_all_iff)
qed

lemma provisionedKeys_cleanup:
  assumes "cleanupEffect cp v v1"
  shows "provisionedKeys v1 \<subseteq> provisionedKeys v"
proof -
  have cps: "cp \<in> set (st_ControlPlanes v)"
    using assms lookupKey_Some [of ControlPlaneObj _ _ cp] unfolding cleanupEffect_def by metis
  have "st_ControlPlanes v1 = st_ControlPlanes v \<or> (\<exists>y. st_ControlPlanes v1 = settle ControlPlaneObj y (st_ControlPlanes v) \<and>
      keyOf (cp_Meta y) = keyOf (cp_Meta cp) \<and> cp_Status y = cp_Status cp)"
    using assms unfolding cleanupEffect_def cleanupOutcome_def finalizerRemoved_def by (metis (full_types))
  then show ?thesis
  proof (elim disjE exE conjE)
    fix y assume y: "st_ControlPlanes v1 = settle ControlPlaneObj y (st_ControlPlanes v)"
      "keyOf (cp_Meta y) = keyOf (cp_Meta cp)" "cp_Status y = cp_Status cp"
    show ?thesis
    proof (cases "gone (cp_Meta y)")
      case False
      then show ?thesis
        using provisionedKeys_same [OF cps y(2)] y markedProvisioned_status [OF y(3)]
        by (simp add: provisionedKeys_def settle_def withControlPlane_def)
    qed (use y(1) in \<open>auto simp: provisionedKeys_def settle_def set_removeKey\<close>)
  qed (simp add: provisionedKeys_def)
qed

lemma undeployed_cleanup:
  assumes "undeployed v" and "cleanupEffect cp v v1"
  shows "undeployed v1"
proof -
  have "cleanupFrame v v1" using assms(2) by (simp add: cleanupEffect_def)
  then have fr: "v1 = v\<lparr>st_ControlPlanes := st_ControlPlanes v1, st_ClusterRoles := st_ClusterRoles v1,
      st_ClusterRoleBindings := st_ClusterRoleBindings v1\<rparr>" by (simp add: cleanupFrame_def)
  show ?thesis
    using arg_cong [OF fr, of st_Secrets] arg_cong [OF fr, of st_Deployments] provisionedKeys_cleanup [OF assms(2)]
      assms(1) by (simp add: undeployed_def)
qed

interpretation undeployed: operator_invariant sv undeployed for sv :: "('v, 'c) Semver"
proof unfold_locales
  show "undeployed v \<Longrightarrow> dataPlaneFrame v v1 \<Longrightarrow> undeployed v1" for v v1
    by (auto simp: dataPlaneFrame_def undeployed_def provisionedKeys_def)
qed (rule undeployed_write undeployed_cleanup; assumption)+

section \<open>Properties of the operator\<close>

text \<open>C1. Nothing is left behind. Take a run of the operator: passes of both controllers for any
  requests, with any outcome of the calls, interleaved with steps of others that keep the stores
  well formed and themselves neither leave a cluster role or binding of the control plane
  \<open>cp\<close> unprotected nor take a finalizer away. Whenever a live cluster role binding (role) of \<open>cp\<close>
  exists, \<open>cp\<close> is still stored and has the finalizer for bindings (roles), so that it cannot
  disappear before them.\<close>

theorem operator_leaves_nothing:
  assumes "cluster_api c view"
    and "reachable rec lib c view others v0 v"
    and "operatorStores v0 \<and> guarded cp v0"
    and "\<And>u u'. others u u' \<Longrightarrow> operatorStores u \<Longrightarrow> guarded cp u \<Longrightarrow> operatorStores u' \<and> guarded cp u'"
  shows "(liveBindings cp v \<noteq> [] \<longrightarrow> protects bindingFinalizer cp v) \<and>
    (liveRoles cp v \<noteq> [] \<longrightarrow> protects roleFinalizer cp v)"
proof -
  have "guarded cp v"
    using guard.keeps_reachable [OF assms(2,1) refl] assms(3,4) by blast
  then show ?thesis by (auto simp: guarded_def)
qed

text \<open>In the examples, the others change data planes.\<close>

definition dataPlaneUsers :: "Cluster \<Rightarrow> Cluster \<Rightarrow> bool" where
  "dataPlaneUsers u u' \<longleftrightarrow> (\<exists>ds. u' = u\<lparr>st_DataPlanes := ds\<rparr>)"

lemma dataPlaneUsers_frame:
  "dataPlaneUsers u u' \<Longrightarrow> operatorStores u \<Longrightarrow> dataPlaneFrame u u'"
  using dataPlaneFrame_step [of u u] unfolding dataPlaneUsers_def dataPlaneFrame_def operatorStores_def
  by (metis Cluster.surjective Cluster.update_convs(2,4))

lemma exampleRun:
  "reachable exampleReconciler exampleLibrary memClient sim_Cluster dataPlaneUsers (sim_Cluster w)
     (sim_Cluster (snd (readyPass w)))"
  by (rule reach_controlplane [OF reach_start, where clk = "\<lambda>_. 9" and req = exampleRequest
        and r = "fst (readyPass w)"])
    (simp add: readyPass_def)

lemma exampleStores:
  "operatorStores (sim_Cluster deletingCluster)" "operatorStores (sim_Cluster freshCluster)"
  "guarded deletingControlPlane (sim_Cluster deletingCluster)"
  by code_simp+

theorem operator_leaves_nothing_witness:
  "let v = sim_Cluster (snd (readyPass deletingCluster)); cp = deletingControlPlane in
   (liveBindings cp v \<noteq> [] \<longrightarrow> protects bindingFinalizer cp v) \<and>
   (liveRoles cp v \<noteq> [] \<longrightarrow> protects roleFinalizer cp v)"
  unfolding Let_def
  by (rule operator_leaves_nothing [OF mem.cluster_api_axioms exampleRun])
    (use exampleStores dataPlaneUsers_frame operatorStores_dataplane guarded_dataplane in blast)+

text \<open>C3. No control plane is ever provisioned. In a run of the operator from a cluster where no
  certificate and no deployment is labelled for control planes and no control plane is marked
  as provisioned, as long as the others do not add such themselves, there is never one: the
  certificates the operator creates for control planes are not labelled, so that no pass gets
  past the certificate.\<close>

theorem operator_never_provisions:
  assumes "cluster_api c view"
    and "reachable rec lib c view others v0 v"
    and "operatorStores v0 \<and> undeployed v0"
    and "\<And>u u'. others u u' \<Longrightarrow> operatorStores u \<Longrightarrow> undeployed u \<Longrightarrow> operatorStores u' \<and> undeployed u'"
  shows "(\<forall>cp. ownedDeployments cp v = []) \<and> provisionedKeys v = {}"
proof -
  have "undeployed v"
    using undeployed.keeps_reachable [OF assms(2,1) refl] assms(3,4) by blast
  then show ?thesis
    by (auto simp: undeployed_def ownedDeployments_def ownedObjects_def selects_def
        labelledForControlPlane_def list_all_iff filter_empty_conv)
qed

theorem operator_never_provisions_witness:
  "let v = sim_Cluster (snd (readyPass freshCluster)) in
   (\<forall>cp. ownedDeployments cp v = []) \<and> provisionedKeys v = {}"
  unfolding Let_def
proof (rule operator_never_provisions [OF mem.cluster_api_axioms exampleRun])
  have "undeployed (sim_Cluster freshCluster)"
    by (simp add: freshCluster_def quiet_def emptyCluster_def undeployed_def provisionedKeys_def
        markedProvisioned_def IsValidCondition_def versionedControlPlane_def exampleControlPlane_def
        ControlPlaneConditions_def)
  then show "operatorStores (sim_Cluster freshCluster) \<and> undeployed (sim_Cluster freshCluster)"
    using exampleStores(2) by simp
qed (use dataPlaneUsers_frame operatorStores_dataplane undeployed.on_dataplane in blast)

end
