(* ===== verification/Interference.thy ===== *)
theory Interference
  imports Operator
begin

text \<open>
  Calls that do not run alone. The manager runs the two controllers at the same time, and users
  and the other controllers of the cluster never wait, so that between any two calls of a pass the
  cluster may change. Here each call of the client is preceded by a change of the world, and every
  state of the cluster is recorded (\<open>amid\<close>). The functions of the controllers are run with
  this client as they are. In rely and guarantee style, \<open>spares\<close> is what the operator
  relies on, the assumption of the locale \<open>interference\<close>, and \<open>acts\<close> is what each
  call for a live control plane guarantees, proved bottom up for every helper of a pass.
  Concurrency puts the passes together.
\<close>

section \<open>A client under interference\<close>

text \<open>The second component of the world is the sequence of states the cluster was in.\<close>

definition interrupted ::
  "('w \<Rightarrow> 'w) \<Rightarrow> ('w \<Rightarrow> Cluster) \<Rightarrow> ('a, 'w) action \<Rightarrow> ('a, 'w \<times> Cluster list) action" where
  "interrupted env view m = (\<lambda>(w, h).
     (let w0 = env w; (r, w1) = m w0 in (r, (w1, h @ [view w0, view w1]))))"

definition interruptedResource ::
  "('w \<Rightarrow> 'w) \<Rightarrow> ('w \<Rightarrow> Cluster) \<Rightarrow> ('o, 'w) resource \<Rightarrow> ('o, 'w \<times> Cluster list) resource" where
  "interruptedResource env view res =
     \<lparr>cl_Get = (\<lambda>ns nm. interrupted env view (cl_Get res ns nm)),
      cl_List = (\<lambda>ns ls. interrupted env view (cl_List res ns ls)),
      cl_Create = (\<lambda>x. interrupted env view (cl_Create res x)),
      cl_Update = (\<lambda>x. interrupted env view (cl_Update res x)),
      cl_StatusUpdate = (\<lambda>x. interrupted env view (cl_StatusUpdate res x)),
      cl_Delete = (\<lambda>x. interrupted env view (cl_Delete res x))\<rparr>"

definition amid :: "('w \<Rightarrow> 'w) \<Rightarrow> ('w \<Rightarrow> Cluster) \<Rightarrow> 'w Client \<Rightarrow> ('w \<times> Cluster list) Client" where
  "amid env view c =
     \<lparr>cl_ControlPlanes = interruptedResource env view (cl_ControlPlanes c),
      cl_DataPlanes = interruptedResource env view (cl_DataPlanes c),
      cl_Deployments = interruptedResource env view (cl_Deployments c),
      cl_Services = interruptedResource env view (cl_Services c),
      cl_ServiceAccounts = interruptedResource env view (cl_ServiceAccounts c),
      cl_ClusterRoles = interruptedResource env view (cl_ClusterRoles c),
      cl_ClusterRoleBindings = interruptedResource env view (cl_ClusterRoleBindings c),
      cl_Secrets = interruptedResource env view (cl_Secrets c),
      cl_ConfigMaps = interruptedResource env view (cl_ConfigMaps c),
      cl_NetworkPolicies = interruptedResource env view (cl_NetworkPolicies c)\<rparr>"

lemma amid_sel [simp]:
  "cl_ControlPlanes (amid env view c) = interruptedResource env view (cl_ControlPlanes c)"
  "cl_DataPlanes (amid env view c) = interruptedResource env view (cl_DataPlanes c)"
  "cl_Deployments (amid env view c) = interruptedResource env view (cl_Deployments c)"
  "cl_Services (amid env view c) = interruptedResource env view (cl_Services c)"
  "cl_ServiceAccounts (amid env view c) = interruptedResource env view (cl_ServiceAccounts c)"
  "cl_ClusterRoles (amid env view c) = interruptedResource env view (cl_ClusterRoles c)"
  "cl_ClusterRoleBindings (amid env view c) = interruptedResource env view (cl_ClusterRoleBindings c)"
  "cl_Secrets (amid env view c) = interruptedResource env view (cl_Secrets c)"
  by (simp_all add: amid_def)

lemma interruptedResource_sel [simp]:
  "cl_Get (interruptedResource env view res) ns nm = interrupted env view (cl_Get res ns nm)"
  "cl_List (interruptedResource env view res) ns' ls = interrupted env view (cl_List res ns' ls)"
  "cl_Create (interruptedResource env view res) x = interrupted env view (cl_Create res x)"
  "cl_Update (interruptedResource env view res) x = interrupted env view (cl_Update res x)"
  "cl_StatusUpdate (interruptedResource env view res) x = interrupted env view (cl_StatusUpdate res x)"
  "cl_Delete (interruptedResource env view res) x = interrupted env view (cl_Delete res x)"
  by (simp_all add: interruptedResource_def)

lemma wp_interrupted:
  "wpA (interrupted env view m) Q s \<longleftrightarrow>
   wpA m (\<lambda>r w1. Q r (w1, snd s @ [view (env (fst s)), view w1])) (env (fst s))"
  by (cases s) (simp add: wpA_def interrupted_def split: prod.splits)

lemma attemptA_interrupted: "attemptA (interrupted env view m) = interrupted env view (attemptA m)"
  by (rule ext) (auto simp: attemptA_def interrupted_def Let_def split: prod.splits sum.splits)

section \<open>Rely and guarantee\<close>

text \<open>The finalizer \<open>f\<close> is on the stored control plane that \<open>x\<close> is a version of.\<close>

definition standing :: "string \<Rightarrow> ControlPlane \<Rightarrow> Cluster \<Rightarrow> bool" where
  "standing f x v \<longleftrightarrow> (\<exists>y \<in> set (st_ControlPlanes v). keyOf (cp_Meta y) = keyOf (cp_Meta x) \<and>
     om_UID (cp_Meta y) = om_UID (cp_Meta x) \<and> f \<in> set (om_Finalizers (cp_Meta y)))"

definition isOperators :: "string \<Rightarrow> bool" where
  "isOperators f \<longleftrightarrow> f = bindingFinalizer \<or> f = roleFinalizer"

lemma isOperators_both [simp]: "isOperators bindingFinalizer" "isOperators roleFinalizer"
  by (simp_all add: isOperators_def)

definition finalizersStand :: "Cluster \<Rightarrow> Cluster \<Rightarrow> bool" where
  "finalizersStand v v1 \<longleftrightarrow> (\<forall>x \<in> set (st_ControlPlanes v). \<forall>f \<in> set (om_Finalizers (cp_Meta x)).
     isOperators f \<longrightarrow> standing f x v1)"

definition bindingKeys :: "ControlPlane \<Rightarrow> Cluster \<Rightarrow> (string \<times> string) set" where
  "bindingKeys cp v = (\<lambda>b. keyOf (crb_Meta b)) ` set (liveBindings cp v)"

definition roleKeys :: "ControlPlane \<Rightarrow> Cluster \<Rightarrow> (string \<times> string) set" where
  "roleKeys cp v = (\<lambda>r. keyOf (cr_Meta r)) ` set (liveRoles cp v)"

text \<open>
  A step of a pass over a control plane: the stores stay well formed, finalizers of the operator
  that are there stay, and only the control planes that are \<open>mine\<close> gain live cluster-wide objects.
  Everything else is to respect this for all control planes.
\<close>

definition acts :: "(ControlPlane \<Rightarrow> bool) \<Rightarrow> Cluster \<Rightarrow> Cluster \<Rightarrow> bool" where
  "acts mine v v1 \<longleftrightarrow> (operatorStores v \<longrightarrow> operatorStores v1 \<and> finalizersStand v v1 \<and>
     (\<forall>q. \<not> mine q \<longrightarrow> bindingKeys q v1 \<subseteq> bindingKeys q v \<and> roleKeys q v1 \<subseteq> roleKeys q v))"

definition spares :: "Cluster \<Rightarrow> Cluster \<Rightarrow> bool" where
  "spares = acts (\<lambda>_. False)"

lemma finalizersStand_same: "st_ControlPlanes v1 = st_ControlPlanes v \<Longrightarrow> finalizersStand v v1"
  by (auto simp: finalizersStand_def standing_def)

lemma finalizersStand_refl: "finalizersStand v v"
  by (simp add: finalizersStand_same)

lemma standing_stands:
  assumes "standing f x v" and "finalizersStand v v1" and "isOperators f"
  shows "standing f x v1"
proof -
  obtain y where y: "y \<in> set (st_ControlPlanes v)" "keyOf (cp_Meta y) = keyOf (cp_Meta x)"
    "om_UID (cp_Meta y) = om_UID (cp_Meta x)" "f \<in> set (om_Finalizers (cp_Meta y))"
    using assms(1) by (auto simp: standing_def)
  then have "standing f y v1" using assms(2,3) by (simp add: finalizersStand_def)
  then show ?thesis using y by (simp add: standing_def)
qed

lemma finalizersStand_trans: "finalizersStand u v \<Longrightarrow> finalizersStand v w \<Longrightarrow> finalizersStand u w"
  using standing_stands [of _ _ v w] by (simp add: finalizersStand_def)

lemma acts_refl: "acts mine v v"
  by (simp add: acts_def finalizersStand_refl)

lemma acts_trans: "acts mine u v \<Longrightarrow> acts mine v w \<Longrightarrow> acts mine u w"
  by (simp add: acts_def) (metis finalizersStand_trans order_trans)

lemma spares_acts: "spares v v1 \<Longrightarrow> acts mine v v1"
  by (simp add: spares_def acts_def)

lemma spares_refl: "spares v v"
  by (simp add: spares_def acts_refl)

lemma spares_trans: "spares u v \<Longrightarrow> spares v w \<Longrightarrow> spares u w"
  unfolding spares_def by (rule acts_trans)

lemma protects_stands:
  assumes "protects f p v" and "finalizersStand v v1" and "isOperators f"
  shows "protects f p v1"
proof -
  obtain x where "x \<in> set (st_ControlPlanes v)" "om_UID (cp_Meta x) = om_UID (cp_Meta p)"
    "f \<in> set (om_Finalizers (cp_Meta x))"
    using assms(1) by (auto simp: protects_def)
  moreover from this have "standing f x v1" using assms(2,3) by (simp add: finalizersStand_def)
  ultimately show ?thesis by (auto simp: protects_def standing_def)
qed

lemma standing_protects: "standing f cp v \<Longrightarrow> om_UID (cp_Meta cp) = om_UID (cp_Meta p) \<Longrightarrow> protects f p v"
  by (auto simp: standing_def protects_def)

lemma guarded_acts:
  assumes "acts mine v v1" and "operatorStores v" and "guarded p v"
    and "mine p \<Longrightarrow> protects bindingFinalizer p v \<and> protects roleFinalizer p v"
  shows "operatorStores v1 \<and> guarded p v1"
proof -
  have a: "operatorStores v1" "finalizersStand v v1"
    "\<not> mine p \<Longrightarrow> bindingKeys p v1 \<subseteq> bindingKeys p v \<and> roleKeys p v1 \<subseteq> roleKeys p v"
    using assms(1,2) by (auto simp: acts_def)
  note stay = protects_stands [OF _ a(2), of bindingFinalizer p] protects_stands [OF _ a(2), of roleFinalizer p]
  show ?thesis
  proof (cases "mine p")
    case False
    then have "liveBindings p v = [] \<Longrightarrow> liveBindings p v1 = []" "liveRoles p v = [] \<Longrightarrow> liveRoles p v1 = []"
      using a(3) by (auto simp: bindingKeys_def roleKeys_def)
    then show ?thesis using assms(3) stay a(1) by (auto simp: guarded_def)
  qed (use assms(4) stay a(1) in \<open>simp add: guarded_def\<close>)
qed

text \<open>A relation of clusters holds from the first state of a run to all others.\<close>

definition through ::
  "(Cluster \<Rightarrow> Cluster \<Rightarrow> bool) \<Rightarrow> ('w \<Rightarrow> Cluster) \<Rightarrow> 'w \<times> Cluster list \<Rightarrow> 'w \<times> Cluster list \<Rightarrow> bool" where
  "through G view s s1 \<longleftrightarrow> G (view (fst s)) (view (fst s1)) \<and>
     (\<exists>h. snd s1 = snd s @ h \<and> (\<forall>v \<in> set h. G (view (fst s)) v))"

lemma through_refl: "G (view (fst s)) (view (fst s)) \<Longrightarrow> through G view s s"
  by (simp add: through_def)

lemma through_trans:
  assumes "through G view s s1" and "through G view s1 s2"
    and trans: "\<And>u v w. G u v \<Longrightarrow> G v w \<Longrightarrow> G u w"
  shows "through G view s s2"
proof -
  obtain h h1 where h: "snd s1 = snd s @ h" "snd s2 = snd s1 @ h1" "\<forall>v \<in> set h. G (view (fst s)) v"
    "\<forall>v \<in> set h1. G (view (fst s1)) v"
    using assms(1,2) by (auto simp: through_def)
  have g: "G (view (fst s)) (view (fst s1))" "G (view (fst s1)) (view (fst s2))"
    using assms(1,2) by (simp_all add: through_def)
  have "\<forall>v \<in> set (h @ h1). G (view (fst s)) v" using h(3,4) trans [OF g(1)] by auto
  then show ?thesis
    unfolding through_def using h(1,2) trans [OF g] by (intro conjI exI [of _ "h @ h1"]) simp_all
qed

lemma through_mono:
  assumes "through G view s s1" and "\<And>v. G (view (fst s)) v \<Longrightarrow> G' (view (fst s)) v"
  shows "through G' view s s1"
  using assms(1) by (auto simp: through_def intro: assms(2))

lemma through_D: "through G view s s1 \<Longrightarrow> G (view (fst s)) (view (fst s1))"
  by (simp add: through_def)

text \<open>An action that keeps to a relation and returns only values that satisfy \<open>P\<close>, from states of an
  invariant \<open>I\<close> of the relation.\<close>

definition does ::
  "('s \<Rightarrow> bool) \<Rightarrow> ('s \<Rightarrow> 's \<Rightarrow> bool) \<Rightarrow> ('a, 's) action \<Rightarrow> ('a \<Rightarrow> bool) \<Rightarrow> bool" where
  "does I R m P \<longleftrightarrow> (\<forall>s. I s \<longrightarrow> wpA m (\<lambda>r s1. R s s1 \<and> I s1 \<and> (case r of Inl e \<Rightarrow> True | Inr x \<Rightarrow> P x)) s)"

lemma does_retA: "reflp R \<Longrightarrow> P x \<Longrightarrow> does I R (retA x) P"
  by (simp add: does_def wp reflp_def)

lemma does_failA: "reflp R \<Longrightarrow> does I R (failA e) P"
  by (simp add: does_def wp reflp_def)

lemma does_liftE: "reflp R \<Longrightarrow> (\<And>x. r = Inr x \<Longrightarrow> P x) \<Longrightarrow> does I R (liftE r) P"
  by (auto simp: does_def wp reflp_def split: sum.splits)

lemma does_bindA:
  assumes "transp R" and "does I R m P" and "\<And>x. P x \<Longrightarrow> does I R (k x) Q"
  shows "does I R (bindA m k) Q"
  unfolding does_def wp
proof (intro allI impI)
  fix s assume "I s"
  show "wpA m (\<lambda>r s1. case r of
      Inl e \<Rightarrow> R s s1 \<and> I s1 \<and> (case Inl e of Inl e \<Rightarrow> True | Inr x \<Rightarrow> Q x)
    | Inr x \<Rightarrow> wpA (k x) (\<lambda>r s2. R s s2 \<and> I s2 \<and> (case r of Inl e \<Rightarrow> True | Inr x \<Rightarrow> Q x)) s1) s"
  proof (rule wpA_mono [OF assms(2) [unfolded does_def, rule_format, OF \<open>I s\<close>]], goal_cases)
    case (1 r s1)
    have "wpA (k x) (\<lambda>r s2. R s s2 \<and> I s2 \<and> (case r of Inl e \<Rightarrow> True | Inr x \<Rightarrow> Q x)) s1" if "P x" for x
      by (rule wpA_mono [OF assms(3) [OF that, unfolded does_def, rule_format]])
        (use 1 assms(1) in \<open>auto dest: transpD\<close>)
    then show ?case using 1 by (cases r) simp_all
  qed
qed

lemma does_attemptA:
  "does I R m P \<Longrightarrow> does I R (attemptA m) (\<lambda>d. case d of Inl e \<Rightarrow> True | Inr x \<Rightarrow> P x)"
  unfolding does_def wp by (auto elim!: wpA_mono split: sum.splits)

lemma does_weaken: "does I R m P \<Longrightarrow> (\<And>x. P x \<Longrightarrow> Q x) \<Longrightarrow> does I R m Q"
  unfolding does_def by (auto elim!: wpA_mono split: sum.splits)


section \<open>What each call does to the store of its kind\<close>

text \<open>The stored objects \<open>ys\<close> after \<open>x\<close> was created or updated in \<open>xs\<close>.\<close>

definition written :: "'o client_object \<Rightarrow> 'o \<Rightarrow> 'o list \<Rightarrow> 'o list \<Rightarrow> bool" where
  "written k x xs ys \<longleftrightarrow> (\<exists>y. sameWritten (co_Meta k x) (co_Meta k y) \<and>
     (lookupKey k (keyOf (co_Meta k y)) xs = None \<and> om_DeletionTimestamp (co_Meta k y) = None \<and> ys = xs @ [y] \<or>
      (\<exists>old. lookupKey k (keyOf (co_Meta k y)) xs = Some old \<and>
         om_UID (co_Meta k y) = om_UID (co_Meta k old) \<and> ys = settle k y xs)))"

lemma written_wellStored:
  assumes "written k x xs ys" and "wellStored k xs"
  shows "wellStored k ys"
proof -
  have "wellStored k (xs @ [y])"
    if "lookupKey k (keyOf (co_Meta k y)) xs = None" "om_DeletionTimestamp (co_Meta k y) = None" for y
    using that assms(2) by (auto simp: wellStored_def uniqueKeys_def lookupKey_None gone_def)
  then show ?thesis using assms wellStored_settle [OF assms(2)] by (auto simp: written_def)
qed

lemma written_owned:
  assumes "written k x xs ys" and "\<not> IsOwnedByRefUID (co_Meta k x) uid"
  shows "set (ownedObjects k ns l v uid ys) \<subseteq> set (ownedObjects k ns l v uid xs)"
proof -
  have settled: "set (settle k y xs) \<subseteq> insert y (set xs)" for y
    by (auto simp: settle_def set_removeKey replaceKey_def)
  obtain y where y: "sameWritten (co_Meta k x) (co_Meta k y)" "ys = xs @ [y] \<or> ys = settle k y xs"
    using assms(1) by (auto simp: written_def)
  then have y2: "set ys \<subseteq> insert y (set xs)" using settled [of y] by auto
  have "\<not> IsOwnedByRefUID (co_Meta k y) uid"
    using y(1) assms(2) by (simp add: sameWritten_def IsOwnedByRefUID_def)
  then show ?thesis using y2 by (auto simp: ownedObjects_def)
qed

context owned_kind
begin

lemma wp_reads:
  "wpA (cl_Get res n nm) (\<lambda>r w1. view w1 = view w) w"
  "wpA (cl_List res ns ls) (\<lambda>r w1. view w1 = view w) w"
  by (auto simp: wpA_def get_view list_view split: prod.splits)

lemma wp_written:
  "wpA (cl_Create res x) (\<lambda>r w1. view w1 = view w \<or>
      (\<exists>ys. written k x (sel (view w)) ys \<and> view w1 = put ys (view w))) w"
  "wpA (cl_Update res x) (\<lambda>r w1. view w1 = view w \<or>
      (\<exists>ys. written k x (sel (view w)) ys \<and> view w1 = put ys (view w))) w"
proof -
  show "wpA (cl_Create res x) (\<lambda>r w1. view w1 = view w \<or>
      (\<exists>ys. written k x (sel (view w)) ys \<and> view w1 = put ys (view w))) w"
    by (rule wp_Create) (auto simp: written_def)
  show "wpA (cl_Update res x) (\<lambda>r w1. view w1 = view w \<or>
      (\<exists>ys. written k x (sel (view w)) ys \<and> view w1 = put ys (view w))) w"
  proof (rule wp_Update, goal_cases)
    case (1 y old w1)
    then have "written k x (sel (view w)) (settle k y (sel (view w)))"
      unfolding written_def by (intro exI [of _ y]) (auto simp: keyOf_def sameWritten_def)
    then show ?case using 1(2) by blast
  qed simp
qed

end

section \<open>What each call of a pass guarantees\<close>

lemma acts_store:
  "written ServiceAccountObj a (st_ServiceAccounts v) as \<Longrightarrow> acts mine v (v\<lparr>st_ServiceAccounts := as\<rparr>)"
  "written SecretObj s (st_Secrets v) ss \<Longrightarrow> acts mine v (v\<lparr>st_Secrets := ss\<rparr>)"
  "written DeploymentObj d (st_Deployments v) ds \<Longrightarrow> acts mine v (v\<lparr>st_Deployments := ds\<rparr>)"
  by (auto simp: acts_def operatorStores_def finalizersStand_def standing_def bindingKeys_def roleKeys_def
      liveBindings_def liveRoles_def written_wellStored)

lemma acts_role:
  assumes "written ClusterRoleObj r (st_ClusterRoles v) rs"
    and "\<And>q. \<not> mine q \<Longrightarrow> \<not> IsOwnedByRefUID (cr_Meta r) (om_UID (cp_Meta q))"
  shows "acts mine v (v\<lparr>st_ClusterRoles := rs\<rparr>)"
proof -
  have "roleKeys q (v\<lparr>st_ClusterRoles := rs\<rparr>) \<subseteq> roleKeys q v" if "\<not> mine q" for q
    using written_owned [OF assms(1)] assms(2) [OF that] by (fastforce simp: roleKeys_def liveRoles_def)
  then show ?thesis
    using written_wellStored [OF assms(1)]
    by (auto simp: acts_def operatorStores_def finalizersStand_def standing_def bindingKeys_def liveBindings_def)
qed

lemma acts_binding:
  assumes "written ClusterRoleBindingObj b (st_ClusterRoleBindings v) bs"
    and "\<And>q. \<not> mine q \<Longrightarrow> \<not> IsOwnedByRefUID (crb_Meta b) (om_UID (cp_Meta q))"
  shows "acts mine v (v\<lparr>st_ClusterRoleBindings := bs\<rparr>)"
proof -
  have "bindingKeys q (v\<lparr>st_ClusterRoleBindings := bs\<rparr>) \<subseteq> bindingKeys q v" if "\<not> mine q" for q
    using written_owned [OF assms(1)] assms(2) [OF that] by (fastforce simp: bindingKeys_def liveBindings_def)
  then show ?thesis
    using written_wellStored [OF assms(1)]
    by (auto simp: acts_def operatorStores_def finalizersStand_def standing_def roleKeys_def liveRoles_def)
qed

text \<open>Replacing the control plane that is stored under the key of \<open>y\<close>.\<close>

lemma standing_settle:
  assumes "standing f x v" and st: "wellStored ControlPlaneObj (st_ControlPlanes v)"
    and old: "lookupKey ControlPlaneObj (keyOf (cp_Meta y)) (st_ControlPlanes v) = Some old"
      "om_UID (cp_Meta y) = om_UID (cp_Meta old)"
    and f: "keyOf (cp_Meta x) = keyOf (cp_Meta y) \<Longrightarrow> f \<in> set (om_Finalizers (cp_Meta y))"
  shows "standing f x (v\<lparr>st_ControlPlanes := settle ControlPlaneObj y (st_ControlPlanes v)\<rparr>)"
proof -
  obtain z where z: "z \<in> set (st_ControlPlanes v)" "keyOf (cp_Meta z) = keyOf (cp_Meta x)"
    "om_UID (cp_Meta z) = om_UID (cp_Meta x)" "f \<in> set (om_Finalizers (cp_Meta z))"
    using assms(1) by (auto simp: standing_def)
  note o = lookupKey_Some [OF old(1), simplified]
  show ?thesis
  proof (cases "keyOf (cp_Meta x) = keyOf (cp_Meta y)")
    case True
    then have "z = old"
      using uniqueKeys_same [of ControlPlaneObj, OF _ z(1), of old] st o z(2) by (simp add: wellStored_def)
    moreover have "y \<in> set (settle ControlPlaneObj y (st_ControlPlanes v))"
      using f [OF True] o by (auto simp: settle_def gone_def replaceKey_def image_iff)
    ultimately show ?thesis using z f [OF True] old(2) True by (auto simp: standing_def)
  next
    case False
    then have "z \<in> set (settle ControlPlaneObj y (st_ControlPlanes v))"
      using z(1,2) by (auto simp: settle_def set_removeKey replaceKey_def image_iff)
    then show ?thesis using z by (auto simp: standing_def)
  qed
qed

lemma acts_controlplanes:
  assumes "wellStored ControlPlaneObj (st_ControlPlanes v) \<Longrightarrow>
      wellStored ControlPlaneObj xs \<and> finalizersStand v (v\<lparr>st_ControlPlanes := xs\<rparr>)"
  shows "acts mine v (v\<lparr>st_ControlPlanes := xs\<rparr>)"
  using assms by (simp add: acts_def operatorStores_def bindingKeys_def roleKeys_def liveBindings_def liveRoles_def)

lemma acts_update:
  assumes "written ControlPlaneObj x (st_ControlPlanes v) xs" and "hasFinalizers x"
  shows "acts mine v (v\<lparr>st_ControlPlanes := xs\<rparr>)"
proof (rule acts_controlplanes)
  assume st: "wellStored ControlPlaneObj (st_ControlPlanes v)"
  obtain y where y: "sameWritten (cp_Meta x) (cp_Meta y)"
    "lookupKey ControlPlaneObj (keyOf (cp_Meta y)) (st_ControlPlanes v) = None \<and> xs = st_ControlPlanes v @ [y] \<or>
     (\<exists>old. lookupKey ControlPlaneObj (keyOf (cp_Meta y)) (st_ControlPlanes v) = Some old \<and>
        om_UID (cp_Meta y) = om_UID (cp_Meta old) \<and> xs = settle ControlPlaneObj y (st_ControlPlanes v))"
    using assms(1) by (auto simp: written_def)
  have "f \<in> set (om_Finalizers (cp_Meta y))" if "isOperators f" for f
    using that assms(2) y(1) by (auto simp: hasFinalizers_def sameWritten_def isOperators_def)
  moreover have "standing f z v" if "z \<in> set (st_ControlPlanes v)" "f \<in> set (om_Finalizers (cp_Meta z))" for z f
    using that by (auto simp: standing_def)
  ultimately have "finalizersStand v (v\<lparr>st_ControlPlanes := xs\<rparr>)"
    using y(2) standing_settle [OF _ st] unfolding finalizersStand_def
    by (elim disjE exE conjE) (auto simp: standing_def)
  then show "wellStored ControlPlaneObj xs \<and> finalizersStand v (v\<lparr>st_ControlPlanes := xs\<rparr>)"
    using written_wellStored [OF assms(1) st] by simp
qed

lemma acts_status:
  assumes old: "lookupKey ControlPlaneObj (keyOf (cp_Meta y)) (st_ControlPlanes v) = Some old"
    and "sameIdentity (cp_Meta old) (cp_Meta y)"
  shows "acts mine v (v\<lparr>st_ControlPlanes := replaceKey ControlPlaneObj y (st_ControlPlanes v)\<rparr>)"
proof (rule acts_controlplanes)
  assume st: "wellStored ControlPlaneObj (st_ControlPlanes v)"
  note o = lookupKey_Some [OF old, simplified]
  have "\<not> gone (cp_Meta y)"
    using wellStored_gone [OF st, of old] o sameIdentity_gone [OF assms(2)] by simp
  then have settle: "settle ControlPlaneObj y (st_ControlPlanes v) = replaceKey ControlPlaneObj y (st_ControlPlanes v)"
    by (simp add: settle_def)
  have "f \<in> set (om_Finalizers (cp_Meta y))"
    if "x \<in> set (st_ControlPlanes v)" "keyOf (cp_Meta x) = keyOf (cp_Meta y)" "f \<in> set (om_Finalizers (cp_Meta x))" for x f
    using that uniqueKeys_same [of ControlPlaneObj "st_ControlPlanes v" x old] st o assms(2)
    by (simp add: wellStored_def sameIdentity_def)
  moreover have "standing f x v" if "x \<in> set (st_ControlPlanes v)" "f \<in> set (om_Finalizers (cp_Meta x))" for x f
    using that by (auto simp: standing_def)
  moreover have "om_UID (cp_Meta y) = om_UID (cp_Meta old)" using assms(2) by (simp add: sameIdentity_def)
  ultimately have "finalizersStand v (v\<lparr>st_ControlPlanes := settle ControlPlaneObj y (st_ControlPlanes v)\<rparr>)"
    using standing_settle [OF _ st old] unfolding finalizersStand_def by blast
  then show "wellStored ControlPlaneObj (replaceKey ControlPlaneObj y (st_ControlPlanes v)) \<and>
      finalizersStand v (v\<lparr>st_ControlPlanes := replaceKey ControlPlaneObj y (st_ControlPlanes v)\<rparr>)"
    using wellStored_settle [OF st, of y] by (simp add: settle)
qed

section \<open>The pass over a live control plane\<close>

text \<open>What a pass does with the control plane it read.\<close>

definition reconcileStored ::
  "ControlPlaneReconciler \<Rightarrow> ('key, 'cert, 'signer, 'v, 'c) Library \<Rightarrow> 'w Client \<Rightarrow> (nat \<Rightarrow> time)
    \<Rightarrow> ControlPlane \<Rightarrow> (Result, 'w) action" where
  "reconcileStored rec lib c clk x =
     (case om_DeletionTimestamp (cp_Meta x) of
        Some t \<Rightarrow> cleanup c clk t x
      | None \<Rightarrow>
          (let (finalizersChanged, m) = EnsureFinalizersInMetadata (cp_Meta x)
                 [ControlPlaneFinalizerCleanupClusterRole, ControlPlaneFinalizerCleanupClusterRoleBinding];
               y = x\<lparr>cp_Meta := m\<rparr>
           in if finalizersChanged then bindA (cl_Update (cl_ControlPlanes c) y) (\<lambda>_. retA emptyResult)
              else (let y = InitReady ControlPlaneConditions (clk 2) y;
                        (marked, y) = ControlPlane_ensureIsMarkedScheduled (clk 3) y
                    in if marked then bindA (ControlPlane_updateStatus c y) (\<lambda>_. retA emptyResult)
                       else bindA (connect lib c y) (configure rec lib c clk y))))"

lemma ControlPlane_Reconcile_stored:
  "ControlPlane_Reconcile rec lib c clk req =
   bindA (attemptA (cl_Get (cl_ControlPlanes c) (rq_Namespace req) (rq_Name req))) (\<lambda>r. case r of
     Inl err \<Rightarrow> if IsNotFound err then retA emptyResult else failA err
   | Inr x \<Rightarrow> reconcileStored rec lib c clk x)"
  unfolding ControlPlane_Reconcile_def reconcileStored_def ..

text \<open>The control plane the pass works on, at any later moment: the same one, with both finalizers.\<close>

definition current :: "ControlPlane \<Rightarrow> ControlPlane \<Rightarrow> bool" where
  "current cp y \<longleftrightarrow> keyOf (cp_Meta y) = keyOf (cp_Meta cp) \<and> om_UID (cp_Meta y) = om_UID (cp_Meta cp) \<and>
     hasFinalizers y"

abbreviation ofOwner :: "ControlPlane \<Rightarrow> ControlPlane \<Rightarrow> bool" where
  "ofOwner cp q \<equiv> om_UID (cp_Meta q) = om_UID (cp_Meta cp)"

text \<open>The stores are well formed and the control planes of \<open>A\<close> have the finalizer for bindings.\<close>

definition at :: "('w \<Rightarrow> Cluster) \<Rightarrow> ControlPlane set \<Rightarrow> 'w \<times> Cluster list \<Rightarrow> bool" where
  "at view A s \<longleftrightarrow> operatorStores (view (fst s)) \<and> (\<forall>x \<in> A. standing bindingFinalizer x (view (fst s)))"

lemma at_acts: "at view A s \<Longrightarrow> acts mine (view (fst s)) (view (fst s1)) \<Longrightarrow> at view A s1"
  using standing_stands by (auto simp: at_def acts_def)

lemma reflp_through: "reflp (through (acts mine) view)"
  by (simp add: reflp_def through_refl acts_refl)

lemma transp_through: "transp (through (acts mine) view)"
  by (rule transpI) (rule through_trans [where G = "acts mine"], auto intro: acts_trans)

lemmas does_intros = does_retA [OF reflp_through] does_failA [OF reflp_through]
  does_liftE [OF reflp_through] does_bindA [OF transp_through] does_attemptA

lemma does_D: "does I R m P \<Longrightarrow> I s \<Longrightarrow> wpA m (\<lambda>r s1. R s s1) s"
  unfolding does_def by (auto elim!: wpA_mono)

text \<open>The pattern of the \<open>ensure...\<close> methods, for any relation that is kept.\<close>

lemma does_ensuring:
  assumes R: "reflp R" "transp R" and list: "does I R list (\<lambda>_. True)"
    and upd: "\<And>g x y. gen = Inr g \<Longrightarrow> upd x g = Inr (True, y) \<Longrightarrow> does I R (cl_Update res y) (\<lambda>_. True)"
    and create: "\<And>g. gen = Inr g \<Longrightarrow> does I R (create g) (\<lambda>_. True)"
  shows "does I R (ensureOwned res list msg gen upd create) (\<lambda>_. True)"
proof -
  note intros = does_retA [OF R(1)] does_failA [OF R(1)] does_liftE [OF R(1)] does_bindA [OF R(2)]
  have w: "does I R (writeIfUpdated res (upd x g)) (\<lambda>_. True)" if "gen = Inr g" for x g
    unfolding writeIfUpdated_def
    by (rule intros(4) [where P = "\<lambda>p. upd x g = Inr p"])
      (use upd [OF that] in \<open>auto split: prod.splits intro!: intros(1,3) intro: intros(4)\<close>)
  show ?thesis
    unfolding ensureOwned_def Let_def
    by (rule intros(4) [OF list])
      (use w create in \<open>auto intro!: intros(2,3) intro: intros(4) [where P = "\<lambda>g. gen = Inr g"]\<close>)
qed

lemma does_creating:
  "reflp R \<Longrightarrow> transp R \<Longrightarrow> does I R (cl_Create res g) (\<lambda>_. True) \<Longrightarrow> does I R (createOwned res g) (\<lambda>_. True)"
  unfolding createOwned_def by (erule does_bindA, assumption) (auto split: prod.splits intro: does_retA)

lemmas does_ensureOwned = does_ensuring [OF reflp_through transp_through]
lemmas does_createOwned = does_creating [OF reflp_through transp_through]

lemma listOwned_interrupted:
  "listOwned (interruptedResource env view res) k ns l v uid = interrupted env view (listOwned res k ns l v uid)"
  by (rule ext) (auto simp: listOwned_def bindA_def retA_def interrupted_def Let_def split: prod.splits sum.splits)

lemma updateMeta_owner:
  assumes "updateMeta k x g = Inr (b, y)" and "object_kind k"
  shows "IsOwnedByRefUID (co_Meta k y) uid = IsOwnedByRefUID (co_Meta k g) uid"
  using assms EnsureObjectMeta_frame(7) object_kind.meta_set [OF assms(2)]
  by (fastforce simp: updateMeta_def IsOwnedByRefUID_def split: sum.splits)

locale interference = cluster_api c view for c :: "'w Client" and view :: "'w \<Rightarrow> Cluster" +
  fixes env :: "'w \<Rightarrow> 'w"
  assumes env: "spares (view w) (view (env w))"
begin

lemma does_interrupted:
  assumes "\<And>w. operatorStores (view w) \<Longrightarrow> \<forall>x \<in> A. standing bindingFinalizer x (view w) \<Longrightarrow>
      wpA m (\<lambda>r w1. acts mine (view w) (view w1) \<and> (case r of Inl e \<Rightarrow> True | Inr x \<Rightarrow> P x)) w"
  shows "does (at view A) (through (acts mine) view) (interrupted env view m) P"
  unfolding does_def wp_interrupted
proof (intro allI impI)
  fix s :: "'w \<times> Cluster list"
  assume s: "at view A s"
  have e: "acts mine (view (fst s)) (view (env (fst s)))" by (rule spares_acts [OF env])
  then have "at view A (env (fst s), snd s)" using at_acts [OF s, of mine "(env (fst s), snd s)"] by simp
  then have "operatorStores (view (env (fst s)))" "\<forall>x \<in> A. standing bindingFinalizer x (view (env (fst s)))"
    by (simp_all add: at_def)
  from assms [OF this]
  show "wpA m (\<lambda>r w1. through (acts mine) view s (w1, snd s @ [view (env (fst s)), view w1]) \<and>
      at view A (w1, snd s @ [view (env (fst s)), view w1]) \<and> (case r of Inl e \<Rightarrow> True | Inr x \<Rightarrow> P x)) (env (fst s))"
  proof (rule wpA_mono, goal_cases)
    case (1 r w1)
    then have "acts mine (view (fst s)) (view w1)" using acts_trans [OF e] by blast
    then show ?case using 1 e at_acts [OF s] by (auto simp: through_def)
  qed
qed

lemma does_reads:
  assumes "\<And>w. wpA m (\<lambda>r w1. view w1 = view w) w"
  shows "does (at view A) (through (acts mine) view) (interrupted env view m) (\<lambda>_. True)"
  by (rule does_interrupted) (rule wpA_mono [OF assms], simp add: acts_refl split: sum.splits)

lemma does_list:
  assumes "\<And>w ls. wpA (cl_List res ns ls) (\<lambda>r w1. view w1 = view w) w"
  shows "does (at view A) (through (acts mine) view) (listOwned (interruptedResource env view res) k ns l v uid) (\<lambda>_. True)"
  unfolding listOwned_def interruptedResource_sel by (rule does_intros(4) [OF does_reads]) (auto intro: does_intros(1) assms)

lemma does_writes:
  assumes "\<And>w. wpA m (\<lambda>r w1. view w1 = view w \<or> (\<exists>ys. W ys (view w) \<and> view w1 = put ys (view w))) w"
    and "\<And>ys v. W ys v \<Longrightarrow> acts mine v (put ys v)"
  shows "does (at view A) (through (acts mine) view) (interrupted env view m) (\<lambda>_. True)"
proof (rule does_interrupted)
  fix w
  show "wpA m (\<lambda>r w1. acts mine (view w) (view w1) \<and> (case r of Inl e \<Rightarrow> True | Inr x \<Rightarrow> True)) w"
    by (rule wpA_mono [OF assms(1)]) (use assms(2) acts_refl in \<open>auto split: sum.splits\<close>)
qed

lemmas does_store = does_writes [OF sa.wp_written(1) acts_store(1)] does_writes [OF sa.wp_written(2) acts_store(1)]
  does_writes [OF sec.wp_written(1) acts_store(2)] does_writes [OF sec.wp_written(2) acts_store(2)]
  does_writes [OF dep.wp_written(1) acts_store(3)] does_writes [OF dep.wp_written(2) acts_store(3)]

lemma does_account:
  "does (at view {cp}) (through (acts mine) view) (ensureServiceAccountForControlPlane (amid env view c) y) (\<lambda>_. True)"
  unfolding ensureServiceAccountForControlPlane_def list_as_listOwned amid_sel
  by (rule does_ensureOwned) (auto intro!: does_list sa.wp_reads does_store does_createOwned)

lemma does_role:
  assumes "om_UID (cp_Meta y) = om_UID (cp_Meta cp)"
  shows "does (at view {cp}) (through (acts (ofOwner cp)) view)
    (ensureClusterRoleForControlPlane sv (amid env view c) y) (\<lambda>_. True)"
proof -
  have own: "\<not> IsOwnedByRefUID (cr_Meta g) (om_UID (cp_Meta q))"
    if "wantedClusterRole sv y = Inr g" "\<not> ofOwner cp q" for g q
    using that wanted_owner(1) [OF that(1)] assms by simp
  have upd: "does (at view {cp}) (through (acts (ofOwner cp)) view) (interrupted env view (cl_Update (cl_ClusterRoles c) z)) (\<lambda>_. True)"
    if "wantedClusterRole sv y = Inr g" "updateMeta ClusterRoleObj x g = Inr (True, z)" for g x z
    using updateMeta_owner [OF that(2) cr.object_kind_axioms]
    by (intro does_writes [OF cr.wp_written(2) acts_role]) (auto simp: own [OF that(1)])
  have create: "does (at view {cp}) (through (acts (ofOwner cp)) view) (interrupted env view (cl_Create (cl_ClusterRoles c) g)) (\<lambda>_. True)"
    if "wantedClusterRole sv y = Inr g" for g
    by (rule does_writes [OF cr.wp_written(1) acts_role]) (use own [OF that] in auto)
  show ?thesis
    unfolding ensureClusterRoleForControlPlane_def list_as_listOwned amid_sel
    by (rule does_ensureOwned) (auto intro!: does_list cr.wp_reads does_createOwned create upd)
qed

lemma does_binding:
  assumes "om_UID (cp_Meta y) = om_UID (cp_Meta cp)"
  shows "does (at view {cp}) (through (acts (ofOwner cp)) view)
    (ensureClusterRoleBindingForControlPlane (amid env view c) y an rn) (\<lambda>_. True)"
proof -
  let ?g = "wantedClusterRoleBinding y an rn"
  have own: "\<not> IsOwnedByRefUID (crb_Meta ?g) (om_UID (cp_Meta q))" if "\<not> ofOwner cp q" for q
    using that wanted_owner(2) assms by simp
  have upd: "does (at view {cp}) (through (acts (ofOwner cp)) view) (interrupted env view (cl_Update (cl_ClusterRoleBindings c) z)) (\<lambda>_. True)"
    if "updateMeta ClusterRoleBindingObj x ?g = Inr (True, z)" for x z
    using updateMeta_owner [OF that crb.object_kind_axioms]
    by (intro does_writes [OF crb.wp_written(2) acts_binding]) (auto simp: own)
  have create: "does (at view {cp}) (through (acts (ofOwner cp)) view) (interrupted env view (cl_Create (cl_ClusterRoleBindings c) ?g)) (\<lambda>_. True)"
    by (rule does_writes [OF crb.wp_written(1) acts_binding]) (use own in auto)
  show ?thesis
    unfolding ensureClusterRoleBindingForControlPlane_def list_as_listOwned amid_sel
    by (rule does_ensureOwned) (auto intro!: does_list crb.wp_reads does_createOwned create upd)
qed

lemma does_certificate:
  "does (at view {cp}) (through (acts mine) view) (ControlPlane_ensureCertificate rec cy now (amid env view c) y) (\<lambda>_. True)"
proof -
  have "does (at view {cp}) (through (acts mine) view)
      (createCertificateSecret cy now owner subj n ns us (amid env view c) g) (\<lambda>_. True)" for owner subj n ns us g
    unfolding createCertificateSecret_def amid_sel interruptedResource_sel
    by (intro does_intros(4) [OF does_intros(3)] does_intros(4) [OF does_reads [OF sec.wp_reads(1)]] TrueI
        does_createOwned) (simp_all add: does_store)
  then show ?thesis
    unfolding ControlPlane_ensureCertificate_def maybeCreateCertificateSecret_def list_as_listOwned amid_sel Let_def
    by (auto intro!: does_ensureOwned does_list sec.wp_reads does_store split: prod.splits)
qed

lemma does_deployment:
  "does (at view {cp}) (through (acts mine) view) (ensureDeploymentForControlPlane (amid env view c) y an sn) (\<lambda>_. True)"
  unfolding ensureDeploymentForControlPlane_def list_as_listOwned amid_sel Let_def
  by (rule does_ensureOwned) (auto intro!: does_list dep.wp_reads does_store does_createOwned)

lemma does_status:
  "does (at view {cp}) (through (acts mine) view)
     (interrupted env view (cl_StatusUpdate (cl_ControlPlanes c) x)) (\<lambda>_. True)"
proof (rule does_interrupted, rule cp.wp_StatusUpdate, goal_cases)
  case (1 w y old w1)
  then have "keyOf (cp_Meta y) = keyOf (cp_Meta x)"
    using lookupKey_Some [OF 1(3)] by (simp add: sameIdentity_def keyOf_def)
  then show ?case using 1 acts_status [of y "view w" old] by simp
qed (simp add: acts_refl)

lemma does_updateStatus:
  "does (at view {cp}) (through (acts mine) view) (ControlPlane_updateStatus (amid env view c) x) (\<lambda>_. True)"
  unfolding ControlPlane_updateStatus_def amid_sel interruptedResource_sel
  by (rule does_intros(4) [OF does_attemptA [OF does_reads [OF cp.wp_reads(1)]]])
    (auto intro!: does_intros(1,2) does_intros(4) [OF does_status]
      does_intros(4) [where P = "\<lambda>_. True"] split: sum.splits)

lemma does_update:
  assumes "hasFinalizers x" and key: "keyOf (cp_Meta x) = keyOf (cp_Meta cp)"
  shows "does (at view {cp}) (through (acts mine) view)
    (interrupted env view (cl_Update (cl_ControlPlanes c) x)) (current cp)"
proof (rule does_interrupted, rule cp.wp_Update, goal_cases)
  case (1 w y old w1)
  obtain z where z: "z \<in> set (st_ControlPlanes (view w))" "keyOf (cp_Meta z) = keyOf (cp_Meta cp)"
    "om_UID (cp_Meta z) = om_UID (cp_Meta cp)" using 1(2) by (auto simp: standing_def)
  then have "z = old"
    using 1(1) lookupKey_Some [OF 1(3), simplified] key
      uniqueKeys_same [of ControlPlaneObj "st_ControlPlanes (view w)" z old]
    by (simp add: operatorStores_def wellStored_def)
  moreover have "keyOf (cp_Meta y) = keyOf (cp_Meta x)" using 1(5,6) by (simp add: keyOf_def sameWritten_def)
  ultimately have "current cp y" "written ControlPlaneObj x (st_ControlPlanes (view w)) (settle ControlPlaneObj y (st_ControlPlanes (view w)))"
    using 1 z(3) assms by (auto simp: current_def hasFinalizers_def sameWritten_def written_def)
  then show ?case using acts_update [OF _ assms(1)] 1(4) by simp
qed (simp add: acts_refl)

lemma does_connect:
  "does (at view {cp}) (through (acts mine) view) (connect lib (amid env view c) y) (\<lambda>_. True)"
proof -
  have "does (at view {cp}) (through (acts mine) view) (GetDataPlaneForControlPlane (amid env view c) y) (\<lambda>_. True)"
    by (auto simp: GetDataPlaneForControlPlane_def intro!: does_intros(2) does_reads dp.wp_reads split: option.splits)
  moreover have "does (at view {cp}) (through (acts mine) view) (GetDataplaneServiceName (amid env view c) d) (\<lambda>_. True)" for d
    unfolding GetDataplaneServiceName_def list_as_listOwned amid_sel
    by (rule does_intros(4) [OF does_list]) (auto simp: Let_def intro!: svc.wp_reads does_intros(1,2))
  moreover have "does (at view {cp}) (through (acts mine) view)
      (bindA (liftE (lib_SetOwnerReference lib y d)) (GetDataplaneServiceName (amid env view c))) (\<lambda>_. True)" for d
    by (rule does_intros(4) [OF does_intros(3)]) (use calculation(2) in auto)
  ultimately show ?thesis
    unfolding connect_def
    by (intro does_intros(4) [OF does_attemptA]) (auto intro: does_intros(1,2) split: sum.split)
qed

lemma does_provision:
  assumes "om_UID (cp_Meta y) = om_UID (cp_Meta cp)"
  shows "does (at view {cp}) (through (acts (ofOwner cp)) view) (provision rec lib (amid env view c) clk y isSet) (\<lambda>_. True)"
proof -
  note ret = does_intros(1) [where P = "\<lambda>_. True", OF TrueI]
  have status: "does (at view {cp}) (through (acts (ofOwner cp)) view)
      (bindA (attemptA (ControlPlane_updateStatus (amid env view c) z)) (\<lambda>r. case r of
          Inl err \<Rightarrow> if IsConflict err then retA requeueResult else failA err | Inr _ \<Rightarrow> retA emptyResult)) (\<lambda>_. True)" for z
    by (rule does_intros(4) [OF does_attemptA [OF does_updateStatus]])
      (auto intro: ret does_intros(2) split: sum.splits)
  have dep: "does (at view {cp}) (through (acts (ofOwner cp)) view)
      (provisionDeployment (amid env view c) clk y isSet an sn) (\<lambda>_. True)" for an sn
    unfolding provisionDeployment_def Let_def
    by (rule does_intros(4) [OF does_deployment])
      (auto intro: ret status does_intros(4) [OF does_updateStatus] split: prod.splits)
  show ?thesis
    unfolding provision_def
    by (rule does_intros(4) [OF does_account], clarsimp simp: ret, rule does_intros(4) [OF does_role [OF assms]],
        clarsimp simp: ret, rule does_intros(4) [OF does_binding [OF assms]], clarsimp simp: ret,
        rule does_intros(4) [OF does_certificate], clarsimp simp: ret dep)
qed

lemma does_configure:
  assumes y: "current cp y"
  shows "does (at view {cp}) (through (acts (ofOwner cp)) view) (configure rec lib (amid env view c) clk y svc) (\<lambda>_. True)"
proof -
  note ret = does_intros(1) [where P = "\<lambda>_. True", OF TrueI]
  have upd: "does (at view {cp}) (through (acts (ofOwner cp)) view)
      (interrupted env view (cl_Update (cl_ControlPlanes c) (y\<lparr>cp_Spec := sp\<rparr>))) (current cp)" for sp
    by (rule does_update) (use y in \<open>simp_all add: current_def hasFinalizers_def\<close>)
  have same: "current cp (y\<lparr>cp_Spec := sp\<rparr>)" for sp using y by (simp add: current_def hasFinalizers_def)
  have conf: "does (at view {cp}) (through (acts (ofOwner cp)) view)
      (ensureDataPlaneConfiguration (amid env view c) (y\<lparr>cp_Spec := sp\<rparr>) svc) (current cp)" for sp
    using upd same by (auto simp: ensureDataPlaneConfiguration_def Let_def split: prod.splits intro!: does_intros(1))
  have rest: "does (at view {cp}) (through (acts (ofOwner cp)) view)
      (let (isSet, z) = ensureDataPlaneStatus t1 t2 z in provision rec lib (amid env view c) clk z isSet) (\<lambda>_. True)"
    if "current cp z" for z t1 t2
  proof (cases "ensureDataPlaneStatus t1 t2 z")
    case (Pair b z1)
    then have "cp_Meta z1 = cp_Meta z"
      by (auto simp: ensureDataPlaneStatus_def Let_def split: prod.splits if_splits)
    then show ?thesis using that does_provision [of z1 cp] by (simp add: Pair current_def)
  qed
  show ?thesis
    unfolding configure_def Let_def
  proof (split prod.split, intro allI impI, goal_cases)
    case (1 changed sp)
    have "does (at view {cp}) (through (acts (ofOwner cp)) view) (bindA (attemptA (interrupted env view
        (cl_Update (cl_ControlPlanes c) (y\<lparr>cp_Spec := sp\<rparr>)))) (\<lambda>r. case r of
          Inl err \<Rightarrow> if IsConflict err then retA requeueResult else failA err | Inr _ \<Rightarrow> retA emptyResult)) (\<lambda>_. True)"
      by (rule does_intros(4) [OF does_attemptA [OF upd]]) (auto intro: ret does_intros(2) split: sum.split)
    moreover have "does (at view {cp}) (through (acts (ofOwner cp)) view)
        (bindA (attemptA (ensureDataPlaneConfiguration (amid env view c) (y\<lparr>cp_Spec := sp\<rparr>) svc)) (\<lambda>r. case r of
          Inl err \<Rightarrow> if IsConflict err then retA requeueResult else failA err
        | Inr z \<Rightarrow> case ensureDataPlaneStatus (clk 4) (clk 5) z of (isSet, z) \<Rightarrow>
            provision rec lib (amid env view c) clk z isSet)) (\<lambda>_. True)"
      by (rule does_intros(4) [OF does_attemptA [OF conf]])
        (auto intro: ret does_intros(2) rest [unfolded Let_def] split: sum.split)
    ultimately show ?case by simp
  qed
qed

end

end
