(* ===== verification/Concurrency.thy ===== *)
theory Concurrency
  imports Interference
begin

text \<open>
  Both controllers at work at the same time, and in the middle of everything else. On top of the
  calls of Interference: the passes over control planes that are deleted, whose finalizers are
  removed from whatever is stored by then, whole passes of both controllers, and runs in which
  passes are cut off by the death of the process (\<open>concurrent\<close>). The finalizers do their
  work all the same.
\<close>

section \<open>The pass over a control plane that is being deleted\<close>

lemma swept_keys:
  assumes "swept k A xs ys"
  shows "(\<lambda>x. keyOf (co_Meta k x)) ` set (filter (live k) (ownedObjects k ns l v uid ys))
    \<subseteq> (\<lambda>x. keyOf (co_Meta k x)) ` set (filter (live k) (ownedObjects k ns l v uid xs)) - A"
  using assms by (auto simp: swept_def ownedObjects_def)

lemma spares_swept:
  "swept ClusterRoleBindingObj {} (st_ClusterRoleBindings v) bs \<Longrightarrow> wellStored ClusterRoleBindingObj bs \<Longrightarrow>
     spares v (v\<lparr>st_ClusterRoleBindings := bs\<rparr>)"
  "swept ClusterRoleObj {} (st_ClusterRoles v) rs \<Longrightarrow> wellStored ClusterRoleObj rs \<Longrightarrow>
     spares v (v\<lparr>st_ClusterRoles := rs\<rparr>)"
  using swept_keys [of ClusterRoleBindingObj "{}"] swept_keys [of ClusterRoleObj "{}"]
  by (simp_all add: spares_def acts_def operatorStores_def finalizersStand_same bindingKeys_def
      liveBindings_def roleKeys_def liveRoles_def)

lemma spares_keys:
  assumes "spares v v1" and "operatorStores v"
  shows "operatorStores v1" "finalizersStand v v1" "bindingKeys q v1 \<subseteq> bindingKeys q v" "roleKeys q v1 \<subseteq> roleKeys q v"
  using assms by (simp_all add: spares_def acts_def)

context interference
begin

lemma wp_spares:
  assumes "operatorStores (view (fst s))"
    and "\<And>w0. operatorStores (view w0) \<Longrightarrow> spares (view (fst s)) (view w0) \<Longrightarrow> wpA m (\<lambda>r w1. spares (view w0) (view w1) \<and>
      (\<forall>s1. fst s1 = w1 \<longrightarrow> through spares view s s1 \<longrightarrow> Q r s1)) w0"
  shows "wpA (interrupted env view m) Q s"
  unfolding wp_interrupted
proof (rule wpA_mono [OF assms(2)], goal_cases)
  case 1
  then show ?case using spares_keys(1) [OF env assms(1)] .
next
  case 2
  then show ?case by (rule env)
next
  case (3 r w1)
  then have "through spares view s (w1, snd s @ [view (env (fst s)), view w1])"
    using env [of "fst s"] spares_trans [OF env] by (auto simp: through_def)
  then show ?case using 3(2) by simp
qed

lemma wp_deleteAll_amid:
  assumes step: "\<And>w x. operatorStores (view w) \<Longrightarrow> wpA (attemptA (cl_Delete res x)) (\<lambda>r w1. spares (view w) (view w1) \<and>
      (case r of Inl e \<Rightarrow> False
       | Inr d \<Rightarrow> (case d of Inl e \<Rightarrow> IsNotFound e | Inr u \<Rightarrow> True) \<longrightarrow> key x \<notin> keys (view w1))) w"
    and shrink: "\<And>v v1. spares v v1 \<Longrightarrow> operatorStores v \<Longrightarrow> keys v1 \<subseteq> keys v"
  shows "operatorStores (view (fst s)) \<Longrightarrow> keys (view (fst s)) \<subseteq> K \<union> key ` set xs \<Longrightarrow>
    wpA (deleteAll (interruptedResource env view res) xs errs) (\<lambda>r s1. through spares view s s1 \<and> (case r of
        Inl e \<Rightarrow> False | Inr errs1 \<Rightarrow> errs1 = [] \<longrightarrow> errs = [] \<and> keys (view (fst s1)) \<subseteq> K)) s"
proof (induction xs arbitrary: s errs K)
  case Nil
  then show ?case by (simp add: wp through_refl spares_refl)
next
  case (Cons x xs)
  let ?Q = "\<lambda>r s1. through spares view s s1 \<and> (case r of
    Inl e \<Rightarrow> False | Inr errs1 \<Rightarrow> errs1 = [] \<longrightarrow> errs = [] \<and> keys (view (fst s1)) \<subseteq> K)"
  have rest: "wpA (deleteAll (interruptedResource env view res) xs errs0) ?Q s0"
    if s0: "through spares view s s0" "keys (view (fst s0)) \<subseteq> K0 \<union> key ` set xs" "errs0 = [] \<Longrightarrow> errs = [] \<and> K0 \<subseteq> K"
    for s0 errs0 K0
  proof (rule wpA_mono [OF Cons.IH [OF _ s0(2)]], goal_cases)
    case 1
    then show ?case using spares_keys(1) [OF through_D [OF s0(1)] Cons.prems(1)] .
  next
    case (2 r s1)
    have "through spares view s s1"
      by (rule through_trans [OF s0(1)]) (use 2(2) spares_trans in blast)+
    then show ?case
      using s0(3) 2(2) by (cases r) auto
  qed
  show ?case
    unfolding deleteAll.simps interruptedResource_sel attemptA_interrupted wpA_bindA [of "interrupted env view _"]
  proof (rule wp_spares [OF Cons.prems(1)], goal_cases)
    case (1 w0)
    show ?case
    proof (rule wpA_mono [OF step [OF 1(1), of x]], intro conjI allI impI, goal_cases)
      case (2 r w1 s1)
      have k: "keys (view w1) \<subseteq> K \<union> key ` set (x # xs)"
        using shrink [OF through_D [OF 2(4)] Cons.prems(1)] Cons.prems(2) 2(3) by auto
      obtain d where d: "r = Inr d" using 2(2) by (cases r) auto
      show ?case
      proof (cases "case d of Inl e \<Rightarrow> IsNotFound e | Inr u \<Rightarrow> True")
        case True
        then have "keys (view (fst s1)) \<subseteq> K \<union> key ` set xs" using 2(2,3) k by (auto simp: d)
        then show ?thesis using True rest [OF 2(4)] by (auto simp: d split: sum.splits)
      next
        case False
        then obtain e where "d = Inl e" "\<not> IsNotFound e" by (auto split: sum.splits)
        then show ?thesis using rest [OF 2(4), of "insert (key x) K"] k 2(3) by (auto simp: d)
      qed
    qed simp
  qed
qed

lemma wp_ownedDeleted_amid:
  assumes list: "\<And>w. wpA (listOwned res k ns l val uid) (\<lambda>r w1. view w1 = view w \<and>
      (case r of Inl e \<Rightarrow> True | Inr xs \<Rightarrow> keys (view w) \<subseteq> key ` set xs)) w"
    and step: "\<And>w x. operatorStores (view w) \<Longrightarrow> wpA (attemptA (cl_Delete res x)) (\<lambda>r w1. spares (view w) (view w1) \<and>
      (case r of Inl e \<Rightarrow> False
       | Inr d \<Rightarrow> (case d of Inl e \<Rightarrow> IsNotFound e | Inr u \<Rightarrow> True) \<longrightarrow> key x \<notin> keys (view w1))) w"
    and shrink: "\<And>v v1. spares v v1 \<Longrightarrow> operatorStores v \<Longrightarrow> keys v1 \<subseteq> keys v"
    and st: "operatorStores (view (fst s))"
  shows "wpA (bindA (listOwned (interruptedResource env view res) k ns l val uid)
      (\<lambda>xs. bindA (deleteAll (interruptedResource env view res) xs []) ErrorOrNil)) (\<lambda>r s1. through spares view s s1 \<and>
        (case r of Inl e \<Rightarrow> True | Inr u \<Rightarrow> keys (view (fst s1)) = {})) s"
  unfolding listOwned_interrupted wpA_bindA [of "interrupted env view _"]
proof (rule wp_spares [OF st], rule wpA_mono [OF list], intro conjI allI impI, goal_cases)
  case (1 w0 r w1)
  then show ?case by (simp add: spares_refl)
next
  case (2 w0 r w1 s1)
  have st1: "operatorStores (view (fst s1))" using spares_keys(1) [OF through_D [OF 2(6)] st] .
  show ?case
  proof (cases r)
    case (Inr xs)
    have "keys (view (fst s1)) \<subseteq> {} \<union> key ` set xs" using 2(4,5) Inr by simp
    note del = wp_deleteAll_amid [where keys = keys and key = key, OF step shrink st1 this]
    have "wpA (deleteAll (interruptedResource env view res) xs []) (\<lambda>r s2. through spares view s s2 \<and> (case r of
        Inl e \<Rightarrow> False | Inr errs \<Rightarrow> errs = [] \<longrightarrow> keys (view (fst s2)) \<subseteq> {})) s1"
    proof (rule wpA_mono [OF del], goal_cases)
      case (4 r s2)
      have "through spares view s s2"
        by (rule through_trans [OF 2(6)]) (use 4(2) spares_trans in blast)+
      then show ?case using 4(2) by (auto split: sum.splits)
    qed assumption+
    then show ?thesis
      unfolding Inr sum.case wpA_bindA by (rule wpA_mono) (auto simp: ErrorOrNil_def wp split: sum.splits)
  qed (use 2 in simp)
qed

lemma wp_deleteBinding:
  assumes "operatorStores (view w)"
  shows "wpA (attemptA (cl_Delete (cl_ClusterRoleBindings c) x)) (\<lambda>r w1. spares (view w) (view w1) \<and>
      (case r of Inl e \<Rightarrow> False
       | Inr d \<Rightarrow> (case d of Inl e \<Rightarrow> IsNotFound e | Inr u \<Rightarrow> True) \<longrightarrow> keyOf (crb_Meta x) \<notin> bindingKeys cp (view w1))) w"
proof (rule wpA_mono [OF crb.wp_deleteOne [OF crb.object_kind_axioms]], goal_cases)
  case (3 r w1)
  then have "spares (view w) (view w1)" using spares_swept(1) [of "view w"] by metis
  moreover have "keyOf (crb_Meta x) \<notin> bindingKeys cp (view w1)"
    if "swept ClusterRoleBindingObj {keyOf (crb_Meta x)} (st_ClusterRoleBindings (view w)) (st_ClusterRoleBindings (view w1))"
    using that by (auto simp: swept_def bindingKeys_def liveBindings_def ownedObjects_def)
  ultimately show ?case using 3 by (auto split: sum.splits)
qed (use assms in \<open>simp_all add: operatorStores_def\<close>)

lemma wp_deleteRole:
  assumes "operatorStores (view w)"
  shows "wpA (attemptA (cl_Delete (cl_ClusterRoles c) x)) (\<lambda>r w1. spares (view w) (view w1) \<and>
      (case r of Inl e \<Rightarrow> False
       | Inr d \<Rightarrow> (case d of Inl e \<Rightarrow> IsNotFound e | Inr u \<Rightarrow> True) \<longrightarrow> keyOf (cr_Meta x) \<notin> roleKeys cp (view w1))) w"
proof (rule wpA_mono [OF cr.wp_deleteOne [OF cr.object_kind_axioms]], goal_cases)
  case (3 r w1)
  then have "spares (view w) (view w1)" using spares_swept(2) [of "view w"] by metis
  moreover have "keyOf (cr_Meta x) \<notin> roleKeys cp (view w1)"
    if "swept ClusterRoleObj {keyOf (cr_Meta x)} (st_ClusterRoles (view w)) (st_ClusterRoles (view w1))"
    using that by (auto simp: swept_def roleKeys_def liveRoles_def ownedObjects_def)
  ultimately show ?case using 3 by (auto split: sum.splits)
qed (use assms in \<open>simp_all add: operatorStores_def\<close>)

lemma wp_bindingsDeleted_amid:
  "operatorStores (view (fst s)) \<Longrightarrow> wpA (ensureOwnedClusterRoleBindingsDeleted (amid env view c) cp)
     (\<lambda>r s1. through spares view s s1 \<and> (case r of Inl e \<Rightarrow> True | Inr u \<Rightarrow> bindingKeys cp (view (fst s1)) = {})) s"
  unfolding ensureOwnedClusterRoleBindingsDeleted_def list_as_listOwned amid_sel
proof (rule wp_ownedDeleted_amid [OF _ wp_deleteBinding spares_keys(3)], goal_cases)
  case (1 w)
  show ?case by (rule crb.wp_listOwned) (auto simp: bindingKeys_def liveBindings_def)
qed

lemma wp_rolesDeleted_amid:
  "operatorStores (view (fst s)) \<Longrightarrow> wpA (ensureOwnedClusterRolesDeleted (amid env view c) cp)
     (\<lambda>r s1. through spares view s s1 \<and> (case r of Inl e \<Rightarrow> True | Inr u \<Rightarrow> roleKeys cp (view (fst s1)) = {})) s"
  unfolding ensureOwnedClusterRolesDeleted_def list_as_listOwned amid_sel
proof (rule wp_ownedDeleted_amid [OF _ wp_deleteRole spares_keys(4)], goal_cases)
  case (1 w)
  show ?case by (rule cr.wp_listOwned) (auto simp: roleKeys_def liveRoles_def)
qed

end

text \<open>The finalizer \<open>f\<close> is removed from what is stored of \<open>cp\<close>, once nothing live is left of its kind.\<close>

lemma protects_released:
  assumes st: "operatorStores u" "operatorStores v" and stand: "finalizersStand u v"
    and cp: "lookupKey ControlPlaneObj (keyOf (cp_Meta cp)) (st_ControlPlanes u) = Some cp"
    and y: "lookupKey ControlPlaneObj (keyOf (cp_Meta y)) (st_ControlPlanes v) = Some old"
      "om_UID (cp_Meta y) = om_UID (cp_Meta old)" "keyOf (cp_Meta y) = keyOf (cp_Meta cp)"
      "om_Finalizers (cp_Meta y) = filter (\<lambda>x. x \<noteq> f) (om_Finalizers (cp_Meta cp))"
    and g: "protects g p u" "isOperators g" "om_UID (cp_Meta cp) = om_UID (cp_Meta p) \<Longrightarrow> g \<noteq> f"
  shows "protects g p (v\<lparr>st_ControlPlanes := settle ControlPlaneObj y (st_ControlPlanes v)\<rparr>)"
proof -
  obtain x where x: "x \<in> set (st_ControlPlanes u)" "om_UID (cp_Meta x) = om_UID (cp_Meta p)"
    "g \<in> set (om_Finalizers (cp_Meta x))"
    using g(1) by (auto simp: protects_def)
  have "standing g x v" using stand x g(2) by (auto simp: finalizersStand_def)
  moreover have "g \<in> set (om_Finalizers (cp_Meta y))" if "keyOf (cp_Meta x) = keyOf (cp_Meta y)"
  proof -
    have "x = cp"
      using that y(3) x(1) st(1) lookupKey_Some [OF cp] uniqueKeys_same [of ControlPlaneObj "st_ControlPlanes u" x cp]
      by (simp add: operatorStores_def wellStored_def)
    then show ?thesis using x y(4) g(3) by auto
  qed
  moreover have "wellStored ControlPlaneObj (st_ControlPlanes v)" using st(2) by (simp add: operatorStores_def)
  ultimately have "standing g x (v\<lparr>st_ControlPlanes := settle ControlPlaneObj y (st_ControlPlanes v)\<rparr>)"
    by (intro standing_settle [OF _ _ y(1,2)]) auto
  then show ?thesis using x(2) by (rule standing_protects)
qed

definition safe :: "ControlPlane \<Rightarrow> Cluster \<Rightarrow> Cluster \<Rightarrow> bool" where
  "safe p v v1 \<longleftrightarrow> (operatorStores v \<and> guarded p v \<longrightarrow> operatorStores v1 \<and> guarded p v1)"

lemma safe_refl: "safe p v v"
  by (simp add: safe_def)

lemma safe_trans: "safe p u v \<Longrightarrow> safe p v w \<Longrightarrow> safe p u w"
  by (simp add: safe_def)

lemma spares_safe: "spares v v1 \<Longrightarrow> safe p v v1"
  using guarded_acts [of "\<lambda>_. False" v v1 p] by (simp add: safe_def spares_def)

lemma through_spares_safe: "through spares view s s1 \<Longrightarrow> through (safe p) view s s1"
  by (erule through_mono) (rule spares_safe)

lemma released_safe:
  assumes sp: "spares u v"
    and cp: "lookupKey ControlPlaneObj (keyOf (cp_Meta cp)) (st_ControlPlanes u) = Some cp"
    and y: "lookupKey ControlPlaneObj (keyOf (cp_Meta y)) (st_ControlPlanes v) = Some old"
      "om_UID (cp_Meta y) = om_UID (cp_Meta old)" "keyOf (cp_Meta y) = keyOf (cp_Meta cp)"
      "om_Finalizers (cp_Meta y) = filter (\<lambda>x. x \<noteq> f) (om_Finalizers (cp_Meta cp))"
    and none: "f = bindingFinalizer \<and> bindingKeys cp v = {} \<or> f = roleFinalizer \<and> roleKeys cp v = {}"
  shows "safe p u (v\<lparr>st_ControlPlanes := settle ControlPlaneObj y (st_ControlPlanes v)\<rparr>)"
  unfolding safe_def
proof (intro impI, elim conjE)
  assume u: "operatorStores u" "guarded p u"
  let ?v1 = "v\<lparr>st_ControlPlanes := settle ControlPlaneObj y (st_ControlPlanes v)\<rparr>"
  note v = spares_keys [OF sp u(1)]
  note prot = protects_released [OF u(1) v(1,2) cp y]
  have same: "liveBindings p ?v1 = liveBindings p v" "liveRoles p ?v1 = liveRoles p v"
    by (simp_all add: liveBindings_def liveRoles_def)
  have shrink: "liveBindings p u = [] \<Longrightarrow> liveBindings p v = []" "liveRoles p u = [] \<Longrightarrow> liveRoles p v = []"
    using v(3,4) [of p] by (auto simp: bindingKeys_def roleKeys_def)
  have mine: "liveBindings p v = liveBindings cp v" "liveRoles p v = liveRoles cp v"
    if "om_UID (cp_Meta cp) = om_UID (cp_Meta p)"
    using that by (simp_all add: liveBindings_def liveRoles_def)
  have "operatorStores ?v1"
    using v(1) wellStored_settle [of ControlPlaneObj "st_ControlPlanes v" y] by (simp add: operatorStores_def)
  moreover have "liveBindings p v = [] \<or> protects bindingFinalizer p ?v1"
    using u(2) shrink(1) mine(1) none prot [of bindingFinalizer p]
    by (cases "om_UID (cp_Meta cp) = om_UID (cp_Meta p)") (auto simp: guarded_def bindingKeys_def finalizers_differ)
  moreover have "liveRoles p v = [] \<or> protects roleFinalizer p ?v1"
    using u(2) shrink(2) mine(2) none prot [of roleFinalizer p]
    by (cases "om_UID (cp_Meta cp) = om_UID (cp_Meta p)") (auto simp: guarded_def roleKeys_def finalizers_differ [symmetric])
  ultimately show "operatorStores ?v1 \<and> guarded p ?v1" by (simp add: guarded_def same)
qed

context interference
begin

lemma wp_release:
  assumes st: "operatorStores (view (fst s0))" and s: "through spares view s0 s"
    and cp: "lookupKey ControlPlaneObj (keyOf (cp_Meta cp)) (st_ControlPlanes (view (fst s0))) = Some cp"
    and none: "f = bindingFinalizer \<and> bindingKeys cp (view (fst s)) = {} \<or> f = roleFinalizer \<and> roleKeys cp (view (fst s)) = {}"
  shows "wpA (dropFinalizer (amid env view c) cp f) (\<lambda>r s1. through (safe p) view s0 s1) s"
proof -
  let ?v = "view (env (fst s))"
  have sp: "spares (view (fst s0)) ?v" using spares_trans [OF through_D [OF s] env] .
  have none1: "f = bindingFinalizer \<and> bindingKeys cp ?v = {} \<or> f = roleFinalizer \<and> roleKeys cp ?v = {}"
    using none spares_keys [OF env [of "fst s"] spares_keys(1) [OF through_D [OF s] st]] by blast
  have last: "through (safe p) view s0 (w1, snd s @ [?v, view w1])" if "safe p (view (fst s0)) (view w1)" for w1
    using that through_spares_safe [OF s, of p] spares_safe [OF sp, of p] by (auto simp: through_def)
  show ?thesis
    unfolding wp amid_sel interruptedResource_sel wp_interrupted
  proof (rule cp.wp_Update, goal_cases)
    case (1 y old w1)
    have "keyOf (cp_Meta y) = keyOf (cp_Meta cp)" using 1(3,4) by (simp add: sameWritten_def keyOf_def)
    then have "safe p (view (fst s0)) (view w1)"
      using 1 released_safe [OF sp cp, of y old f] none1 by (auto simp: sameWritten_def keyOf_def)
    then show ?case using last by (simp add: wp)
  next
    case (2 e w1)
    then have "safe p (view (fst s0)) (view w1)" using spares_safe [OF sp] by simp
    then show ?case using last by simp
  qed
qed

lemma wp_cleanup_amid:
  assumes st: "operatorStores (view (fst s))"
    and cp: "lookupKey ControlPlaneObj (keyOf (cp_Meta cp)) (st_ControlPlanes (view (fst s))) = Some cp"
  shows "wpA (cleanup (amid env view c) clk t cp) (\<lambda>r s1. through (safe p) view s s1) s"
proof (cases "clk 0 < t")
  case True
  then show ?thesis by (simp add: cleanup_def wp through_refl safe_refl)
next
  case False
  have roles: "wpA (bindA (ensureOwnedClusterRolesDeleted (amid env view c) cp) (\<lambda>_.
      if roleFinalizer \<in> set (om_Finalizers (cp_Meta cp)) then dropFinalizer (amid env view c) cp roleFinalizer
      else retA emptyResult)) (\<lambda>r s2. through (safe p) view s s2) s1"
    if s1: "through spares view s s1" for s1
    unfolding wpA_bindA [of "ensureOwnedClusterRolesDeleted _ cp"]
  proof (rule wpA_mono [OF wp_rolesDeleted_amid [OF spares_keys(1) [OF through_D [OF s1] st]]], goal_cases)
    case (1 r s2)
    have s2: "through spares view s s2" by (rule through_trans [OF s1]) (use 1 spares_trans in blast)+
    then show ?case
      using wp_release [OF st s2 cp, of roleFinalizer p] 1 through_spares_safe [OF s2, of p]
      by (auto simp: wpA_retA split: sum.splits)
  qed
  show ?thesis
    unfolding cleanup_due [of clk t, OF False] wpA_bindA [of "ensureOwnedClusterRoleBindingsDeleted _ cp"]
  proof (rule wpA_mono [OF wp_bindingsDeleted_amid [OF st]], goal_cases)
    case (1 r s1)
    then have s1: "through spares view s s1" by simp
    then show ?case
      using wp_release [OF st s1 cp, of bindingFinalizer p] roles [OF s1] 1 through_spares_safe [OF s1, of p]
      by (cases r) auto
  qed
qed

text \<open>Whatever the pass read, it leaves nothing unprotected.\<close>

lemma wp_live_amid:
  assumes st: "operatorStores (view (fst s))" and x: "hasFinalizers x"
    and cp: "lookupKey ControlPlaneObj (keyOf (cp_Meta x)) (st_ControlPlanes (view (fst s))) = Some x"
  shows "wpA (let y = InitReady ControlPlaneConditions t1 x;
        (marked, y) = ControlPlane_ensureIsMarkedScheduled t2 y
      in if marked then bindA (ControlPlane_updateStatus (amid env view c) y) (\<lambda>_. retA emptyResult)
         else bindA (connect lib (amid env view c) y) (configure rec lib (amid env view c) clk y))
    (\<lambda>r s1. through (safe p) view s s1) s"
proof (cases "ControlPlane_ensureIsMarkedScheduled t2 (InitReady ControlPlaneConditions t1 x)")
  case (Pair marked y)
  have y: "current x y" using scheduled_marking(1) [OF Pair] x by (simp add: inMemory_def current_def hasFinalizers_def)
  have stands: "standing f x (view (fst s))" if "isOperators f" for f
    using lookupKey_Some [OF cp] x that by (auto simp: standing_def hasFinalizers_def isOperators_def)
  have "does (at view {x}) (through (acts (ofOwner x)) view)
      (if marked then bindA (ControlPlane_updateStatus (amid env view c) y) (\<lambda>_. retA emptyResult)
       else bindA (connect lib (amid env view c) y) (configure rec lib (amid env view c) clk y)) (\<lambda>_. True)"
    by (auto intro!: does_intros(4) [OF does_updateStatus] does_intros(1) does_intros(4) [OF does_connect]
        does_configure [OF y])
  moreover have "at view {x} s" using st stands by (simp add: at_def)
  ultimately have "wpA (if marked then bindA (ControlPlane_updateStatus (amid env view c) y) (\<lambda>_. retA emptyResult)
      else bindA (connect lib (amid env view c) y) (configure rec lib (amid env view c) clk y))
    (\<lambda>r s1. through (acts (ofOwner x)) view s s1) s" by (rule does_D)
  moreover have "safe p (view (fst s)) v" if "acts (ofOwner x) (view (fst s)) v" for v
    using guarded_acts [OF that st, of p] standing_protects [OF stands, of _ p] by (auto simp: safe_def)
  ultimately show ?thesis
    unfolding Let_def Pair prod.case by (elim wpA_mono through_mono) blast
qed

lemma wp_finalizers_amid:
  assumes "operatorStores (view (fst s))" and "hasFinalizers x"
  shows "wpA (bindA (interrupted env view (cl_Update (cl_ControlPlanes c) x)) (\<lambda>_. retA emptyResult))
    (\<lambda>r s1. through (safe p) view s s1) s"
  unfolding wpA_bindA
proof (rule wp_spares [OF assms(1)], rule wpA_mono [OF cp.wp_written(2)], goal_cases)
  case (1 w0 r w1)
  then have "spares (view w0) (view w1)"
    using acts_update [OF _ assms(2)] by (auto simp: spares_def acts_refl)
  then show ?case using through_spares_safe [of view s _ p] by (auto simp: wp split: sum.splits)
qed

lemma wp_stored_amid:
  assumes st: "operatorStores (view (fst s))"
    and x: "lookupKey ControlPlaneObj (keyOf (cp_Meta x)) (st_ControlPlanes (view (fst s))) = Some x"
  shows "wpA (reconcileStored rec lib (amid env view c) clk x) (\<lambda>r s1. through (safe p) view s s1) s"
proof (cases "om_DeletionTimestamp (cp_Meta x)")
  case (Some t)
  then show ?thesis using wp_cleanup_amid [OF st x] by (simp add: reconcileStored_def)
next
  case None
  show ?thesis
  proof (cases "hasFinalizers x")
    case True
    then have "EnsureFinalizersInMetadata (cp_Meta x) [ControlPlaneFinalizerCleanupClusterRole,
        ControlPlaneFinalizerCleanupClusterRoleBinding] = (False, cp_Meta x)"
      by (simp add: EnsureFinalizers_eq missingFinalizers_Nil hasFinalizers_def roleFinalizer_def bindingFinalizer_def)
    then show ?thesis using wp_live_amid [OF st True x] None by (simp add: reconcileStored_def)
  next
    case False
    note m = EnsureFinalizers_missing [OF this]
    have "wpA (bindA (interrupted env view (cl_Update (cl_ControlPlanes c) (x\<lparr>cp_Meta := snd
        (EnsureFinalizersInMetadata (cp_Meta x) [ControlPlaneFinalizerCleanupClusterRole,
          ControlPlaneFinalizerCleanupClusterRoleBinding])\<rparr>))) (\<lambda>_. retA emptyResult))
        (\<lambda>r s1. through (safe p) view s s1) s"
      by (rule wp_finalizers_amid [OF st]) (use m(2,3) in \<open>simp add: hasFinalizers_def\<close>)
    then show ?thesis using m(1) None by (simp add: reconcileStored_def split_beta)
  qed
qed

lemma wp_Reconcile_amid:
  assumes st: "operatorStores (view (fst s))"
  shows "wpA (ControlPlane_Reconcile rec lib (amid env view c) clk req) (\<lambda>r s1. through (safe p) view s s1) s"
  unfolding ControlPlane_Reconcile_stored amid_sel interruptedResource_sel attemptA_interrupted
    wpA_bindA [of "interrupted env view _"]
proof (rule wp_spares [OF st], unfold wpA_attemptA, rule cp.wp_Get, goal_cases)
  case (1 w0 x w1)
  have "wpA (reconcileStored rec lib (amid env view c) clk x) (\<lambda>r s2. through (safe p) view s s2) s1"
    if s1: "fst s1 = w1" "through spares view s s1" for s1
  proof (rule wpA_mono [OF wp_stored_amid [where s = s1 and x = x and p = p]], goal_cases)
    case 1
    then show ?case using spares_keys(1) [OF through_D [OF s1(2)] st] .
  next
    case 2
    then show ?case using \<open>lookupKey _ _ _ = Some x\<close> lookupKey_Some [OF \<open>lookupKey _ _ _ = Some x\<close>] \<open>view w1 = view w0\<close> s1(1) by simp
  next
    case (3 r s2)
    then show ?case using through_trans [OF through_spares_safe [OF s1(2)] 3(2)] safe_trans by blast
  qed
  then show ?case using 1(4) by (simp add: spares_refl)
next
  case (2 w0 e w1)
  then show ?case
    using through_spares_safe [of view s _ p] by (auto simp: wp spares_refl)
qed

end

section \<open>Passes of the data plane controller\<close>

text \<open>What a single call of the data plane controller may change, from whatever state of the cluster.\<close>

definition dataPlaneCall :: "Cluster \<Rightarrow> Cluster \<Rightarrow> bool" where
  "dataPlaneCall v v1 \<longleftrightarrow> (\<exists>ds ss. v1 = v\<lparr>st_DataPlanes := ds, st_Services := ss\<rparr> \<and>
     (wellStored ServiceObj (st_Services v) \<longrightarrow> wellStored ServiceObj ss))"

lemma dataPlaneCall_changes:
  "dataPlaneCall v v"
  "dataPlaneCall v (v\<lparr>st_DataPlanes := ds\<rparr>)"
  "written ServiceObj x (st_Services v) ss \<Longrightarrow> dataPlaneCall v (v\<lparr>st_Services := ss\<rparr>)"
proof -
  show "dataPlaneCall v v"
    unfolding dataPlaneCall_def by (intro exI [of _ "st_DataPlanes v"] exI [of _ "st_Services v"]) simp
  show "dataPlaneCall v (v\<lparr>st_DataPlanes := ds\<rparr>)"
    unfolding dataPlaneCall_def by (intro exI [of _ ds] exI [of _ "st_Services v"]) simp
  show "dataPlaneCall v (v\<lparr>st_Services := ss\<rparr>)" if "written ServiceObj x (st_Services v) ss"
    unfolding dataPlaneCall_def using written_wellStored [OF that]
    by (intro exI [of _ "st_DataPlanes v"] exI [of _ ss]) simp
qed

lemma dataPlaneCall_spares: "dataPlaneCall v v1 \<Longrightarrow> spares v v1"
  by (auto simp: dataPlaneCall_def spares_def acts_def operatorStores_def finalizersStand_same bindingKeys_def
      liveBindings_def roleKeys_def liveRoles_def)

text \<open>The pass, put together from its calls.\<close>

lemma does_DataPlane:
  assumes R: "reflp R" "transp R"
    and get: "\<And>ns nm. does I R (interrupted env view (cl_Get (cl_DataPlanes c) ns nm)) (\<lambda>_. True)"
    and list: "\<And>ns l v uid. does I R (interrupted env view (listOwned (cl_Services c) ServiceObj ns l v uid)) (\<lambda>_. True)"
    and create: "\<And>x. does I R (interrupted env view (cl_Create (cl_Services c) x)) (\<lambda>_. True)"
    and upd: "\<And>x. does I R (interrupted env view (cl_Update (cl_Services c) x)) (\<lambda>_. True)"
    and status: "\<And>d. does I R (interrupted env view (cl_StatusUpdate (cl_DataPlanes c) d)) (\<lambda>_. True)"
  shows "does I R (DataPlane_Reconcile (amid env view c) clk req) (\<lambda>_. True)"
proof -
  note intros = does_retA [OF R(1)] does_failA [OF R(1)] does_liftE [OF R(1)] does_bindA [OF R(2)]
  note ret = intros(1) [where P = "\<lambda>_. True", OF TrueI]
  have upd1: "does I R (DataPlane_updateStatus (amid env view c) d) (\<lambda>_. True)" for d
    unfolding DataPlane_updateStatus_def amid_sel interruptedResource_sel
    by (rule intros(4) [OF does_attemptA [OF get]])
      (auto intro!: intros(1,2) intros(4) [OF status] intros(4) [where P = "\<lambda>_. True"] split: sum.splits)
  have svc: "does I R (ensureServiceForDataPlane (amid env view c) d) (\<lambda>_. True)" for d
    unfolding ensureServiceForDataPlane_def list_as_listOwned amid_sel listOwned_interrupted
    by (rule does_ensuring [OF R]) (auto intro!: list does_creating [OF R] create upd)
  have status1: "does I R (ensureDataPlaneServiceStatus (amid env view c) d nm) (\<lambda>_. True)" for d nm
    using status by (simp add: ensureDataPlaneServiceStatus_def Let_def)
  have "does I R (let d = InitReady DataPlaneConditions (clk 0) dataplane;
        (marked, d) = DataPlane_ensureIsMarkedScheduled (clk 1) d
      in if marked then bindA (DataPlane_updateStatus (amid env view c) d) (\<lambda>_. retA emptyResult)
         else bindA (ensureServiceForDataPlane (amid env view c) d) (\<lambda>(createdOrUpdated, s).
           if createdOrUpdated
           then bindA (ensureDataPlaneServiceStatus (amid env view c) d (om_Name (svc_Meta s))) (\<lambda>_. retA emptyResult)
           else retA emptyResult)) (\<lambda>_. True)" for dataplane
    by (auto simp: Let_def intro!: intros(4) [OF upd1] intros(4) [OF svc] intros(4) [OF status1] ret
        split: prod.splits)
  then show ?thesis
    unfolding DataPlane_Reconcile_def amid_sel interruptedResource_sel
    by (intro intros(4) [OF does_attemptA [OF get]]) (auto intro: ret intros(2) split: sum.splits)
qed

text \<open>The calls of a pass, each with the state before it and after it.\<close>

fun calls :: "Cluster list \<Rightarrow> (Cluster \<times> Cluster) list" where
  "calls (u # v # h) = (u, v) # calls h"
| "calls _ = []"

definition onlyCalls :: "(Cluster \<Rightarrow> Cluster \<Rightarrow> bool) \<Rightarrow> Cluster list \<Rightarrow> bool" where
  "onlyCalls G h \<longleftrightarrow> even (length h) \<and> list_all (\<lambda>(u, v). G u v) (calls h)"

lemma calls_append: "even (length h) \<Longrightarrow> calls (h @ h1) = calls h @ calls h1"
  by (induction h rule: calls.induct) auto

lemma onlyCalls_step: "onlyCalls G h \<Longrightarrow> G u v \<Longrightarrow> onlyCalls G (h @ [u, v])"
  by (simp add: onlyCalls_def calls_append)

context cluster_api
begin

lemma wp_DataPlane_writes:
  "wpA (cl_Create (cl_Services c) x) (\<lambda>r w1. dataPlaneCall (view w) (view w1)) w"
  "wpA (cl_Update (cl_Services c) x) (\<lambda>r w1. dataPlaneCall (view w) (view w1)) w"
  "wpA (cl_StatusUpdate (cl_DataPlanes c) d) (\<lambda>r w1. dataPlaneCall (view w) (view w1)) w"
proof -
  show "wpA (cl_Create (cl_Services c) x) (\<lambda>r w1. dataPlaneCall (view w) (view w1)) w"
    by (rule wpA_mono [OF svc.wp_written(1)]) (auto intro: dataPlaneCall_changes)
  show "wpA (cl_Update (cl_Services c) x) (\<lambda>r w1. dataPlaneCall (view w) (view w1)) w"
    by (rule wpA_mono [OF svc.wp_written(2)]) (auto intro: dataPlaneCall_changes)
  show "wpA (cl_StatusUpdate (cl_DataPlanes c) d) (\<lambda>r w1. dataPlaneCall (view w) (view w1)) w"
    by (rule dp.wp_StatusUpdate) (auto intro: dataPlaneCall_changes)
qed

lemma wp_DataPlane_reads:
  "wpA (cl_Get (cl_DataPlanes c) ns nm) (\<lambda>r w1. dataPlaneCall (view w) (view w1)) w"
  "wpA (listOwned (cl_Services c) ServiceObj lns l v uid) (\<lambda>r w1. dataPlaneCall (view w) (view w1)) w"
  by (auto simp: listOwned_def wp dataPlaneCall_changes
      intro!: wpA_mono [OF dp.wp_reads(1)] wpA_mono [OF svc.wp_reads(2)] split: sum.splits)

text \<open>Every call of a pass, whatever happens between them, is such a call.\<close>

lemma DataPlane_calls:
  assumes "DataPlane_Reconcile (amid env view c) clk req (w, []) = (r, (w1, h))" and "(u, v) \<in> set (calls h)"
  shows "dataPlaneCall u v"
proof -
  have call: "does (\<lambda>s. onlyCalls dataPlaneCall (snd s)) (\<lambda>_ _. True) (interrupted env view m) (\<lambda>_. True)"
    if "\<And>w. wpA m (\<lambda>r w1. dataPlaneCall (view w) (view w1)) w" for m :: "('x, _) action"
    unfolding does_def wp_interrupted
    by (intro allI impI wpA_mono [OF that]) (auto intro: onlyCalls_step split: sum.splits)
  have pass: "does (\<lambda>s. onlyCalls dataPlaneCall (snd s)) (\<lambda>_ _. True) (DataPlane_Reconcile (amid env view c) clk req) (\<lambda>_. True)"
    by (rule does_DataPlane) (simp_all add: call reflpI transpI wp_DataPlane_reads wp_DataPlane_writes)
  have "onlyCalls dataPlaneCall h"
    using wpA_E [OF pass [unfolded does_def, rule_format] assms(1)] by (simp add: onlyCalls_def)
  then show ?thesis using assms(2) by (auto simp: onlyCalls_def list_all_iff)
qed

end

context interference
begin

lemma does_calls:
  assumes "\<And>w. wpA m (\<lambda>r w1. dataPlaneCall (view w) (view w1)) w"
  shows "does (at view A) (through (acts mine) view) (interrupted env view m) (\<lambda>_. True)"
  by (rule does_interrupted, rule wpA_mono [OF assms])
    (auto intro: spares_acts dataPlaneCall_spares split: sum.splits)

lemma does_DataPlane_amid:
  "does (at view A) (through (acts mine) view) (DataPlane_Reconcile (amid env view c) clk req) (\<lambda>_. True)"
  by (intro does_DataPlane does_calls reflp_through transp_through wp_DataPlane_reads wp_DataPlane_writes)

end

section \<open>Runs in which everything happens at once\<close>

text \<open>
  \<open>meanwhile\<close> is what may happen between two calls of a pass: any number of steps of others and
  of calls of the data plane controller, whose passes run beside those over control planes. A
  pass may be cut off anywhere, when the process dies; the next begins in whatever state was
  reached.
\<close>

definition meanwhile :: "(Cluster \<Rightarrow> Cluster \<Rightarrow> bool) \<Rightarrow> Cluster \<Rightarrow> Cluster \<Rightarrow> bool" where
  "meanwhile others = (\<lambda>u u'. others u u' \<or> dataPlaneCall u u')\<^sup>*\<^sup>*"

inductive concurrent ::
  "ControlPlaneReconciler \<Rightarrow> ('key, 'cert, 'signer, 'v, 'c) Library \<Rightarrow> 'w Client \<Rightarrow> ('w \<Rightarrow> Cluster)
    \<Rightarrow> (Cluster \<Rightarrow> Cluster \<Rightarrow> bool) \<Rightarrow> Cluster \<Rightarrow> Cluster \<Rightarrow> bool"
  for rec lib c view others v0 where
  conc_start: "concurrent rec lib c view others v0 v0"
| conc_others: "concurrent rec lib c view others v0 v1"
    if "concurrent rec lib c view others v0 v" "meanwhile others v v1"
| conc_controlplane: "concurrent rec lib c view others v0 v"
    if "concurrent rec lib c view others v0 (view w)" "\<And>u. meanwhile others (view u) (view (env u))"
      "ControlPlane_Reconcile rec lib (amid env view c) clk req (w, []) = (r, (w1, h))" "v \<in> set h \<or> v = view w1"
| conc_dataplane: "concurrent rec lib c view others v0 v"
    if "concurrent rec lib c view others v0 (view w)" "\<And>u. meanwhile others (view u) (view (env u))"
      "DataPlane_Reconcile (amid env view c) clk req (w, []) = (r', (w1, h))" "v \<in> set h \<or> v = view w1"

lemma meanwhile_spares:
  assumes "meanwhile others u u'" and "\<And>u u'. others u u' \<Longrightarrow> spares u u'"
  shows "spares u u'"
  using assms(1) unfolding meanwhile_def
proof (induction rule: rtranclp_induct)
  case (step y z)
  then show ?case using assms(2) dataPlaneCall_spares spares_trans by blast
qed (rule spares_refl)

lemma through_reached: "through G view s s1 \<Longrightarrow> snd s = [] \<Longrightarrow> v \<in> set (snd s1) \<or> v = view (fst s1) \<Longrightarrow> G (view (fst s)) v"
  by (auto simp: through_def)

text \<open>C2. Nothing is left behind, whatever else happens meanwhile.
  Before every single call of a pass, others and the data plane controller may take any number of
  steps; after any call the process may die and start again. All that is asked of the others is
  that they keep the stores well formed, take no finalizer of the operator away and make no live
  cluster role or binding of a control plane. Then in every state between two calls, of any pass of
  any run, while a live cluster role binding (role) of the control plane \<open>cp\<close> exists,
  \<open>cp\<close> is stored with the finalizer for bindings (roles). It does not matter that the pass
  works on a control plane it read long before: the writes it bases on an outdated version are
  conflicts, and the deletions come before the finalizers go.\<close>

theorem operator_leaves_nothing_amid_others:
  assumes "cluster_api c view"
    and "concurrent rec lib c view others v0 v"
    and "operatorStores v0 \<and> guarded cp v0"
    and "\<And>u u'. others u u' \<Longrightarrow> spares u u'"
  shows "(liveBindings cp v \<noteq> [] \<longrightarrow> protects bindingFinalizer cp v) \<and>
    (liveRoles cp v \<noteq> [] \<longrightarrow> protects roleFinalizer cp v)"
proof -
  have amid: "interference c view env" if "\<And>u. meanwhile others (view u) (view (env u))" for env
    using assms(1) meanwhile_spares [OF that assms(4)] by (simp add: interference_def interference_axioms_def)
  have "operatorStores v \<and> guarded cp v"
    using assms(2)
  proof (induction rule: concurrent.induct)
    case (conc_others v v1)
    then show ?case using spares_safe [OF meanwhile_spares [OF _ assms(4)], where p = cp] by (simp add: safe_def)
  next
    case (conc_controlplane w env clk req r w1 h v)
    have "through (safe cp) view (w, []) (w1, h)"
      using wpA_E [OF interference.wp_Reconcile_amid [OF amid [OF conc_controlplane(2)]] conc_controlplane(3)]
        conc_controlplane.IH by simp
    from through_reached [OF this] show ?case using conc_controlplane.IH conc_controlplane(4) by (simp add: safe_def)
  next
    case (conc_dataplane w env clk req r' w1 h v)
    have "through (acts (\<lambda>_. False)) view (w, []) (w1, h)"
      using wpA_E [OF does_D [OF interference.does_DataPlane_amid [OF amid [OF conc_dataplane(2)], where A = "{}"]] conc_dataplane(3)]
        conc_dataplane.IH by (simp add: at_def)
    from through_reached [OF this] have "spares (view w) v" using conc_dataplane(4) by (simp add: spares_def)
    then show ?case using spares_safe [of "view w" v cp] conc_dataplane.IH by (simp add: safe_def)
  qed (use assms(3) in simp)
  then show ?thesis by (auto simp: guarded_def)
qed

section \<open>An example\<close>

text \<open>A user who asks for the deletion of every control plane, between any two calls.\<close>

definition requestDeletion :: "nat \<Rightarrow> Cluster \<Rightarrow> Cluster" where
  "requestDeletion n v = v\<lparr>st_ControlPlanes := map (\<lambda>x.
     if om_Finalizers (cp_Meta x) \<noteq> [] \<and> om_DeletionTimestamp (cp_Meta x) = None
     then x\<lparr>cp_Meta := (cp_Meta x)\<lparr>om_DeletionTimestamp := Some 0, om_ResourceVersion := n\<rparr>\<rparr> else x)
     (st_ControlPlanes v)\<rparr>"

definition impatientUser :: "Sim \<Rightarrow> Sim" where
  "impatientUser w = commit (requestDeletion (Suc (sim_Clock w)) (sim_Cluster w)) w"

definition deletions :: "Cluster \<Rightarrow> Cluster \<Rightarrow> bool" where
  "deletions u u' \<longleftrightarrow> (\<exists>n. u' = requestDeletion n u)"

lemma deletions_spares:
  assumes "deletions u u'"
  shows "spares u u'"
proof -
  obtain f where f: "u' = u\<lparr>st_ControlPlanes := map f (st_ControlPlanes u)\<rparr>" and
    same: "\<And>x. keyOf (cp_Meta (f x)) = keyOf (cp_Meta x) \<and> om_UID (cp_Meta (f x)) = om_UID (cp_Meta x) \<and>
      om_Finalizers (cp_Meta (f x)) = om_Finalizers (cp_Meta x)" and
    gone: "\<And>x. gone (cp_Meta (f x)) = gone (cp_Meta x)"
    using assms unfolding deletions_def requestDeletion_def by (force simp: keyOf_def gone_def)
  have "acts (\<lambda>_. False) u (u\<lparr>st_ControlPlanes := map f (st_ControlPlanes u)\<rparr>)"
    by (rule acts_controlplanes)
      (use same in \<open>auto simp: wellStored_def uniqueKeys_def list_all_iff gone comp_def finalizersStand_def standing_def\<close>)
  then show ?thesis by (simp add: f spares_def)
qed

lemma impatientUser_meanwhile: "meanwhile deletions (sim_Cluster w) (sim_Cluster (impatientUser w))"
  by (auto simp: meanwhile_def deletions_def impatientUser_def)

interpretation impatient: interference memClient sim_Cluster impatientUser
  by (intro interference.intro interference_axioms.intro mem.cluster_api_axioms)
    (use deletions_spares in \<open>auto simp: deletions_def impatientUser_def\<close>)

definition impatientPass :: "(Result, Sim \<times> Cluster list) action" where
  "impatientPass = ControlPlane_Reconcile exampleReconciler exampleLibrary
     (amid impatientUser sim_Cluster memClient) (\<lambda>_. 9) exampleRequest"

theorem operator_leaves_nothing_amid_others_witness:
  "let v = sim_Cluster (fst (snd (impatientPass (deletingCluster, [])))); cp = deletingControlPlane in
   (liveBindings cp v \<noteq> [] \<longrightarrow> protects bindingFinalizer cp v) \<and>
   (liveRoles cp v \<noteq> [] \<longrightarrow> protects roleFinalizer cp v)"
  unfolding Let_def
proof (rule operator_leaves_nothing_amid_others [OF mem.cluster_api_axioms _ _ deletions_spares])
  show "concurrent exampleReconciler exampleLibrary memClient sim_Cluster deletions (sim_Cluster deletingCluster)
    (sim_Cluster (fst (snd (impatientPass (deletingCluster, [])))))"
  proof (cases "impatientPass (deletingCluster, [])" rule: prod_cases3)
    case (fields r w1 h)
    have "concurrent exampleReconciler exampleLibrary memClient sim_Cluster deletions (sim_Cluster deletingCluster)
        (sim_Cluster w1)"
      by (rule conc_controlplane [where view = sim_Cluster and w = deletingCluster, OF _ _ fields [unfolded impatientPass_def]])
        (auto intro: conc_start impatientUser_meanwhile)
    then show ?thesis by (simp add: fields)
  qed
qed (use exampleStores in auto)

end
