(* ===== verification/Deletion.thy ===== *)
theory Deletion
  imports Operator
begin

text \<open>
  Deletions come to an end. While a control plane is being deleted the operator only takes its
  finalizers away, one kind in each pass that succeeds, and no step of the operator brings one
  back. So however passes and steps of others follow each other, at most two passes over it have
  something to do.
\<close>

section \<open>What is left of a control plane that is being deleted\<close>

text \<open>What is stored of the control plane \<open>cp\<close>: a later one of the same name is another.\<close>

definition versionOf :: "ControlPlane \<Rightarrow> Cluster \<Rightarrow> ControlPlane option" where
  "versionOf cp v = (case lookupKey ControlPlaneObj (keyOf (cp_Meta cp)) (st_ControlPlanes v) of
     None \<Rightarrow> None
   | Some y \<Rightarrow> if om_UID (cp_Meta y) = om_UID (cp_Meta cp) then Some y else None)"

definition operatorFinalizers :: "string set" where
  "operatorFinalizers = {bindingFinalizer, roleFinalizer}"

definition finalizersLeft :: "ControlPlane \<Rightarrow> Cluster \<Rightarrow> string set" where
  "finalizersLeft cp v = (case versionOf cp v of
     None \<Rightarrow> {} | Some y \<Rightarrow> set (om_Finalizers (cp_Meta y)) \<inter> operatorFinalizers)"

definition deletionRequested :: "ControlPlane \<Rightarrow> Cluster \<Rightarrow> bool" where
  "deletionRequested cp v = (case versionOf cp v of
     None \<Rightarrow> True | Some y \<Rightarrow> om_DeletionTimestamp (cp_Meta y) \<noteq> None)"

definition dying :: "ControlPlane \<Rightarrow> string set \<Rightarrow> Cluster \<Rightarrow> bool" where
  "dying cp F v \<longleftrightarrow> deletionRequested cp v \<and> finalizersLeft cp v \<subseteq> F"

lemma finalizersLeft_finite [simp]: "finite (finalizersLeft cp v)"
  by (simp add: finalizersLeft_def split: option.split)

lemma card_finalizersLeft: "card (finalizersLeft cp v) \<le> 2"
proof -
  have "finalizersLeft cp v \<subseteq> operatorFinalizers"
    by (auto simp: finalizersLeft_def split: option.splits)
  then have "card (finalizersLeft cp v) \<le> card operatorFinalizers"
    by (rule card_mono [rotated]) (simp add: operatorFinalizers_def)
  then show ?thesis using finalizers_differ by (simp add: operatorFinalizers_def)
qed

lemma finalizersLeft_Some:
  "versionOf cp v = Some y \<Longrightarrow> finalizersLeft cp v = set (om_Finalizers (cp_Meta y)) \<inter> operatorFinalizers"
  by (simp add: finalizersLeft_def)

lemma finalizersLeft_None: "versionOf cp v = None \<Longrightarrow> finalizersLeft cp v = {}"
  by (simp add: finalizersLeft_def)

lemma dying_same: "dying cp F v \<Longrightarrow> versionOf cp v1 = versionOf cp v \<Longrightarrow> dying cp F v1"
  by (simp add: dying_def deletionRequested_def finalizersLeft_def)

lemma versionOf_same: "st_ControlPlanes v1 = st_ControlPlanes v \<Longrightarrow> versionOf cp v1 = versionOf cp v"
  by (simp add: versionOf_def)

section \<open>No step of the operator brings a finalizer back\<close>

lemma lookupKey_other:
  "keyOf (co_Meta k y) \<noteq> key \<Longrightarrow> lookupKey k key (replaceKey k y xs) = lookupKey k key xs"
  "key' \<noteq> key \<Longrightarrow> lookupKey k key (removeKey k key' xs) = lookupKey k key xs"
  by (induction xs) (auto simp: lookupKey_def replaceKey_def removeKey_def)

lemma dying_with:
  assumes d: "dying cp F v" and x: "storedAs p x v" and y: "keyOf (cp_Meta y) = keyOf (cp_Meta x)"
    "om_UID (cp_Meta y) = om_UID (cp_Meta x)"
  shows "dying cp F (withControlPlane y v)"
proof (cases "keyOf (cp_Meta y) = keyOf (cp_Meta cp)")
  case True
  then have p: "keyOf (cp_Meta p) = keyOf (cp_Meta cp)" using y storedAs_key [OF x] by simp
  then have "om_UID (cp_Meta x) \<noteq> om_UID (cp_Meta cp)"
    using d x by (auto simp: dying_def deletionRequested_def versionOf_def storedAs_def)
  moreover have "lookupKey ControlPlaneObj (keyOf (cp_Meta cp)) (st_ControlPlanes (withControlPlane y v)) = Some y"
    using x True p lookupKey_replaceKey [of ControlPlaneObj _ _ x y] by (simp add: withControlPlane_def storedAs_def)
  ultimately show ?thesis using y(2) by (simp add: dying_def deletionRequested_def finalizersLeft_def versionOf_def)
next
  case False
  then show ?thesis
    by (intro dying_same [OF d]) (simp add: versionOf_def withControlPlane_def lookupKey_other)
qed

lemma dying_write:
  assumes "dying cp F v" and "cpWrite sv p v v1"
  shows "dying cp F v1"
  using assms(2)
proof cases
  case (write_finalizers x y)
  then show ?thesis using dying_with [OF assms(1)] by simp
next
  case (write_specification x y)
  then show ?thesis using dying_with [OF assms(1)] by (simp add: sameIdentity_def keyOf_def)
next
  case (write_status x y)
  then show ?thesis using dying_with [OF assms(1)] by (simp add: sameIdentity_def keyOf_def)
qed (auto dest!: ensured_sel intro!: dying_same [OF assms(1)] versionOf_same)

text \<open>Removing a finalizer of \<open>p\<close>: of \<open>cp\<close> one less is left when it is the same, and nothing changes otherwise.\<close>

lemma versionOf_removed:
  assumes p: "lookupKey ControlPlaneObj (keyOf (cp_Meta p)) (st_ControlPlanes v) = Some p"
    and "finalizerRemoved f p v v1"
  shows "if versionOf cp v = Some p
     then versionOf cp v1 = None \<or> (\<exists>y. versionOf cp v1 = Some y \<and>
       om_DeletionTimestamp (cp_Meta y) = om_DeletionTimestamp (cp_Meta p) \<and>
       set (om_Finalizers (cp_Meta y)) = set (om_Finalizers (cp_Meta p)) - {f})
     else versionOf cp v1 = versionOf cp v"
proof -
  obtain y where y: "st_ControlPlanes v1 = settle ControlPlaneObj y (st_ControlPlanes v)"
    "om_Finalizers (cp_Meta y) = filter (\<lambda>x. x \<noteq> f) (om_Finalizers (cp_Meta p))"
    "keyOf (cp_Meta y) = keyOf (cp_Meta p)" "om_UID (cp_Meta y) = om_UID (cp_Meta p)"
    "om_DeletionTimestamp (cp_Meta y) = om_DeletionTimestamp (cp_Meta p)"
    using assms(2) unfolding finalizerRemoved_def by blast
  show ?thesis
  proof (cases "keyOf (cp_Meta p) = keyOf (cp_Meta cp)")
    case True
    then have "lookupKey ControlPlaneObj (keyOf (cp_Meta cp)) (st_ControlPlanes v1) \<in> {None, Some y}"
      using y p lookupKey_replaceKey [OF p, of y] by (auto simp: settle_def lookupKey_None set_removeKey)
    then show ?thesis using True p y by (auto simp: versionOf_def split: option.splits)
  next
    case False
    then have "versionOf cp v1 = versionOf cp v" using y(1,3) by (simp add: versionOf_def settle_def lookupKey_other)
    moreover have "versionOf cp v \<noteq> Some p"
      using False lookupKey_Some by (fastforce simp: versionOf_def split: option.splits if_splits)
    ultimately show ?thesis by simp
  qed
qed

lemma finalizersLeft_removed:
  assumes p: "lookupKey ControlPlaneObj (keyOf (cp_Meta p)) (st_ControlPlanes v) = Some p"
    and "finalizerRemoved f p v v1"
  shows "finalizersLeft cp v1 = (if versionOf cp v = Some p then finalizersLeft cp v - {f} else finalizersLeft cp v) \<or>
      versionOf cp v1 = None \<and> finalizersLeft cp v1 = {}"
    and "deletionRequested cp v \<Longrightarrow> deletionRequested cp v1"
proof -
  note r = versionOf_removed [OF assms, of cp]
  consider "versionOf cp v \<noteq> Some p" "versionOf cp v1 = versionOf cp v" | "versionOf cp v1 = None"
    | y where "versionOf cp v = Some p" "versionOf cp v1 = Some y"
      "om_DeletionTimestamp (cp_Meta y) = om_DeletionTimestamp (cp_Meta p)"
      "set (om_Finalizers (cp_Meta y)) = set (om_Finalizers (cp_Meta p)) - {f}"
  proof (cases "versionOf cp v = Some p")
    case True
    then show thesis using r [unfolded if_P [OF True]] that(2,3) by blast
  next
    case False
    then show thesis using r [unfolded if_not_P [OF False]] that(1) by blast
  qed
  note c = this
  show "finalizersLeft cp v1 = (if versionOf cp v = Some p then finalizersLeft cp v - {f} else finalizersLeft cp v) \<or>
      versionOf cp v1 = None \<and> finalizersLeft cp v1 = {}"
  proof (cases rule: c)
    case 1
    then show ?thesis by (simp add: finalizersLeft_def)
  next
    case 2
    then show ?thesis by (simp add: finalizersLeft_def)
  next
    case (3 y)
    then show ?thesis by (simp only: finalizersLeft_Some if_True simp_thms) blast
  qed
  show "deletionRequested cp v1" if "deletionRequested cp v"
    using that by (cases rule: c) (simp_all add: deletionRequested_def)
qed

lemma dying_cleanup:
  assumes "dying cp F v" and "cleanupEffect p v v1"
  shows "dying cp F v1"
proof -
  have p: "lookupKey ControlPlaneObj (keyOf (cp_Meta p)) (st_ControlPlanes v) = Some p"
    using assms(2) by (simp add: cleanupEffect_def)
  consider "st_ControlPlanes v1 = st_ControlPlanes v" | f where "finalizerRemoved f p v v1"
    using assms(2) unfolding cleanupEffect_def cleanupOutcome_def by (metis (full_types))
  then show ?thesis
  proof cases
    case 1
    then show ?thesis using dying_same [OF assms(1)] versionOf_same by blast
  next
    case 2
    then show ?thesis using finalizersLeft_removed [OF p 2, of cp] assms(1) by (auto simp: dying_def split: if_splits)
  qed
qed

interpretation dying: operator_invariant sv "dying cp F" for sv :: "('v, 'c) Semver" and cp F
proof unfold_locales
  show "dying cp F v \<Longrightarrow> dataPlaneFrame v v1 \<Longrightarrow> dying cp F v1" for v v1
    by (erule dying_same, rule versionOf_same) (auto simp: dataPlaneFrame_def)
qed (rule dying_write dying_cleanup; assumption)+

section \<open>Passes that have something to do\<close>

text \<open>
  A pass over \<open>cp\<close> that had a finalizer to remove and succeeded, past the grace period, and then
  any run: \<open>deletionSteps\<close> relates where it ends to where the pass began.
\<close>

definition deletionSteps ::
  "ControlPlaneReconciler \<Rightarrow> ('key, 'cert, 'signer, 'v, 'c) Library \<Rightarrow> 'w Client \<Rightarrow> ('w \<Rightarrow> Cluster)
    \<Rightarrow> (Cluster \<Rightarrow> Cluster \<Rightarrow> bool) \<Rightarrow> ControlPlane \<Rightarrow> (Cluster \<times> Cluster) set" where
  "deletionSteps rec lib c view others cp =
     {(v1, v). \<exists>w clk res w1 y t. v = view w \<and> operatorStores v \<and> finalizersLeft cp v \<noteq> {} \<and>
        versionOf cp v = Some y \<and> om_DeletionTimestamp (cp_Meta y) = Some t \<and> t \<le> clk 0 \<and>
        ControlPlane_Reconcile rec lib c clk
          \<lparr>rq_Namespace = om_Namespace (cp_Meta cp), rq_Name = om_Name (cp_Meta cp)\<rparr> w = (Inr res, w1) \<and>
        reachable rec lib c view others (view w1) v1}"

lemma deletion_progress:
  assumes "cluster_api c view" and st: "operatorStores (view w)" and left: "finalizersLeft cp (view w) \<noteq> {}"
    and y: "versionOf cp (view w) = Some y" and t: "om_DeletionTimestamp (cp_Meta y) = Some t" "t \<le> clk 0"
    and run: "ControlPlane_Reconcile rec lib c clk
      \<lparr>rq_Namespace = om_Namespace (cp_Meta cp), rq_Name = om_Name (cp_Meta cp)\<rparr> w = (Inr res, w1)"
  shows "finalizersLeft cp (view w1) \<subset> finalizersLeft cp (view w) \<and> deletionRequested cp (view w1) \<and> operatorStores (view w1)"
proof -
  have look: "lookupKey ControlPlaneObj (keyOf (cp_Meta cp)) (st_ControlPlanes (view w)) = Some y"
    using y by (auto simp: versionOf_def split: option.splits if_splits)
  then have yy: "lookupKey ControlPlaneObj (keyOf (cp_Meta y)) (st_ControlPlanes (view w)) = Some y"
    using lookupKey_Some [OF look] by simp
  have "cleanupFrame (view w) (view w1) \<and> cleanupOutcome y (view w) (view w1)"
    using wpA_E [OF cluster_api.wp_Reconcile_deleting [OF assms(1) _ t(1)] run] look st t(2)
    by (simp add: keyOf_def operatorStores_def)
  then have eff: "cleanupEffect y (view w) (view w1)" and out: "cleanupOutcome y (view w) (view w1)"
    using yy t(1) by (simp_all add: cleanupEffect_def)
  obtain f where f: "f \<in> finalizersLeft cp (view w)" "finalizerRemoved f y (view w) (view w1)"
    using out left y by (auto simp: cleanupOutcome_def finalizersLeft_def operatorFinalizers_def split: if_splits)
  have "deletionRequested cp (view w)" using y t(1) by (simp add: deletionRequested_def)
  then have "deletionRequested cp (view w1)"
    using dying_cleanup [OF _ eff, of cp UNIV] by (simp add: dying_def)
  moreover have "finalizersLeft cp (view w1) \<subset> finalizersLeft cp (view w)"
    using finalizersLeft_removed(1) [OF yy f(2), of cp] f(1) y by auto
  ultimately show ?thesis using operatorStores_cleanup [OF eff st] by simp
qed

text \<open>C7. Deletions come to an end. Consider the passes over a control plane \<open>cp\<close>
  that find it being deleted, past its grace period, with a finalizer of the operator, and that
  return no error. Each is followed by any run: passes of both controllers over any object, with
  any outcome of the calls, and steps of others that neither withdraw the deletion nor add a
  finalizer of the operator to \<open>cp\<close>. There is no infinite sequence of such passes, and never
  three in a row: every one of them takes a finalizer away that nothing brings back.\<close>

theorem deletion_terminates:
  assumes "cluster_api c view"
    and "\<And>u u'. others u u' \<Longrightarrow> operatorStores u \<Longrightarrow> deletionRequested cp u \<Longrightarrow>
      operatorStores u' \<and> deletionRequested cp u' \<and> finalizersLeft cp u' \<subseteq> finalizersLeft cp u"
  shows "wf (deletionSteps rec lib c view others cp) \<and> deletionSteps rec lib c view others cp ^^ 3 = {}"
proof -
  let ?n = "\<lambda>v. card (finalizersLeft cp v)"
  have less: "?n v1 < ?n v" if step: "(v1, v) \<in> deletionSteps rec lib c view others cp" for v1 v
  proof -
    obtain w w1 where w: "v = view w" "reachable rec lib c view others (view w1) v1"
      "finalizersLeft cp (view w1) \<subset> finalizersLeft cp (view w)" "deletionRequested cp (view w1)" "operatorStores (view w1)"
    proof -
      from step obtain w clk res w1 y t where "v = view w" "operatorStores (view w)" "finalizersLeft cp (view w) \<noteq> {}"
        "versionOf cp (view w) = Some y" "om_DeletionTimestamp (cp_Meta y) = Some t" "t \<le> clk 0"
        "ControlPlane_Reconcile rec lib c clk
          \<lparr>rq_Namespace = om_Namespace (cp_Meta cp), rq_Name = om_Name (cp_Meta cp)\<rparr> w = (Inr res, w1)"
        "reachable rec lib c view others (view w1) v1"
        unfolding deletionSteps_def by (elim CollectE case_prodE Pair_inject exE conjE) simp
      then show thesis by (intro that [of w w1]) (use deletion_progress [OF assms(1), of w cp y t clk rec lib res w1] in simp_all)
    qed
    have "dying cp (finalizersLeft cp (view w1)) v1"
      using dying.keeps_reachable [OF w(2) assms(1) refl w(5), where F = "finalizersLeft cp (view w1)"] w(4) assms(2)
      by (fastforce simp: dying_def)
    then have "?n v1 \<le> ?n (view w1)" by (intro card_mono) (simp_all add: dying_def)
    also have "\<dots> < ?n v" using w(1,3) by (simp add: psubset_card_mono)
    finally show ?thesis .
  qed
  then have "deletionSteps rec lib c view others cp \<subseteq> measure ?n" by auto
  moreover have "(v1, v) \<notin> deletionSteps rec lib c view others cp ^^ 3" for v1 v
  proof
    assume "(v1, v) \<in> deletionSteps rec lib c view others cp ^^ 3"
    then obtain a b where "(v1, a) \<in> deletionSteps rec lib c view others cp"
      "(a, b) \<in> deletionSteps rec lib c view others cp" "(b, v) \<in> deletionSteps rec lib c view others cp"
      by (auto simp: numeral_3_eq_3)
    then show False using less [of v1 a] less [of a b] less [of b v] card_finalizersLeft [of cp v] by linarith
  qed
  ultimately show ?thesis by (auto intro: wf_subset)
qed

text \<open>In the example the others change data planes; the steps of deletion there are not empty.\<close>

lemma exampleDeletionStep:
  "(sim_Cluster (snd (cleanupPass deletingCluster)), sim_Cluster deletingCluster)
     \<in> deletionSteps exampleReconciler exampleLibrary memClient sim_Cluster dataPlaneUsers deletingControlPlane"
proof -
  have run: "ControlPlane_Reconcile exampleReconciler exampleLibrary memClient (\<lambda>_. 9) exampleRequest deletingCluster =
      (Inr emptyResult, snd (cleanupPass deletingCluster))"
    using deletingCluster_facts(7) by (simp add: cleanupPass_def prod_eq_iff)
  have y: "versionOf deletingControlPlane (sim_Cluster deletingCluster) = Some deletingControlPlane"
    using deletingCluster_facts(1) by (simp add: versionOf_def exampleRequest_def keyOf_def)
  then have "roleFinalizer \<in> finalizersLeft deletingControlPlane (sim_Cluster deletingCluster)"
    by (simp add: finalizersLeft_def operatorFinalizers_def deletingControlPlane_def)
  then have left: "finalizersLeft deletingControlPlane (sim_Cluster deletingCluster) \<noteq> {}" by blast
  show ?thesis
    unfolding deletionSteps_def
    by (intro CollectI case_prodI exI [of _ deletingCluster] exI [of _ "\<lambda>_. 9 :: int"] exI [of _ emptyResult]
        exI [of _ "snd (cleanupPass deletingCluster)"] exI [of _ deletingControlPlane] exI [of _ "5 :: int"] conjI)
      (use run y left exampleStores(1) deletingCluster_facts(2) reach_start in \<open>simp_all add: exampleRequest_def\<close>)
qed

theorem deletion_terminates_witness:
  "deletionSteps exampleReconciler exampleLibrary memClient sim_Cluster dataPlaneUsers deletingControlPlane \<noteq> {} \<and>
   wf (deletionSteps exampleReconciler exampleLibrary memClient sim_Cluster dataPlaneUsers deletingControlPlane) \<and>
   deletionSteps exampleReconciler exampleLibrary memClient sim_Cluster dataPlaneUsers deletingControlPlane ^^ 3 = {}"
proof (rule conjI [OF _ deletion_terminates [OF mem.cluster_api_axioms]])
  show "deletionSteps exampleReconciler exampleLibrary memClient sim_Cluster dataPlaneUsers deletingControlPlane \<noteq> {}"
    using exampleDeletionStep by blast
next
  fix u u'
  assume o: "dataPlaneUsers u u'" "operatorStores u" "deletionRequested deletingControlPlane u"
  then have "st_ControlPlanes u' = st_ControlPlanes u" by (auto simp: dataPlaneUsers_def)
  then have "versionOf deletingControlPlane u' = versionOf deletingControlPlane u" by (rule versionOf_same)
  then show "operatorStores u' \<and> deletionRequested deletingControlPlane u' \<and>
      finalizersLeft deletingControlPlane u' \<subseteq> finalizersLeft deletingControlPlane u"
    using o operatorStores_dataplane [OF dataPlaneUsers_frame]
    by (simp add: deletionRequested_def finalizersLeft_def)
qed

end
