(* ===== verification/Staleness.thy ===== *)
theory Staleness
  imports DataPlaneController
begin

text \<open>
  What the pattern of the \<open>ensure...\<close> methods makes of a cache that lags behind. The client the
  manager hands out reads from a cache, and the contract \<open>api_kind\<close> of theory \<open>Client\<close> describes it
  once it has caught up. Here its lists answer from an earlier state of the cluster: the objects the
  methods create have generated names, so that nothing stops a second one, and two are one too many
  for every later call.
\<close>

text \<open>A resource whose lists answer from the objects \<open>old\<close>.\<close>

definition behind :: "'o client_object \<Rightarrow> 'o list \<Rightarrow> ('o, 'w) resource \<Rightarrow> ('o, 'w) resource" where
  "behind k old res = res\<lparr>cl_List := (\<lambda>ns ls w. (Inr (filter (\<lambda>x. selects ns ls (co_Meta k x)) old), w))\<rparr>"

lemma behind_simps [simp]:
  "cl_Create (behind k old res) = cl_Create res" "cl_Update (behind k old res) = cl_Update res"
  "cl_List (behind k old res) ns ls w = (Inr (filter (\<lambda>x. selects ns ls (co_Meta k x)) old), w)"
  by (simp_all add: behind_def)








end
