(* ===== verification/CommandLine.thy ===== *)
theory CommandLine
  imports Prelude
begin

text \<open>
  The command line of the operator: the flags \<open>main.go\<close> defines and the parser of the standard
  library's package \<open>flag\<close> it calls on \<open>flag.CommandLine\<close>, whose errors end the process. Flags that
  libraries define (those of the logger, and what imported packages define in \<open>init\<close>) are a
  parameter: their names, whether they are boolean, and the values they accept. Shown here: a
  command line of assignments, in any of the notations, gives each flag the last value
  assigned to it.
\<close>

section \<open>Flags\<close>

datatype Flag =
    StringFlag string
  | BoolFlag bool
  | LibraryFlag bool "string \<Rightarrow> bool" \<comment> \<open>\<open>IsBoolFlag\<close>, the values \<open>Set\<close> accepts\<close>

type_synonym FlagSet = "string \<rightharpoonup> Flag"

text \<open>\<open>flag.Var\<close> panics on a name that is taken.\<close>

definition defineFlag :: "string \<times> Flag \<Rightarrow> FlagSet \<Rightarrow> go_error + FlagSet" where
  "defineFlag = (\<lambda>(name, fl) fs.
     if fs name = None then Inr (fs(name \<mapsto> fl)) else Inl (Panic (''flag redefined: '' @ name)))"

fun defineFlags :: "(string \<times> Flag) list \<Rightarrow> FlagSet \<Rightarrow> go_error + FlagSet" where
  "defineFlags [] fs = Inr fs"
| "defineFlags (f # rest) fs =
     (case defineFlag f fs of Inl e \<Rightarrow> Inl e | Inr fs1 \<Rightarrow> defineFlags rest fs1)"

text \<open>The flags of \<open>main\<close>, with their defaults.\<close>

definition mainFlags :: "(string \<times> Flag) list" where
  "mainFlags = [(''metrics-bind-address'', StringFlag '':8080''),
     (''health-probe-bind-address'', StringFlag '':8081''), (''leader-elect'', BoolFlag False)]"

text \<open>\<open>strconv.ParseBool\<close>\<close>

definition ParseBool :: "string \<Rightarrow> bool option" where
  "ParseBool s =
     (if s \<in> {''1'', ''t'', ''T'', ''TRUE'', ''true'', ''True''} then Some True
      else if s \<in> {''0'', ''f'', ''F'', ''FALSE'', ''false'', ''False''} then Some False
      else None)"

fun setFlag :: "Flag \<Rightarrow> string \<Rightarrow> Flag option" where
  "setFlag (StringFlag _) s = Some (StringFlag s)"
| "setFlag (BoolFlag _) s = map_option BoolFlag (ParseBool s)"
| "setFlag (LibraryFlag b accepts) s = (if accepts s then Some (LibraryFlag b accepts) else None)"

fun IsBoolFlag :: "Flag \<Rightarrow> bool" where
  "IsBoolFlag (StringFlag _) = False"
| "IsBoolFlag (BoolFlag _) = True"
| "IsBoolFlag (LibraryFlag b _) = b"

section \<open>Parsing\<close>

text \<open>What is left after one step: flags may follow, or the parser has ended with or without an error.\<close>

datatype ParseStep =
    FlagSeen FlagSet "string list"
  | FlagsEnd FlagSet
  | ErrHelp
  | BadFlag

text \<open>The name is split at the first \<open>=\<close> that is not its first character.\<close>

definition splitValue :: "string \<Rightarrow> string \<times> string option" where
  "splitValue name =
     (let first = take 1 name; tail = drop 1 name; key = takeWhile (\<lambda>c. c \<noteq> CHR ''='') tail
      in (first @ key,
          case dropWhile (\<lambda>c. c \<noteq> CHR ''='') tail of [] \<Rightarrow> None | _ # value \<Rightarrow> Some value))"

definition assignFlag :: "FlagSet \<Rightarrow> string \<Rightarrow> Flag \<Rightarrow> string \<Rightarrow> string list \<Rightarrow> ParseStep" where
  "assignFlag fs name fl value rest =
     (case setFlag fl value of None \<Rightarrow> BadFlag | Some fl1 \<Rightarrow> FlagSeen (fs(name \<mapsto> fl1)) rest)"

definition parseNamed :: "FlagSet \<Rightarrow> string \<Rightarrow> string list \<Rightarrow> ParseStep" where
  "parseNamed fs arg rest =
     (if arg = [] \<or> hd arg = CHR ''-'' \<or> hd arg = CHR ''='' then BadFlag
      else (case splitValue arg of (name, given) \<Rightarrow>
        (case fs name of
           None \<Rightarrow> if name = ''help'' \<or> name = ''h'' then ErrHelp else BadFlag
         | Some fl \<Rightarrow>
             (if IsBoolFlag fl
              then assignFlag fs name fl (case given of Some value \<Rightarrow> value | None \<Rightarrow> ''true'') rest
              else (case given of
                  Some value \<Rightarrow> assignFlag fs name fl value rest
                | None \<Rightarrow> (case rest of [] \<Rightarrow> BadFlag | value # rest1 \<Rightarrow> assignFlag fs name fl value rest1))))))"

definition parseOne :: "FlagSet \<Rightarrow> string list \<Rightarrow> ParseStep" where
  "parseOne fs args =
     (case args of
        [] \<Rightarrow> FlagsEnd fs
      | s # rest \<Rightarrow>
          (if length s < 2 \<or> hd s \<noteq> CHR ''-'' then FlagsEnd fs
           else if s = ''--'' then FlagsEnd fs
           else parseNamed fs (if s ! 1 = CHR ''-'' then drop 2 s else drop 1 s) rest))"

lemma assignFlag_seen: "assignFlag fs name fl value rest = FlagSeen fs1 rest1 \<Longrightarrow> rest1 = rest"
  by (auto simp: assignFlag_def split: option.splits)

lemma parseOne_shorter:
  assumes "parseOne fs args = FlagSeen fs1 rest"
  shows "length rest < length args"
proof -
  have "parseNamed fs arg rest0 = FlagSeen fs1 rest \<Longrightarrow> length rest \<le> length rest0" for arg rest0
    by (auto simp: parseNamed_def split: if_splits prod.splits option.splits list.splits dest!: assignFlag_seen)
  then show ?thesis
    using assms by (auto simp: parseOne_def less_Suc_eq_le split: list.splits if_splits)
qed

datatype Parsed =
    Flags FlagSet
  | Help
  | Rejected

function Parse :: "FlagSet \<Rightarrow> string list \<Rightarrow> Parsed" where
  "Parse fs args =
     (case parseOne fs args of
        FlagSeen fs1 rest \<Rightarrow> Parse fs1 rest
      | FlagsEnd fs1 \<Rightarrow> Flags fs1
      | ErrHelp \<Rightarrow> Help
      | BadFlag \<Rightarrow> Rejected)"
  by pat_completeness auto
termination
  by (relation "measure (\<lambda>(fs, args). length args)") (auto dest: parseOne_shorter)

declare Parse.simps [simp del]

section \<open>Assignments\<close>

text \<open>
  The notations of an assignment: with one hyphen or two, with \<open>=\<close> or (for flags that are not
  boolean) with the value as the next argument.
\<close>

datatype Assignment = Assign bool bool string string \<comment> \<open>two hyphens, joined by \<open>=\<close>, name, value\<close>

fun printed :: "Assignment \<Rightarrow> string list" where
  "printed (Assign two True name value) = [(if two then ''--'' else ''-'') @ name @ ''='' @ value]"
| "printed (Assign two False name value) = [(if two then ''--'' else ''-'') @ name, value]"

definition flagName :: "string \<Rightarrow> bool" where
  "flagName name \<longleftrightarrow> name \<noteq> [] \<and> hd name \<noteq> CHR ''-'' \<and> CHR ''='' \<notin> set name"

text \<open>What the assignments, in their order, are to make of the flags.\<close>

fun assigned :: "Assignment list \<Rightarrow> FlagSet \<Rightarrow> FlagSet option" where
  "assigned [] fs = Some fs"
| "assigned (Assign two joined name value # rest) fs =
     (case fs name of
        None \<Rightarrow> None
      | Some fl \<Rightarrow>
          (case setFlag fl value of
             Some fl1 \<Rightarrow> if joined \<or> \<not> IsBoolFlag fl then assigned rest (fs(name \<mapsto> fl1)) else None
           | None \<Rightarrow> None))"

lemma splitValue_name:
  assumes "flagName name"
  shows "splitValue name = (name, None)" "splitValue (name @ CHR ''='' # value) = (name, Some value)"
proof -
  obtain c cs where n: "name = c # cs" "\<forall>x \<in> set cs. x \<noteq> CHR ''=''"
    using assms by (cases name) (auto simp: flagName_def)
  have t: "takeWhile (\<lambda>c. c \<noteq> CHR ''='') cs = cs" "dropWhile (\<lambda>c. c \<noteq> CHR ''='') cs = []"
    using n(2) by (auto simp: takeWhile_eq_all_conv)
  then show "splitValue name = (name, None)" "splitValue (name @ CHR ''='' # value) = (name, Some value)"
    using n(2) by (simp_all add: splitValue_def n(1) t takeWhile_append2 dropWhile_append2)
qed

lemma parseNamed_assign:
  assumes "flagName name" and "fs name = Some fl" and "setFlag fl value = Some fl1"
  shows "parseNamed fs (name @ CHR ''='' # value) rest = FlagSeen (fs(name \<mapsto> fl1)) rest"
    and "\<not> IsBoolFlag fl \<Longrightarrow> parseNamed fs name (value # rest) = FlagSeen (fs(name \<mapsto> fl1)) rest"
proof -
  obtain ch tail where n: "name = ch # tail" "ch \<noteq> CHR ''-''" "ch \<noteq> CHR ''=''"
    using assms(1) by (cases name) (auto simp: flagName_def)
  note split = splitValue_name [OF assms(1), unfolded n(1)]
  show "parseNamed fs (name @ CHR ''='' # value) rest = FlagSeen (fs(name \<mapsto> fl1)) rest"
    using n split assms(2,3) by (auto simp: parseNamed_def assignFlag_def)
  show "parseNamed fs name (value # rest) = FlagSeen (fs(name \<mapsto> fl1)) rest" if "\<not> IsBoolFlag fl"
    using n split assms(2,3) that by (auto simp: parseNamed_def assignFlag_def)
qed

lemma parseOne_hyphens:
  assumes "arg \<noteq> []" and "hd arg \<noteq> CHR ''-''"
  shows "parseOne fs (((if two then ''--'' else ''-'') @ arg) # rest) = parseNamed fs arg rest"
  using assms by (cases arg) (auto simp: parseOne_def)

lemma Parse_assigned:
  assumes "assigned xs fs = Some fs1" and "list_all (\<lambda>a. case a of Assign _ _ name _ \<Rightarrow> flagName name) xs"
    and "parseOne fs1 rest = FlagsEnd fs1"
  shows "Parse fs (concat (map printed xs) @ rest) = Flags fs1"
  using assms(1,2)
proof (induction xs fs rule: assigned.induct)
  case (1 fs)
  then show ?case using assms(3) by (simp add: Parse.simps [of fs1])
next
  case (2 two joined name given xs fs)
  obtain fl fl1 where fl: "fs name = Some fl" "setFlag fl given = Some fl1" "joined \<or> \<not> IsBoolFlag fl"
    "assigned xs (fs(name \<mapsto> fl1)) = Some fs1"
    using 2(2) by (auto split: option.splits if_splits)
  have n: "flagName name" "name \<noteq> []" "hd name \<noteq> CHR ''-''" using 2(3) by (auto simp: flagName_def)
  have "Parse (fs(name \<mapsto> fl1)) (concat (map printed xs) @ rest) = Flags fs1"
    by (rule 2(1) [OF fl(1,2,3,4)]) (use 2(3) in simp)
  moreover have "parseOne fs (printed (Assign two joined name given) @ more) = FlagSeen (fs(name \<mapsto> fl1)) more" for more
    using parseNamed_assign [where fs = fs, OF n(1) fl(1,2)] fl(3) n parseOne_hyphens [of name fs two]
      parseOne_hyphens [of "name @ CHR ''='' # given" fs two]
    by (cases joined) (auto simp: hd_append)
  ultimately show ?case by (simp add: Parse.simps [of fs])
qed

section \<open>The command line of the operator\<close>

text \<open>What the process is started with, and the flags other packages define.\<close>

record Invocation =
  inv_Args :: "string list" \<comment> \<open>\<open>os.Args[1:]\<close>\<close>
  inv_PackageFlags :: FlagSet \<comment> \<open>defined by imported packages in \<open>init\<close>\<close>
  inv_LoggerFlags :: "(string \<times> Flag) list" \<comment> \<open>defined by \<open>BindFlags\<close> of the logger's options\<close>

definition parseFlags :: "Invocation \<Rightarrow> go_error + Parsed" where
  "parseFlags cmd =
     (case defineFlags (mainFlags @ inv_LoggerFlags cmd) (inv_PackageFlags cmd) of
        Inl e \<Rightarrow> Inl e
      | Inr fs \<Rightarrow> Inr (Parse fs (inv_Args cmd)))"

text \<open>A flag keeps its type.\<close>

fun sameKind :: "Flag \<Rightarrow> Flag \<Rightarrow> bool" where
  "sameKind (StringFlag _) f = (\<exists>s. f = StringFlag s)"
| "sameKind (BoolFlag _) f = (\<exists>b. f = BoolFlag b)"
| "sameKind (LibraryFlag b accepts) f = (f = LibraryFlag b accepts)"

definition kindsKept :: "FlagSet \<Rightarrow> FlagSet \<Rightarrow> bool" where
  "kindsKept fs fs1 \<longleftrightarrow> (\<forall>n f. fs n = Some f \<longrightarrow> (\<exists>g. fs1 n = Some g \<and> sameKind f g))"

lemma sameKind_refl: "sameKind f f"
  by (cases f) auto

lemma sameKind_trans: "sameKind f g \<Longrightarrow> sameKind g k \<Longrightarrow> sameKind f k"
  by (cases f) auto

lemma kindsKept_refl: "kindsKept fs fs"
  by (auto simp: kindsKept_def sameKind_refl)

lemma kindsKept_trans: "kindsKept fs fs1 \<Longrightarrow> kindsKept fs1 fs2 \<Longrightarrow> kindsKept fs fs2"
  by (fastforce simp: kindsKept_def intro: sameKind_trans)

lemma setFlag_kind: "setFlag f s = Some g \<Longrightarrow> sameKind f g"
  by (cases f) (auto split: if_splits)

lemma assignFlag_kinds:
  "assignFlag fs name f s rest = FlagSeen fs1 rest1 \<Longrightarrow> fs name = Some f \<Longrightarrow> kindsKept fs fs1"
  by (auto simp: assignFlag_def kindsKept_def sameKind_refl setFlag_kind split: option.splits)

lemma parseNamed_kinds: "parseNamed fs arg rest = FlagSeen fs1 rest1 \<Longrightarrow> kindsKept fs fs1"
  by (auto simp: parseNamed_def split: if_splits prod.splits option.splits list.splits dest: assignFlag_kinds)

lemma parseOne_kinds:
  "parseOne fs args = FlagSeen fs1 rest \<Longrightarrow> kindsKept fs fs1" "parseOne fs args = FlagsEnd fs1 \<Longrightarrow> fs1 = fs"
proof -
  have no_end: "parseNamed fs arg rest \<noteq> FlagsEnd fs1" for arg rest
    by (auto simp: parseNamed_def assignFlag_def split: if_splits prod.splits option.splits list.splits)
  show "parseOne fs args = FlagSeen fs1 rest \<Longrightarrow> kindsKept fs fs1" "parseOne fs args = FlagsEnd fs1 \<Longrightarrow> fs1 = fs"
    using no_end by (auto simp: parseOne_def dest: parseNamed_kinds split: list.splits if_splits)
qed

lemma Parse_kinds: "Parse fs args = Flags fs1 \<Longrightarrow> kindsKept fs fs1"
proof (induction fs args rule: Parse.induct)
  case (1 fs args)
  then show ?case
    by (cases "parseOne fs args")
      (auto simp: Parse.simps [of fs args] kindsKept_refl dest: parseOne_kinds intro: kindsKept_trans)
qed

lemma defineFlags_keep: "defineFlags fl fs = Inr fs1 \<Longrightarrow> fs n = Some f \<Longrightarrow> fs1 n = Some f"
  by (induction fl fs rule: defineFlags.induct)
    (force simp: defineFlag_def split: sum.splits if_splits prod.splits)+

lemma defineFlags_defined:
  "defineFlags fl fs = Inr fs1 \<Longrightarrow> (n, f) \<in> set fl \<Longrightarrow> fs1 n = Some f"
  by (induction fl fs rule: defineFlags.induct)
    (auto simp: defineFlag_def split: sum.splits if_splits prod.splits dest: defineFlags_keep)

text \<open>A command line that parses gives every flag of \<open>main\<close> a value of its type.\<close>

lemma parseFlags_values:
  assumes "parseFlags cmd = Inr (Flags fs)"
  shows "\<exists>s. fs ''metrics-bind-address'' = Some (StringFlag s)"
    and "\<exists>s. fs ''health-probe-bind-address'' = Some (StringFlag s)"
    and "\<exists>b. fs ''leader-elect'' = Some (BoolFlag b)"
proof -
  obtain fs0 where fs0: "defineFlags (mainFlags @ inv_LoggerFlags cmd) (inv_PackageFlags cmd) = Inr fs0"
    "Parse fs0 (inv_Args cmd) = Flags fs"
    using assms by (auto simp: parseFlags_def split: sum.splits)
  have "\<exists>g. fs n = Some g \<and> sameKind f g" if "(n, f) \<in> set mainFlags" for n f
    using Parse_kinds [OF fs0(2)] defineFlags_defined [OF fs0(1)] that by (auto simp: kindsKept_def)
  from this [of "''metrics-bind-address''"] this [of "''health-probe-bind-address''"] this [of "''leader-elect''"]
  show "\<exists>s. fs ''metrics-bind-address'' = Some (StringFlag s)"
    "\<exists>s. fs ''health-probe-bind-address'' = Some (StringFlag s)" "\<exists>b. fs ''leader-elect'' = Some (BoolFlag b)"
    by (fastforce simp: mainFlags_def)+
qed

text \<open>
  The arguments of the manifest \<open>config/default/manager_auth_proxy_patch.yaml\<close>, and some that are
  rejected.
\<close>

definition exampleInvocation :: "string list \<Rightarrow> Invocation" where
  "exampleInvocation args = \<lparr>inv_Args = args, inv_PackageFlags = [''kubeconfig'' \<mapsto> StringFlag []],
     inv_LoggerFlags = [(''zap-devel'', LibraryFlag True (\<lambda>s. ParseBool s \<noteq> None))]\<rparr>"

definition proxyArgs :: "string list" where
  "proxyArgs = [''--health-probe-bind-address=:8081'', ''--metrics-bind-address=127.0.0.1:8080'', ''--leader-elect'']"

lemmas parse_simps = parseFlags_def exampleInvocation_def mainFlags_def defineFlag_def Parse.simps parseOne_def
  parseNamed_def splitValue_def assignFlag_def ParseBool_def

lemma example_rejected:
  "parseFlags (exampleInvocation [''--leader-elect=maybe'']) = Inr Rejected"
  "parseFlags (exampleInvocation [''--metrics'', ''x'']) = Inr Rejected"
  "parseFlags (exampleInvocation [''--metrics-bind-address'']) = Inr Rejected"
  "parseFlags (exampleInvocation [''-h'']) = Inr Help"
  by (simp_all add: parse_simps)

lemma example_proxyArgs:
  "\<exists>fs. parseFlags (exampleInvocation proxyArgs) = Inr (Flags fs) \<and>
     fs ''metrics-bind-address'' = Some (StringFlag ''127.0.0.1:8080'') \<and>
     fs ''health-probe-bind-address'' = Some (StringFlag '':8081'') \<and> fs ''leader-elect'' = Some (BoolFlag True)"
  by (simp add: proxyArgs_def parse_simps)

end
