(* ===== verification/Startup.thy ===== *)
theory Startup
  imports Concurrency CommandLine
begin

text \<open>
  The process: \<open>main.go\<close>, the \<open>SetupWithManager\<close> methods of the three reconcilers with the
  kinds they watch, and the reconciler of \<open>APISIXConfiguration\<close>. The command line is parsed by
  theory \<open>CommandLine\<close>.

  controller-runtime is not code of the repository: its calls are the fields of the record
  \<open>Runtime\<close>, over a world \<open>'p\<close> that is the process, and the locale \<open>manager_api\<close> states what its
  documentation promises of them in terms of a view of the process as the state of its manager.
  \<open>memRuntime\<close> is such a process in memory whose calls fail on a schedule. Proved here: a manager
  that runs is complete, with the status of the process in every other case; and what its
  controllers do, all of them at the same time and amid other changes of the cluster, is a run of
  \<open>concurrent\<close>, for a reconciler without the name of a CA secret.
\<close>

section \<open>Controllers\<close>

datatype ResourceKind =
    KindAPISIXConfiguration | KindControlPlane | KindDataPlane | KindSecret | KindServiceAccount
  | KindDeployment | KindClusterRole | KindClusterRoleBinding

text \<open>
  What a builder is told to watch: the reconciled kind, kinds whose controller is of that kind,
  a kind with a map function and a predicate on its events, and a kind whose owners of another
  kind are enqueued.
\<close>

datatype 'w Watched =
    For ResourceKind
  | Owns ResourceKind
  | WatchesMapped ResourceKind "WatchedObject \<Rightarrow> (Request list, 'w) action" "WatchEvent \<Rightarrow> (bool, 'w) action"
  | WatchesOwner ResourceKind ResourceKind bool \<comment> \<open>\<open>OwnerType\<close>, \<open>IsController\<close>\<close>

record 'w Controller =
  ctl_Watches :: "'w Watched list"
  ctl_Reconcile :: "(nat \<Rightarrow> time) \<Rightarrow> Request \<Rightarrow> (Result, 'w) action"

record ManagerOptions =
  mgo_Scheme :: "string list" \<comment> \<open>the kinds of the operator's own group\<close>
  mgo_MetricsBindAddress :: string
  mgo_Port :: int
  mgo_HealthProbeBindAddress :: string
  mgo_LeaderElection :: bool
  mgo_LeaderElectionID :: string

record ('w, 'm, 'p) Runtime =
  rt_AddClientGoToScheme :: "(unit, 'p) action"
  rt_AddToScheme :: "string \<Rightarrow> string \<Rightarrow> string list \<Rightarrow> (unit, 'p) action" \<comment> \<open>group, version, kinds\<close>
  rt_GetConfig :: "(unit, 'p) action"
  rt_NewManager :: "ManagerOptions \<Rightarrow> ('m, 'p) action"
  rt_GetClient :: "'m \<Rightarrow> 'w Client"
  rt_Complete :: "'m \<Rightarrow> 'w Controller \<Rightarrow> (unit, 'p) action"
  rt_AddHealthzCheck :: "'m \<Rightarrow> string \<Rightarrow> (unit, 'p) action"
  rt_AddReadyzCheck :: "'m \<Rightarrow> string \<Rightarrow> (unit, 'p) action"
  rt_Start :: "'m \<Rightarrow> (unit, 'p) action"

text \<open>The \<open>init\<close> functions of the API package register their kinds.\<close>

definition registersAPISIXConfiguration :: "string list" where
  "registersAPISIXConfiguration = [''APISIXConfiguration'', ''APISIXConfigurationList'']"
definition registersControlPlane :: "string list" where
  "registersControlPlane = [''ControlPlane'', ''ControlPlaneList'']"
definition registersDataPlane :: "string list" where
  "registersDataPlane = [''DataPlane'', ''DataPlaneList'']"

definition SchemeBuilder :: "string list" where
  "SchemeBuilder = registersAPISIXConfiguration @ registersControlPlane @ registersDataPlane"

section \<open>The reconcilers\<close>

definition APISIXConfiguration_Reconcile :: "Request \<Rightarrow> (Result, 'w) action" where
  "APISIXConfiguration_Reconcile req = retA emptyResult"

definition APISIXConfiguration_SetupWithManager ::
  "('w, 'm, 'p) Runtime \<Rightarrow> 'm \<Rightarrow> (unit, 'p) action" where
  "APISIXConfiguration_SetupWithManager rt mgr =
     rt_Complete rt mgr \<lparr>ctl_Watches = [For KindAPISIXConfiguration],
       ctl_Reconcile = (\<lambda>clk. APISIXConfiguration_Reconcile)\<rparr>"

definition DataPlane_SetupWithManager ::
  "'w Client \<Rightarrow> ('w, 'm, 'p) Runtime \<Rightarrow> 'm \<Rightarrow> (unit, 'p) action" where
  "DataPlane_SetupWithManager c rt mgr =
     rt_Complete rt mgr \<lparr>ctl_Watches = [For KindDataPlane], ctl_Reconcile = DataPlane_Reconcile c\<rparr>"

definition controlPlaneWatches :: "'w Client \<Rightarrow> 'w Watched list" where
  "controlPlaneWatches c =
     [For KindControlPlane, Owns KindSecret, Owns KindServiceAccount, Owns KindDeployment,
      WatchesMapped KindClusterRole (getControlplaneForClusterRole c) (clusterRolePredicate c),
      WatchesMapped KindClusterRoleBinding (getControlplaneForClusterRoleBinding c)
        (clusterRoleBindingPredicate c),
      WatchesOwner KindDataPlane KindControlPlane True]"

definition ControlPlane_SetupWithManager ::
  "ControlPlaneReconciler \<Rightarrow> ('key, 'cert, 'signer, 'v, 'c) Library \<Rightarrow> 'w Client
    \<Rightarrow> ('w, 'm, 'p) Runtime \<Rightarrow> 'm \<Rightarrow> (unit, 'p) action" where
  "ControlPlane_SetupWithManager rec lib c rt mgr =
     rt_Complete rt mgr \<lparr>ctl_Watches = controlPlaneWatches c,
       ctl_Reconcile = ControlPlane_Reconcile rec lib c\<rparr>"

section \<open>\<open>main\<close>\<close>

text \<open>The variables the flags are bound to.\<close>

definition stringFlag :: "FlagSet \<Rightarrow> string \<Rightarrow> string" where
  "stringFlag fs name = (case fs name of Some (StringFlag s) \<Rightarrow> s | _ \<Rightarrow> '''')"

definition boolFlag :: "FlagSet \<Rightarrow> string \<Rightarrow> bool" where
  "boolFlag fs name = (case fs name of Some (BoolFlag b) \<Rightarrow> b | _ \<Rightarrow> False)"

definition initScheme :: "('w, 'm, 'p) Runtime \<Rightarrow> (unit, 'p) action" where
  "initScheme rt =
     bindA (rt_AddClientGoToScheme rt) (\<lambda>_. rt_AddToScheme rt SchemeGroup SchemeVersion SchemeBuilder)"

definition managerOptions :: "FlagSet \<Rightarrow> ManagerOptions" where
  "managerOptions fs =
     (let metricsAddr = stringFlag fs ''metrics-bind-address'';
          probeAddr = stringFlag fs ''health-probe-bind-address'';
          enableLeaderElection = boolFlag fs ''leader-elect''
      in \<lparr>mgo_Scheme = SchemeBuilder, mgo_MetricsBindAddress = metricsAddr, mgo_Port = 9443,
          mgo_HealthProbeBindAddress = probeAddr, mgo_LeaderElection = enableLeaderElection,
          mgo_LeaderElectionID = ''23d56171.apisix-operator.apisix.apache.org''\<rparr>)"

text \<open>The reconciler is given a client and a scheme; its other fields keep their zero values.\<close>

definition startedReconciler :: ControlPlaneReconciler where
  "startedReconciler = \<lparr>cpr_ClusterCASecretName = '''', cpr_ClusterCASecretNamespace = ''''\<rparr>"

definition runManager ::
  "('w, 'm, 'p) Runtime \<Rightarrow> ('key, 'cert, 'signer, 'v, 'c) Library \<Rightarrow> FlagSet \<Rightarrow> (unit, 'p) action" where
  "runManager rt lib fs =
     bindA (rt_GetConfig rt) (\<lambda>_.
     bindA (rt_NewManager rt (managerOptions fs)) (\<lambda>mgr.
     bindA (APISIXConfiguration_SetupWithManager rt mgr) (\<lambda>_.
     bindA (DataPlane_SetupWithManager (rt_GetClient rt mgr) rt mgr) (\<lambda>_.
     bindA (ControlPlane_SetupWithManager startedReconciler lib (rt_GetClient rt mgr) rt mgr) (\<lambda>_.
     bindA (rt_AddHealthzCheck rt mgr ''healthz'') (\<lambda>_.
     bindA (rt_AddReadyzCheck rt mgr ''readyz'') (\<lambda>_.
     rt_Start rt mgr)))))))"

datatype Exit =
    Returned
  | Exited int \<comment> \<open>\<open>os.Exit\<close>\<close>
  | Panicked go_error

text \<open>
  \<open>init\<close> runs before \<open>main\<close>; \<open>utilruntime.Must\<close> panics with the error it is given. The parser
  of \<open>flag.CommandLine\<close> exits with status 0 when it is asked for help and with 2 on an error.
\<close>

definition main :: "('w, 'm, 'p) Runtime \<Rightarrow> ('key, 'cert, 'signer, 'v, 'c) Library \<Rightarrow> Invocation
    \<Rightarrow> 'p \<Rightarrow> Exit \<times> 'p" where
  "main rt lib cmd p =
     (case initScheme rt p of
        (Inl e, p1) \<Rightarrow> (Panicked e, p1)
      | (Inr _, p1) \<Rightarrow>
          (case parseFlags cmd of
             Inl e \<Rightarrow> (Panicked e, p1)
           | Inr Help \<Rightarrow> (Exited 0, p1)
           | Inr Rejected \<Rightarrow> (Exited 2, p1)
           | Inr (Flags fs) \<Rightarrow>
               (case runManager rt lib fs p1 of
                  (Inl e, p2) \<Rightarrow> (if isPanic e then Panicked e else Exited 1, p2)
                | (Inr _, p2) \<Rightarrow> (Returned, p2))))"

section \<open>The contract of controller-runtime\<close>

record 'w ManagerState =
  ms_Options :: ManagerOptions
  ms_Controllers :: "'w Controller list"
  ms_Healthz :: "string list"
  ms_Readyz :: "string list"
  ms_Started :: bool

definition newManager :: "ManagerOptions \<Rightarrow> 'w ManagerState" where
  "newManager opts = \<lparr>ms_Options = opts, ms_Controllers = [], ms_Healthz = [], ms_Readyz = [],
     ms_Started = False\<rparr>"

text \<open>
  A call either does what it is for or answers an error and does nothing, except that \<open>Complete\<close>
  may have registered the controller before it failed to watch a kind, and that \<open>Start\<close> may fail
  before or after the controllers were started.
\<close>

locale manager_api =
  fixes rt :: "('w, 'm, 'p) Runtime" and view :: "'p \<Rightarrow> 'w ManagerState option"
  assumes wp_AddClientGo: "wpA (rt_AddClientGoToScheme rt) (\<lambda>r p1. view p1 = view p) p"
    and wp_AddToScheme: "wpA (rt_AddToScheme rt g v ks) (\<lambda>r p1. view p1 = view p) p"
    and wp_GetConfig: "wpA (rt_GetConfig rt) (\<lambda>r p1. view p1 = view p) p"
    and wp_NewManager: "wpA (rt_NewManager rt opts) (\<lambda>r p1. view p1 = (case r of
           Inl e \<Rightarrow> view p | Inr m \<Rightarrow> Some (newManager opts))) p"
    and wp_Complete: "wpA (rt_Complete rt m ct) (\<lambda>r p1. view p1 = map_option (\<lambda>s. s\<lparr>ms_Controllers :=
           ms_Controllers s @ [ct]\<rparr>) (view p) \<or> (\<exists>e. r = Inl e) \<and> view p1 = view p) p"
    and wp_AddHealthz: "wpA (rt_AddHealthzCheck rt m nm) (\<lambda>r p1. view p1 = (case r of
           Inl e \<Rightarrow> view p
         | Inr _ \<Rightarrow> map_option (\<lambda>s. s\<lparr>ms_Healthz := ms_Healthz s @ [nm]\<rparr>) (view p))) p"
    and wp_AddReadyz: "wpA (rt_AddReadyzCheck rt m nm) (\<lambda>r p1. view p1 = (case r of
           Inl e \<Rightarrow> view p
         | Inr _ \<Rightarrow> map_option (\<lambda>s. s\<lparr>ms_Readyz := ms_Readyz s @ [nm]\<rparr>) (view p))) p"
    and wp_Start: "wpA (rt_Start rt m) (\<lambda>r p1. case r of
           Inl e \<Rightarrow> view p1 = view p \<or> view p1 = map_option (\<lambda>s. s\<lparr>ms_Started := True\<rparr>) (view p)
         | Inr _ \<Rightarrow> view p1 = map_option (\<lambda>s. s\<lparr>ms_Started := True\<rparr>) (view p)) p"

text \<open>
  The manager that is meant to run: the kinds of the operator's group, the fixed port and name of
  the leader's lease with the addresses and the leader election that were asked for; the three
  controllers with the kinds each of them reconciles and is woken by; both health checks.
\<close>

definition operatorControllers ::
  "('key, 'cert, 'signer, 'v, 'c) Library \<Rightarrow> 'w Client \<Rightarrow> 'w Controller list" where
  "operatorControllers lib c =
     [\<lparr>ctl_Watches = [For KindAPISIXConfiguration], ctl_Reconcile = (\<lambda>clk req. retA emptyResult)\<rparr>,
      \<lparr>ctl_Watches = [For KindDataPlane], ctl_Reconcile = DataPlane_Reconcile c\<rparr>,
      \<lparr>ctl_Watches =
         [For KindControlPlane, Owns KindSecret, Owns KindServiceAccount, Owns KindDeployment,
          WatchesMapped KindClusterRole (getControlplaneForClusterRole c) (clusterRolePredicate c),
          WatchesMapped KindClusterRoleBinding (getControlplaneForClusterRoleBinding c)
            (clusterRoleBindingPredicate c),
          WatchesOwner KindDataPlane KindControlPlane True],
       ctl_Reconcile = ControlPlane_Reconcile
         \<lparr>cpr_ClusterCASecretName = '''', cpr_ClusterCASecretNamespace = ''''\<rparr> lib c\<rparr>]"

definition operatorManager ::
  "('key, 'cert, 'signer, 'v, 'c) Library \<Rightarrow> string \<Rightarrow> string \<Rightarrow> bool \<Rightarrow> 'w Client \<Rightarrow> 'w ManagerState" where
  "operatorManager lib metricsAddr probeAddr leaderElection c =
     \<lparr>ms_Options = \<lparr>mgo_Scheme = [''APISIXConfiguration'', ''APISIXConfigurationList'', ''ControlPlane'',
          ''ControlPlaneList'', ''DataPlane'', ''DataPlaneList''],
        mgo_MetricsBindAddress = metricsAddr, mgo_Port = 9443, mgo_HealthProbeBindAddress = probeAddr,
        mgo_LeaderElection = leaderElection,
        mgo_LeaderElectionID = ''23d56171.apisix-operator.apisix.apache.org''\<rparr>,
      ms_Controllers = operatorControllers lib c,
      ms_Healthz = [''healthz''], ms_Readyz = [''readyz''], ms_Started = True\<rparr>"

text \<open>The manager has what the command line asks for.\<close>

definition asAsked ::
  "Invocation \<Rightarrow> ('key, 'cert, 'signer, 'v, 'c) Library \<Rightarrow> 'w Client \<Rightarrow> 'w ManagerState \<Rightarrow> bool" where
  "asAsked cmd lib c s \<longleftrightarrow> (\<exists>fs metricsAddr probeAddr leaderElection.
     parseFlags cmd = Inr (Flags fs) \<and>
     fs ''metrics-bind-address'' = Some (StringFlag metricsAddr) \<and>
     fs ''health-probe-bind-address'' = Some (StringFlag probeAddr) \<and>
     fs ''leader-elect'' = Some (BoolFlag leaderElection) \<and>
     s = operatorManager lib metricsAddr probeAddr leaderElection c)"

text \<open>No call of the runtime fails.\<close>

definition succeeds :: "('a, 'p) action \<Rightarrow> bool" where
  "succeeds m \<longleftrightarrow> (\<forall>p. \<exists>x p1. m p = (Inr x, p1))"

definition runtimeSucceeds :: "('w, 'm, 'p) Runtime \<Rightarrow> bool" where
  "runtimeSucceeds rt \<longleftrightarrow> succeeds (rt_AddClientGoToScheme rt) \<and> (\<forall>g v ks. succeeds (rt_AddToScheme rt g v ks)) \<and>
     succeeds (rt_GetConfig rt) \<and> (\<forall>opts. succeeds (rt_NewManager rt opts)) \<and>
     (\<forall>m ct. succeeds (rt_Complete rt m ct)) \<and> (\<forall>m nm. succeeds (rt_AddHealthzCheck rt m nm)) \<and>
     (\<forall>m nm. succeeds (rt_AddReadyzCheck rt m nm)) \<and> (\<forall>m. succeeds (rt_Start rt m))"

lemma succeeds_retA: "succeeds (retA x)"
  by (simp add: succeeds_def retA_def)

lemma succeeds_bindA:
  assumes "succeeds m" and "\<And>x. succeeds (k x)"
  shows "succeeds (bindA m k)"
  unfolding succeeds_def
proof
  fix p
  obtain x p1 where "m p = (Inr x, p1)" using assms(1) unfolding succeeds_def by blast
  then show "\<exists>x p1. bindA m k p = (Inr x, p1)" using assms(2) by (auto simp: bindA_def succeeds_def)
qed

lemma main_succeeds:
  assumes "runtimeSucceeds rt"
  shows "fst (main rt lib cmd p) = (case parseFlags cmd of
    Inl e \<Rightarrow> Panicked e | Inr Help \<Rightarrow> Exited 0 | Inr Rejected \<Rightarrow> Exited 2 | Inr (Flags fs) \<Rightarrow> Returned)"
proof -
  have init: "succeeds (initScheme rt)"
    using assms by (simp add: initScheme_def runtimeSucceeds_def succeeds_bindA)
  have run: "succeeds (runManager rt lib fs)" for fs
    using assms unfolding runManager_def APISIXConfiguration_SetupWithManager_def DataPlane_SetupWithManager_def
      ControlPlane_SetupWithManager_def by (intro succeeds_bindA) (simp_all add: runtimeSucceeds_def)
  obtain x p1 where p1: "initScheme rt p = (Inr x, p1)" using init by (auto simp: succeeds_def)
  have "\<exists>y p2. runManager rt lib fs p1 = (Inr y, p2)" for fs using run [of fs] by (simp add: succeeds_def)
  then show ?thesis
    by (auto simp: main_def p1 split: sum.split Parsed.split) (metis (no_types, lifting) case_prod_conv fst_conv old.sum.simps(6))
qed

text \<open>Without a manager, or with one that is not started, something went wrong.\<close>

definition runsComplete ::
  "('w, 'm, 'p) Runtime \<Rightarrow> ('key, 'cert, 'signer, 'v, 'c) Library \<Rightarrow> FlagSet \<Rightarrow> bool
    \<Rightarrow> 'w ManagerState option \<Rightarrow> bool" where
  "runsComplete rt lib fs required ms =
     (case ms of
        None \<Rightarrow> \<not> required
      | Some s \<Rightarrow> if ms_Started s then \<exists>m. s = operatorManager lib (stringFlag fs ''metrics-bind-address'')
                    (stringFlag fs ''health-probe-bind-address'') (boolFlag fs ''leader-elect'') (rt_GetClient rt m)
                  else \<not> required)"

lemma runsComplete_simps [simp]:
  "runsComplete rt lib fs False None"
  "\<not> ms_Started s \<Longrightarrow> runsComplete rt lib fs False (Some s)"
  by (simp_all add: runsComplete_def)

lemma registered_controllers:
  "[\<lparr>ctl_Watches = [For KindAPISIXConfiguration], ctl_Reconcile = (\<lambda>clk. APISIXConfiguration_Reconcile)\<rparr>,
    \<lparr>ctl_Watches = [For KindDataPlane], ctl_Reconcile = DataPlane_Reconcile c\<rparr>,
    \<lparr>ctl_Watches = controlPlaneWatches c, ctl_Reconcile = ControlPlane_Reconcile startedReconciler lib c\<rparr>] =
   operatorControllers lib c"
  by (simp add: operatorControllers_def controlPlaneWatches_def startedReconciler_def APISIXConfiguration_Reconcile_def
      fun_eq_iff)

lemma operatorManager_flags:
  "operatorManager lib (stringFlag fs ''metrics-bind-address'') (stringFlag fs ''health-probe-bind-address'')
     (boolFlag fs ''leader-elect'') c = (newManager (managerOptions fs))\<lparr>ms_Controllers := operatorControllers lib c,
     ms_Healthz := [''healthz''], ms_Readyz := [''readyz''], ms_Started := True\<rparr>"
  by (simp add: operatorManager_def newManager_def managerOptions_def SchemeBuilder_def
      registersAPISIXConfiguration_def registersControlPlane_def registersDataPlane_def)

context manager_api
begin

lemma wp_completed:
  assumes "view p = Some s" and "\<not> ms_Started s"
    and "\<And>p1. view p1 = Some (s\<lparr>ms_Controllers := ms_Controllers s @ [ct]\<rparr>) \<Longrightarrow> Q (Inr ()) p1"
    and "\<And>e p1 s1. view p1 = Some s1 \<Longrightarrow> \<not> ms_Started s1 \<Longrightarrow> Q (Inl e) p1"
  shows "wpA (rt_Complete rt m ct) Q p"
proof (rule wpA_mono [OF wp_Complete], goal_cases)
  case (1 r p1)
  then show ?case using assms by (cases r) auto
qed

lemma wp_registered:
  assumes p: "view p = Some (newManager opts)"
  shows "wpA (bindA (APISIXConfiguration_SetupWithManager rt m) (\<lambda>_.
       bindA (DataPlane_SetupWithManager (rt_GetClient rt m) rt m) (\<lambda>_.
       ControlPlane_SetupWithManager startedReconciler lib (rt_GetClient rt m) rt m)))
     (\<lambda>r p1. \<exists>s. view p1 = Some s \<and> \<not> ms_Started s \<and> (r = Inr () \<longrightarrow>
        s = (newManager opts)\<lparr>ms_Controllers := operatorControllers lib (rt_GetClient rt m)\<rparr>)) p"
  unfolding wp APISIXConfiguration_SetupWithManager_def DataPlane_SetupWithManager_def ControlPlane_SetupWithManager_def
    registered_controllers [symmetric]
proof (rule wp_completed [OF p], goal_cases)
  case (2 p1)
  show ?case
    unfolding sum.case
    by (rule wp_completed [OF 2], simp add: newManager_def, unfold sum.case, erule wp_completed)
      (simp_all add: newManager_def)
qed (simp_all add: newManager_def)

lemma wp_checked:
  assumes "view p = Some ((newManager (managerOptions fs))\<lparr>ms_Controllers := operatorControllers lib (rt_GetClient rt m)\<rparr>)"
  shows "wpA (bindA (rt_AddHealthzCheck rt m ''healthz'') (\<lambda>_.
       bindA (rt_AddReadyzCheck rt m ''readyz'') (\<lambda>_. rt_Start rt m)))
     (\<lambda>r p1. runsComplete rt lib fs (r = Inr ()) (view p1)) p"
  unfolding wp
proof (rule wpA_mono [OF wp_AddHealthz], goal_cases)
  case (1 r1 p1)
  show ?case
  proof (cases r1)
    case (Inr u1)
    show ?thesis
      unfolding Inr sum.case
    proof (rule wpA_mono [OF wp_AddReadyz], goal_cases)
      case (1 r2 p2)
      show ?case
      proof (cases r2)
        case (Inr u2)
        have v2: "view p2 = Some ((newManager (managerOptions fs))\<lparr>ms_Controllers := operatorControllers lib (rt_GetClient rt m),
            ms_Healthz := [''healthz''], ms_Readyz := [''readyz'']\<rparr>)"
          using 1 \<open>view p1 = _\<close> assms \<open>r1 = _\<close> Inr by (simp add: newManager_def)
        show ?thesis
          unfolding Inr sum.case
          by (rule wpA_mono [OF wp_Start])
            (use v2 in \<open>auto simp: runsComplete_def operatorManager_flags newManager_def split: sum.splits\<close>)
      qed (use 1 \<open>view p1 = _\<close> assms \<open>r1 = _\<close> in \<open>simp add: newManager_def\<close>)
    qed
  qed (use 1 assms in \<open>simp add: newManager_def\<close>)
qed

lemma wp_runManager:
  assumes "view p = None"
  shows "wpA (runManager rt lib fs) (\<lambda>r p1. runsComplete rt lib fs (r = Inr ()) (view p1)) p"
  unfolding runManager_def wpA_bindA [of "rt_GetConfig _"] wpA_bindA [of "rt_NewManager _ _"]
proof (rule wpA_mono [OF wp_GetConfig], goal_cases)
  case (1 r p1)
  then have v1: "view p1 = None" using assms by simp
  show ?case
  proof (cases r)
    case (Inr u)
    show ?thesis
      unfolding Inr sum.case
    proof (rule wpA_mono [OF wp_NewManager], goal_cases)
      case (1 r2 p2)
      show ?case
      proof (cases r2)
        case (Inr m)
        then have "view p2 = Some (newManager (managerOptions fs))" using 1 by simp
        note registered = wp_registered [OF this, of m lib]
        let ?registered = "bindA (APISIXConfiguration_SetupWithManager rt m) (\<lambda>_.
          bindA (DataPlane_SetupWithManager (rt_GetClient rt m) rt m) (\<lambda>_.
          ControlPlane_SetupWithManager startedReconciler lib (rt_GetClient rt m) rt m))"
        have "wpA (bindA ?registered (\<lambda>_. bindA (rt_AddHealthzCheck rt m ''healthz'') (\<lambda>_.
             bindA (rt_AddReadyzCheck rt m ''readyz'') (\<lambda>_. rt_Start rt m))))
           (\<lambda>r p1. runsComplete rt lib fs (r = Inr ()) (view p1)) p2"
          unfolding wpA_bindA [of ?registered]
          by (rule wpA_mono [OF registered]) (use wp_checked in \<open>auto split: sum.split\<close>)
        then show ?thesis
          unfolding Inr sum.case bindA_assoc .
      qed (use 1 v1 in simp)
    qed
  qed (use v1 in simp)
qed

lemma main_complete:
  assumes "view p = None" and "main rt lib cmd p = (exit, p1)"
  shows "case view p1 of
      None \<Rightarrow> exit \<noteq> Returned
    | Some s \<Rightarrow> if ms_Started s then \<exists>m. asAsked cmd lib (rt_GetClient rt m) s else exit \<noteq> Returned"
    and "case exit of
      Returned \<Rightarrow> True
    | Exited n \<Rightarrow> (case parseFlags cmd of
        Inl e \<Rightarrow> False
      | Inr Help \<Rightarrow> n = 0 \<and> view p1 = None
      | Inr Rejected \<Rightarrow> n = 2 \<and> view p1 = None
      | Inr (Flags fs) \<Rightarrow> n = 1)
    | Panicked e \<Rightarrow> view p1 = None \<or> isPanic e"
proof -
  have "wpA (initScheme rt) (\<lambda>r p1. view p1 = None) p"
    unfolding initScheme_def wp
    by (rule wpA_mono [OF wp_AddClientGo]) (auto split: sum.split intro!: wpA_mono [OF wp_AddToScheme] simp: assms(1))
  then obtain r q where q: "initScheme rt p = (r, q)" "view q = None"
    by (cases "initScheme rt p") (simp add: wpA_def)
  have run: "runsComplete rt lib fs (r2 = Inr ()) (view q2)" if "runManager rt lib fs q = (r2, q2)" for fs r2 q2
    by (rule wpA_E [OF wp_runManager [OF q(2)] that])
  have asked: "\<exists>m. asAsked cmd lib (rt_GetClient rt m) (operatorManager lib (stringFlag fs ''metrics-bind-address'')
      (stringFlag fs ''health-probe-bind-address'') (boolFlag fs ''leader-elect'') (rt_GetClient rt n))"
    if "parseFlags cmd = Inr (Flags fs)" for fs n
    using that parseFlags_values [OF that] by (auto simp: asAsked_def stringFlag_def boolFlag_def)
  show "case view p1 of None \<Rightarrow> exit \<noteq> Returned
    | Some s \<Rightarrow> if ms_Started s then \<exists>m. asAsked cmd lib (rt_GetClient rt m) s else exit \<noteq> Returned"
    using q assms(2) by (auto simp: main_def runsComplete_def dest!: run intro: asked
        split: sum.splits Parsed.splits prod.splits if_splits option.splits)
  show "case exit of
      Returned \<Rightarrow> True
    | Exited n \<Rightarrow> (case parseFlags cmd of
        Inl e \<Rightarrow> False
      | Inr Help \<Rightarrow> n = 0 \<and> view p1 = None
      | Inr Rejected \<Rightarrow> n = 2 \<and> view p1 = None
      | Inr (Flags fs) \<Rightarrow> n = 1)
    | Panicked e \<Rightarrow> view p1 = None \<or> isPanic e"
    using q assms(2) by (auto simp: main_def split: sum.splits Parsed.splits prod.splits if_splits)
qed

end

section \<open>A process in memory\<close>

record 'w Process =
  pr_Manager :: "'w ManagerState option"
  pr_Faults :: "go_error option list" \<comment> \<open>what the next calls answer; none fails beyond its end\<close>

definition runtimeCall :: "('w Process \<Rightarrow> 'a \<times> 'w Process) \<Rightarrow> ('a, 'w Process) action" where
  "runtimeCall f = (\<lambda>p.
     case pr_Faults p of
       Some e # rest \<Rightarrow> (Inl e, p\<lparr>pr_Faults := rest\<rparr>)
     | _ \<Rightarrow> (case f (p\<lparr>pr_Faults := tl (pr_Faults p)\<rparr>) of (x, p1) \<Rightarrow> (Inr x, p1)))"

definition onManager :: "('w ManagerState \<Rightarrow> 'w ManagerState) \<Rightarrow> (unit, 'w Process) action" where
  "onManager f = runtimeCall (\<lambda>p. ((), p\<lparr>pr_Manager := map_option f (pr_Manager p)\<rparr>))"

definition memRuntime :: "'w Client \<Rightarrow> ('w, unit, 'w Process) Runtime" where
  "memRuntime c =
     \<lparr>rt_AddClientGoToScheme = runtimeCall (\<lambda>p. ((), p)), rt_AddToScheme = (\<lambda>g v ks. runtimeCall (\<lambda>p. ((), p))),
      rt_GetConfig = runtimeCall (\<lambda>p. ((), p)),
      rt_NewManager = (\<lambda>opts. runtimeCall (\<lambda>p. ((), p\<lparr>pr_Manager := Some (newManager opts)\<rparr>))),
      rt_GetClient = (\<lambda>_. c),
      rt_Complete = (\<lambda>_ ct. onManager (\<lambda>s. s\<lparr>ms_Controllers := ms_Controllers s @ [ct]\<rparr>)),
      rt_AddHealthzCheck = (\<lambda>_ nm. onManager (\<lambda>s. s\<lparr>ms_Healthz := ms_Healthz s @ [nm]\<rparr>)),
      rt_AddReadyzCheck = (\<lambda>_ nm. onManager (\<lambda>s. s\<lparr>ms_Readyz := ms_Readyz s @ [nm]\<rparr>)),
      rt_Start = (\<lambda>_. onManager (\<lambda>s. s\<lparr>ms_Started := True\<rparr>))\<rparr>"

lemma wp_runtimeCall:
  "(\<And>e p1. pr_Manager p1 = pr_Manager p \<Longrightarrow> Q (Inl e) p1) \<Longrightarrow>
   (\<And>p1. pr_Manager p1 = pr_Manager p \<Longrightarrow> Q (Inr (fst (f p1))) (snd (f p1))) \<Longrightarrow>
   wpA (runtimeCall f) Q p"
  by (auto simp: wpA_def runtimeCall_def split: list.split option.split prod.split)
    (metis Process.select_convs(1) Process.surjective Process.update_convs(2) fst_conv snd_conv)+

interpretation mem_manager: manager_api "memRuntime c" pr_Manager
  by unfold_locales (auto simp: memRuntime_def onManager_def intro!: wp_runtimeCall)

text \<open>The same without faults.\<close>

definition faultless :: "('a, 'w Process) action \<Rightarrow> ('a, 'w Process) action" where
  "faultless m = (\<lambda>p. m (p\<lparr>pr_Faults := []\<rparr>))"

definition faultlessRuntime :: "'w Client \<Rightarrow> ('w, unit, 'w Process) Runtime" where
  "faultlessRuntime c = (let rt = memRuntime c in
     \<lparr>rt_AddClientGoToScheme = faultless (rt_AddClientGoToScheme rt),
      rt_AddToScheme = (\<lambda>g v ks. faultless (rt_AddToScheme rt g v ks)),
      rt_GetConfig = faultless (rt_GetConfig rt), rt_NewManager = (\<lambda>opts. faultless (rt_NewManager rt opts)),
      rt_GetClient = rt_GetClient rt, rt_Complete = (\<lambda>m ct. faultless (rt_Complete rt m ct)),
      rt_AddHealthzCheck = (\<lambda>m nm. faultless (rt_AddHealthzCheck rt m nm)),
      rt_AddReadyzCheck = (\<lambda>m nm. faultless (rt_AddReadyzCheck rt m nm)),
      rt_Start = (\<lambda>m. faultless (rt_Start rt m))\<rparr>)"

lemma wp_faultless:
  assumes "\<And>p. wpA m (\<lambda>r p1. P r (pr_Manager p) (pr_Manager p1)) p"
  shows "wpA (faultless m) (\<lambda>r p1. P r (pr_Manager p) (pr_Manager p1)) p"
  using assms [of "p\<lparr>pr_Faults := []\<rparr>"] by (simp add: wpA_def faultless_def)

interpretation faultless_manager: manager_api "faultlessRuntime c" pr_Manager
  unfolding manager_api_def faultlessRuntime_def Let_def Runtime.select_convs
  by (intro conjI allI wp_faultless mem_manager.manager_api_axioms [unfolded manager_api_def, rule_format])
    (use mem_manager.manager_api_axioms [unfolded manager_api_def] in blast)+

lemma faultless_succeeds: "succeeds (faultless (runtimeCall f))"
  by (auto simp: succeeds_def faultless_def runtimeCall_def split: prod.splits)

lemma faultlessRuntime_succeeds: "runtimeSucceeds (faultlessRuntime c)"
  by (simp add: runtimeSucceeds_def faultlessRuntime_def memRuntime_def onManager_def faultless_succeeds Let_def)

lemma faultlessRuntime_client: "rt_GetClient (faultlessRuntime c) m = c"
  by (simp add: faultlessRuntime_def memRuntime_def Let_def)

section \<open>What the started controllers do\<close>

text \<open>
  The manager gives each controller one worker, which makes its passes one after another, and runs
  all controllers at the same time. Seen from the controller of one kind, a run of the process is
  therefore a sequence of its passes, for any requests and clocks, each of which may be cut off;
  between them and before each of their calls there may be any number of changes by others and of
  single calls that the other controllers of the manager make in some pass of theirs, whatever
  happens meanwhile. Every interleaving is such a run for each of its controllers.

  \<open>ctls env\<close> are the controllers as they were registered with the client \<open>amid env view c\<close>, in which
  \<open>env\<close> happens before each call.
\<close>

definition callOf ::
  "(('w \<Rightarrow> 'w) \<Rightarrow> ('w \<times> Cluster list) Controller list) \<Rightarrow> ResourceKind \<Rightarrow> Cluster \<Rightarrow> Cluster \<Rightarrow> bool" where
  "callOf ctls kind u u' \<longleftrightarrow> (\<exists>env ctl clk req w r w1 h. ctl \<in> set (ctls env) \<and> For kind \<in> set (ctl_Watches ctl) \<and>
     ctl_Reconcile ctl clk req (w, []) = (r, (w1, h)) \<and> (u, u') \<in> set (calls h))"

definition besides ::
  "(('w \<Rightarrow> 'w) \<Rightarrow> ('w \<times> Cluster list) Controller list) \<Rightarrow> (Cluster \<Rightarrow> Cluster \<Rightarrow> bool) \<Rightarrow> ResourceKind
    \<Rightarrow> Cluster \<Rightarrow> Cluster \<Rightarrow> bool" where
  "besides ctls others kind =
     (\<lambda>u u'. others u u' \<or> (\<exists>other. other \<noteq> kind \<and> callOf ctls other u u'))\<^sup>*\<^sup>*"

inductive operates ::
  "(('w \<Rightarrow> 'w) \<Rightarrow> ('w \<times> Cluster list) Controller list) \<Rightarrow> ('w \<Rightarrow> Cluster) \<Rightarrow> (Cluster \<Rightarrow> Cluster \<Rightarrow> bool)
    \<Rightarrow> ResourceKind \<Rightarrow> Cluster \<Rightarrow> Cluster \<Rightarrow> bool"
  for ctls view others kind v0 where
  operates_start: "operates ctls view others kind v0 v0"
| operates_besides: "operates ctls view others kind v0 v1"
    if "operates ctls view others kind v0 v" "besides ctls others kind v v1"
| operates_pass: "operates ctls view others kind v0 v"
    if "operates ctls view others kind v0 (view w)" "\<And>u. besides ctls others kind (view u) (view (env u))"
      "ctl \<in> set (ctls env)" "For kind \<in> set (ctl_Watches ctl)"
      "ctl_Reconcile ctl clk req (w, []) = (r, (w1, h))" "v \<in> set h \<or> v = view w1"

text \<open>The controllers of the operator, by the kinds they reconcile.\<close>

lemma controller_of:
  assumes "ctl \<in> set (operatorControllers lib c)" and "For kind \<in> set (ctl_Watches ctl)"
  shows "kind = KindAPISIXConfiguration \<and> ctl_Reconcile ctl = (\<lambda>clk req. retA emptyResult) \<or>
    kind = KindDataPlane \<and> ctl_Reconcile ctl = DataPlane_Reconcile c \<or>
    kind = KindControlPlane \<and> ctl_Reconcile ctl = ControlPlane_Reconcile startedReconciler lib c"
  using assms by (auto simp: operatorControllers_def startedReconciler_def)

lemma callOf_dataplane:
  assumes "cluster_api c view" and "callOf (\<lambda>env. operatorControllers lib (amid env view c)) kind u u'"
    and "kind \<noteq> KindControlPlane"
  shows "dataPlaneCall u u'"
proof -
  obtain env ctl clk req w r w1 h where call: "ctl \<in> set (operatorControllers lib (amid env view c))"
    "For kind \<in> set (ctl_Watches ctl)" "ctl_Reconcile ctl clk req (w, []) = (r, (w1, h))" "(u, u') \<in> set (calls h)"
    using assms(2) by (auto simp: callOf_def)
  from controller_of [OF call(1,2)] show ?thesis
  proof (elim disjE)
    assume "kind = KindAPISIXConfiguration \<and> ctl_Reconcile ctl = (\<lambda>clk req. retA emptyResult)"
    then show ?thesis using call(3,4) by (auto simp: retA_def)
  next
    assume "kind = KindDataPlane \<and> ctl_Reconcile ctl = DataPlane_Reconcile (amid env view c)"
    then show ?thesis using cluster_api.DataPlane_calls [OF assms(1) _ call(4)] call(3) by simp
  qed (use assms(3) in simp)
qed

lemma besides_meanwhile:
  assumes "cluster_api c view"
    and "besides (\<lambda>env. operatorControllers lib (amid env view c)) others KindControlPlane u u'"
  shows "meanwhile others u u'"
  using assms(2) unfolding besides_def meanwhile_def
  by (rule rtranclp_mono [THEN predicate2D, rotated]) (use callOf_dataplane [OF assms(1)] in auto)

lemma operates_concurrent:
  assumes api: "cluster_api c view"
    and "operates (\<lambda>env. operatorControllers lib (amid env view c)) view others KindControlPlane v0 v"
  shows "concurrent startedReconciler lib c view others v0 v"
  using assms(2)
proof (induction rule: operates.induct)
  case (operates_pass w env ctl clk req r w1 h v)
  have "ControlPlane_Reconcile startedReconciler lib (amid env view c) clk req (w, []) = (r, (w1, h))"
    using controller_of [OF operates_pass(3,4)] operates_pass(5) by auto
  from conc_controlplane [OF operates_pass.IH besides_meanwhile [OF api operates_pass(2)] this operates_pass(6)]
  show ?case .
qed (auto intro: conc_start conc_others besides_meanwhile [OF api])

text \<open>
  \<open>main\<close> starts the manager \<open>s\<close>, on a process without one.
\<close>

definition starts ::
  "('w, 'm, 'p) Runtime \<Rightarrow> ('p \<Rightarrow> 'w ManagerState option) \<Rightarrow> ('key, 'cert, 'signer, 'v, 'c) Library \<Rightarrow> Invocation
    \<Rightarrow> 'w ManagerState \<Rightarrow> bool" where
  "starts rt processView lib cmd s \<longleftrightarrow> (\<exists>p. processView p = None \<and>
     (case main rt lib cmd p of (exit, p1) \<Rightarrow> processView p1 = Some s \<and> ms_Started s))"

section \<open>Properties\<close>

text \<open>C17. The process runs the whole operator or none of it. From a process without a manager,
  \<open>main\<close> returns only after a manager ran that has the three controllers, each with the kind it
  reconciles and the kinds that wake it, the addresses and the leader election that the command
  line gives (or their defaults), the port 9443, and both health checks; no manager without all of
  these is ever started. When the command line is rejected the process exits with status 2, when
  it asks for help with 0, and when a step after that fails with 1, unless it panics, before there is
  a manager or with the panic of a call. If no call of the runtime fails, it is the command line alone
  that decides whether \<open>main\<close> returns.\<close>

theorem main_runs_whole_operator:
  assumes "manager_api rt view" and "view p = None"
  shows "case main rt lib cmd p of (exit, p1) \<Rightarrow>
    (case view p1 of
       None \<Rightarrow> exit \<noteq> Returned
     | Some s \<Rightarrow> if ms_Started s then \<exists>m. asAsked cmd lib (rt_GetClient rt m) s else exit \<noteq> Returned) \<and>
    (case exit of
       Returned \<Rightarrow> True
     | Exited n \<Rightarrow> (case parseFlags cmd of
         Inl e \<Rightarrow> False
       | Inr Help \<Rightarrow> n = 0 \<and> view p1 = None
       | Inr Rejected \<Rightarrow> n = 2 \<and> view p1 = None
       | Inr (Flags fs) \<Rightarrow> n = 1)
     | Panicked e \<Rightarrow> view p1 = None \<or> isPanic e) \<and>
    (runtimeSucceeds rt \<longrightarrow> exit = (case parseFlags cmd of
       Inl e \<Rightarrow> Panicked e | Inr Help \<Rightarrow> Exited 0 | Inr Rejected \<Rightarrow> Exited 2 | Inr (Flags fs) \<Rightarrow> Returned))"
proof (cases "main rt lib cmd p")
  case (Pair exit p1)
  then show ?thesis
    using manager_api.main_complete [OF assms Pair] main_succeeds [of rt lib cmd p]
    by (simp only: Pair prod.case fst_conv) blast
qed

definition newProcess :: "go_error option list \<Rightarrow> 'w Process" where
  "newProcess faults = \<lparr>pr_Manager = None, pr_Faults = faults\<rparr>"

text \<open>With the arguments of the deployment manifest the manager listens where they say.\<close>

theorem main_runs_whole_operator_witness:
  "case main (faultlessRuntime memClient) exampleLibrary (exampleInvocation proxyArgs) (newProcess []) of (exit, p1) \<Rightarrow>
     exit = Returned \<and>
     pr_Manager p1 = Some (operatorManager exampleLibrary ''127.0.0.1:8080'' '':8081'' True memClient)"
proof -
  have "pr_Manager (newProcess []) = None" by (simp add: newProcess_def)
  from main_runs_whole_operator [where rt = "faultlessRuntime memClient" and lib = exampleLibrary and
      cmd = "exampleInvocation proxyArgs", OF faultless_manager.manager_api_axioms this]
  show ?thesis
    using example_proxyArgs faultlessRuntime_succeeds [of memClient]
    by (auto simp: asAsked_def faultlessRuntime_client split: option.splits if_splits prod.splits)
qed

lemma faultlessMain_starts:
  "starts (faultlessRuntime c) pr_Manager lib (exampleInvocation proxyArgs)
     (operatorManager lib ''127.0.0.1:8080'' '':8081'' True c)"
proof -
  have none: "pr_Manager (newProcess []) = None" by (simp add: newProcess_def)
  obtain exit p1 where run: "main (faultlessRuntime c) lib (exampleInvocation proxyArgs) (newProcess []) = (exit, p1)"
    by fastforce
  have "exit = Returned"
    using main_succeeds [OF faultlessRuntime_succeeds, of c lib "exampleInvocation proxyArgs" "newProcess []"]
      run example_proxyArgs by auto
  then obtain s where "pr_Manager p1 = Some s" "ms_Started s" "asAsked (exampleInvocation proxyArgs) lib c s"
    using faultless_manager.main_complete(1) [OF none run]
    by (auto simp: faultlessRuntime_client split: option.splits if_splits)
  moreover from this(3) have "s = operatorManager lib ''127.0.0.1:8080'' '':8081'' True c"
    using example_proxyArgs by (auto simp: asAsked_def)
  ultimately show ?thesis using none run unfolding starts_def by (intro exI [of _ "newProcess []"]) simp
qed

text \<open>C18. What the running process does is a run of the operator. Whatever manager \<open>main\<close> starts,
  with a client under interference: however its controllers work at the same time, on whatever
  requests, with others changing the cluster before any call and the process dying after any, what
  happens is a run of \<open>concurrent\<close> for the reconciler as it was started. So what C2 shows of all
  such runs holds of the process.\<close>

theorem started_process_refines_operator:
  assumes "cluster_api c clusterView"
    and "\<And>env. manager_api (rt env) processView"
    and "\<And>env m. rt_GetClient (rt env) m = amid env clusterView c"
    and "\<And>env. starts (rt env) processView lib cmd (s env)"
    and "operates (\<lambda>env. ms_Controllers (s env)) clusterView others KindControlPlane v0 v"
  shows "concurrent startedReconciler lib c clusterView others v0 v"
proof -
  have "ms_Controllers (s env) = operatorControllers lib (amid env clusterView c)" for env
  proof -
    obtain p where p: "processView p = None" "case main (rt env) lib cmd p of (exit, p1) \<Rightarrow>
        processView p1 = Some (s env) \<and> ms_Started (s env)"
      using assms(4) [of env] by (auto simp: starts_def)
    obtain exit p1 where run: "main (rt env) lib cmd p = (exit, p1)" by fastforce
    from manager_api.main_complete(1) [OF assms(2) p(1) run] p(2) run
    show ?thesis by (auto simp: asAsked_def assms(3) operatorManager_def)
  qed
  then show ?thesis using operates_concurrent [OF assms(1)] assms(5) by simp
qed

definition startedPass :: "(Result, Sim \<times> Cluster list) action" where
  "startedPass = ControlPlane_Reconcile startedReconciler exampleLibrary
     (amid impatientUser sim_Cluster memClient) (\<lambda>_. 9) exampleRequest"

theorem started_process_refines_operator_witness:
  "concurrent startedReconciler exampleLibrary memClient sim_Cluster deletions (sim_Cluster deletingCluster)
     (sim_Cluster (fst (snd (startedPass (deletingCluster, [])))))"
proof -
  let ?s = "\<lambda>env. operatorManager exampleLibrary ''127.0.0.1:8080'' '':8081'' True (amid env sim_Cluster memClient)"
  obtain r w1 h where run: "startedPass (deletingCluster, []) = (r, (w1, h))" by (metis prod_cases3)
  have env: "besides (\<lambda>env. ms_Controllers (?s env)) deletions KindControlPlane (sim_Cluster u) (sim_Cluster (impatientUser u))" for u
    by (auto simp: besides_def deletions_def impatientUser_def)
  have pass: "ctl_Reconcile (ms_Controllers (?s impatientUser) ! 2) (\<lambda>_. 9) exampleRequest (deletingCluster, []) = (r, (w1, h))"
    using run by (simp add: operatorManager_def operatorControllers_def startedPass_def startedReconciler_def)
  have "operates (\<lambda>env. ms_Controllers (?s env)) sim_Cluster deletions KindControlPlane
      (sim_Cluster deletingCluster) (sim_Cluster w1)"
    by (rule operates_pass [where view = sim_Cluster and w = deletingCluster, OF operates_start env _ _ pass])
      (simp_all add: operatorManager_def operatorControllers_def)
  from started_process_refines_operator [OF mem.cluster_api_axioms faultless_manager.manager_api_axioms _ faultlessMain_starts this]
  show ?thesis by (simp add: run faultlessRuntime_client)
qed

text \<open>C19. The process has no certificate authority. \<open>main\<close> does not tell the reconciler the
  name of the CA secret, so it asks for a secret without a name. When no stored secret has an
  empty name and the control plane owns no labelled certificate, ensuring the certificate ends in an
  error and changes nothing, whatever the cryptography does.\<close>

theorem started_reconciler_has_no_certificates:
  assumes "owned_kind (cl_Secrets c) SecretObj view st_Secrets put sec_Type status"
    and "list_all (\<lambda>s. om_Name (sec_Meta s) \<noteq> '''') (st_Secrets (view w))"
    and "ownerSecrets (OwnerControlPlane cp) (view w) = []"
    and "ControlPlane_ensureCertificate startedReconciler cy now c cp w = (r, w1)"
  shows "(\<exists>e. r = Inl e) \<and> view w1 = view w"
proof -
  note api = owned_kind.axioms(1) [OF assms(1)]
  have none: "lookupKey SecretObj ('''', '''') (st_Secrets (view w)) = None"
    using assms(2) by (auto simp: lookupKey_def keyOf_def find_None_iff list_all_iff)
  have create: "wpA (createCertificateSecret cy now owner subject '''' '''' usages c g)
      (\<lambda>r w2. (\<exists>e. r = Inl e) \<and> view w2 = view w) w0" if "view w0 = view w" for owner subject usages g w0
    unfolding createCertificateSecret_def wp
    by (auto split: sum.split intro!: api_kind.wp_Get [OF api] simp: none that)
  have "wpA (ControlPlane_ensureCertificate startedReconciler cy now c cp)
      (\<lambda>r w1. (\<exists>e. r = Inl e) \<and> view w1 = view w) w"
    unfolding ControlPlane_ensureCertificate_def maybeCreate_as_pattern ensureOwned_def listOwned_def wp
  proof (rule api_kind.wp_List [OF api], goal_cases)
    case (1 w1)
    then show ?case
      using assms(3) create by (simp add: wp startedReconciler_def ownerSecrets_def ownedObjects_def)
  qed simp
  from wpA_E [OF this assms(4)] show ?thesis .
qed

theorem started_reconciler_has_no_certificates_witness:
  "\<exists>e. fst (ControlPlane_ensureCertificate startedReconciler exampleCrypto 0 memClient
     (exampleControlPlane None) caCluster) = Inl e"
proof -
  obtain r w1 where run: "ControlPlane_ensureCertificate startedReconciler exampleCrypto 0 memClient
      (exampleControlPlane None) caCluster = (r, w1)" by fastforce
  have "list_all (\<lambda>s. om_Name (sec_Meta s) \<noteq> '''') (st_Secrets (sim_Cluster caCluster))"
    by (simp add: caCluster_def quiet_def caSecret_def)
  moreover have "ownerSecrets (OwnerControlPlane (exampleControlPlane None)) (sim_Cluster caCluster) = []"
    by (rule caCluster_facts) (simp add: GatewayOperatorControlledLabel_def)
  ultimately show ?thesis
    using started_reconciler_has_no_certificates [where c = memClient and view = sim_Cluster,
        unfolded memClient_sel, OF own_sec.owned_kind_axioms _ _ run] run
    by simp
qed

end
