(* ===== verification/Telemetry.thy ===== *)
theory Telemetry
  imports Prelude
begin

text \<open>
  \<open>CreateManager\<close> of \<open>internal/telemetry/telemetry.go\<close>: the chain of constructors of the
  telemetry library, each with its error wrapped. The library is the record \<open>TelemetryLibrary\<close>
  over handles \<open>'h\<close>; the locale \<open>telemetry_api\<close> states what it promises of a manager in terms of a
  view of the world as the manager's workflows and consumers, and \<open>memTelemetry\<close> is one in memory.
  Nothing in the repository calls \<open>CreateManager\<close>.
\<close>

section \<open>Operations\<close>

record ('h, 'p) TelemetryLibrary =
  tlm_NewManager :: "string \<Rightarrow> int \<Rightarrow> ('h, 'p) action" \<comment> \<open>signal, period\<close>
  tlm_NewForConfig :: "('h, 'p) action" \<comment> \<open>client-go\<close>
  tlm_NewIdentifyPlatformWorkflow :: "'h \<Rightarrow> ('h, 'p) action"
  tlm_DynamicNewForConfig :: "('h, 'p) action"
  tlm_NewClient :: "('h, 'p) action" \<comment> \<open>controller-runtime\<close>
  tlm_NewClusterStateWorkflow :: "'h \<Rightarrow> 'h \<Rightarrow> ('h, 'p) action"
  tlm_NewStateWorkflow :: "('h, 'p) action"
  tlm_NewFixedValueProvider :: "string \<Rightarrow> 'h \<Rightarrow> ('h, 'p) action" \<comment> \<open>name, payload\<close>
  tlm_AddProvider :: "'h \<Rightarrow> 'h \<Rightarrow> (unit, 'p) action"
  tlm_AddWorkflow :: "'h \<Rightarrow> 'h \<Rightarrow> (unit, 'p) action"
  tlm_NewTLSForwarder :: "string \<Rightarrow> ('h, 'p) action"
  tlm_NewConsumer :: "'h \<Rightarrow> 'h" \<comment> \<open>with the semicolon delimited serializer\<close>
  tlm_AddConsumer :: "'h \<Rightarrow> 'h \<Rightarrow> (unit, 'p) action"

definition splunkEndpoint :: string where "splunkEndpoint = ''kong-hf.konghq.com:61833''"
definition telemetryPeriod :: int where "telemetryPeriod = 3600000000000" \<comment> \<open>an hour\<close>
definition SignalStart :: string where "SignalStart = ''gateway-operator-start''"
definition SignalPing :: string where "SignalPing = ''gateway-operator-ping''"

text \<open>\<open>if err != nil { return nil, fmt.Errorf("...: %w", err) }\<close>\<close>

definition wrapErr :: "string \<Rightarrow> ('a, 'p) action \<Rightarrow> ('a, 'p) action" where
  "wrapErr msg m = bindA (attemptA m) (\<lambda>r.
     case r of Inl err \<Rightarrow> failA (Errorf (msg @ '': '' @ ErrorText err)) | Inr x \<Rightarrow> retA x)"

definition addIdentifyWorkflow :: "('h, 'p) TelemetryLibrary \<Rightarrow> 'h \<Rightarrow> (unit, 'p) action" where
  "addIdentifyWorkflow lib m =
     bindA (wrapErr ''failed to create client-go kubernetes client'' (tlm_NewForConfig lib)) (\<lambda>cl.
     bindA (wrapErr ''failed to create identify platform workflow'' (tlm_NewIdentifyPlatformWorkflow lib cl)) (\<lambda>w.
     tlm_AddWorkflow lib m w))"

definition addClusterStateWorkflow :: "('h, 'p) TelemetryLibrary \<Rightarrow> 'h \<Rightarrow> (unit, 'p) action" where
  "addClusterStateWorkflow lib m =
     bindA (wrapErr ''failed to create dynamic kubernetes client'' (tlm_DynamicNewForConfig lib)) (\<lambda>dyn.
     bindA (wrapErr (''failed to create controller-runtime'' @ [CHR 0x27] @ ''s client'') (tlm_NewClient lib)) (\<lambda>cl.
     bindA (wrapErr ''failed to create cluster state workflow'' (tlm_NewClusterStateWorkflow lib dyn cl)) (\<lambda>w.
     tlm_AddWorkflow lib m w)))"

definition addStateWorkflow :: "('h, 'p) TelemetryLibrary \<Rightarrow> 'h \<Rightarrow> 'h \<Rightarrow> (unit, 'p) action" where
  "addStateWorkflow lib m payload =
     bindA (wrapErr ''failed to create state workflow'' (tlm_NewStateWorkflow lib)) (\<lambda>w.
     bindA (wrapErr ''failed to create fixed value provider''
       (tlm_NewFixedValueProvider lib ''payload'' payload)) (\<lambda>p.
     bindA (tlm_AddProvider lib w p) (\<lambda>_.
     tlm_AddWorkflow lib m w)))"

definition CreateManager :: "('h, 'p) TelemetryLibrary \<Rightarrow> string \<Rightarrow> 'h \<Rightarrow> ('h, 'p) action" where
  "CreateManager lib signal payload =
     bindA (wrapErr ''failed to create telemetry manager'' (tlm_NewManager lib SignalPing telemetryPeriod)) (\<lambda>m.
     bindA (addIdentifyWorkflow lib m) (\<lambda>_.
     bindA (addClusterStateWorkflow lib m) (\<lambda>_.
     bindA (addStateWorkflow lib m payload) (\<lambda>_.
     bindA (wrapErr ''failed to create telemetry TLSForwarder'' (tlm_NewTLSForwarder lib splunkEndpoint)) (\<lambda>tf.
     bindA (wrapErr ''failed to add TLSforwarder'' (tlm_AddConsumer lib m (tlm_NewConsumer lib tf))) (\<lambda>_.
     retA m))))))"

section \<open>The contract of the library\<close>

text \<open>
  What the manager has been given: its signal and period, and in order the workflows and
  consumers added to it. The constructors of other things do not touch it, and a call that
  fails has done nothing.
\<close>

record 'h TelemetryState =
  ts_Signal :: string
  ts_Period :: int
  ts_Workflows :: "'h list"
  ts_Consumers :: "'h list"

locale telemetry_api =
  fixes lib :: "('h, 'p) TelemetryLibrary" and view :: "'p \<Rightarrow> 'h TelemetryState option"
  assumes wp_NewManager: "wpA (tlm_NewManager lib sig period) (\<lambda>r p1. case r of
        Inl e \<Rightarrow> view p1 = view p
      | Inr m \<Rightarrow> view p1 = Some \<lparr>ts_Signal = sig, ts_Period = period, ts_Workflows = [], ts_Consumers = []\<rparr>) p"
    and wp_constructors:
      "wpA (tlm_NewForConfig lib) (\<lambda>r p1. view p1 = view p) p"
      "wpA (tlm_NewIdentifyPlatformWorkflow lib h) (\<lambda>r p1. view p1 = view p) p"
      "wpA (tlm_DynamicNewForConfig lib) (\<lambda>r p1. view p1 = view p) p"
      "wpA (tlm_NewClient lib) (\<lambda>r p1. view p1 = view p) p"
      "wpA (tlm_NewClusterStateWorkflow lib h h') (\<lambda>r p1. view p1 = view p) p"
      "wpA (tlm_NewStateWorkflow lib) (\<lambda>r p1. view p1 = view p) p"
      "wpA (tlm_NewFixedValueProvider lib nm h) (\<lambda>r p1. view p1 = view p) p"
      "wpA (tlm_NewTLSForwarder lib nm) (\<lambda>r p1. view p1 = view p) p"
    and wp_AddProvider: "wpA (tlm_AddProvider lib h h') (\<lambda>r p1. r = Inr () \<and> view p1 = view p) p"
    and wp_AddWorkflow: "wpA (tlm_AddWorkflow lib m w) (\<lambda>r p1. r = Inr () \<and>
        view p1 = map_option (\<lambda>s. s\<lparr>ts_Workflows := ts_Workflows s @ [w]\<rparr>) (view p)) p"
    and wp_AddConsumer: "wpA (tlm_AddConsumer lib m k) (\<lambda>r p1. case r of
        Inl e \<Rightarrow> view p1 = view p
      | Inr _ \<Rightarrow> view p1 = map_option (\<lambda>s. s\<lparr>ts_Consumers := ts_Consumers s @ [k]\<rparr>) (view p)) p"
begin

text \<open>\<open>n\<close> workflows and \<open>k\<close> consumers are there, or the error says what failed.\<close>

definition stage :: "nat \<Rightarrow> nat \<Rightarrow> go_error + 'a \<Rightarrow> 'p \<Rightarrow> bool" where
  "stage n k r p \<longleftrightarrow> (case r of
     Inl e \<Rightarrow> isPanic e \<or> HasPrefix (ErrorText e) ''failed to ''
   | Inr _ \<Rightarrow> (\<exists>ws ks. length ws = n \<and> length ks = k \<and> view p = Some \<lparr>ts_Signal = SignalPing,
       ts_Period = telemetryPeriod, ts_Workflows = ws, ts_Consumers = ks\<rparr>))"

lemma wp_wrapErr:
  assumes "wpA m (\<lambda>r p1. case r of Inl e \<Rightarrow> True | Inr x \<Rightarrow> wpA (k x) (stage i j) p1) p"
    and "HasPrefix msg ''failed to ''"
  shows "wpA (bindA (wrapErr msg m) k) (stage i j) p"
proof -
  obtain rest where "msg = ''failed to '' @ rest" using assms(2) by (metis HasPrefix_iff)
  then have err: "stage i j (Inl (Errorf (msg @ t))) p1" for t p1
    unfolding stage_def by (simp add: HasPrefix_iff)
  show ?thesis
    unfolding wrapErr_def wp
    by (rule wpA_mono [OF assms(1)])
      (use err in \<open>auto simp: wp stage_def [of _ _ "Inl _"] split: sum.splits\<close>)
qed

lemma wp_construct:
  assumes "wpA m (\<lambda>r p1. view p1 = view p) p" and "HasPrefix msg ''failed to ''"
    and "\<And>x p1. view p1 = view p \<Longrightarrow> wpA (k x) (stage i j) p1"
  shows "wpA (bindA (wrapErr msg m) k) (stage i j) p"
  by (rule wp_wrapErr [OF wpA_mono [OF assms(1)] assms(2)]) (auto intro: assms(3) split: sum.split)

lemma wp_seq:
  assumes "wpA m (stage i j) p" and "\<And>x p1. stage i j (Inr x) p1 \<Longrightarrow> wpA (f x) (stage i' j') p1"
  shows "wpA (bindA m f) (stage i' j') p"
  unfolding wp by (rule wpA_mono [OF assms(1)]) (auto intro: assms(2) simp: stage_def split: sum.splits)

lemma stage_view: "stage i j (Inr x) p \<Longrightarrow> view p1 = view p \<Longrightarrow> stage i j (Inr y) p1"
  by (simp add: stage_def)

lemma wp_workflow: "stage i j (Inr x) p \<Longrightarrow> wpA (tlm_AddWorkflow lib m w) (stage (Suc i) j) p"
  by (rule wpA_mono [OF wp_AddWorkflow]) (auto simp: stage_def)

lemma wp_addIdentify: "stage i j (Inr x) p \<Longrightarrow> wpA (addIdentifyWorkflow lib m) (stage (Suc i) j) p"
  unfolding addIdentifyWorkflow_def
  by (rule wp_construct [OF wp_constructors(1)], simp, rule wp_construct [OF wp_constructors(2)], simp,
      rule wp_workflow) (rule stage_view, assumption, simp)

lemma wp_addClusterState: "stage i j (Inr x) p \<Longrightarrow> wpA (addClusterStateWorkflow lib m) (stage (Suc i) j) p"
  unfolding addClusterStateWorkflow_def
  by (rule wp_construct [OF wp_constructors(3)], simp, rule wp_construct [OF wp_constructors(4)], simp,
      rule wp_construct [OF wp_constructors(5)], simp, rule wp_workflow) (rule stage_view, assumption, simp)

lemma wp_addState:
  assumes "stage i j (Inr x) p"
  shows "wpA (addStateWorkflow lib m payload) (stage (Suc i) j) p"
  unfolding addStateWorkflow_def
proof (rule wp_construct [OF wp_constructors(6)], simp, rule wp_construct [OF wp_constructors(7)], simp)
  fix w pr p1 p2
  assume "view p1 = view p" "view p2 = view p1"
  then have "stage i j (Inr ()) p2" using stage_view [OF assms] by simp
  then show "wpA (bindA (tlm_AddProvider lib w pr) (\<lambda>_. tlm_AddWorkflow lib m w)) (stage (Suc i) j) p2"
    unfolding wp by (intro wpA_mono [OF wp_AddProvider]) (auto intro: wp_workflow stage_view)
qed

lemma wp_CreateManager: "wpA (CreateManager lib signal payload) (stage 3 1) p"
  unfolding CreateManager_def
proof (rule wp_wrapErr, rule wpA_mono [OF wp_NewManager], goal_cases)
  case (1 r p1)
  show ?case
  proof (cases r)
    case (Inr m)
    then have s: "stage 0 0 (Inr ()) p1" using 1 by (simp add: stage_def)
    show ?thesis
      unfolding Inr sum.case
    proof (rule wp_seq [OF wp_addIdentify [OF s]], rule wp_seq [OF wp_addClusterState], assumption,
        rule wp_seq [OF wp_addState], assumption, rule wp_construct [OF wp_constructors(8)], simp,
        rule wp_wrapErr, rule wpA_mono [OF wp_AddConsumer], goal_cases)
      case (1 u1 p2 u2 p3 u3 p4 tf p5 r p6)
      then show ?case by (auto simp: wp stage_def numeral_eq_Suc split: sum.splits)
    qed simp
  qed simp
qed simp

end

section \<open>A telemetry library in memory\<close>

text \<open>Handles are the names of what was made; calls fail on a schedule.\<close>

record TelemetrySim =
  tsim_Manager :: "string TelemetryState option"
  tsim_Faults :: "go_error option list"

definition makes :: "string \<Rightarrow> (TelemetrySim \<Rightarrow> TelemetrySim) \<Rightarrow> (string, TelemetrySim) action" where
  "makes nm f = (\<lambda>p. case tsim_Faults p of
     Some e # rest \<Rightarrow> (Inl e, p\<lparr>tsim_Faults := rest\<rparr>)
   | _ \<Rightarrow> (Inr nm, f (p\<lparr>tsim_Faults := tl (tsim_Faults p)\<rparr>)))"

definition changes :: "(string TelemetryState \<Rightarrow> string TelemetryState) \<Rightarrow> TelemetrySim \<Rightarrow> TelemetrySim" where
  "changes f p = p\<lparr>tsim_Manager := map_option f (tsim_Manager p)\<rparr>"

definition memTelemetry :: "(string, TelemetrySim) TelemetryLibrary" where
  "memTelemetry =
     \<lparr>tlm_NewManager = (\<lambda>sig period. makes ''manager'' (\<lambda>p. p\<lparr>tsim_Manager := Some \<lparr>ts_Signal = sig,
        ts_Period = period, ts_Workflows = [], ts_Consumers = []\<rparr>\<rparr>)),
      tlm_NewForConfig = makes ''clientset'' id,
      tlm_NewIdentifyPlatformWorkflow = (\<lambda>cl. makes ''identify-platform'' id),
      tlm_DynamicNewForConfig = makes ''dynamic'' id, tlm_NewClient = makes ''client'' id,
      tlm_NewClusterStateWorkflow = (\<lambda>dyn cl. makes ''cluster-state'' id),
      tlm_NewStateWorkflow = makes ''state'' id,
      tlm_NewFixedValueProvider = (\<lambda>nm payload. makes nm id),
      tlm_AddProvider = (\<lambda>w pr p. (Inr (), p)),
      tlm_AddWorkflow = (\<lambda>m w p. (Inr (), changes (\<lambda>s. s\<lparr>ts_Workflows := ts_Workflows s @ [w]\<rparr>) p)),
      tlm_NewTLSForwarder = (\<lambda>nm. makes nm id), tlm_NewConsumer = (\<lambda>tf. ''consumer '' @ tf),
      tlm_AddConsumer = (\<lambda>m k. bindA (makes k (changes (\<lambda>s. s\<lparr>ts_Consumers := ts_Consumers s @ [k]\<rparr>)))
        (\<lambda>_. retA ()))\<rparr>"

lemma wp_makes:
  "(\<And>e p1. tsim_Manager p1 = tsim_Manager p \<Longrightarrow> Q (Inl e) p1) \<Longrightarrow>
   (\<And>p1. tsim_Manager p1 = tsim_Manager p \<Longrightarrow> Q (Inr nm) (f p1)) \<Longrightarrow> wpA (makes nm f) Q p"
  by (auto simp: wpA_def makes_def split: list.split option.split)

interpretation mem_telemetry: telemetry_api memTelemetry tsim_Manager
  by unfold_locales
    (auto simp: memTelemetry_def changes_def wpA_bindA wpA_retA wpA_def [of "\<lambda>p. (Inr (), _ p)"] intro!: wp_makes)

text \<open>The signal that the caller asks for is not looked at.\<close>

lemma CreateManager_ignores_signal: "CreateManager lib SignalStart payload = CreateManager lib SignalPing payload"
  by (simp add: CreateManager_def)

text \<open>A telemetry manager is complete or the error says what failed. Whatever the caller
  asks for, a manager that is returned was made for the ping signal with a period of an hour and has
  three workflows and one consumer; an error is a panic or begins with what could not be done.\<close>

lemma CreateManager_correct:
  assumes "telemetry_api lib view"
  shows "case CreateManager lib signal payload p of (r, p1) \<Rightarrow>
    (case r of
       Inl e \<Rightarrow> isPanic e \<or> HasPrefix (ErrorText e) ''failed to ''
     | Inr _ \<Rightarrow> (\<exists>ws ks. length ws = 3 \<and> length ks = 1 \<and> view p1 = Some \<lparr>ts_Signal = SignalPing,
         ts_Period = telemetryPeriod, ts_Workflows = ws, ts_Consumers = ks\<rparr>))"
  using telemetry_api.wp_CreateManager [OF assms, of signal payload p]
  by (auto simp: wpA_def telemetry_api.stage_def [OF assms] split: prod.splits sum.splits)

end
