(* ===== verification/Logging.thy ===== *)
theory Logging
  imports Watch
begin

text \<open>
  What the controllers log (\<open>controllers/utils.go\<close>, \<open>internal/manager/logging/levels.go\<close>): the level
  of a message, and the object it is about. \<open>logr\<close> is not code of the repository; of its sinks it is
  used that one of verbosity \<open>v\<close> shows the messages of a level up to \<open>v\<close>, so that a higher level is
  a less important one, and that the logger \<open>main\<close> sets up, in development mode, has verbosity 1
  unless a flag says otherwise. The calls are left out of the models of the passes.
\<close>

section \<open>Operations\<close>

definition TraceLevel :: nat where "TraceLevel = 0"
definition DebugLevel :: nat where "DebugLevel = 1"
definition WarnLevel :: nat where "WarnLevel = 2"
definition ErrorLevel :: nat where "ErrorLevel = 3"
definition InfoLevel :: nat where "InfoLevel = 4"

record LogLine =
  ll_Level :: nat
  ll_Msg :: string
  ll_KeysAndValues :: "(string \<times> string) list"

record Sink =
  sk_Verbosity :: nat
  sk_Lines :: "LogLine list"

text \<open>\<open>log.V(level).Info(msg, kvs...)\<close>\<close>

definition logAt :: "nat \<Rightarrow> string \<Rightarrow> (string \<times> string) list \<Rightarrow> Sink \<Rightarrow> Sink" where
  "logAt level msg kvs sink =
     (if level \<le> sk_Verbosity sink
      then sink\<lparr>sk_Lines := sk_Lines sink @ [\<lparr>ll_Level = level, ll_Msg = msg, ll_KeysAndValues = kvs\<rparr>]\<rparr>
      else sink)"

text \<open>The type switch on \<open>rawOBJ\<close>; of another type its name is printed.\<close>

datatype LogObject =
    LogClientObject ObjectMeta
  | LogRequest Request
  | LogOther string

fun logObject :: "nat \<Rightarrow> string \<Rightarrow> string \<Rightarrow> LogObject \<Rightarrow> (string \<times> string) list \<Rightarrow> Sink \<Rightarrow> Sink" where
  "logObject level what msg (LogClientObject obj) keysAndValues =
     logAt level msg ([(''namespace'', om_Namespace obj), (''name'', om_Name obj)] @ keysAndValues)"
| "logObject level what msg (LogRequest req) keysAndValues =
     logAt level msg ([(''namespace'', rq_Namespace req), (''name'', rq_Name req)] @ keysAndValues)"
| "logObject level what msg (LogOther ty) keysAndValues =
     logAt level (''unexpected type processed for '' @ what @ '' logging: '' @ ty @ '', this is a bug!'') []"

definition info :: "string \<Rightarrow> LogObject \<Rightarrow> (string \<times> string) list \<Rightarrow> Sink \<Rightarrow> Sink" where
  "info = logObject InfoLevel ''info''"

definition debug :: "string \<Rightarrow> LogObject \<Rightarrow> (string \<times> string) list \<Rightarrow> Sink \<Rightarrow> Sink" where
  "debug = logObject DebugLevel ''debug''"

text \<open>The logger that cfssl is given: all its severities end in the same call.\<close>

datatype Severity = SevDebug | SevInfo | SevWarning | SevErr | SevCrit | SevEmerg

fun loggerShim :: "Severity \<Rightarrow> string \<Rightarrow> Sink \<Rightarrow> Sink" where
  "loggerShim SevDebug msg = logAt InfoLevel msg []"
| "loggerShim SevInfo msg = logAt InfoLevel msg []"
| "loggerShim SevWarning msg = logAt InfoLevel msg []"
| "loggerShim SevErr msg = logAt InfoLevel msg []"
| "loggerShim SevCrit msg = logAt InfoLevel msg []"
| "loggerShim SevEmerg msg = logAt InfoLevel msg []"

text \<open>\<open>sync.Once\<close>: the first logger stays.\<close>

definition setCALogger :: "'l \<Rightarrow> 'l option \<Rightarrow> 'l option" where
  "setCALogger logger caLogger = (case caLogger of None \<Rightarrow> Some logger | Some l \<Rightarrow> Some l)"

section \<open>Lemmas\<close>

lemma setCALogger_once: "setCALogger l2 (setCALogger l1 caLogger) = setCALogger l1 caLogger"
  by (simp add: setCALogger_def split: option.split)

lemma loggerShim_level: "loggerShim sev msg = logAt InfoLevel msg []"
  by (cases sev) simp_all

lemma length_logAt:
  "length (sk_Lines (logAt level msg kvs sink)) =
   (if level \<le> sk_Verbosity sink then Suc (length (sk_Lines sink)) else length (sk_Lines sink))"
  by (simp add: logAt_def)

lemma length_logObject:
  "length (sk_Lines (logObject level what msg obj kvs sink)) =
   (if level \<le> sk_Verbosity sink then Suc (length (sk_Lines sink)) else length (sk_Lines sink))"
  by (cases obj) (simp_all add: length_logAt)

text \<open>
  The levels are upside down: a sink that shows what is logged with \<open>info\<close> shows what is logged with
  \<open>debug\<close>, and at the verbosity of development mode there is a line for every call of \<open>debug\<close> and
  none for any call of \<open>info\<close>, nor for any message of the certificate library, emergencies included.
\<close>

theorem info_is_below_debug:
  "length (sk_Lines (info msg obj kvs sink)) \<le> length (sk_Lines (debug msg obj kvs sink))"
  by (simp add: info_def debug_def length_logObject InfoLevel_def DebugLevel_def)

theorem development_logger_drops_info:
  assumes "sk_Verbosity sink = 1"
  shows "length (sk_Lines (debug msg obj kvs sink)) = Suc (length (sk_Lines sink)) \<and>
    sk_Lines (info msg obj kvs sink) = sk_Lines sink \<and> loggerShim sev msg sink = sink"
  using assms
  by (cases obj) (simp_all add: debug_def info_def loggerShim_level logAt_def InfoLevel_def DebugLevel_def)

end
