(* ===== verification/Memory.thy ===== *)
theory Memory
  imports Prelude "HOL-Library.Monad_Syntax"
begin

text \<open>
  Go's memory as far as copying is concerned, for code whose point is which variables are shared.
  A heap is a list of blocks, each an array of variables of one type; a pointer is a variable of a
  block and a slice a window of one. \<open>new\<close> and \<open>make\<close> append a block. Operations are partial:
  \<open>None\<close> is a dangling pointer or one of the wrong type, which a Go program cannot have.

  The locale \<open>deep_copy\<close> is the contract of a deep copier in terms of a reader, which gives the
  value a variable stands for, with all pointers followed, and the blocks it was read from. It is
  proved once for pointers, slices and the fields of a struct; the copiers of the program are
  interpretations built from these.
\<close>

section \<open>Blocks, pointers and slices\<close>

text \<open>How blocks \<open>'b\<close> hold variables of type \<open>'t\<close>, and the zero value of the type.\<close>

record ('t, 'b) kind =
  kd_Block :: "'t list \<Rightarrow> 'b"
  kd_Vars :: "'b \<Rightarrow> 't list option"
  kd_Zero :: 't

type_synonym pointer = "(nat \<times> nat) option" \<comment> \<open>block, index\<close>

record window =
  wn_Block :: nat
  wn_Offset :: nat
  wn_Len :: nat

type_synonym span = "window option"

definition load :: "('t, 'b) kind \<Rightarrow> 'b list \<Rightarrow> nat \<Rightarrow> nat \<Rightarrow> 't option" where
  "load K h a i =
     (if a < length h then do {
        xs \<leftarrow> kd_Vars K (h ! a);
        if i < length xs then Some (xs ! i) else None
      } else None)"

definition store :: "('t, 'b) kind \<Rightarrow> 'b list \<Rightarrow> nat \<Rightarrow> nat \<Rightarrow> 't \<Rightarrow> 'b list option" where
  "store K h a i x =
     (if a < length h then do {
        xs \<leftarrow> kd_Vars K (h ! a);
        if i < length xs then Some (h[a := kd_Block K (xs[i := x])]) else None
      } else None)"

text \<open>\<open>make\<close>; \<open>new\<close> is \<open>make\<close> of one variable.\<close>

definition make :: "('t, 'b) kind \<Rightarrow> nat \<Rightarrow> 'b list \<Rightarrow> nat \<times> 'b list" where
  "make K n h = (length h, h @ [kd_Block K (replicate n (kd_Zero K))])"

section \<open>Copying\<close>

text \<open>A copier takes the variable to copy and a heap, and gives the new contents and heap.\<close>

type_synonym ('t, 'b) copier = "'t \<Rightarrow> 'b list \<Rightarrow> ('t \<times> 'b list) option"

text \<open>\<open>*out = *in\<close>\<close>

definition assign :: "('t, 'b) copier" where
  "assign x h = Some (x, h)"

text \<open>\<open>for i := range *in { (*in)[i].DeepCopyInto(&(*out)[i]) }\<close>\<close>

fun copyElems ::
  "('t, 'b) kind \<Rightarrow> ('t, 'b) copier \<Rightarrow> nat \<Rightarrow> nat \<Rightarrow> nat \<Rightarrow> nat list \<Rightarrow> 'b list \<Rightarrow> 'b list option" where
  "copyElems K cp a off b [] h = Some h"
| "copyElems K cp a off b (i # is) h = do {
     x \<leftarrow> load K h a (off + i);
     (y, h1) \<leftarrow> cp x h;
     h2 \<leftarrow> store K h1 b i y;
     copyElems K cp a off b is h2
   }"

text \<open>
  \<open>if in.X != nil { *out = new(T); (*in).DeepCopyInto(*out) }\<close>, which is also what every
  \<open>DeepCopy\<close> does with its receiver.
\<close>

definition copyPointer :: "('t, 'b) kind \<Rightarrow> ('t, 'b) copier \<Rightarrow> (pointer, 'b) copier" where
  "copyPointer K cp p h =
     (case p of
        None \<Rightarrow> Some (None, h)
      | Some (a, i) \<Rightarrow>
          (let (b, h1) = make K 1 h
           in do {
             x \<leftarrow> load K h1 a i;
             (y, h2) \<leftarrow> cp x h1;
             h3 \<leftarrow> store K h2 b 0 y;
             Some (Some (b, 0), h3)
           }))"

text \<open>\<open>if in.X != nil { *out = make([]T, len(*in)); for i := range *in { ... } }\<close>\<close>

definition copySlice :: "('t, 'b) kind \<Rightarrow> ('t, 'b) copier \<Rightarrow> (span, 'b) copier" where
  "copySlice K cp s h =
     (case s of
        None \<Rightarrow> Some (None, h)
      | Some w \<Rightarrow>
          (let (b, h1) = make K (wn_Len w) h
           in do {
             h2 \<leftarrow> copyElems K cp (wn_Block w) (wn_Offset w) b [0..<wn_Len w] h1;
             Some (Some \<lparr>wn_Block = b, wn_Offset = 0, wn_Len = wn_Len w\<rparr>, h2)
           }))"

section \<open>Values\<close>

text \<open>A reader gives the value of a variable and the blocks that were read.\<close>

type_synonym ('t, 'b, 'v) reader = "'b list \<Rightarrow> 't \<Rightarrow> ('v \<times> nat set) option"

definition readPlain :: "('t, 'b, 't) reader" where
  "readPlain h x = Some (x, {})"

definition readPointer :: "('t, 'b) kind \<Rightarrow> ('t, 'b, 'v) reader \<Rightarrow> (pointer, 'b, 'v option) reader" where
  "readPointer K rd h p =
     (case p of
        None \<Rightarrow> Some (None, {})
      | Some (a, i) \<Rightarrow> do {
          x \<leftarrow> load K h a i;
          (v, F) \<leftarrow> rd h x;
          Some (Some v, insert a F)
        })"

fun readElems :: "('t, 'b) kind \<Rightarrow> ('t, 'b, 'v) reader \<Rightarrow> 'b list \<Rightarrow> nat \<Rightarrow> nat list \<Rightarrow> ('v list \<times> nat set) option" where
  "readElems K rd h a [] = Some ([], {})"
| "readElems K rd h a (i # is) = do {
     x \<leftarrow> load K h a i;
     (v, F) \<leftarrow> rd h x;
     (vs, G) \<leftarrow> readElems K rd h a is;
     Some (v # vs, F \<union> G)
   }"

definition readSlice :: "('t, 'b) kind \<Rightarrow> ('t, 'b, 'v) reader \<Rightarrow> (span, 'b, 'v slice) reader" where
  "readSlice K rd h s =
     (case s of
        None \<Rightarrow> Some (None, {})
      | Some w \<Rightarrow>
          if wn_Block w < length h then do {
            (vs, F) \<leftarrow> readElems K rd h (wn_Block w) [wn_Offset w..<wn_Offset w + wn_Len w];
            Some (Some vs, insert (wn_Block w) F)
          } else None)"

section \<open>The contract\<close>

text \<open>The blocks of \<open>h\<close> are as they were in \<open>h1\<close>.\<close>

definition extends :: "'b list \<Rightarrow> 'b list \<Rightarrow> bool" where
  "extends h h1 \<longleftrightarrow> take (length h) h1 = h"

lemma extends_refl [simp]: "extends h h"
  by (simp add: extends_def)

lemma extends_length: "extends h h1 \<Longrightarrow> length h \<le> length h1"
  unfolding extends_def by (metis length_take min.cobounded1)

lemma extends_nth: "extends h h1 \<Longrightarrow> a < length h \<Longrightarrow> h1 ! a = h ! a"
  unfolding extends_def by (metis nth_take)

lemma extendsI: "length h \<le> length h1 \<Longrightarrow> (\<And>a. a < length h \<Longrightarrow> h1 ! a = h ! a) \<Longrightarrow> extends h h1"
  unfolding extends_def by (rule nth_equalityI) simp_all

lemma extends_trans: "extends h h1 \<Longrightarrow> extends h1 h2 \<Longrightarrow> extends h h2"
  using extends_length [of h h1] extends_length [of h1 h2] extends_nth [of h h1] extends_nth [of h1 h2]
  by (intro extendsI) force+

definition agree :: "nat set \<Rightarrow> 'b list \<Rightarrow> 'b list \<Rightarrow> bool" where
  "agree F h h1 \<longleftrightarrow> (\<forall>a\<in>F. a < length h1 \<and> h1 ! a = h ! a)"

lemma agree_subset: "agree F h h1 \<Longrightarrow> G \<subseteq> F \<Longrightarrow> agree G h h1"
  by (auto simp: agree_def)

lemma agree_union [simp]: "agree (F \<union> G) h h1 \<longleftrightarrow> agree F h h1 \<and> agree G h h1"
  by (auto simp: agree_def)

lemma agree_extends: "extends h h1 \<Longrightarrow> F \<subseteq> {..<length h} \<Longrightarrow> agree F h h1"
  using extends_length extends_nth by (fastforce simp: agree_def)

text \<open>
  What a deep copier promises: a variable that has a value is copied, what was there before is
  as it was, and the copy has the same value, read from new blocks only. Of the reader, that it
  reads blocks of the heap and that the value depends on these alone.
\<close>

locale deep_copy =
  fixes rd :: "('t, 'b, 'v) reader" and cp :: "('t, 'b) copier"
  assumes reads_in: "rd h x = Some (v, F) \<Longrightarrow> F \<subseteq> {..<length h}"
    and reads_local: "rd h x = Some (v, F) \<Longrightarrow> agree F h h1 \<Longrightarrow> rd h1 x = Some (v, F)"
    and copies: "rd h x = Some (v, F) \<Longrightarrow>
      \<exists>y h1 G. cp x h = Some (y, h1) \<and> extends h h1 \<and> rd h1 y = Some (v, G) \<and> G \<subseteq> {length h..}"
begin

lemma reads_extends: "rd h x = Some (v, F) \<Longrightarrow> extends h h1 \<Longrightarrow> rd h1 x = Some (v, F)"
  using reads_local agree_extends reads_in by blast

text \<open>The copy shares no block with the original, and neither sees what happens to the other.\<close>

lemma copy_independent:
  assumes "rd h x = Some (v, F)" and "cp x h = Some (y, h1)"
  obtains G where "rd h1 x = Some (v, F)" "rd h1 y = Some (v, G)" "F \<inter> G = {}"
    "\<And>h2. agree G h1 h2 \<Longrightarrow> rd h2 y = Some (v, G)" "\<And>h2. agree F h1 h2 \<Longrightarrow> rd h2 x = Some (v, F)"
proof -
  obtain G where G: "extends h h1" "rd h1 y = Some (v, G)" "G \<subseteq> {length h..}"
    using copies [OF assms(1)] assms(2) by auto
  have x: "rd h1 x = Some (v, F)" by (rule reads_extends [OF assms(1) G(1)])
  show ?thesis
    using reads_in [OF assms(1)] G(3) reads_local [OF G(2)] reads_local [OF x]
    by (intro that [of G] x G(2)) (fastforce+)
qed

end

section \<open>Plain values\<close>

interpretation plain: deep_copy readPlain assign
  by unfold_locales (auto simp: readPlain_def assign_def)

section \<open>Structs\<close>

text \<open>The fields of a struct one after the other.\<close>

definition readBoth :: "('t, 'b, 'v) reader \<Rightarrow> ('u, 'b, 'w) reader \<Rightarrow> ('t \<times> 'u, 'b, 'v \<times> 'w) reader" where
  "readBoth r1 r2 h xy = do {
     (v, F) \<leftarrow> r1 h (fst xy);
     (w, G) \<leftarrow> r2 h (snd xy);
     Some ((v, w), F \<union> G)
   }"

definition copyBoth :: "('t, 'b) copier \<Rightarrow> ('u, 'b) copier \<Rightarrow> ('t \<times> 'u, 'b) copier" where
  "copyBoth c1 c2 xy h = do {
     (x, h1) \<leftarrow> c1 (fst xy) h;
     (y, h2) \<leftarrow> c2 (snd xy) h1;
     Some ((x, y), h2)
   }"

lemma readBoth_iff:
  "readBoth r1 r2 h (x, y) = Some (p, H) \<longleftrightarrow>
   (\<exists>v F w G. r1 h x = Some (v, F) \<and> r2 h y = Some (w, G) \<and> p = (v, w) \<and> H = F \<union> G)"
  by (auto simp: readBoth_def bind_eq_Some_conv)

lemma deep_both:
  assumes d1: "deep_copy r1 c1" and d2: "deep_copy r2 c2"
  shows "deep_copy (readBoth r1 r2) (copyBoth c1 c2)"
proof
  fix h xy p H
  assume rd: "readBoth r1 r2 h xy = Some (p, H)"
  obtain x y where xy: "xy = (x, y)" by fastforce
  obtain v F w G where r: "r1 h x = Some (v, F)" "r2 h y = Some (w, G)" "p = (v, w)" "H = F \<union> G"
    using rd unfolding xy readBoth_iff by blast
  show "H \<subseteq> {..<length h}"
    using deep_copy.reads_in [OF d1 r(1)] deep_copy.reads_in [OF d2 r(2)] r(4) by simp
  show "readBoth r1 r2 h1 xy = Some (p, H)" if "agree H h h1" for h1
    using deep_copy.reads_local [OF d1 r(1)] deep_copy.reads_local [OF d2 r(2)] that r(3,4)
    by (auto simp: xy readBoth_iff)
  obtain x' h1 F' where 1: "c1 x h = Some (x', h1)" "extends h h1" "r1 h1 x' = Some (v, F')" "F' \<subseteq> {length h..}"
    using deep_copy.copies [OF d1 r(1)] by blast
  obtain y' h2 G' where 2: "c2 y h1 = Some (y', h2)" "extends h1 h2" "r2 h2 y' = Some (w, G')" "G' \<subseteq> {length h1..}"
    using deep_copy.copies [OF d2 deep_copy.reads_extends [OF d2 r(2) 1(2)]] by blast
  have "readBoth r1 r2 h2 (x', y') = Some (p, F' \<union> G')"
    using deep_copy.reads_extends [OF d1 1(3) 2(2)] 2(3) r(3) by (auto simp: readBoth_iff)
  moreover have "F' \<union> G' \<subseteq> {length h..}" using 1(4) 2(4) extends_length [OF 1(2)] by auto
  ultimately show "\<exists>q h2 H'. copyBoth c1 c2 xy h = Some (q, h2) \<and> extends h h2 \<and>
      readBoth r1 r2 h2 q = Some (p, H') \<and> H' \<subseteq> {length h..}"
    using 1(1) 2(1) extends_trans [OF 1(2) 2(2)] by (auto simp: copyBoth_def xy)
qed

text \<open>A struct is the tuple of its fields: \<open>parts\<close> takes it apart and \<open>build\<close> builds it, on values \<open>mk\<close>.\<close>

definition readAs :: "('t \<Rightarrow> 'u) \<Rightarrow> ('v \<Rightarrow> 'w) \<Rightarrow> ('u, 'b, 'v) reader \<Rightarrow> ('t, 'b, 'w) reader" where
  "readAs parts mk rd h x = do {
     (v, F) \<leftarrow> rd h (parts x);
     Some (mk v, F)
   }"

lemma deep_as:
  assumes d: "deep_copy rd cp" and "\<And>t. parts (build t) = t"
    and cp: "\<And>x h. cp' x h = do {(y, h1) \<leftarrow> cp (parts x) h; Some (build y, h1)}"
  shows "deep_copy (readAs parts mk rd) cp'"
proof
  fix h x v F
  assume "readAs parts mk rd h x = Some (v, F)"
  then obtain u where u: "rd h (parts x) = Some (u, F)" "v = mk u"
    by (auto simp: readAs_def bind_eq_Some_conv)
  show "F \<subseteq> {..<length h}" by (rule deep_copy.reads_in [OF d u(1)])
  show "readAs parts mk rd h1 x = Some (v, F)" if "agree F h h1" for h1
    using deep_copy.reads_local [OF d u(1) that] u(2) by (simp add: readAs_def)
  obtain y h1 G where "cp (parts x) h = Some (y, h1)" "extends h h1" "rd h1 y = Some (u, G)" "G \<subseteq> {length h..}"
    using deep_copy.copies [OF d u(1)] by blast
  then show "\<exists>y h1 G. cp' x h = Some (y, h1) \<and> extends h h1 \<and> readAs parts mk rd h1 y = Some (v, G) \<and> G \<subseteq> {length h..}"
    using u(2) by (auto simp: cp readAs_def assms(2))
qed

section \<open>Arrays, slices and pointers\<close>

text \<open>What is stored in a block is found there, and what is found was stored.\<close>

locale block_kind =
  fixes K :: "('t, 'b) kind"
  assumes vars_block [simp]: "kd_Vars K (kd_Block K xs) = Some xs"
begin

lemma load_cong: "a < length h \<Longrightarrow> a < length h1 \<Longrightarrow> h1 ! a = h ! a \<Longrightarrow> load K h1 a i = load K h a i"
  by (simp add: load_def)

lemma store_block:
  assumes "b < length h" and "h ! b = kd_Block K ys" and "i < length ys"
  shows "store K h b i y = Some (h[b := kd_Block K (ys[i := y])])"
  using assms by (simp add: store_def)

text \<open>
  A step of the loop over an array: \<open>n\<close> is the end of the old heap and the block that is filled.
  The heap grows, no other block changes, and the variable stored has the value of the one it
  is a copy of.
\<close>

definition fills :: "nat \<Rightarrow> 'b list \<Rightarrow> 'b list \<Rightarrow> bool" where
  "fills n h h1 \<longleftrightarrow> length h \<le> length h1 \<and> (\<forall>c < length h. c \<noteq> n \<longrightarrow> h1 ! c = h ! c)"

lemma fills_refl [simp]: "fills n h h"
  by (simp add: fills_def)

lemma fills_trans: "fills n h h1 \<Longrightarrow> fills n h1 h2 \<Longrightarrow> fills n h h2"
  by (auto simp: fills_def)

lemma fills_agree: "fills n h h1 \<Longrightarrow> F \<subseteq> {..<length h} \<Longrightarrow> n \<notin> F \<Longrightarrow> agree F h h1"
  by (fastforce simp: fills_def agree_def)

lemma copyElem:
  assumes d: "deep_copy rd cp" and h: "n < length h" "h ! n = kd_Block K ys" and x: "rd h x = Some (v, F)"
    and i: "i < length ys"
  obtains y h1 h2 G where "cp x h = Some (y, h1)" "store K h1 n i y = Some h2" "fills n h h2"
    "n < length h2" "h2 ! n = kd_Block K (ys[i := y])" "rd h2 y = Some (v, G)" "G \<subseteq> {Suc n..<length h2}"
proof -
  obtain y h1 G where y: "cp x h = Some (y, h1)" "extends h h1" "rd h1 y = Some (v, G)" "G \<subseteq> {length h..}"
    using deep_copy.copies [OF d x] by blast
  have n1: "n < length h1" "h1 ! n = kd_Block K ys"
    using h extends_length [OF y(2)] extends_nth [OF y(2)] by auto
  let ?h2 = "h1[n := kd_Block K (ys[i := y])]"
  have "fills n h ?h2" using extends_nth [OF y(2)] extends_length [OF y(2)] by (simp add: fills_def)
  moreover have G: "G \<subseteq> {Suc n..<length h1}"
    using deep_copy.reads_in [OF d y(3)] y(4) h(1) by fastforce
  then have "agree G h1 ?h2" by (fastforce simp: agree_def)
  then have "rd ?h2 y = Some (v, G)" by (rule deep_copy.reads_local [OF d y(3)])
  ultimately show ?thesis
    using n1 G store_block [OF n1 i] by (intro that [OF y(1), of ?h2 G]) simp_all
qed

lemma copyElems_copies:
  assumes d: "deep_copy rd cp" and "n < length h" and "h ! n = kd_Block K ys" and "a < n" and "distinct is"
    and "\<And>i. i \<in> set is \<Longrightarrow> i < length ys \<and>
      (\<exists>x F. load K h a (off + i) = Some x \<and> rd h x = Some (val i, F) \<and> F \<subseteq> {..<n})"
  shows "\<exists>h1 ys1. copyElems K cp a off n is h = Some h1 \<and> fills n h h1 \<and>
    n < length h1 \<and> h1 ! n = kd_Block K ys1 \<and> length ys1 = length ys \<and> (\<forall>j. j \<notin> set is \<longrightarrow> ys1 ! j = ys ! j) \<and>
    (\<forall>i \<in> set is. \<exists>G. rd h1 (ys1 ! i) = Some (val i, G) \<and> G \<subseteq> {Suc n..})"
  using assms(2-6)
proof (induction "is" arbitrary: h ys)
  case (Cons i "is")
  obtain x F where x: "i < length ys" "load K h a (off + i) = Some x" "rd h x = Some (val i, F)"
    using Cons.prems(5) [of i] by auto
  obtain y h1 h2 G where y: "cp x h = Some (y, h1)" "store K h1 n i y = Some h2" "fills n h h2"
    "n < length h2" "h2 ! n = kd_Block K (ys[i := y])" "rd h2 y = Some (val i, G)" "G \<subseteq> {Suc n..<length h2}"
    by (rule copyElem [OF d Cons.prems(1,2) x(3,1)])
  have "j < length (ys[i := y]) \<and>
      (\<exists>x F. load K h2 a (off + j) = Some x \<and> rd h2 x = Some (val j, F) \<and> F \<subseteq> {..<n})" if "j \<in> set is" for j
  proof -
    obtain z H where z: "load K h a (off + j) = Some z" "rd h z = Some (val j, H)" "H \<subseteq> {..<n}" "j < length ys"
      using Cons.prems(5) [of j] \<open>j \<in> set is\<close> by auto
    have "agree H h h2" using z(3) Cons.prems(1) by (intro fills_agree [OF y(3)]) auto
    moreover have "load K h2 a (off + j) = load K h a (off + j)"
      using Cons.prems(1,3) y(3,4) by (intro load_cong) (auto simp: fills_def)
    ultimately show ?thesis using z deep_copy.reads_local [OF d z(2)] by auto
  qed
  from Cons.IH [OF y(4,5) Cons.prems(3) _ this] Cons.prems(4)
  obtain h3 ys1 where 3: "copyElems K cp a off n is h2 = Some h3" "fills n h2 h3" "n < length h3"
    "h3 ! n = kd_Block K ys1" "length ys1 = length ys" "\<And>j. j \<notin> set is \<Longrightarrow> ys1 ! j = ys[i := y] ! j"
    "\<And>i. i \<in> set is \<Longrightarrow> \<exists>G. rd h3 (ys1 ! i) = Some (val i, G) \<and> G \<subseteq> {Suc n..}"
    by auto
  have "agree G h2 h3" using y(7) by (intro fills_agree [OF 3(2)]) auto
  then have "rd h3 (ys1 ! i) = Some (val i, G)"
    using deep_copy.reads_local [OF d y(6)] 3(6) [of i] Cons.prems(4) x(1) by simp
  with 3 y fills_trans [OF y(3) 3(2)] Cons.prems(4) show ?case
    using x(2) by (intro exI [of _ h3] exI [of _ ys1]) auto
qed auto

lemma readElems_Some:
  assumes "readElems K rd h a is = Some (vs, F)"
  shows "length vs = length is \<and> (\<forall>j < length is. \<exists>x G. load K h a (is ! j) = Some x \<and>
    rd h x = Some (vs ! j, G) \<and> G \<subseteq> F)"
  using assms
proof (induction "is" arbitrary: vs F)
  case (Cons i "is")
  then obtain x v G ws H where *: "load K h a i = Some x" "rd h x = Some (v, G)"
    "readElems K rd h a is = Some (ws, H)" "vs = v # ws" "F = G \<union> H"
    by (auto simp: bind_eq_Some_conv)
  show ?case
    using Cons.IH [OF *(3)] * by (fastforce simp: less_Suc_eq_0_disj)
qed simp

lemma readElems_intro:
  assumes "length vs = length is" and "\<And>j. j < length is \<Longrightarrow>
    \<exists>x G. load K h a (is ! j) = Some x \<and> rd h x = Some (vs ! j, G) \<and> G \<subseteq> S"
  shows "\<exists>F. readElems K rd h a is = Some (vs, F) \<and> F \<subseteq> S"
  using assms
proof (induction "is" arbitrary: vs)
  case (Cons i "is")
  then obtain v ws where vs: "vs = v # ws" "length ws = length is" by (cases vs) auto
  have "\<exists>F. readElems K rd h a is = Some (ws, F) \<and> F \<subseteq> S"
    using Cons.IH [OF vs(2)] Cons.prems(2) [of "Suc _"] vs(1) by auto
  moreover obtain x G where "load K h a i = Some x" "rd h x = Some (v, G)" "G \<subseteq> S"
    using Cons.prems(2) [of 0] vs(1) by auto
  ultimately show ?case using vs(1) by auto
qed simp

lemma readElems_local:
  assumes "deep_copy rd cp" and "readElems K rd h a is = Some (vs, F)"
    and "a < length h" "a < length h1" "h1 ! a = h ! a" and "agree F h h1"
  shows "readElems K rd h1 a is = Some (vs, F)"
  using assms(2,6)
proof (induction "is" arbitrary: vs F)
  case (Cons i "is")
  then obtain x v G ws H where "load K h a i = Some x" "rd h x = Some (v, G)"
    "readElems K rd h a is = Some (ws, H)" "vs = v # ws" "F = G \<union> H"
    by (auto simp: bind_eq_Some_conv)
  then show ?case
    using Cons.IH [of ws H] Cons.prems(2) deep_copy.reads_local [OF assms(1), of h x v G h1] load_cong [OF assms(3-5)]
    by simp
qed simp

lemma readElems_in:
  assumes "deep_copy rd cp" and "readElems K rd h a is = Some (vs, F)"
  shows "F \<subseteq> {..<length h}"
  using assms(2)
proof (induction "is" arbitrary: vs F)
  case (Cons i "is")
  then obtain x v G ws H where "rd h x = Some (v, G)" "readElems K rd h a is = Some (ws, H)" "F = G \<union> H"
    by (auto simp: bind_eq_Some_conv)
  then show ?case using Cons.IH deep_copy.reads_in [OF assms(1)] by auto
qed simp

lemma load_block: "b < length h \<Longrightarrow> h ! b = kd_Block K ys \<Longrightarrow> i < length ys \<Longrightarrow> load K h b i = Some (ys ! i)"
  by (simp add: load_def)

text \<open>An array of \<open>n\<close> variables is copied to a new block.\<close>

lemma copy_array:
  assumes d: "deep_copy rd cp" and a: "a < length h"
    and rd: "readElems K rd h a [off..<off + n] = Some (vs, F)"
  shows "\<exists>h2 G. copyElems K cp a off (length h) [0..<n] (snd (make K n h)) = Some h2 \<and> extends h h2 \<and>
    length h < length h2 \<and> readElems K rd h2 (length h) [0..<n] = Some (vs, G) \<and> G \<subseteq> {length h..}"
proof -
  let ?h1 = "snd (make K n h)" and ?ys = "replicate n (kd_Zero K)"
  have ext: "extends h ?h1" by (simp add: make_def extends_def)
  note el = readElems_Some [OF rd] readElems_in [OF d rd]
  have "i < length ?ys \<and> (\<exists>x G. load K ?h1 a (off + i) = Some x \<and> rd ?h1 x = Some (vs ! i, G) \<and> G \<subseteq> {..<length h})"
    if "i \<in> set [0..<n]" for i
  proof -
    obtain x G where x: "load K h a (off + i) = Some x" "rd h x = Some (vs ! i, G)" "G \<subseteq> {..<length h}"
      using el \<open>i \<in> set [0..<n]\<close> by fastforce
    moreover have "load K ?h1 a (off + i) = load K h a (off + i)"
      using a by (intro load_cong) (simp_all add: make_def nth_append)
    ultimately show ?thesis
      using deep_copy.reads_extends [OF d x(2) ext] \<open>i \<in> set [0..<n]\<close> by auto
  qed
  from copyElems_copies [of rd cp "length h" ?h1 ?ys a "[0..<n]" off "\<lambda>i. vs ! i", OF d _ _ a _ this]
  obtain h2 ys where h2: "copyElems K cp a off (length h) [0..<n] ?h1 = Some h2" "fills (length h) ?h1 h2"
    "length h < length h2" "h2 ! length h = kd_Block K ys" "length ys = n"
    "\<And>i. i < n \<Longrightarrow> \<exists>G. rd h2 (ys ! i) = Some (vs ! i, G) \<and> G \<subseteq> {Suc (length h)..}"
    by (auto simp: make_def)
  have "extends h h2"
    using h2(2,3) by (intro extendsI) (auto simp: fills_def make_def nth_append)
  moreover obtain G where G: "readElems K rd h2 (length h) [0..<n] = Some (vs, G)" "G \<subseteq> {Suc (length h)..}"
  proof -
    have "length vs = length [0..<n]" using el(1) by simp
    moreover have "\<exists>x G. load K h2 (length h) ([0..<n] ! j) = Some x \<and> rd h2 x = Some (vs ! j, G) \<and>
        G \<subseteq> {Suc (length h)..}" if "j < length [0..<n]" for j
      using h2(6) [of j] load_block [OF h2(3,4), of j] h2(5) that by auto
    ultimately have "\<exists>F. readElems K rd h2 (length h) [0..<n] = Some (vs, F) \<and> F \<subseteq> {Suc (length h)..}"
      by (rule readElems_intro)
    then show ?thesis using that by blast
  qed
  moreover have "G \<subseteq> {length h..}" using G(2) by fastforce
  ultimately show ?thesis using h2(1,3) G(1) by (intro exI [of _ h2] exI [of _ G]) simp
qed

lemma deep_slice:
  assumes d: "deep_copy rd cp"
  shows "deep_copy (readSlice K rd) (copySlice K cp)"
proof
  fix h s v F
  assume rd: "readSlice K rd h s = Some (v, F)"
  have cases: "s = None \<and> v = None \<and> F = {} \<or> (\<exists>w vs G. s = Some w \<and> v = Some vs \<and> wn_Block w < length h \<and>
      readElems K rd h (wn_Block w) [wn_Offset w..<wn_Offset w + wn_Len w] = Some (vs, G) \<and> F = insert (wn_Block w) G)"
    using rd by (auto simp: readSlice_def bind_eq_Some_conv split: option.splits if_splits)
  then show "F \<subseteq> {..<length h}" using readElems_in [OF d] by blast
  show "readSlice K rd h1 s = Some (v, F)" if "agree F h h1" for h1
    using cases
  proof (elim disjE exE conjE)
    fix w vs G
    assume w: "s = Some w" "v = Some vs" "wn_Block w < length h" "F = insert (wn_Block w) G"
      "readElems K rd h (wn_Block w) [wn_Offset w..<wn_Offset w + wn_Len w] = Some (vs, G)"
    then have "wn_Block w < length h1" "h1 ! wn_Block w = h ! wn_Block w" "agree G h h1"
      using that by (auto simp: agree_def)
    then show ?thesis
      using readElems_local [OF d w(5,3)] w by (simp add: readSlice_def)
  qed (simp add: readSlice_def)
  show "\<exists>y h1 G. copySlice K cp s h = Some (y, h1) \<and> extends h h1 \<and> readSlice K rd h1 y = Some (v, G) \<and> G \<subseteq> {length h..}"
  proof (cases s)
    case (Some w)
    then obtain vs F0 where r: "wn_Block w < length h" "v = Some vs"
      "readElems K rd h (wn_Block w) [wn_Offset w..<wn_Offset w + wn_Len w] = Some (vs, F0)"
      using rd by (auto simp: readSlice_def bind_eq_Some_conv split: if_splits)
    from copy_array [OF d r(1,3)] obtain h2 G where "copyElems K cp (wn_Block w) (wn_Offset w) (length h) [0..<wn_Len w]
        (snd (make K (wn_Len w) h)) = Some h2" "extends h h2" "length h < length h2"
        "readElems K rd h2 (length h) [0..<wn_Len w] = Some (vs, G)" "G \<subseteq> {length h..}"
      by blast
    then show ?thesis
      using r(2) by (auto simp: Some copySlice_def readSlice_def make_def Let_def)
  qed (use rd in \<open>auto simp: readSlice_def copySlice_def\<close>)
qed

lemma copyPointer_array:
  "copyPointer K cp (Some (a, i)) h =
   map_option (\<lambda>h2. (Some (length h, 0), h2)) (copyElems K cp a i (length h) [0] (snd (make K 1 h)))"
  by (auto simp: copyPointer_def make_def Let_def split: bind_splits)

lemma readPointer_array:
  "readPointer K rd h (Some (a, i)) =
   map_option (\<lambda>(vs, F). (Some (vs ! 0), insert a F)) (readElems K rd h a [i..<i + 1])"
  by (auto simp: readPointer_def split: bind_splits)

lemma deep_pointer:
  assumes d: "deep_copy rd cp"
  shows "deep_copy (readPointer K rd) (copyPointer K cp)"
proof
  fix h p v F
  assume rd: "readPointer K rd h p = Some (v, F)"
  have block: "a < length h" if "load K h a i = Some x" for a i x
    using that by (simp add: load_def split: if_splits)
  show "F \<subseteq> {..<length h}"
    using rd deep_copy.reads_in [OF d]
    by (auto simp: readPointer_def bind_eq_Some_conv split: option.splits dest!: block) blast
  show "readPointer K rd h1 p = Some (v, F)" if agr: "agree F h h1" for h1
  proof (cases p)
    case (Some ai)
    then obtain a i x u G where *: "ai = (a, i)" "load K h a i = Some x" "rd h x = Some (u, G)" "v = Some u"
      "F = insert a G"
      using rd by (cases ai) (auto simp: readPointer_def bind_eq_Some_conv)
    moreover have "load K h1 a i = load K h a i"
      using agr block [OF *(2)] *(5) by (intro load_cong) (simp_all add: agree_def)
    ultimately show ?thesis
      using deep_copy.reads_local [OF d *(3)] agr by (simp add: Some readPointer_def agree_def)
  qed (use rd in \<open>simp add: readPointer_def\<close>)
  show "\<exists>y h1 G. copyPointer K cp p h = Some (y, h1) \<and> extends h h1 \<and> readPointer K rd h1 y = Some (v, G) \<and> G \<subseteq> {length h..}"
  proof (cases p)
    case (Some ai)
    obtain a i where ai: "ai = (a, i)" by fastforce
    then obtain vs F0 where r: "v = Some (vs ! 0)" "readElems K rd h a [i..<i + 1] = Some (vs, F0)"
      using rd unfolding Some ai readPointer_array by fastforce
    moreover have "a < length h"
      using r(2) block by (auto simp: bind_eq_Some_conv)
    ultimately obtain h2 G where "copyElems K cp a i (length h) [0] (snd (make K 1 h)) = Some h2"
        "extends h h2" "readElems K rd h2 (length h) [0] = Some (vs, G)" "length h < length h2" "G \<subseteq> {length h..}"
      using copy_array [OF d, of a h i 1 vs F0] by auto
    then show ?thesis
      using r(1) by (auto simp: Some ai copyPointer_array readPointer_array simp del: readElems.simps)
  qed (use rd in \<open>auto simp: readPointer_def copyPointer_def\<close>)
qed

end

end
