(* ===== verification/DeepCopy.thy ===== *)
theory DeepCopy
  imports KubeTypes Memory
begin

text \<open>
  The generated deep copies of the custom resources (\<open>apis/v1alpha1/zz_generated.deepcopy.go\<close>) on
  the memory of theory \<open>Memory\<close>. The structs are those of the types files as they lie in memory:
  their records have the pointers, slices and library structs as parameters, so that the same
  record with the values in the place of the pointers is what a variable stands for.

  \<open>ObjectMeta\<close>, \<open>ListMeta\<close>, \<open>EnvVar\<close>, \<open>EnvFromSource\<close> and \<open>Condition\<close> with their own \<open>DeepCopyInto\<close>
  are code of the Kubernetes libraries: their variables are of an arbitrary type \<open>'a\<close>, their copiers the
  fields of \<open>DeepLibrary\<close>, and the locale \<open>deep_library\<close> states that they are deep copiers. Proved here:
  so are all copiers of the program; what \<open>DeepCopyObject\<close> answers has the same value and shares nothing.
\<close>

section \<open>The structs in memory\<close>

text \<open>\<open>'p\<close>: pointers to strings; \<open>'s\<close>: slices of library structs; \<open>'a\<close>: library structs.\<close>

record ('p, 's) DeploymentOptionsM =
  do_ContainerImage :: 'p
  do_Version :: 'p
  do_Env :: 's
  do_EnvFrom :: 's

record ('p, 's) ControlPlaneDeploymentOptionsM =
  cdo_DeploymentOptions :: "('p, 's) DeploymentOptionsM"
  cdo_DataPlane :: 'p

record ('p, 's) ControlPlaneSpecM =
  csp_ControlPlaneDeploymentOptions :: "('p, 's) ControlPlaneDeploymentOptionsM"
  csp_GatewayClass :: 'p
  csp_IngressClass :: 'p

record 's ControlPlaneStatusM =
  cst_Conditions :: 's

record ('p, 's, 'a) ControlPlaneM =
  cpm_TypeMeta :: GVK
  cpm_ObjectMeta :: 'a
  cpm_Spec :: "('p, 's) ControlPlaneSpecM"
  cpm_Status :: "'s ControlPlaneStatusM"

record ('p, 's) DataPlaneDeploymentOptionsM =
  ddo_DeploymentOptions :: "('p, 's) DeploymentOptionsM"

record ('p, 's) DataPlaneSpecM =
  dsp_DataPlaneDeploymentOptions :: "('p, 's) DataPlaneDeploymentOptionsM"

record 's DataPlaneStatusM =
  dst_Conditions :: 's
  dst_Service :: string

record ('p, 's, 'a) DataPlaneM =
  dpm_TypeMeta :: GVK
  dpm_ObjectMeta :: 'a
  dpm_Spec :: "('p, 's) DataPlaneSpecM"
  dpm_Status :: "'s DataPlaneStatusM"

text \<open>\<open>'d\<close>, \<open>'k\<close>: pointers to the options of data planes and of control planes.\<close>

record ('d, 'k) APISIXConfigurationSpecM =
  asp_DataPlaneDeploymentOptions :: 'd
  asp_ControlPlaneDeploymentOptions :: 'k

record 's APISIXConfigurationStatusM =
  ast_Conditions :: 's

record ('d, 'k, 's, 'a) APISIXConfigurationM =
  acm_TypeMeta :: GVK
  acm_ObjectMeta :: 'a
  acm_Spec :: "('d, 'k) APISIXConfigurationSpecM"
  acm_Status :: "'s APISIXConfigurationStatusM"

text \<open>\<open>ControlPlaneList\<close>, \<open>DataPlaneList\<close> and \<open>APISIXConfigurationList\<close>; \<open>'i\<close>: their slices of items.\<close>

record ('a, 'i) ListM =
  lst_TypeMeta :: GVK
  lst_ListMeta :: 'a
  lst_Items :: 'i

section \<open>The blocks of the heap\<close>

datatype 'a block =
    Strings "string list"
  | LibStructs "'a list"
  | DeploymentOptionsArray "((pointer, span) DeploymentOptionsM) list"
  | DataPlaneDeploymentOptionsArray "((pointer, span) DataPlaneDeploymentOptionsM) list"
  | DataPlaneSpecs "((pointer, span) DataPlaneSpecM) list"
  | DataPlaneStatuses "(span DataPlaneStatusM) list"
  | DataPlanes "((pointer, span, 'a) DataPlaneM) list"
  | DataPlaneLists "(('a, span) ListM) list"
  | ControlPlaneDeploymentOptionsArray "((pointer, span) ControlPlaneDeploymentOptionsM) list"
  | ControlPlaneSpecs "((pointer, span) ControlPlaneSpecM) list"
  | ControlPlaneStatuses "(span ControlPlaneStatusM) list"
  | ControlPlanes "((pointer, span, 'a) ControlPlaneM) list"
  | ControlPlaneLists "(('a, span) ListM) list"
  | APISIXConfigurationSpecs "((pointer, pointer) APISIXConfigurationSpecM) list"
  | APISIXConfigurationStatuses "(span APISIXConfigurationStatusM) list"
  | APISIXConfigurations "((pointer, pointer, span, 'a) APISIXConfigurationM) list"
  | APISIXConfigurationLists "(('a, span) ListM) list"

record 'a DeepLibrary =
  dl_Zero :: 'a
  dl_ObjectMeta :: "('a, 'a block) copier"
  dl_ListMeta :: "('a, 'a block) copier"
  dl_EnvVar :: "('a, 'a block) copier"
  dl_EnvFromSource :: "('a, 'a block) copier"
  dl_Condition :: "('a, 'a block) copier"

text \<open>The zero values of the structs.\<close>

definition zeroDeploymentOptions :: "(pointer, span) DeploymentOptionsM" where
  "zeroDeploymentOptions = \<lparr>do_ContainerImage = None, do_Version = None,
     do_Env = None, do_EnvFrom = None\<rparr>"
definition zeroDataPlaneDeploymentOptions :: "(pointer, span) DataPlaneDeploymentOptionsM" where
  "zeroDataPlaneDeploymentOptions = \<lparr>ddo_DeploymentOptions = zeroDeploymentOptions\<rparr>"
definition zeroDataPlaneSpec :: "(pointer, span) DataPlaneSpecM" where
  "zeroDataPlaneSpec = \<lparr>dsp_DataPlaneDeploymentOptions = zeroDataPlaneDeploymentOptions\<rparr>"
definition zeroDataPlaneStatus :: "span DataPlaneStatusM" where
  "zeroDataPlaneStatus = \<lparr>dst_Conditions = None, dst_Service = ''''\<rparr>"
definition zeroDataPlane :: "'a DeepLibrary \<Rightarrow> (pointer, span, 'a) DataPlaneM" where
  "zeroDataPlane lib = \<lparr>dpm_TypeMeta = typed '''' '''' '''', dpm_ObjectMeta = dl_Zero lib,
     dpm_Spec = zeroDataPlaneSpec, dpm_Status = zeroDataPlaneStatus\<rparr>"
definition zeroDataPlaneList :: "'a DeepLibrary \<Rightarrow> ('a, span) ListM" where
  "zeroDataPlaneList lib = \<lparr>lst_TypeMeta = typed '''' '''' '''', lst_ListMeta = dl_Zero lib,
     lst_Items = None\<rparr>"
definition zeroControlPlaneDeploymentOptions :: "(pointer, span) ControlPlaneDeploymentOptionsM" where
  "zeroControlPlaneDeploymentOptions = \<lparr>cdo_DeploymentOptions = zeroDeploymentOptions, cdo_DataPlane = None\<rparr>"
definition zeroControlPlaneSpec :: "(pointer, span) ControlPlaneSpecM" where
  "zeroControlPlaneSpec = \<lparr>csp_ControlPlaneDeploymentOptions = zeroControlPlaneDeploymentOptions, csp_GatewayClass = None,
     csp_IngressClass = None\<rparr>"
definition zeroControlPlaneStatus :: "span ControlPlaneStatusM" where
  "zeroControlPlaneStatus = \<lparr>cst_Conditions = None\<rparr>"
definition zeroControlPlane :: "'a DeepLibrary \<Rightarrow> (pointer, span, 'a) ControlPlaneM" where
  "zeroControlPlane lib = \<lparr>cpm_TypeMeta = typed '''' '''' '''', cpm_ObjectMeta = dl_Zero lib,
     cpm_Spec = zeroControlPlaneSpec, cpm_Status = zeroControlPlaneStatus\<rparr>"
definition zeroControlPlaneList :: "'a DeepLibrary \<Rightarrow> ('a, span) ListM" where
  "zeroControlPlaneList lib = \<lparr>lst_TypeMeta = typed '''' '''' '''', lst_ListMeta = dl_Zero lib,
     lst_Items = None\<rparr>"
definition zeroAPISIXConfigurationSpec :: "(pointer, pointer) APISIXConfigurationSpecM" where
  "zeroAPISIXConfigurationSpec = \<lparr>asp_DataPlaneDeploymentOptions = None,
     asp_ControlPlaneDeploymentOptions = None\<rparr>"
definition zeroAPISIXConfigurationStatus :: "span APISIXConfigurationStatusM" where
  "zeroAPISIXConfigurationStatus = \<lparr>ast_Conditions = None\<rparr>"
definition zeroAPISIXConfiguration :: "'a DeepLibrary \<Rightarrow> (pointer, pointer, span, 'a) APISIXConfigurationM" where
  "zeroAPISIXConfiguration lib = \<lparr>acm_TypeMeta = typed '''' '''' '''', acm_ObjectMeta = dl_Zero lib,
     acm_Spec = zeroAPISIXConfigurationSpec, acm_Status = zeroAPISIXConfigurationStatus\<rparr>"
definition zeroAPISIXConfigurationList :: "'a DeepLibrary \<Rightarrow> ('a, span) ListM" where
  "zeroAPISIXConfigurationList lib = \<lparr>lst_TypeMeta = typed '''' '''' '''', lst_ListMeta = dl_Zero lib,
     lst_Items = None\<rparr>"

text \<open>How blocks hold the variables of each type.\<close>

definition strings :: "(string, 'a block) kind" where
  "strings = \<lparr>kd_Block = Strings, kd_Vars = (\<lambda>b. case b of Strings xs \<Rightarrow> Some xs | _ \<Rightarrow> None), kd_Zero = ''''\<rparr>"
definition libStructs :: "'a DeepLibrary \<Rightarrow> ('a, 'a block) kind" where
  "libStructs lib = \<lparr>kd_Block = LibStructs, kd_Vars = (\<lambda>b. case b of LibStructs xs \<Rightarrow> Some xs | _ \<Rightarrow> None), kd_Zero = dl_Zero lib\<rparr>"
definition deploymentOptionsArray :: "((pointer, span) DeploymentOptionsM, 'a block) kind" where
  "deploymentOptionsArray = \<lparr>kd_Block = DeploymentOptionsArray, kd_Vars = (\<lambda>b. case b of DeploymentOptionsArray xs \<Rightarrow> Some xs | _ \<Rightarrow> None), kd_Zero = zeroDeploymentOptions\<rparr>"
definition dataPlaneDeploymentOptionsArray :: "((pointer, span) DataPlaneDeploymentOptionsM, 'a block) kind" where
  "dataPlaneDeploymentOptionsArray = \<lparr>kd_Block = DataPlaneDeploymentOptionsArray, kd_Vars = (\<lambda>b. case b of DataPlaneDeploymentOptionsArray xs \<Rightarrow> Some xs | _ \<Rightarrow> None), kd_Zero = zeroDataPlaneDeploymentOptions\<rparr>"
definition dataPlaneSpecs :: "((pointer, span) DataPlaneSpecM, 'a block) kind" where
  "dataPlaneSpecs = \<lparr>kd_Block = DataPlaneSpecs, kd_Vars = (\<lambda>b. case b of DataPlaneSpecs xs \<Rightarrow> Some xs | _ \<Rightarrow> None), kd_Zero = zeroDataPlaneSpec\<rparr>"
definition dataPlaneStatuses :: "(span DataPlaneStatusM, 'a block) kind" where
  "dataPlaneStatuses = \<lparr>kd_Block = DataPlaneStatuses, kd_Vars = (\<lambda>b. case b of DataPlaneStatuses xs \<Rightarrow> Some xs | _ \<Rightarrow> None), kd_Zero = zeroDataPlaneStatus\<rparr>"
definition dataPlanes :: "'a DeepLibrary \<Rightarrow> ((pointer, span, 'a) DataPlaneM, 'a block) kind" where
  "dataPlanes lib = \<lparr>kd_Block = DataPlanes, kd_Vars = (\<lambda>b. case b of DataPlanes xs \<Rightarrow> Some xs | _ \<Rightarrow> None), kd_Zero = zeroDataPlane lib\<rparr>"
definition dataPlaneLists :: "'a DeepLibrary \<Rightarrow> (('a, span) ListM, 'a block) kind" where
  "dataPlaneLists lib = \<lparr>kd_Block = DataPlaneLists, kd_Vars = (\<lambda>b. case b of DataPlaneLists xs \<Rightarrow> Some xs | _ \<Rightarrow> None), kd_Zero = zeroDataPlaneList lib\<rparr>"
definition controlPlaneDeploymentOptionsArray :: "((pointer, span) ControlPlaneDeploymentOptionsM, 'a block) kind" where
  "controlPlaneDeploymentOptionsArray = \<lparr>kd_Block = ControlPlaneDeploymentOptionsArray, kd_Vars = (\<lambda>b. case b of ControlPlaneDeploymentOptionsArray xs \<Rightarrow> Some xs | _ \<Rightarrow> None), kd_Zero = zeroControlPlaneDeploymentOptions\<rparr>"
definition controlPlaneSpecs :: "((pointer, span) ControlPlaneSpecM, 'a block) kind" where
  "controlPlaneSpecs = \<lparr>kd_Block = ControlPlaneSpecs, kd_Vars = (\<lambda>b. case b of ControlPlaneSpecs xs \<Rightarrow> Some xs | _ \<Rightarrow> None), kd_Zero = zeroControlPlaneSpec\<rparr>"
definition controlPlaneStatuses :: "(span ControlPlaneStatusM, 'a block) kind" where
  "controlPlaneStatuses = \<lparr>kd_Block = ControlPlaneStatuses, kd_Vars = (\<lambda>b. case b of ControlPlaneStatuses xs \<Rightarrow> Some xs | _ \<Rightarrow> None), kd_Zero = zeroControlPlaneStatus\<rparr>"
definition controlPlanes :: "'a DeepLibrary \<Rightarrow> ((pointer, span, 'a) ControlPlaneM, 'a block) kind" where
  "controlPlanes lib = \<lparr>kd_Block = ControlPlanes, kd_Vars = (\<lambda>b. case b of ControlPlanes xs \<Rightarrow> Some xs | _ \<Rightarrow> None), kd_Zero = zeroControlPlane lib\<rparr>"
definition controlPlaneLists :: "'a DeepLibrary \<Rightarrow> (('a, span) ListM, 'a block) kind" where
  "controlPlaneLists lib = \<lparr>kd_Block = ControlPlaneLists, kd_Vars = (\<lambda>b. case b of ControlPlaneLists xs \<Rightarrow> Some xs | _ \<Rightarrow> None), kd_Zero = zeroControlPlaneList lib\<rparr>"
definition apisixConfigurationSpecs :: "((pointer, pointer) APISIXConfigurationSpecM, 'a block) kind" where
  "apisixConfigurationSpecs = \<lparr>kd_Block = APISIXConfigurationSpecs, kd_Vars = (\<lambda>b. case b of APISIXConfigurationSpecs xs \<Rightarrow> Some xs | _ \<Rightarrow> None), kd_Zero = zeroAPISIXConfigurationSpec\<rparr>"
definition apisixConfigurationStatuses :: "(span APISIXConfigurationStatusM, 'a block) kind" where
  "apisixConfigurationStatuses = \<lparr>kd_Block = APISIXConfigurationStatuses, kd_Vars = (\<lambda>b. case b of APISIXConfigurationStatuses xs \<Rightarrow> Some xs | _ \<Rightarrow> None), kd_Zero = zeroAPISIXConfigurationStatus\<rparr>"
definition apisixConfigurations :: "'a DeepLibrary \<Rightarrow> ((pointer, pointer, span, 'a) APISIXConfigurationM, 'a block) kind" where
  "apisixConfigurations lib = \<lparr>kd_Block = APISIXConfigurations, kd_Vars = (\<lambda>b. case b of APISIXConfigurations xs \<Rightarrow> Some xs | _ \<Rightarrow> None), kd_Zero = zeroAPISIXConfiguration lib\<rparr>"
definition apisixConfigurationLists :: "'a DeepLibrary \<Rightarrow> (('a, span) ListM, 'a block) kind" where
  "apisixConfigurationLists lib = \<lparr>kd_Block = APISIXConfigurationLists, kd_Vars = (\<lambda>b. case b of APISIXConfigurationLists xs \<Rightarrow> Some xs | _ \<Rightarrow> None), kd_Zero = zeroAPISIXConfigurationList lib\<rparr>"

interpretation strings: block_kind strings by unfold_locales (simp add: strings_def)
interpretation libStructs: block_kind "libStructs lib" by unfold_locales (simp add: libStructs_def)
interpretation deploymentOptionsArray: block_kind deploymentOptionsArray by unfold_locales (simp add: deploymentOptionsArray_def)
interpretation dataPlaneDeploymentOptionsArray: block_kind dataPlaneDeploymentOptionsArray by unfold_locales (simp add: dataPlaneDeploymentOptionsArray_def)
interpretation dataPlaneSpecs: block_kind dataPlaneSpecs by unfold_locales (simp add: dataPlaneSpecs_def)
interpretation dataPlaneStatuses: block_kind dataPlaneStatuses by unfold_locales (simp add: dataPlaneStatuses_def)
interpretation dataPlanes: block_kind "dataPlanes lib" by unfold_locales (simp add: dataPlanes_def)
interpretation dataPlaneLists: block_kind "dataPlaneLists lib" by unfold_locales (simp add: dataPlaneLists_def)
interpretation controlPlaneDeploymentOptionsArray: block_kind controlPlaneDeploymentOptionsArray by unfold_locales (simp add: controlPlaneDeploymentOptionsArray_def)
interpretation controlPlaneSpecs: block_kind controlPlaneSpecs by unfold_locales (simp add: controlPlaneSpecs_def)
interpretation controlPlaneStatuses: block_kind controlPlaneStatuses by unfold_locales (simp add: controlPlaneStatuses_def)
interpretation controlPlanes: block_kind "controlPlanes lib" by unfold_locales (simp add: controlPlanes_def)
interpretation controlPlaneLists: block_kind "controlPlaneLists lib" by unfold_locales (simp add: controlPlaneLists_def)
interpretation apisixConfigurationSpecs: block_kind apisixConfigurationSpecs by unfold_locales (simp add: apisixConfigurationSpecs_def)
interpretation apisixConfigurationStatuses: block_kind apisixConfigurationStatuses by unfold_locales (simp add: apisixConfigurationStatuses_def)
interpretation apisixConfigurations: block_kind "apisixConfigurations lib" by unfold_locales (simp add: apisixConfigurations_def)
interpretation apisixConfigurationLists: block_kind "apisixConfigurationLists lib" by unfold_locales (simp add: apisixConfigurationLists_def)

section \<open>The copiers\<close>

text \<open>
  What \<open>DeepCopyObject\<close> answers as a \<open>runtime.Object\<close>: the nil interface (\<open>None\<close> of an option), or an
  interface with the dynamic type and the pointer, which is never nil.
\<close>

datatype RuntimeObject =
    ObjAPISIXConfiguration "nat \<times> nat"
  | ObjAPISIXConfigurationList "nat \<times> nat"
  | ObjControlPlane "nat \<times> nat"
  | ObjControlPlaneList "nat \<times> nat"
  | ObjDataPlane "nat \<times> nat"
  | ObjDataPlaneList "nat \<times> nat"

text \<open>\<open>if c := in.DeepCopy(); c != nil { return c }; return nil\<close>\<close>

definition asObject ::
  "(nat \<times> nat \<Rightarrow> RuntimeObject) \<Rightarrow> (pointer \<times> 'b list) option \<Rightarrow> (RuntimeObject option \<times> 'b list) option" where
  "asObject con copy = do {
     (c, h) \<leftarrow> copy;
     case c of Some p \<Rightarrow> Some (Some (con p), h) | None \<Rightarrow> Some (None, h)
   }"

definition DeploymentOptions_DeepCopyInto :: "'a DeepLibrary \<Rightarrow> ((pointer, span) DeploymentOptionsM, 'a block) copier" where
  "DeploymentOptions_DeepCopyInto lib src h = do {
     let out = src;
     (x, h) \<leftarrow> copyPointer strings assign (do_ContainerImage src) h;
     let out = out\<lparr>do_ContainerImage := x\<rparr>;
     (x, h) \<leftarrow> copyPointer strings assign (do_Version src) h;
     let out = out\<lparr>do_Version := x\<rparr>;
     (x, h) \<leftarrow> copySlice (libStructs lib) (dl_EnvVar lib) (do_Env src) h;
     let out = out\<lparr>do_Env := x\<rparr>;
     (x, h) \<leftarrow> copySlice (libStructs lib) (dl_EnvFromSource lib) (do_EnvFrom src) h;
     let out = out\<lparr>do_EnvFrom := x\<rparr>;
     Some (out, h)
   }"

definition DeploymentOptions_DeepCopy :: "'a DeepLibrary \<Rightarrow> (pointer, 'a block) copier" where
  "DeploymentOptions_DeepCopy lib = copyPointer deploymentOptionsArray (DeploymentOptions_DeepCopyInto lib)"

definition DataPlaneDeploymentOptions_DeepCopyInto :: "'a DeepLibrary \<Rightarrow> ((pointer, span) DataPlaneDeploymentOptionsM, 'a block) copier" where
  "DataPlaneDeploymentOptions_DeepCopyInto lib src h = do {
     let out = src;
     (x, h) \<leftarrow> DeploymentOptions_DeepCopyInto lib (ddo_DeploymentOptions src) h;
     let out = out\<lparr>ddo_DeploymentOptions := x\<rparr>;
     Some (out, h)
   }"

definition DataPlaneDeploymentOptions_DeepCopy :: "'a DeepLibrary \<Rightarrow> (pointer, 'a block) copier" where
  "DataPlaneDeploymentOptions_DeepCopy lib = copyPointer dataPlaneDeploymentOptionsArray (DataPlaneDeploymentOptions_DeepCopyInto lib)"

definition DataPlaneSpec_DeepCopyInto :: "'a DeepLibrary \<Rightarrow> ((pointer, span) DataPlaneSpecM, 'a block) copier" where
  "DataPlaneSpec_DeepCopyInto lib src h = do {
     let out = src;
     (x, h) \<leftarrow> DataPlaneDeploymentOptions_DeepCopyInto lib (dsp_DataPlaneDeploymentOptions src) h;
     let out = out\<lparr>dsp_DataPlaneDeploymentOptions := x\<rparr>;
     Some (out, h)
   }"

definition DataPlaneSpec_DeepCopy :: "'a DeepLibrary \<Rightarrow> (pointer, 'a block) copier" where
  "DataPlaneSpec_DeepCopy lib = copyPointer dataPlaneSpecs (DataPlaneSpec_DeepCopyInto lib)"

definition DataPlaneStatus_DeepCopyInto :: "'a DeepLibrary \<Rightarrow> (span DataPlaneStatusM, 'a block) copier" where
  "DataPlaneStatus_DeepCopyInto lib src h = do {
     let out = src;
     (x, h) \<leftarrow> copySlice (libStructs lib) (dl_Condition lib) (dst_Conditions src) h;
     let out = out\<lparr>dst_Conditions := x\<rparr>;
     Some (out, h)
   }"

definition DataPlaneStatus_DeepCopy :: "'a DeepLibrary \<Rightarrow> (pointer, 'a block) copier" where
  "DataPlaneStatus_DeepCopy lib = copyPointer dataPlaneStatuses (DataPlaneStatus_DeepCopyInto lib)"

definition DataPlane_DeepCopyInto :: "'a DeepLibrary \<Rightarrow> ((pointer, span, 'a) DataPlaneM, 'a block) copier" where
  "DataPlane_DeepCopyInto lib src h = do {
     let out = src;
     let out = out\<lparr>dpm_TypeMeta := dpm_TypeMeta src\<rparr>;
     (x, h) \<leftarrow> dl_ObjectMeta lib (dpm_ObjectMeta src) h;
     let out = out\<lparr>dpm_ObjectMeta := x\<rparr>;
     (x, h) \<leftarrow> DataPlaneSpec_DeepCopyInto lib (dpm_Spec src) h;
     let out = out\<lparr>dpm_Spec := x\<rparr>;
     (x, h) \<leftarrow> DataPlaneStatus_DeepCopyInto lib (dpm_Status src) h;
     let out = out\<lparr>dpm_Status := x\<rparr>;
     Some (out, h)
   }"

definition DataPlane_DeepCopy :: "'a DeepLibrary \<Rightarrow> (pointer, 'a block) copier" where
  "DataPlane_DeepCopy lib = copyPointer (dataPlanes lib) (DataPlane_DeepCopyInto lib)"

definition DataPlane_DeepCopyObject ::
  "'a DeepLibrary \<Rightarrow> pointer \<Rightarrow> 'a block list \<Rightarrow> (RuntimeObject option \<times> 'a block list) option" where
  "DataPlane_DeepCopyObject lib p h = asObject ObjDataPlane (DataPlane_DeepCopy lib p h)"

definition DataPlaneList_DeepCopyInto :: "'a DeepLibrary \<Rightarrow> (('a, span) ListM, 'a block) copier" where
  "DataPlaneList_DeepCopyInto lib src h = do {
     let out = src;
     let out = out\<lparr>lst_TypeMeta := lst_TypeMeta src\<rparr>;
     (x, h) \<leftarrow> dl_ListMeta lib (lst_ListMeta src) h;
     let out = out\<lparr>lst_ListMeta := x\<rparr>;
     (x, h) \<leftarrow> copySlice (dataPlanes lib) (DataPlane_DeepCopyInto lib) (lst_Items src) h;
     let out = out\<lparr>lst_Items := x\<rparr>;
     Some (out, h)
   }"

definition DataPlaneList_DeepCopy :: "'a DeepLibrary \<Rightarrow> (pointer, 'a block) copier" where
  "DataPlaneList_DeepCopy lib = copyPointer (dataPlaneLists lib) (DataPlaneList_DeepCopyInto lib)"

definition DataPlaneList_DeepCopyObject ::
  "'a DeepLibrary \<Rightarrow> pointer \<Rightarrow> 'a block list \<Rightarrow> (RuntimeObject option \<times> 'a block list) option" where
  "DataPlaneList_DeepCopyObject lib p h = asObject ObjDataPlaneList (DataPlaneList_DeepCopy lib p h)"

definition ControlPlaneDeploymentOptions_DeepCopyInto :: "'a DeepLibrary \<Rightarrow> ((pointer, span) ControlPlaneDeploymentOptionsM, 'a block) copier" where
  "ControlPlaneDeploymentOptions_DeepCopyInto lib src h = do {
     let out = src;
     (x, h) \<leftarrow> DeploymentOptions_DeepCopyInto lib (cdo_DeploymentOptions src) h;
     let out = out\<lparr>cdo_DeploymentOptions := x\<rparr>;
     (x, h) \<leftarrow> copyPointer strings assign (cdo_DataPlane src) h;
     let out = out\<lparr>cdo_DataPlane := x\<rparr>;
     Some (out, h)
   }"

definition ControlPlaneDeploymentOptions_DeepCopy :: "'a DeepLibrary \<Rightarrow> (pointer, 'a block) copier" where
  "ControlPlaneDeploymentOptions_DeepCopy lib = copyPointer controlPlaneDeploymentOptionsArray (ControlPlaneDeploymentOptions_DeepCopyInto lib)"

definition ControlPlaneSpec_DeepCopyInto :: "'a DeepLibrary \<Rightarrow> ((pointer, span) ControlPlaneSpecM, 'a block) copier" where
  "ControlPlaneSpec_DeepCopyInto lib src h = do {
     let out = src;
     (x, h) \<leftarrow> ControlPlaneDeploymentOptions_DeepCopyInto lib (csp_ControlPlaneDeploymentOptions src) h;
     let out = out\<lparr>csp_ControlPlaneDeploymentOptions := x\<rparr>;
     (x, h) \<leftarrow> copyPointer strings assign (csp_GatewayClass src) h;
     let out = out\<lparr>csp_GatewayClass := x\<rparr>;
     (x, h) \<leftarrow> copyPointer strings assign (csp_IngressClass src) h;
     let out = out\<lparr>csp_IngressClass := x\<rparr>;
     Some (out, h)
   }"

definition ControlPlaneSpec_DeepCopy :: "'a DeepLibrary \<Rightarrow> (pointer, 'a block) copier" where
  "ControlPlaneSpec_DeepCopy lib = copyPointer controlPlaneSpecs (ControlPlaneSpec_DeepCopyInto lib)"

definition ControlPlaneStatus_DeepCopyInto :: "'a DeepLibrary \<Rightarrow> (span ControlPlaneStatusM, 'a block) copier" where
  "ControlPlaneStatus_DeepCopyInto lib src h = do {
     let out = src;
     (x, h) \<leftarrow> copySlice (libStructs lib) (dl_Condition lib) (cst_Conditions src) h;
     let out = out\<lparr>cst_Conditions := x\<rparr>;
     Some (out, h)
   }"

definition ControlPlaneStatus_DeepCopy :: "'a DeepLibrary \<Rightarrow> (pointer, 'a block) copier" where
  "ControlPlaneStatus_DeepCopy lib = copyPointer controlPlaneStatuses (ControlPlaneStatus_DeepCopyInto lib)"

definition ControlPlane_DeepCopyInto :: "'a DeepLibrary \<Rightarrow> ((pointer, span, 'a) ControlPlaneM, 'a block) copier" where
  "ControlPlane_DeepCopyInto lib src h = do {
     let out = src;
     let out = out\<lparr>cpm_TypeMeta := cpm_TypeMeta src\<rparr>;
     (x, h) \<leftarrow> dl_ObjectMeta lib (cpm_ObjectMeta src) h;
     let out = out\<lparr>cpm_ObjectMeta := x\<rparr>;
     (x, h) \<leftarrow> ControlPlaneSpec_DeepCopyInto lib (cpm_Spec src) h;
     let out = out\<lparr>cpm_Spec := x\<rparr>;
     (x, h) \<leftarrow> ControlPlaneStatus_DeepCopyInto lib (cpm_Status src) h;
     let out = out\<lparr>cpm_Status := x\<rparr>;
     Some (out, h)
   }"

definition ControlPlane_DeepCopy :: "'a DeepLibrary \<Rightarrow> (pointer, 'a block) copier" where
  "ControlPlane_DeepCopy lib = copyPointer (controlPlanes lib) (ControlPlane_DeepCopyInto lib)"

definition ControlPlane_DeepCopyObject ::
  "'a DeepLibrary \<Rightarrow> pointer \<Rightarrow> 'a block list \<Rightarrow> (RuntimeObject option \<times> 'a block list) option" where
  "ControlPlane_DeepCopyObject lib p h = asObject ObjControlPlane (ControlPlane_DeepCopy lib p h)"

definition ControlPlaneList_DeepCopyInto :: "'a DeepLibrary \<Rightarrow> (('a, span) ListM, 'a block) copier" where
  "ControlPlaneList_DeepCopyInto lib src h = do {
     let out = src;
     let out = out\<lparr>lst_TypeMeta := lst_TypeMeta src\<rparr>;
     (x, h) \<leftarrow> dl_ListMeta lib (lst_ListMeta src) h;
     let out = out\<lparr>lst_ListMeta := x\<rparr>;
     (x, h) \<leftarrow> copySlice (controlPlanes lib) (ControlPlane_DeepCopyInto lib) (lst_Items src) h;
     let out = out\<lparr>lst_Items := x\<rparr>;
     Some (out, h)
   }"

definition ControlPlaneList_DeepCopy :: "'a DeepLibrary \<Rightarrow> (pointer, 'a block) copier" where
  "ControlPlaneList_DeepCopy lib = copyPointer (controlPlaneLists lib) (ControlPlaneList_DeepCopyInto lib)"

definition ControlPlaneList_DeepCopyObject ::
  "'a DeepLibrary \<Rightarrow> pointer \<Rightarrow> 'a block list \<Rightarrow> (RuntimeObject option \<times> 'a block list) option" where
  "ControlPlaneList_DeepCopyObject lib p h = asObject ObjControlPlaneList (ControlPlaneList_DeepCopy lib p h)"

definition APISIXConfigurationSpec_DeepCopyInto :: "'a DeepLibrary \<Rightarrow> ((pointer, pointer) APISIXConfigurationSpecM, 'a block) copier" where
  "APISIXConfigurationSpec_DeepCopyInto lib src h = do {
     let out = src;
     (x, h) \<leftarrow> copyPointer dataPlaneDeploymentOptionsArray (DataPlaneDeploymentOptions_DeepCopyInto lib) (asp_DataPlaneDeploymentOptions src) h;
     let out = out\<lparr>asp_DataPlaneDeploymentOptions := x\<rparr>;
     (x, h) \<leftarrow> copyPointer controlPlaneDeploymentOptionsArray (ControlPlaneDeploymentOptions_DeepCopyInto lib) (asp_ControlPlaneDeploymentOptions src) h;
     let out = out\<lparr>asp_ControlPlaneDeploymentOptions := x\<rparr>;
     Some (out, h)
   }"

definition APISIXConfigurationSpec_DeepCopy :: "'a DeepLibrary \<Rightarrow> (pointer, 'a block) copier" where
  "APISIXConfigurationSpec_DeepCopy lib = copyPointer apisixConfigurationSpecs (APISIXConfigurationSpec_DeepCopyInto lib)"

definition APISIXConfigurationStatus_DeepCopyInto :: "'a DeepLibrary \<Rightarrow> (span APISIXConfigurationStatusM, 'a block) copier" where
  "APISIXConfigurationStatus_DeepCopyInto lib src h = do {
     let out = src;
     (x, h) \<leftarrow> copySlice (libStructs lib) (dl_Condition lib) (ast_Conditions src) h;
     let out = out\<lparr>ast_Conditions := x\<rparr>;
     Some (out, h)
   }"

definition APISIXConfigurationStatus_DeepCopy :: "'a DeepLibrary \<Rightarrow> (pointer, 'a block) copier" where
  "APISIXConfigurationStatus_DeepCopy lib = copyPointer apisixConfigurationStatuses (APISIXConfigurationStatus_DeepCopyInto lib)"

definition APISIXConfiguration_DeepCopyInto :: "'a DeepLibrary \<Rightarrow> ((pointer, pointer, span, 'a) APISIXConfigurationM, 'a block) copier" where
  "APISIXConfiguration_DeepCopyInto lib src h = do {
     let out = src;
     let out = out\<lparr>acm_TypeMeta := acm_TypeMeta src\<rparr>;
     (x, h) \<leftarrow> dl_ObjectMeta lib (acm_ObjectMeta src) h;
     let out = out\<lparr>acm_ObjectMeta := x\<rparr>;
     (x, h) \<leftarrow> APISIXConfigurationSpec_DeepCopyInto lib (acm_Spec src) h;
     let out = out\<lparr>acm_Spec := x\<rparr>;
     (x, h) \<leftarrow> APISIXConfigurationStatus_DeepCopyInto lib (acm_Status src) h;
     let out = out\<lparr>acm_Status := x\<rparr>;
     Some (out, h)
   }"

definition APISIXConfiguration_DeepCopy :: "'a DeepLibrary \<Rightarrow> (pointer, 'a block) copier" where
  "APISIXConfiguration_DeepCopy lib = copyPointer (apisixConfigurations lib) (APISIXConfiguration_DeepCopyInto lib)"

definition APISIXConfiguration_DeepCopyObject ::
  "'a DeepLibrary \<Rightarrow> pointer \<Rightarrow> 'a block list \<Rightarrow> (RuntimeObject option \<times> 'a block list) option" where
  "APISIXConfiguration_DeepCopyObject lib p h = asObject ObjAPISIXConfiguration (APISIXConfiguration_DeepCopy lib p h)"

definition APISIXConfigurationList_DeepCopyInto :: "'a DeepLibrary \<Rightarrow> (('a, span) ListM, 'a block) copier" where
  "APISIXConfigurationList_DeepCopyInto lib src h = do {
     let out = src;
     let out = out\<lparr>lst_TypeMeta := lst_TypeMeta src\<rparr>;
     (x, h) \<leftarrow> dl_ListMeta lib (lst_ListMeta src) h;
     let out = out\<lparr>lst_ListMeta := x\<rparr>;
     (x, h) \<leftarrow> copySlice (apisixConfigurations lib) (APISIXConfiguration_DeepCopyInto lib) (lst_Items src) h;
     let out = out\<lparr>lst_Items := x\<rparr>;
     Some (out, h)
   }"

definition APISIXConfigurationList_DeepCopy :: "'a DeepLibrary \<Rightarrow> (pointer, 'a block) copier" where
  "APISIXConfigurationList_DeepCopy lib = copyPointer (apisixConfigurationLists lib) (APISIXConfigurationList_DeepCopyInto lib)"

definition APISIXConfigurationList_DeepCopyObject ::
  "'a DeepLibrary \<Rightarrow> pointer \<Rightarrow> 'a block list \<Rightarrow> (RuntimeObject option \<times> 'a block list) option" where
  "APISIXConfigurationList_DeepCopyObject lib p h = asObject ObjAPISIXConfigurationList (APISIXConfigurationList_DeepCopy lib p h)"

section \<open>Values\<close>

text \<open>The value of a struct, given a reader of library structs.\<close>

definition DeploymentOptions_value where
  "DeploymentOptions_value lib rl = readAs (\<lambda>x. (do_ContainerImage x, do_Version x, do_Env x, do_EnvFrom x)) (\<lambda>(a, b, c, d). \<lparr>do_ContainerImage = a, do_Version = b, do_Env = c, do_EnvFrom = d\<rparr>)
     (readBoth (readPointer strings readPlain) (readBoth (readPointer strings readPlain) (readBoth (readSlice (libStructs lib) rl) (readSlice (libStructs lib) rl))))"

definition DataPlaneDeploymentOptions_value where
  "DataPlaneDeploymentOptions_value lib rl = readAs (\<lambda>x. ddo_DeploymentOptions x) (\<lambda>a. \<lparr>ddo_DeploymentOptions = a\<rparr>)
     (DeploymentOptions_value lib rl)"

definition DataPlaneSpec_value where
  "DataPlaneSpec_value lib rl = readAs (\<lambda>x. dsp_DataPlaneDeploymentOptions x) (\<lambda>a. \<lparr>dsp_DataPlaneDeploymentOptions = a\<rparr>)
     (DataPlaneDeploymentOptions_value lib rl)"

definition DataPlaneStatus_value where
  "DataPlaneStatus_value lib rl = readAs (\<lambda>x. (dst_Conditions x, dst_Service x)) (\<lambda>(a, b). \<lparr>dst_Conditions = a, dst_Service = b\<rparr>)
     (readBoth (readSlice (libStructs lib) rl) readPlain)"

definition DataPlane_value where
  "DataPlane_value lib rl = readAs (\<lambda>x. (dpm_TypeMeta x, dpm_ObjectMeta x, dpm_Spec x, dpm_Status x)) (\<lambda>(a, b, c, d). \<lparr>dpm_TypeMeta = a, dpm_ObjectMeta = b, dpm_Spec = c, dpm_Status = d\<rparr>)
     (readBoth readPlain (readBoth rl (readBoth (DataPlaneSpec_value lib rl) (DataPlaneStatus_value lib rl))))"

definition DataPlaneList_value where
  "DataPlaneList_value lib rl = readAs (\<lambda>x. (lst_TypeMeta x, lst_ListMeta x, lst_Items x)) (\<lambda>(a, b, c). \<lparr>lst_TypeMeta = a, lst_ListMeta = b, lst_Items = c\<rparr>)
     (readBoth readPlain (readBoth rl (readSlice (dataPlanes lib) (DataPlane_value lib rl))))"

definition ControlPlaneDeploymentOptions_value where
  "ControlPlaneDeploymentOptions_value lib rl = readAs (\<lambda>x. (cdo_DeploymentOptions x, cdo_DataPlane x)) (\<lambda>(a, b). \<lparr>cdo_DeploymentOptions = a, cdo_DataPlane = b\<rparr>)
     (readBoth (DeploymentOptions_value lib rl) (readPointer strings readPlain))"

definition ControlPlaneSpec_value where
  "ControlPlaneSpec_value lib rl = readAs (\<lambda>x. (csp_ControlPlaneDeploymentOptions x, csp_GatewayClass x, csp_IngressClass x)) (\<lambda>(a, b, c). \<lparr>csp_ControlPlaneDeploymentOptions = a, csp_GatewayClass = b, csp_IngressClass = c\<rparr>)
     (readBoth (ControlPlaneDeploymentOptions_value lib rl) (readBoth (readPointer strings readPlain) (readPointer strings readPlain)))"

definition ControlPlaneStatus_value where
  "ControlPlaneStatus_value lib rl = readAs (\<lambda>x. cst_Conditions x) (\<lambda>a. \<lparr>cst_Conditions = a\<rparr>)
     (readSlice (libStructs lib) rl)"

definition ControlPlane_value where
  "ControlPlane_value lib rl = readAs (\<lambda>x. (cpm_TypeMeta x, cpm_ObjectMeta x, cpm_Spec x, cpm_Status x)) (\<lambda>(a, b, c, d). \<lparr>cpm_TypeMeta = a, cpm_ObjectMeta = b, cpm_Spec = c, cpm_Status = d\<rparr>)
     (readBoth readPlain (readBoth rl (readBoth (ControlPlaneSpec_value lib rl) (ControlPlaneStatus_value lib rl))))"

definition ControlPlaneList_value where
  "ControlPlaneList_value lib rl = readAs (\<lambda>x. (lst_TypeMeta x, lst_ListMeta x, lst_Items x)) (\<lambda>(a, b, c). \<lparr>lst_TypeMeta = a, lst_ListMeta = b, lst_Items = c\<rparr>)
     (readBoth readPlain (readBoth rl (readSlice (controlPlanes lib) (ControlPlane_value lib rl))))"

definition APISIXConfigurationSpec_value where
  "APISIXConfigurationSpec_value lib rl = readAs (\<lambda>x. (asp_DataPlaneDeploymentOptions x, asp_ControlPlaneDeploymentOptions x)) (\<lambda>(a, b). \<lparr>asp_DataPlaneDeploymentOptions = a, asp_ControlPlaneDeploymentOptions = b\<rparr>)
     (readBoth (readPointer dataPlaneDeploymentOptionsArray (DataPlaneDeploymentOptions_value lib rl)) (readPointer controlPlaneDeploymentOptionsArray (ControlPlaneDeploymentOptions_value lib rl)))"

definition APISIXConfigurationStatus_value where
  "APISIXConfigurationStatus_value lib rl = readAs (\<lambda>x. ast_Conditions x) (\<lambda>a. \<lparr>ast_Conditions = a\<rparr>)
     (readSlice (libStructs lib) rl)"

definition APISIXConfiguration_value where
  "APISIXConfiguration_value lib rl = readAs (\<lambda>x. (acm_TypeMeta x, acm_ObjectMeta x, acm_Spec x, acm_Status x)) (\<lambda>(a, b, c, d). \<lparr>acm_TypeMeta = a, acm_ObjectMeta = b, acm_Spec = c, acm_Status = d\<rparr>)
     (readBoth readPlain (readBoth rl (readBoth (APISIXConfigurationSpec_value lib rl) (APISIXConfigurationStatus_value lib rl))))"

definition APISIXConfigurationList_value where
  "APISIXConfigurationList_value lib rl = readAs (\<lambda>x. (lst_TypeMeta x, lst_ListMeta x, lst_Items x)) (\<lambda>(a, b, c). \<lparr>lst_TypeMeta = a, lst_ListMeta = b, lst_Items = c\<rparr>)
     (readBoth readPlain (readBoth rl (readSlice (apisixConfigurations lib) (APISIXConfiguration_value lib rl))))"

section \<open>All copiers are deep\<close>

locale deep_library =
  fixes lib :: "'a DeepLibrary" and rl :: "('a, 'a block, 'v) reader"
  assumes deep_ObjectMeta: "deep_copy rl (dl_ObjectMeta lib)"
    and deep_ListMeta: "deep_copy rl (dl_ListMeta lib)"
    and deep_EnvVar: "deep_copy rl (dl_EnvVar lib)"
    and deep_EnvFromSource: "deep_copy rl (dl_EnvFromSource lib)"
    and deep_Condition: "deep_copy rl (dl_Condition lib)"
begin

lemmas deep_string = strings.deep_pointer [OF plain.deep_copy_axioms]

lemma deep_DeploymentOptions: "deep_copy (DeploymentOptions_value lib rl) (DeploymentOptions_DeepCopyInto lib)"
  unfolding DeploymentOptions_value_def
  by (rule deep_as [OF deep_both [OF deep_string
    deep_both [OF deep_string
    deep_both [OF libStructs.deep_slice [OF deep_EnvVar]
    libStructs.deep_slice [OF deep_EnvFromSource]]]],
        where build = "\<lambda>(a, b, c, d). \<lparr>do_ContainerImage = a, do_Version = b, do_Env = c, do_EnvFrom = d\<rparr>"])
    (auto simp: DeploymentOptions_DeepCopyInto_def copyBoth_def assign_def Let_def split: bind_splits)

lemma deep_DataPlaneDeploymentOptions: "deep_copy (DataPlaneDeploymentOptions_value lib rl) (DataPlaneDeploymentOptions_DeepCopyInto lib)"
  unfolding DataPlaneDeploymentOptions_value_def
  by (rule deep_as [OF deep_DeploymentOptions,
        where build = "\<lambda>a. \<lparr>ddo_DeploymentOptions = a\<rparr>"])
    (auto simp: DataPlaneDeploymentOptions_DeepCopyInto_def copyBoth_def assign_def Let_def split: bind_splits)

lemma deep_DataPlaneSpec: "deep_copy (DataPlaneSpec_value lib rl) (DataPlaneSpec_DeepCopyInto lib)"
  unfolding DataPlaneSpec_value_def
  by (rule deep_as [OF deep_DataPlaneDeploymentOptions,
        where build = "\<lambda>a. \<lparr>dsp_DataPlaneDeploymentOptions = a\<rparr>"])
    (auto simp: DataPlaneSpec_DeepCopyInto_def copyBoth_def assign_def Let_def split: bind_splits)

lemma deep_DataPlaneStatus: "deep_copy (DataPlaneStatus_value lib rl) (DataPlaneStatus_DeepCopyInto lib)"
  unfolding DataPlaneStatus_value_def
  by (rule deep_as [OF deep_both [OF libStructs.deep_slice [OF deep_Condition]
    plain.deep_copy_axioms],
        where build = "\<lambda>(a, b). \<lparr>dst_Conditions = a, dst_Service = b\<rparr>"])
    (auto simp: DataPlaneStatus_DeepCopyInto_def copyBoth_def assign_def Let_def split: bind_splits)

lemma deep_DataPlane: "deep_copy (DataPlane_value lib rl) (DataPlane_DeepCopyInto lib)"
  unfolding DataPlane_value_def
  by (rule deep_as [OF deep_both [OF plain.deep_copy_axioms
    deep_both [OF deep_ObjectMeta
    deep_both [OF deep_DataPlaneSpec
    deep_DataPlaneStatus]]],
        where build = "\<lambda>(a, b, c, d). \<lparr>dpm_TypeMeta = a, dpm_ObjectMeta = b, dpm_Spec = c, dpm_Status = d\<rparr>"])
    (auto simp: DataPlane_DeepCopyInto_def copyBoth_def assign_def Let_def split: bind_splits)

lemma deep_DataPlaneList: "deep_copy (DataPlaneList_value lib rl) (DataPlaneList_DeepCopyInto lib)"
  unfolding DataPlaneList_value_def
  by (rule deep_as [OF deep_both [OF plain.deep_copy_axioms
    deep_both [OF deep_ListMeta
    dataPlanes.deep_slice [OF deep_DataPlane]]],
        where build = "\<lambda>(a, b, c). \<lparr>lst_TypeMeta = a, lst_ListMeta = b, lst_Items = c\<rparr>"])
    (auto simp: DataPlaneList_DeepCopyInto_def copyBoth_def assign_def Let_def split: bind_splits)

lemma deep_ControlPlaneDeploymentOptions: "deep_copy (ControlPlaneDeploymentOptions_value lib rl) (ControlPlaneDeploymentOptions_DeepCopyInto lib)"
  unfolding ControlPlaneDeploymentOptions_value_def
  by (rule deep_as [OF deep_both [OF deep_DeploymentOptions
    deep_string],
        where build = "\<lambda>(a, b). \<lparr>cdo_DeploymentOptions = a, cdo_DataPlane = b\<rparr>"])
    (auto simp: ControlPlaneDeploymentOptions_DeepCopyInto_def copyBoth_def assign_def Let_def split: bind_splits)

lemma deep_ControlPlaneSpec: "deep_copy (ControlPlaneSpec_value lib rl) (ControlPlaneSpec_DeepCopyInto lib)"
  unfolding ControlPlaneSpec_value_def
  by (rule deep_as [OF deep_both [OF deep_ControlPlaneDeploymentOptions
    deep_both [OF deep_string
    deep_string]],
        where build = "\<lambda>(a, b, c). \<lparr>csp_ControlPlaneDeploymentOptions = a, csp_GatewayClass = b, csp_IngressClass = c\<rparr>"])
    (auto simp: ControlPlaneSpec_DeepCopyInto_def copyBoth_def assign_def Let_def split: bind_splits)

lemma deep_ControlPlaneStatus: "deep_copy (ControlPlaneStatus_value lib rl) (ControlPlaneStatus_DeepCopyInto lib)"
  unfolding ControlPlaneStatus_value_def
  by (rule deep_as [OF libStructs.deep_slice [OF deep_Condition],
        where build = "\<lambda>a. \<lparr>cst_Conditions = a\<rparr>"])
    (auto simp: ControlPlaneStatus_DeepCopyInto_def copyBoth_def assign_def Let_def split: bind_splits)

lemma deep_ControlPlane: "deep_copy (ControlPlane_value lib rl) (ControlPlane_DeepCopyInto lib)"
  unfolding ControlPlane_value_def
  by (rule deep_as [OF deep_both [OF plain.deep_copy_axioms
    deep_both [OF deep_ObjectMeta
    deep_both [OF deep_ControlPlaneSpec
    deep_ControlPlaneStatus]]],
        where build = "\<lambda>(a, b, c, d). \<lparr>cpm_TypeMeta = a, cpm_ObjectMeta = b, cpm_Spec = c, cpm_Status = d\<rparr>"])
    (auto simp: ControlPlane_DeepCopyInto_def copyBoth_def assign_def Let_def split: bind_splits)

lemma deep_ControlPlaneList: "deep_copy (ControlPlaneList_value lib rl) (ControlPlaneList_DeepCopyInto lib)"
  unfolding ControlPlaneList_value_def
  by (rule deep_as [OF deep_both [OF plain.deep_copy_axioms
    deep_both [OF deep_ListMeta
    controlPlanes.deep_slice [OF deep_ControlPlane]]],
        where build = "\<lambda>(a, b, c). \<lparr>lst_TypeMeta = a, lst_ListMeta = b, lst_Items = c\<rparr>"])
    (auto simp: ControlPlaneList_DeepCopyInto_def copyBoth_def assign_def Let_def split: bind_splits)

lemma deep_APISIXConfigurationSpec: "deep_copy (APISIXConfigurationSpec_value lib rl) (APISIXConfigurationSpec_DeepCopyInto lib)"
  unfolding APISIXConfigurationSpec_value_def
  by (rule deep_as [OF deep_both [OF dataPlaneDeploymentOptionsArray.deep_pointer [OF deep_DataPlaneDeploymentOptions]
    controlPlaneDeploymentOptionsArray.deep_pointer [OF deep_ControlPlaneDeploymentOptions]],
        where build = "\<lambda>(a, b). \<lparr>asp_DataPlaneDeploymentOptions = a, asp_ControlPlaneDeploymentOptions = b\<rparr>"])
    (auto simp: APISIXConfigurationSpec_DeepCopyInto_def copyBoth_def assign_def Let_def split: bind_splits)

lemma deep_APISIXConfigurationStatus: "deep_copy (APISIXConfigurationStatus_value lib rl) (APISIXConfigurationStatus_DeepCopyInto lib)"
  unfolding APISIXConfigurationStatus_value_def
  by (rule deep_as [OF libStructs.deep_slice [OF deep_Condition],
        where build = "\<lambda>a. \<lparr>ast_Conditions = a\<rparr>"])
    (auto simp: APISIXConfigurationStatus_DeepCopyInto_def copyBoth_def assign_def Let_def split: bind_splits)

lemma deep_APISIXConfiguration: "deep_copy (APISIXConfiguration_value lib rl) (APISIXConfiguration_DeepCopyInto lib)"
  unfolding APISIXConfiguration_value_def
  by (rule deep_as [OF deep_both [OF plain.deep_copy_axioms
    deep_both [OF deep_ObjectMeta
    deep_both [OF deep_APISIXConfigurationSpec
    deep_APISIXConfigurationStatus]]],
        where build = "\<lambda>(a, b, c, d). \<lparr>acm_TypeMeta = a, acm_ObjectMeta = b, acm_Spec = c, acm_Status = d\<rparr>"])
    (auto simp: APISIXConfiguration_DeepCopyInto_def copyBoth_def assign_def Let_def split: bind_splits)

lemma deep_APISIXConfigurationList: "deep_copy (APISIXConfigurationList_value lib rl) (APISIXConfigurationList_DeepCopyInto lib)"
  unfolding APISIXConfigurationList_value_def
  by (rule deep_as [OF deep_both [OF plain.deep_copy_axioms
    deep_both [OF deep_ListMeta
    apisixConfigurations.deep_slice [OF deep_APISIXConfiguration]]],
        where build = "\<lambda>(a, b, c). \<lparr>lst_TypeMeta = a, lst_ListMeta = b, lst_Items = c\<rparr>"])
    (auto simp: APISIXConfigurationList_DeepCopyInto_def copyBoth_def assign_def Let_def split: bind_splits)

end

section \<open>A Kubernetes library in memory\<close>

text \<open>
  Library structs with a string and a pointer to a string, such as \<open>EnvVar\<close> with its source, each
  of them copied with what it points to.
\<close>

definition memCopy :: "(string \<times> pointer, (string \<times> pointer) block) copier" where
  "memCopy = copyBoth assign (copyPointer strings assign)"

definition memValue :: "(string \<times> pointer, (string \<times> pointer) block, string \<times> string option) reader" where
  "memValue = readBoth readPlain (readPointer strings readPlain)"

definition memDeepLibrary :: "(string \<times> pointer) DeepLibrary" where
  "memDeepLibrary = \<lparr>dl_Zero = ('''', None), dl_ObjectMeta = memCopy, dl_ListMeta = memCopy,
     dl_EnvVar = memCopy, dl_EnvFromSource = memCopy, dl_Condition = memCopy\<rparr>"

interpretation mem_library: deep_library memDeepLibrary memValue
  by (rule deep_library.intro)
    (simp_all add: memDeepLibrary_def memCopy_def memValue_def
      deep_both [OF plain.deep_copy_axioms strings.deep_pointer [OF plain.deep_copy_axioms]])

section \<open>Properties\<close>

lemma copied_pointer:
  assumes "block_kind K" and d: "deep_copy rd cp" and "readPointer K rd h p = Some (v, F)"
  shows "\<exists>q h1 G. copyPointer K cp p h = Some (q, h1) \<and> extends h h1 \<and> readPointer K rd h1 p = Some (v, F) \<and>
    readPointer K rd h1 q = Some (v, G) \<and> F \<inter> G = {} \<and>
    (\<forall>h2. agree G h1 h2 \<longrightarrow> readPointer K rd h2 q = Some (v, G)) \<and>
    (\<forall>h2. agree F h1 h2 \<longrightarrow> readPointer K rd h2 p = Some (v, F))"
proof -
  note dp = block_kind.deep_pointer [OF assms(1) d]
  obtain q h1 where q: "copyPointer K cp p h = Some (q, h1)" "extends h h1"
    using deep_copy.copies [OF dp assms(3)] by blast
  obtain G where "readPointer K rd h1 p = Some (v, F)" "readPointer K rd h1 q = Some (v, G)" "F \<inter> G = {}"
    "\<And>h2. agree G h1 h2 \<Longrightarrow> readPointer K rd h2 q = Some (v, G)"
    "\<And>h2. agree F h1 h2 \<Longrightarrow> readPointer K rd h2 p = Some (v, F)"
    by (rule deep_copy.copy_independent [OF dp assms(3) q(1)]) blast
  with q show ?thesis by blast
qed

lemma copyPointer_nil: "copyPointer K cp p h = Some (q, h1) \<Longrightarrow> (q = None \<longleftrightarrow> p = None) \<and> (p = None \<longrightarrow> h1 = h)"
  by (auto simp: copyPointer_def Let_def bind_eq_Some_conv split: option.splits prod.splits)

text \<open>C24. A copied list is the same list in new memory. For a list of control planes whose value
  can be read, \<open>DeepCopyObject\<close> never gets stuck; all blocks there were are as before; of a nil pointer it
  answers the nil interface (and not an interface that holds a nil pointer), and of any other a list
  of the same value (items, options, environment and conditions included, nil slices kept apart
  from empty ones) that was read from blocks the original does not use.\<close>

theorem ControlPlaneList_DeepCopyObject_correct:
  assumes "deep_library lib rl"
    and "readPointer (controlPlaneLists lib) (ControlPlaneList_value lib rl) h p = Some (v, F)"
  shows "case ControlPlaneList_DeepCopyObject lib p h of
      None \<Rightarrow> False
    | Some (obj, h1) \<Rightarrow> extends h h1 \<and>
       (case obj of
          None \<Rightarrow> p = None \<and> h1 = h
        | Some ob \<Rightarrow> p \<noteq> None \<and> (\<exists>q G. ob = ObjControlPlaneList q \<and> F \<inter> G = {} \<and>
            readPointer (controlPlaneLists lib) (ControlPlaneList_value lib rl) h1 (Some q) = Some (v, G)))"
proof -
  note dc = copied_pointer [OF controlPlaneLists.block_kind_axioms deep_library.deep_ControlPlaneList [OF assms(1)] assms(2)]
  then obtain q h1 G where q: "ControlPlaneList_DeepCopy lib p h = Some (q, h1)" "extends h h1"
    "readPointer (controlPlaneLists lib) (ControlPlaneList_value lib rl) h1 q = Some (v, G)" "F \<inter> G = {}"
    unfolding ControlPlaneList_DeepCopy_def by blast
  show ?thesis
    using q copyPointer_nil [OF q(1) [unfolded ControlPlaneList_DeepCopy_def]]
    by (cases q) (auto simp: ControlPlaneList_DeepCopyObject_def asObject_def)
qed

text \<open>A list with an item that has a container image, and an environment that shares its string.\<close>

definition exampleItem :: "(pointer, span, string \<times> pointer) ControlPlaneM" where
  "exampleItem = (zeroControlPlane memDeepLibrary)\<lparr>cpm_ObjectMeta := (''cp'', None), cpm_Spec := zeroControlPlaneSpec
     \<lparr>csp_ControlPlaneDeploymentOptions := zeroControlPlaneDeploymentOptions\<lparr>cdo_DeploymentOptions :=
        zeroDeploymentOptions\<lparr>do_ContainerImage := Some (0, 0),
          do_Env := Some \<lparr>wn_Block = 1, wn_Offset = 1, wn_Len = 1\<rparr>\<rparr>\<rparr>\<rparr>\<rparr>"

definition exampleHeap :: "(string \<times> pointer) block list" where
  "exampleHeap = [Strings [''image'', ''other''], LibStructs [(''A'', None), (''B'', Some (0, 0))],
     ControlPlanes [exampleItem], ControlPlaneLists [\<lparr>lst_TypeMeta = typed '''' '''' ''ControlPlaneList'',
       lst_ListMeta = ('''', None), lst_Items = Some \<lparr>wn_Block = 2, wn_Offset = 0, wn_Len = 1\<rparr>\<rparr>],
     APISIXConfigurations [zeroAPISIXConfiguration memDeepLibrary]]"

lemmas kind_defs =
  strings_def libStructs_def deploymentOptionsArray_def dataPlaneDeploymentOptionsArray_def
  dataPlaneSpecs_def dataPlaneStatuses_def dataPlanes_def dataPlaneLists_def
  controlPlaneDeploymentOptionsArray_def controlPlaneSpecs_def controlPlaneStatuses_def
  controlPlanes_def controlPlaneLists_def apisixConfigurationSpecs_def
  apisixConfigurationStatuses_def apisixConfigurations_def apisixConfigurationLists_def

lemmas value_defs =
  DeploymentOptions_value_def DataPlaneDeploymentOptions_value_def DataPlaneSpec_value_def
  DataPlaneStatus_value_def DataPlane_value_def DataPlaneList_value_def
  ControlPlaneDeploymentOptions_value_def ControlPlaneSpec_value_def
  ControlPlaneStatus_value_def ControlPlane_value_def ControlPlaneList_value_def
  APISIXConfigurationSpec_value_def APISIXConfigurationStatus_value_def
  APISIXConfiguration_value_def APISIXConfigurationList_value_def

lemmas zero_defs =
  zeroDeploymentOptions_def zeroDataPlaneDeploymentOptions_def zeroDataPlaneSpec_def
  zeroDataPlaneStatus_def zeroDataPlane_def zeroDataPlaneList_def
  zeroControlPlaneDeploymentOptions_def zeroControlPlaneSpec_def zeroControlPlaneStatus_def
  zeroControlPlane_def zeroControlPlaneList_def zeroAPISIXConfigurationSpec_def
  zeroAPISIXConfigurationStatus_def zeroAPISIXConfiguration_def
  zeroAPISIXConfigurationList_def

lemmas read_defs = load_def readPlain_def readPointer_def readSlice_def readBoth_def readAs_def
  memValue_def memDeepLibrary_def

lemma exampleHeap_readable:
  "readPointer (controlPlaneLists memDeepLibrary) (ControlPlaneList_value memDeepLibrary memValue) exampleHeap (Some (3, 0)) \<noteq> None"
  "readPointer (apisixConfigurations memDeepLibrary) (APISIXConfiguration_value memDeepLibrary memValue) exampleHeap (Some (4, 0)) \<noteq> None"
  by (simp_all add: exampleHeap_def exampleItem_def read_defs kind_defs value_defs zero_defs typed_def numeral_eq_Suc)

theorem ControlPlaneList_DeepCopyObject_correct_witness:
  "\<exists>q h1. ControlPlaneList_DeepCopyObject memDeepLibrary (Some (3, 0)) exampleHeap = Some (Some (ObjControlPlaneList q), h1) \<and>
     extends exampleHeap h1"
proof -
  obtain v F where "readPointer (controlPlaneLists memDeepLibrary) (ControlPlaneList_value memDeepLibrary memValue) exampleHeap (Some (3, 0)) = Some (v, F)"
    using exampleHeap_readable(1) by auto
  from ControlPlaneList_DeepCopyObject_correct [OF mem_library.deep_library_axioms this]
  show ?thesis by (auto split: option.splits prod.splits)
qed

text \<open>C25. A copy leads a life of its own. A configuration whose value can be read is copied without
  an access to memory that is not there or of another type, with what its specification points
  to, and then whatever is written to other blocks than those of the copy, the original's included,
  does not change the copy, and the other way round.\<close>

theorem APISIXConfiguration_DeepCopy_independent:
  assumes "deep_library lib rl"
    and "readPointer (apisixConfigurations lib) (APISIXConfiguration_value lib rl) h p = Some (v, F)"
  shows "\<exists>q h1 G. APISIXConfiguration_DeepCopy lib p h = Some (q, h1) \<and> (q = None \<longleftrightarrow> p = None) \<and> F \<inter> G = {} \<and>
    readPointer (apisixConfigurations lib) (APISIXConfiguration_value lib rl) h1 q = Some (v, G) \<and>
    (\<forall>h2. agree G h1 h2 \<longrightarrow>
       readPointer (apisixConfigurations lib) (APISIXConfiguration_value lib rl) h2 q = Some (v, G)) \<and>
    (\<forall>h2. agree F h1 h2 \<longrightarrow>
       readPointer (apisixConfigurations lib) (APISIXConfiguration_value lib rl) h2 p = Some (v, F))"
  using copied_pointer [OF apisixConfigurations.block_kind_axioms deep_library.deep_APISIXConfiguration [OF assms(1)] assms(2)]
    copyPointer_nil
  unfolding APISIXConfiguration_DeepCopy_def by blast

theorem APISIXConfiguration_DeepCopy_independent_witness:
  "\<exists>q h1. APISIXConfiguration_DeepCopy memDeepLibrary (Some (4, 0)) exampleHeap = Some (Some q, h1)"
proof -
  obtain v F where "readPointer (apisixConfigurations memDeepLibrary) (APISIXConfiguration_value memDeepLibrary memValue) exampleHeap (Some (4, 0)) = Some (v, F)"
    using exampleHeap_readable(2) by auto
  from APISIXConfiguration_DeepCopy_independent [OF mem_library.deep_library_axioms this]
  show ?thesis by auto
qed

end
