(* ===== verification/Spec2Isabelle.thy ===== *)
theory Spec2Isabelle
  imports Admission Watch Operator Concurrency Deletion Staleness Startup Telemetry Logging DeepCopy
begin

text \<open>
  A verification development of the APISIX operator, a Kubernetes operator in Go
  (\<open>src/\<close>, one commit). The operator reconciles two custom resources, \<open>ControlPlane\<close> and
  \<open>DataPlane\<close>: it creates and maintains the deployments, services, service accounts, cluster
  roles, bindings and certificate secrets they own, validates data planes in a webhook, and
  cleans up cluster-wide objects when a control plane is deleted.

  \<^bold>\<open>How the program is modelled.\<close> Go structs are records and its constants definitions, with the
  source's names (a prefix such as \<open>cp_\<close> or \<open>om_\<close> for fields; \<open>DataPlane_\<close> and \<open>ControlPlane_\<close>
  where both controllers have a method of the same name). Nil slices and maps are kept apart from
  empty ones (\<open>slice\<close>, \<open>labelMap\<close>) where the code or \<open>reflect.DeepEqual\<close> tells them apart. Errors
  are values of \<open>go_error\<close>, run-time panics among them; a call that may fail and may change the
  outside world is an \<open>action\<close>: a function of the world into an error or a value and the new world
  (theory \<open>Prelude\<close>, with the calculus \<open>wpA\<close> of weakest preconditions). \<open>metav1.Now\<close> and
  \<open>time.Until\<close> are arguments: \<open>clk i\<close> is the clock at the \<open>i\<close>-th place of a pass that reads it.
  Loops over slices are structural recursions, the parser of the command line has a measure, and no
  definition needs fuel.

  \<^bold>\<open>The API server.\<close> The client of controller-runtime is not code of the repository. It is the record
  \<open>Client\<close>, a parameter of all code that uses it. What the code may rely on is stated as locales:
  \<open>api_kind\<close> for one kind of object (lists and reads are up to date, a write changes the addressed
  object and nothing else, metadata owned by the server is kept, an object that is being deleted
  goes with its last finalizer; any call may fail, and then nothing changed), \<open>object_kind\<close> for
  access to metadata, \<open>owned_kind\<close> for both together, \<open>cluster_api\<close> for all kinds the controllers
  write. What is stored of an object that is written is the object with the defaults the server
  fills in: one replica for a deployment that names no number, the port of a service as its target
  port where none is named (\<open>depBody\<close>, \<open>svcBody\<close>). Two idealisations remain: other defaults of
  the server, such as those inside pod templates, are taken to be written out already, and a call
  that fails is taken to have changed nothing, which leaves out a write whose answer is lost in a
  timeout. What happens when a list lags behind is the subject of theory \<open>Staleness\<close> only. An in-memory server (\<open>memClient\<close>, theory \<open>Client\<close>) with
  injected faults satisfies the contracts (interpretations \<open>mem_\<close>..., \<open>own_\<close>..., \<open>mem\<close>) and
  evaluates in the witnesses. Likewise parameters: keys, PEM, X.509 and cfssl (\<open>Crypto\<close>), semantic
  versions (\<open>Semver\<close>, with the contract \<open>semver_range\<close> and an instance), the JSON codec of the webhook
  (\<open>Codec\<close>), \<open>controllerutil.SetOwnerReference\<close> (\<open>Library\<close>), and the flags that libraries define
  (\<open>Invocation\<close>).

  \<^bold>\<open>Theories and sources.\<close>
  \<^item> \<open>Prelude\<close>, \<open>KubeTypes\<close>: errors, actions, slices, strings; the Kubernetes types the code touches,
    \<open>apis/v1alpha1/*_types.go\<close>, \<open>internal/consts/consts.go\<close>.
  \<^item> \<open>Conditions\<close>: \<open>internal/utils/kubernetes/status.go\<close>. The locale \<open>conditions_aware\<close> is the
    interface of resources with conditions; a list of conditions refines a map from types.
  \<^item> \<open>Metadata\<close>: \<open>metadata.go\<close>, \<open>ownerrefs.go\<close> and the labels of \<open>controllers/utils.go\<close> and
    \<open>internal/utils/gateway/labels.go\<close>: finalizers, owner references, the update of metadata.
  \<^item> \<open>Lists\<close>: \<open>lists.go\<close>, the lists of owned objects. \<open>GatewayUtils\<close>: \<open>internal/utils/gateway\<close>.
  \<^item> \<open>EnvVars\<close>: \<open>envvars.go\<close>, \<open>internal/utils/dataplane/config.go\<close> and the defaults of
    \<open>controllers/controlplane_controller_utils.go\<close>.
  \<^item> \<open>Base64\<close>, \<open>Validation\<close>, \<open>Admission\<close>: \<open>internal/validation/dataplane/validation.go\<close>,
    \<open>internal/admission/server.go\<close> and \<open>validator.go\<close>, registration included, with the two base64 decoders of Go's library
    that the validator uses. The validator is related to the database mode a specification denotes.
  \<^item> \<open>ClusterRoles\<close>, \<open>Resources\<close>, \<open>Workloads\<close>: \<open>internal/utils/kubernetes/resources\<close> and the generators
    and updates of deployments and services in \<open>controllers/*_controller_utils.go\<close>.
  \<^item> \<open>Watch\<close>: \<open>controllers/controlplane_controller_watch.go\<close>, from events of both cluster-wide kinds
    to requests, a failed list included.
  \<^item> \<open>Ownership\<close>, \<open>ClusterApi\<close>: the pattern of all \<open>ensure...\<close> methods (list the owned objects, complain
    about more than one, update the one, create the missing one), proved once in the locale
    \<open>owned_kind\<close>: what is ensured is there once and settled, and ensuring it again changes nothing.
  \<^item> \<open>Certs\<close>: the certificates of \<open>controllers/utils.go\<close>.
  \<^item> \<open>DataPlaneController\<close>: \<open>dataplane_controller*.go\<close>. \<open>ControlPlaneController\<close>:
    \<open>controlplane_controller*.go\<close>, with \<open>Reconcile\<close> cut into \<open>cleanup\<close>, \<open>connect\<close>, \<open>configure\<close>,
    \<open>provision\<close> and \<open>provisionDeployment\<close>, composed as in the code.
  \<^item> \<open>ControlPlaneCleanup\<close>: the deletion of a control plane. \<open>ControlPlaneProgress\<close>: the pass over a
    live one refines the step relation \<open>cpWrite\<close>, whose rules carry the order of provisioning.
  \<^item> \<open>Operator\<close>: both controllers together with whatever else happens to the cluster, as the
    inductive relation \<open>reachable\<close>, with the locale \<open>operator_invariant\<close> for its invariants.
    \<open>Deletion\<close>: a measure on its states, for the end of deletions.
  \<^item> \<open>Interference\<close>, \<open>Concurrency\<close>: the passes once more, with the same functions run by a client before
    each of whose calls the cluster may change (\<open>amid\<close>), with every state in between recorded.
    \<open>Operator\<close> takes a pass as one step, here nothing is: the two controllers run at the same time,
    others write at any moment, and a pass may be cut off after any call. The proof is by rely and
    guarantee: the locale \<open>interference\<close> extends \<open>cluster_api\<close> by what the others respect (\<open>spares\<close>:
    stores stay well formed, the operator's finalizers are not taken away, control planes gain no
    live cluster roles and bindings), and each call of a pass is shown to respect as much
    (\<open>acts\<close>). Each call of a pass over a data plane, whatever happens around it, changes data planes
    and services only (\<open>dataPlaneCall\<close>), so that these passes are others for those over control planes.
  \<^item> \<open>Staleness\<close>: an \<open>ensure...\<close> method over a cache that lags behind creates a duplicate each time it
    succeeds, after which no call with an up-to-date list does.
  \<^item> \<open>CommandLine\<close>, \<open>Startup\<close>: \<open>main.go\<close> with its flags and the parser of package \<open>flag\<close>, the
    \<open>SetupWithManager\<close> methods, \<open>apisixconfiguration_controller.go\<close> and the scheme of
    \<open>groupversion_info.go\<close>, over controller-runtime as the parameter \<open>Runtime\<close> with the contract
    \<open>manager_api\<close>; what the process it starts does, with all controllers at work at the same time
    (\<open>operates\<close>), is a run of \<open>concurrent\<close>.
  \<^item> \<open>Telemetry\<close>: \<open>internal/telemetry/telemetry.go\<close>, with the contract \<open>telemetry_api\<close> of its library.
    \<open>Logging\<close>: the levels and the logging functions of \<open>controllers/utils.go\<close>.
  \<^item> \<open>Memory\<close>, \<open>DeepCopy\<close>: \<open>apis/v1alpha1/zz_generated.deepcopy.go\<close>, function by function, on a heap of
    typed blocks with pointers and slices into them. The locale \<open>deep_copy\<close> is the contract of a deep
    copier (same value, new blocks, nothing else touched); pointers, slices and structs of deep
    copiers have it, and so have all copiers of the file, those of the Kubernetes libraries granted
    (\<open>deep_library\<close>). Only these theories speak of sharing: everywhere else values are immutable,
    which the copies taken by the client's cache justify.

  \<^bold>\<open>What the theorems show.\<close> For the helpers: their result in closed form on every branch, and
  idempotence where the controllers rely on it. For every owned object: it exists once after it was
  ensured, whatever was there before (one or none), and the next call changes nothing; what an
  existing one keeps (the rules of a role, the subjects of a binding, the ports of a service) is
  stated with it. For the webhook: the verdict, its code and message, and the HTTP status of
  every failure, by what the database mode of the submitted object is. For the process: which manager
  it runs, with which status it ends, and that its runs are those of the theorems. For the
  passes: what is written on every branch, errors included; a data plane settles in two passes; a
  control plane is provisioned in order and marked only with ready pods; its deletion leaves nothing
  behind, in any interleaving of passes (\<open>operator_leaves_nothing\<close>) and of single calls, crashes
  included (\<open>operator_leaves_nothing_amid_others\<close>), and comes to an end after two passes that
  succeed, whatever happens in between (\<open>deletion_terminates\<close>). Some theorems show what the code
  does and should not: no control plane ever gets past its certificate (\<open>addLabelForOwner\<close> does not
  label its secret, and \<open>main\<close> does not name a certificate authority), pods that stop being ready are not reported, and a few more that the manifest
  lists as findings.

  \<^bold>\<open>Not modelled.\<close> The calls that log in the passes, the options of the logger, build metadata, the
  sentinel errors that nothing returns and the markers for generated manifests; serving the
  webhook over the network, which \<open>main\<close> does not start either. Of the Kubernetes types only the
  fields the code reads or writes are there. Error messages are kept where the code builds them.
  That a pass provisions in order and settles is stated for passes that run alone: in these
  theorems writes of others between two calls of one pass appear as conflicts and other errors of
  the calls only. Single calls are atomic, as the API server makes them.
\<close>

end
